(* ===== verification/Prelude.thy ===== *)
theory Prelude
  imports Main
begin

text \<open>
  Shared vocabulary of the development: the collections of rules that carry the component
  proofs, the result type of fallible code, and generic facts about lists that several
  components use. Nothing here is specific to Perimetr.
\<close>

named_theorems text_simps \<open>evaluation rules for the Python string operations\<close>
named_theorems json_simps \<open>evaluation rules for JSON values and dictionaries\<close>
named_theorems web_simps \<open>symbolic evaluation of request handlers\<close>
named_theorems web_inv \<open>inversion of successful request handlers\<close>
named_theorems keeps_intros \<open>compositional rules for invariants of request handlers\<close>

section \<open>Results of fallible code\<close>

text \<open>
  A Python function that may raise is a function into \<open>'e + 'a\<close>, with \<open>Inl\<close> for the
  exception. \<open>try_bind\<close> runs the rest of the function only when no exception was raised.
\<close>

definition try_bind :: "'e + 'a \<Rightarrow> ('a \<Rightarrow> 'e + 'b) \<Rightarrow> 'e + 'b" where
  "try_bind m f = (case m of Inl e \<Rightarrow> Inl e | Inr a \<Rightarrow> f a)"

definition raise_when :: "bool \<Rightarrow> 'e \<Rightarrow> 'e + unit" where
  "raise_when b e = (if b then Inl e else Inr ())"

definition of_option :: "'e \<Rightarrow> 'a option \<Rightarrow> 'e + 'a" where
  "of_option e m = (case m of None \<Rightarrow> Inl e | Some a \<Rightarrow> Inr a)"

lemma try_bind_simps [simp]:
  "try_bind (Inl e) f = Inl e"
  "try_bind (Inr a) f = f a"
  by (simp_all add: try_bind_def)

lemma try_bind_Inr_iff:
  "try_bind m f = Inr b \<longleftrightarrow> (\<exists>a. m = Inr a \<and> f a = Inr b)"
  by (cases m) auto

lemma try_bind_Inl_iff:
  "try_bind m f = Inl e \<longleftrightarrow> m = Inl e \<or> (\<exists>a. m = Inr a \<and> f a = Inl e)"
  by (cases m) auto

lemma try_bind_cong [fundef_cong]:
  assumes "m = m'" and "\<And>a. m' = Inr a \<Longrightarrow> f a = g a"
  shows "try_bind m f = try_bind m' g"
  using assms by (cases m') auto

lemma raise_when_Inr_iff [simp]: "raise_when b e = Inr u \<longleftrightarrow> \<not> b"
  by (simp add: raise_when_def)

lemma raise_when_Inl_iff [simp]: "raise_when b e = Inl e' \<longleftrightarrow> b \<and> e' = e"
  by (auto simp: raise_when_def)

lemma raise_when_simps [simp]: "raise_when True e = Inl e" "raise_when False e = Inr ()"
  by (simp_all add: raise_when_def)

lemma of_option_Inr_iff [simp]: "of_option e m = Inr a \<longleftrightarrow> m = Some a"
  by (cases m) (simp_all add: of_option_def)

lemma of_option_Inl_iff [simp]: "of_option e m = Inl e' \<longleftrightarrow> m = None \<and> e' = e"
  by (cases m) (auto simp: of_option_def)

lemma of_option_simps [simp]: "of_option e None = Inl e" "of_option e (Some a) = Inr a"
  by (simp_all add: of_option_def)

lemmas try_inv = try_bind_Inr_iff try_bind_Inl_iff

section \<open>Lists\<close>

lemma find_eq_NoneD: "find P xs = None \<Longrightarrow> x \<in> set xs \<Longrightarrow> \<not> P x"
  by (auto simp: find_None_iff)

lemma find_SomeD: "find P xs = Some x \<Longrightarrow> x \<in> set xs \<and> P x"
  by (induction xs) (auto split: if_splits)

lemma find_append: "find P (xs @ ys) = (case find P xs of None \<Rightarrow> find P ys | Some x \<Rightarrow> Some x)"
  by (induction xs) auto

lemma find_key_unique:
  assumes "distinct (map key xs)" and "x \<in> set xs"
  shows "find (\<lambda>r. key r = key x) xs = Some x"
  using assms by (induction xs) (auto simp: image_iff)

lemma find_key_Some_iff:
  assumes "distinct (map key xs)"
  shows "find (\<lambda>r. key r = k) xs = Some x \<longleftrightarrow> x \<in> set xs \<and> key x = k"
  using assms find_key_unique find_SomeD by fastforce

lemma distinct_map_filterI: "distinct (map f xs) \<Longrightarrow> distinct (map f (filter P xs))"
  by (simp add: distinct_map_filter)

lemma dropWhile_eq_filter_if_mono:
  assumes "sorted xs"
  shows "dropWhile (\<lambda>x. x \<le> c) xs = filter (\<lambda>x. \<not> x \<le> c) xs"
  using assms
proof (induction xs)
  case Nil
  then show ?case by simp
next
  case (Cons x xs)
  show ?case
  proof (cases "x \<le> c")
    case True
    with Cons show ?thesis by simp
  next
    case False
    with Cons.prems have "\<forall>y \<in> set xs. \<not> y \<le> c" by fastforce
    then have "filter (\<lambda>x. \<not> x \<le> c) xs = xs" by (simp add: filter_id_conv)
    with False show ?thesis by simp
  qed
qed

end
