(* ===== verification/Text.thy ===== *)
theory Text
  imports Prelude
begin

text \<open>
  Python's \<open>str\<close> and \<open>bytes\<close> as lists of characters. A \<open>char\<close> is a code point below 256, so
  a \<open>str\<close> of the model is a Latin-1 text; a \<open>bytes\<close> value is a list of octets. The operations
  are those of the standard library that the source calls: \<open>strip\<close>, \<open>lower\<close>, \<open>upper\<close>,
  \<open>split\<close>, \<open>startswith\<close>, \<open>endswith\<close>, \<open>in\<close>, \<open>int\<close>, \<open>str\<close>, \<open>hex\<close> and \<open>encode\<close>.
\<close>

abbreviation code :: "char \<Rightarrow> nat" where
  "code c \<equiv> of_char c"

abbreviation chr :: "nat \<Rightarrow> char" where
  "chr n \<equiv> char_of n"

lemma code_less_256 [simp]: "code c < 256"
  using nat_of_char_less_256 by simp

section \<open>Character classes\<close>

definition is_space :: "char \<Rightarrow> bool" where
  "is_space c \<longleftrightarrow> code c \<in> {9, 10, 11, 12, 13, 28, 29, 30, 31, 32, 133, 160}"

definition is_digit :: "char \<Rightarrow> bool" where
  "is_digit c \<longleftrightarrow> 48 \<le> code c \<and> code c \<le> 57"

definition is_lower :: "char \<Rightarrow> bool" where
  "is_lower c \<longleftrightarrow> 97 \<le> code c \<and> code c \<le> 122"

definition is_upper :: "char \<Rightarrow> bool" where
  "is_upper c \<longleftrightarrow> 65 \<le> code c \<and> code c \<le> 90"

definition is_alpha :: "char \<Rightarrow> bool" where
  "is_alpha c \<longleftrightarrow> is_lower c \<or> is_upper c"

definition is_alnum :: "char \<Rightarrow> bool" where
  "is_alnum c \<longleftrightarrow> is_alpha c \<or> is_digit c"

definition is_lower_hex :: "char \<Rightarrow> bool" where
  "is_lower_hex c \<longleftrightarrow> is_digit c \<or> (97 \<le> code c \<and> code c \<le> 102)"

definition is_hex :: "char \<Rightarrow> bool" where
  "is_hex c \<longleftrightarrow> is_lower_hex c \<or> (65 \<le> code c \<and> code c \<le> 70)"

definition is_ascii :: "string \<Rightarrow> bool" where
  "is_ascii s \<longleftrightarrow> list_all (\<lambda>c. code c < 128) s"

section \<open>Case conversion and stripping\<close>

text \<open>Latin-1 letters follow Unicode; the sharp s, micro sign and y with diaeresis, whose upper
  case lies outside Latin-1, are left alone.\<close>

definition lower_char :: "char \<Rightarrow> char" where
  "lower_char c = (if is_upper c \<or> (192 \<le> code c \<and> code c \<le> 222 \<and> code c \<noteq> 215)
     then chr (code c + 32) else c)"

definition upper_char :: "char \<Rightarrow> char" where
  "upper_char c = (if is_lower c \<or> (224 \<le> code c \<and> code c \<le> 254 \<and> code c \<noteq> 247)
     then chr (code c - 32) else c)"

definition lower :: "string \<Rightarrow> string" where
  "lower s = map lower_char s"

definition upper :: "string \<Rightarrow> string" where
  "upper s = map upper_char s"

definition lstrip_by :: "(char \<Rightarrow> bool) \<Rightarrow> string \<Rightarrow> string" where
  "lstrip_by P s = dropWhile P s"

definition rstrip_by :: "(char \<Rightarrow> bool) \<Rightarrow> string \<Rightarrow> string" where
  "rstrip_by P s = rev (dropWhile P (rev s))"

definition strip_by :: "(char \<Rightarrow> bool) \<Rightarrow> string \<Rightarrow> string" where
  "strip_by P s = rstrip_by P (lstrip_by P s)"

definition strip :: "string \<Rightarrow> string" where
  "strip s = strip_by is_space s"

section \<open>Searching and splitting\<close>

definition starts_with :: "string \<Rightarrow> string \<Rightarrow> bool" where
  "starts_with p s \<longleftrightarrow> take (length p) s = p"

definition ends_with :: "string \<Rightarrow> string \<Rightarrow> bool" where
  "ends_with p s \<longleftrightarrow> starts_with (rev p) (rev s)"

fun has_infix :: "string \<Rightarrow> string \<Rightarrow> bool" where
  "has_infix p [] = (p = [])"
| "has_infix p (c # s) = (starts_with p (c # s) \<or> has_infix p s)"

fun split_on :: "char \<Rightarrow> string \<Rightarrow> string list" where
  "split_on d [] = [[]]"
| "split_on d (c # s) = (if c = d then [] # split_on d s
     else (case split_on d s of [] \<Rightarrow> [[c]] | p # ps \<Rightarrow> (c # p) # ps))"

text \<open>\<open>s.split(d, n)\<close>: at most \<open>n\<close> cuts, from the left.\<close>

fun split_max :: "nat \<Rightarrow> char \<Rightarrow> string \<Rightarrow> string list" where
  "split_max 0 d s = [s]"
| "split_max (Suc n) d s = (if d \<in> set s
     then takeWhile (\<lambda>c. c \<noteq> d) s # split_max n d (tl (dropWhile (\<lambda>c. c \<noteq> d) s))
     else [s])"

fun join :: "string \<Rightarrow> string list \<Rightarrow> string" where
  "join d [] = []"
| "join d [s] = s"
| "join d (s # t # ts) = s @ d @ join d (t # ts)"

lemma split_on_neq_Nil [simp]: "split_on d s \<noteq> []"
  by (induction s) (auto split: list.splits)

lemma join_split_on: "join [d] (split_on d s) = s"
proof (induction s)
  case Nil
  then show ?case by simp
next
  case (Cons c s)
  then show ?case
    by (cases "split_on d s"; cases "tl (split_on d s)") auto
qed

lemma split_on_join:
  assumes "ps \<noteq> []" and "\<forall>p \<in> set ps. d \<notin> set p"
  shows "split_on d (join [d] ps) = ps"
  using assms
proof (induction "[d]" ps rule: join.induct)
  case 1
  then show ?case by simp
next
  case (2 s)
  have "d \<notin> set s \<Longrightarrow> split_on d s = [s]" by (induction s) auto
  with 2 show ?case by simp
next
  case (3 s t ts)
  have "d \<notin> set s \<Longrightarrow> split_on d (s @ d # u) = s # split_on d u" for u
    by (induction s) auto
  with 3 show ?case by simp
qed

lemma split_on_length_count: "length (split_on d s) = Suc (count_list s d)"
  by (induction s) (auto split: list.splits)

lemma split_on_no_sep: "p \<in> set (split_on d s) \<Longrightarrow> d \<notin> set p"
  by (induction s arbitrary: p) (auto split: list.splits if_splits)

lemma split_max_Suc_append:
  assumes "d \<notin> set p"
  shows "split_max (Suc n) d (p @ d # s) = p # split_max n d s"
  using assms by (simp add: takeWhile_append dropWhile_append takeWhile_eq_all_conv)

section \<open>Decimal and hexadecimal\<close>

definition digit_char :: "nat \<Rightarrow> char" where
  "digit_char n = chr (48 + n)"

function str_nat :: "nat \<Rightarrow> string" where
  "str_nat n = (if n < 10 then [digit_char n] else str_nat (n div 10) @ [digit_char (n mod 10)])"
  by pat_completeness auto
termination by (relation "measure id") auto

declare str_nat.simps [simp del]

definition str_int :: "int \<Rightarrow> string" where
  "str_int i = (if i < 0 then CHR ''-'' # str_nat (nat (- i)) else str_nat (nat i))"

definition digit_val :: "char \<Rightarrow> nat" where
  "digit_val c = code c - 48"

fun digits_val :: "nat \<Rightarrow> string \<Rightarrow> nat" where
  "digits_val acc [] = acc"
| "digits_val acc (c # s) = digits_val (acc * 10 + digit_val c) s"

text \<open>\<open>int(text)\<close>: surrounding space, a sign, digits with single underscores between them.\<close>

fun int_body :: "bool \<Rightarrow> string \<Rightarrow> string option" where
  "int_body seen [] = (if seen then Some [] else None)"
| "int_body seen (c # s) =
     (if is_digit c then map_option (Cons c) (int_body True s)
      else if c = CHR ''_'' \<and> seen \<and> s \<noteq> [] \<and> is_digit (hd s) then int_body False s
      else None)"

definition py_int :: "string \<Rightarrow> int option" where
  "py_int s = (let t = strip s in
     (case t of
        [] \<Rightarrow> None
      | c # u \<Rightarrow>
          if c = CHR ''-'' then map_option (\<lambda>d. - int (digits_val 0 d)) (int_body False u)
          else if c = CHR ''+'' then map_option (\<lambda>d. int (digits_val 0 d)) (int_body False u)
          else map_option (\<lambda>d. int (digits_val 0 d)) (int_body False t)))"

definition hex_digit :: "nat \<Rightarrow> char" where
  "hex_digit n = (if n < 10 then chr (48 + n) else chr (87 + n))"

definition hex_byte :: "char \<Rightarrow> string" where
  "hex_byte c = [hex_digit (code c div 16), hex_digit (code c mod 16)]"

definition hexdigest :: "string \<Rightarrow> string" where
  "hexdigest bytes = concat (map hex_byte bytes)"

lemma length_hexdigest: "length (hexdigest b) = 2 * length b"
  by (induction b) (simp_all add: hexdigest_def hex_byte_def)

lemma hex_digit_lower_hex: "n < 16 \<Longrightarrow> is_lower_hex (hex_digit n)"
  by (auto simp: hex_digit_def is_lower_hex_def is_digit_def)

lemma hexdigest_lower_hex: "list_all is_lower_hex (hexdigest b)"
proof (induction b)
  case Nil
  then show ?case by (simp add: hexdigest_def)
next
  case (Cons c b)
  have "code c div 16 < 16" using code_less_256 [of c] by (simp add: less_mult_imp_div_less)
  with Cons show ?case by (simp add: hexdigest_def hex_byte_def hex_digit_lower_hex)
qed

section \<open>Encoding\<close>

definition utf8_char :: "char \<Rightarrow> string" where
  "utf8_char c = (if code c < 128 then [c] else [chr (192 + code c div 64), chr (128 + code c mod 64)])"

definition utf8 :: "string \<Rightarrow> string" where
  "utf8 s = concat (map utf8_char s)"

text \<open>\<open>encode("ascii")\<close> raises UnicodeEncodeError outside ASCII.\<close>

definition ascii_bytes :: "string \<Rightarrow> string option" where
  "ascii_bytes s = (if is_ascii s then Some s else None)"

lemma utf8_ascii: "is_ascii s \<Longrightarrow> utf8 s = s"
  by (induction s) (simp_all add: is_ascii_def utf8_def utf8_char_def)

lemma utf8_Cons: "utf8 (c # s) = utf8_char c @ utf8 s"
  by (simp add: utf8_def)

lemma utf8_Nil [simp]: "utf8 [] = []"
  by (simp add: utf8_def)

lemma utf8_char_inj_prefix:
  assumes "utf8_char c @ x = utf8_char d @ y"
  shows "c = d \<and> x = y"
proof (cases "code c < 128"; cases "code d < 128")
  assume "code c < 128" "code d < 128"
  with assms show ?thesis by (simp add: utf8_char_def)
next
  assume a: "code c < 128" "\<not> code d < 128"
  have "code d div 64 < 4" using code_less_256 [of d] by (simp add: less_mult_imp_div_less)
  with a assms have "code c = 192 + code d div 64" by (auto simp: utf8_char_def)
  with a show ?thesis by simp
next
  assume a: "\<not> code c < 128" "code d < 128"
  have "code c div 64 < 4" using code_less_256 [of c] by (simp add: less_mult_imp_div_less)
  with a assms have "code d = 192 + code c div 64" by (auto simp: utf8_char_def)
  with a show ?thesis by simp
next
  assume a: "\<not> code c < 128" "\<not> code d < 128"
  have b: "code c div 64 < 4" "code d div 64 < 4"
    using code_less_256 [of c] code_less_256 [of d] by (simp_all add: less_mult_imp_div_less)
  from a assms have e: "(chr (192 + code c div 64) :: char) = chr (192 + code d div 64)"
    "(chr (128 + code c mod 64) :: char) = chr (128 + code d mod 64)" "x = y"
    by (auto simp: utf8_char_def)
  from e(1) have "(of_char (chr (192 + code c div 64) :: char) :: nat) = of_char (chr (192 + code d div 64) :: char)"
    by simp
  with b have "code c div 64 = code d div 64" by simp
  moreover from e(2) have "(of_char (chr (128 + code c mod 64) :: char) :: nat) = of_char (chr (128 + code d mod 64) :: char)"
    by simp
  then have "code c mod 64 = code d mod 64" by simp
  ultimately have "code c = code d" by (metis div_mult_mod_eq)
  with e show ?thesis by simp
qed

lemma utf8_inj: "utf8 s = utf8 t \<Longrightarrow> s = t"
proof (induction s arbitrary: t)
  case Nil
  then show ?case by (cases t) (auto simp: utf8_Cons utf8_char_def split: if_splits)
next
  case (Cons c s)
  show ?case
  proof (cases t)
    case Nil
    with Cons.prems show ?thesis by (auto simp: utf8_Cons utf8_char_def split: if_splits)
  next
    case (Cons d u)
    with Cons.prems have "utf8_char c @ utf8 s = utf8_char d @ utf8 u" by (simp add: utf8_Cons)
    then have "c = d \<and> utf8 s = utf8 u" by (rule utf8_char_inj_prefix)
    with Cons Cons.IH show ?thesis by simp
  qed
qed

lemma utf8_eq_iff [simp]: "utf8 s = utf8 t \<longleftrightarrow> s = t"
  using utf8_inj by blast

end
