(* ===== verification/Base64.thy ===== *)
theory Base64
  imports Text
begin

text \<open>
  The parts of Python's \<open>base64\<close> and \<open>binascii\<close> modules the source uses: both alphabets of
  \<open>b64encode\<close>/\<open>urlsafe_b64encode\<close>, the lenient decoder that skips foreign characters, and
  the strict one of \<open>validate=True\<close>. Bytes are characters.
\<close>

section \<open>Alphabets\<close>

definition sym62 :: "bool \<Rightarrow> char" where
  "sym62 urlsafe = (if urlsafe then CHR ''-'' else CHR ''+'')"

definition sym63 :: "bool \<Rightarrow> char" where
  "sym63 urlsafe = (if urlsafe then CHR ''_'' else CHR ''/'')"

definition sextet_char :: "bool \<Rightarrow> nat \<Rightarrow> char" where
  "sextet_char urlsafe n =
     (if n < 26 then chr (65 + n)
      else if n < 52 then chr (71 + n)
      else if n < 62 then chr (n - 4)
      else if n = 62 then sym62 urlsafe
      else sym63 urlsafe)"

text \<open>The url-safe decoder translates its two symbols first, so it still accepts the others.\<close>

definition sextet_val :: "bool \<Rightarrow> char \<Rightarrow> nat option" where
  "sextet_val urlsafe c =
     (if is_upper c then Some (code c - 65)
      else if is_lower c then Some (code c - 71)
      else if is_digit c then Some (code c + 4)
      else if c = CHR ''+'' \<or> (urlsafe \<and> c = CHR ''-'') then Some 62
      else if c = CHR ''/'' \<or> (urlsafe \<and> c = CHR ''_'') then Some 63
      else None)"

definition pad :: char where
  "pad = CHR ''=''"

section \<open>Encoding\<close>

fun b64encode :: "bool \<Rightarrow> string \<Rightarrow> string" where
  "b64encode u [] = []"
| "b64encode u [a] =
     [sextet_char u (code a div 4), sextet_char u (code a mod 4 * 16), pad, pad]"
| "b64encode u [a, b] =
     [sextet_char u (code a div 4), sextet_char u (code a mod 4 * 16 + code b div 16),
      sextet_char u (code b mod 16 * 4), pad]"
| "b64encode u (a # b # c # rest) =
     sextet_char u (code a div 4)
     # sextet_char u (code a mod 4 * 16 + code b div 16)
     # sextet_char u (code b mod 16 * 4 + code c div 64)
     # sextet_char u (code c mod 64)
     # b64encode u rest"

section \<open>Decoding\<close>

text \<open>
  \<open>binascii.a2b_base64\<close> as the state machine it is: the position in the current quad, the bits
  left over from the previous symbol and the padding seen. A completed padding ends the input;
  the strict mode refuses foreign characters, leading padding, data after padding and interrupted padding.
\<close>

fun a2b :: "bool \<Rightarrow> bool \<Rightarrow> nat \<Rightarrow> nat \<Rightarrow> nat \<Rightarrow> bool \<Rightarrow> string \<Rightarrow> string option" where
  "a2b u strict quad left pads started [] = (if quad = 0 then Some [] else None)"
| "a2b u strict quad left pads started (c # s) =
     (if c = pad then
        (if 2 \<le> quad then
           (if 4 \<le> quad + Suc pads then (if strict \<and> s \<noteq> [] then None else Some [])
            else a2b u strict quad left (Suc pads) True s)
         else a2b u strict quad left pads True s)
      else (case sextet_val u c of
        None \<Rightarrow> (if strict then None else a2b u strict quad left pads started s)
      | Some v \<Rightarrow>
          (if strict \<and> started then None
           else if quad = 0 then a2b u strict 1 v 0 started s
           else if quad = 1 then
             map_option (Cons (chr (left * 4 + v div 16))) (a2b u strict 2 (v mod 16) 0 started s)
           else if quad = 2 then
             map_option (Cons (chr (left * 16 + v div 4))) (a2b u strict 3 (v mod 4) 0 started s)
           else
             map_option (Cons (chr (left * 64 + v))) (a2b u strict 0 0 0 started s))))"

definition b64decode_strict :: "string \<Rightarrow> string option" where
  "b64decode_strict s =
     (if is_ascii s \<and> take 1 s \<noteq> [pad] then a2b False True 0 0 0 False s else None)"

definition b64decode :: "string \<Rightarrow> string option" where
  "b64decode s = (if is_ascii s then a2b False False 0 0 0 False s else None)"

definition urlsafe_b64decode :: "string \<Rightarrow> string option" where
  "urlsafe_b64decode s = (if is_ascii s then a2b True False 0 0 0 False s else None)"

definition urlsafe_b64encode :: "string \<Rightarrow> string" where
  "urlsafe_b64encode = b64encode True"

section \<open>The decoder inverts the encoder\<close>

lemma code_chr: "n < 256 \<Longrightarrow> code (chr n) = n"
  by simp

lemma sextet_val_char:
  assumes "n < 64"
  shows "sextet_val u (sextet_char u n) = Some n"
proof -
  consider "n < 26" | "26 \<le> n" "n < 52" | "52 \<le> n" "n < 62" | "n = 62" | "n = 63"
    using assms by linarith
  then show ?thesis
    by cases (auto simp: sextet_char_def sextet_val_def is_upper_def is_lower_def is_digit_def
        sym62_def sym63_def)
qed

lemma sextet_char_neq_pad:
  assumes "n < 64"
  shows "sextet_char u n \<noteq> pad"
proof
  assume "sextet_char u n = pad"
  then have "sextet_val u pad = Some n" using sextet_val_char [OF assms, of u] by simp
  then show False
    by (simp add: pad_def sextet_val_def is_upper_def is_lower_def is_digit_def split: if_splits)
qed

lemma sextet_char_ascii: "code (sextet_char u n) < 128"
  by (auto simp: sextet_char_def sym62_def sym63_def)

lemma code_div_bounds:
  "code c div 4 < 64" "code c div 16 < 16" "code c div 64 < 4"
  using code_less_256 [of c] by (simp_all add: less_mult_imp_div_less)

lemma merge_4_16: "code a div 4 * 4 + (code a mod 4 * 16 + code b div 16) div 16 = code a"
proof -
  have "(code a mod 4 * 16 + code b div 16) div 16 = code a mod 4"
    using code_div_bounds(2) [of b] by simp
  then show ?thesis by simp
qed

lemma merge_16_4:
  "(code a mod 4 * 16 + code b div 16) mod 16 * 16 + (code b mod 16 * 4 + code c div 64) div 4 = code b"
proof -
  have "(code a mod 4 * 16 + code b div 16) mod 16 = code b div 16"
    using code_div_bounds(2) [of b] by simp
  moreover have "(code b mod 16 * 4 + code c div 64) div 4 = code b mod 16"
    using code_div_bounds(3) [of c] by simp
  ultimately show ?thesis by simp
qed

lemma merge_64: "(code b mod 16 * 4 + code c div 64) mod 4 * 64 + code c mod 64 = code c"
proof -
  have "(code b mod 16 * 4 + code c div 64) mod 4 = code c div 64"
    using code_div_bounds(3) [of c] by simp
  then show ?thesis by simp
qed

lemma sextet_bounds:
  "code a mod 4 * 16 + code b div 16 < 64"
  "code b mod 16 * 4 + code c div 64 < 64"
  "code c mod 64 < 64"
proof -
  have "code a mod 4 < 4" by simp
  then show "code a mod 4 * 16 + code b div 16 < 64"
    using code_div_bounds(2) [of b] by linarith
  have "code b mod 16 < 16" by simp
  then show "code b mod 16 * 4 + code c div 64 < 64"
    using code_div_bounds(3) [of c] by linarith
qed simp

lemma sextet_bounds1:
  "code a mod 4 * 16 < 64" "code b mod 16 * 4 < 64"
proof -
  have "code a mod 4 < 4" "code b mod 16 < 16" by simp_all
  then show "code a mod 4 * 16 < 64" "code b mod 16 * 4 < 64" by linarith+
qed

lemmas sextet_facts = sextet_val_char sextet_char_neq_pad code_div_bounds sextet_bounds sextet_bounds1

lemma a2b_quad:
  "a2b u strict 0 l p False
     (sextet_char u (code a div 4)
      # sextet_char u (code a mod 4 * 16 + code b div 16)
      # sextet_char u (code b mod 16 * 4 + code c div 64)
      # sextet_char u (code c mod 64) # s) =
   map_option (\<lambda>t. a # b # c # t) (a2b u strict 0 0 0 False s)"
proof -
  have "(code a mod 4 * 16 + code b div 16) mod 16 * 16 + code b mod 16 = code b"
    using code_div_bounds(2) [of b] by simp
  note e = merge_4_16 [of a b] merge_16_4 [of a b c] merge_64 [of b c] this
  show ?thesis
    by (simp add: sextet_facts e option.map_comp comp_def)
qed

theorem a2b_b64encode: "a2b u strict 0 l p False (b64encode u bs) = Some bs"
proof (induction u bs arbitrary: l p rule: b64encode.induct)
  case (1 u)
  then show ?case by simp
next
  case (2 u a)
  have "code a div 4 * 4 + code a mod 4 * 16 div 16 = code a" by simp
  then show ?case by (simp add: sextet_facts)
next
  case (3 u a b)
  have "(code a mod 4 * 16 + code b div 16) mod 16 * 16 + code b mod 16 * 4 div 4 = code b"
    using code_div_bounds(2) [of b] by simp
  then show ?case by (simp add: sextet_facts merge_4_16)
next
  case (4 u a b c rest)
  then show ?case by (simp only: b64encode.simps a2b_quad) simp
qed

lemma is_ascii_b64encode: "is_ascii (b64encode u bs)"
  by (induction u bs rule: b64encode.induct)
    (simp_all add: is_ascii_def sextet_char_ascii pad_def)

lemma b64encode_no_leading_pad: "take (Suc 0) (b64encode u bs) \<noteq> [pad]"
  by (induction u bs rule: b64encode.induct) (simp_all add: sextet_facts)

lemma b64_round_trips:
  "b64decode_strict (b64encode False bs) = Some bs"
  "b64decode (b64encode False bs) = Some bs"
  "urlsafe_b64decode (urlsafe_b64encode bs) = Some bs"
  by (simp_all add: b64decode_strict_def b64decode_def urlsafe_b64decode_def urlsafe_b64encode_def
      is_ascii_b64encode a2b_b64encode b64encode_no_leading_pad)

lemma length_b64encode: "length (b64encode u bs) = 4 * ((length bs + 2) div 3)"
  by (induction u bs rule: b64encode.induct) (simp_all, presburger)

lemma b64encode_inj: "b64encode u x = b64encode u y \<Longrightarrow> x = y"
  by (metis a2b_b64encode option.inject)

section \<open>Without padding\<close>

definition rstrip_pad :: "string \<Rightarrow> string" where
  "rstrip_pad s = rstrip_by (\<lambda>c. c = pad) s"

fun unpadded :: "bool \<Rightarrow> string \<Rightarrow> string" where
  "unpadded u [] = []"
| "unpadded u [a] = [sextet_char u (code a div 4), sextet_char u (code a mod 4 * 16)]"
| "unpadded u [a, b] =
     [sextet_char u (code a div 4), sextet_char u (code a mod 4 * 16 + code b div 16),
      sextet_char u (code b mod 16 * 4)]"
| "unpadded u (a # b # c # rest) =
     sextet_char u (code a div 4)
     # sextet_char u (code a mod 4 * 16 + code b div 16)
     # sextet_char u (code b mod 16 * 4 + code c div 64)
     # sextet_char u (code c mod 64)
     # unpadded u rest"

lemma b64encode_unpadded:
  "b64encode u bs = unpadded u bs @ replicate ((4 - length (unpadded u bs) mod 4) mod 4) pad"
  by (induction u bs rule: b64encode.induct) (simp_all add: numeral_2_eq_2)

lemma pad_neq_sextet_char: "n < 64 \<Longrightarrow> pad \<noteq> sextet_char u n"
  using sextet_char_neq_pad by metis

lemma pad_notin_unpadded: "pad \<notin> set (unpadded u bs)"
  by (induction u bs rule: unpadded.induct) (simp_all add: sextet_facts pad_neq_sextet_char)

lemma rstrip_pad_b64encode: "rstrip_pad (b64encode u bs) = unpadded u bs"
proof -
  have "dropWhile (\<lambda>c. c = pad) (replicate n pad @ rev (unpadded u bs)) = rev (unpadded u bs)" for n
  proof (induction n)
    case 0
    have "rev (unpadded u bs) = [] \<or> hd (rev (unpadded u bs)) \<noteq> pad"
      using pad_notin_unpadded [of u bs] by (metis hd_in_set set_rev)
    then show ?case by (cases "rev (unpadded u bs)") auto
  qed simp
  then show ?thesis
    by (simp add: rstrip_pad_def rstrip_by_def b64encode_unpadded)
qed

end
