(* ===== verification/Security.thy ===== *)
theory Security
  imports Base64
begin

text \<open>
  \<open>app/security.py\<close> without its rate limiter: salted Access Key verifiers, the CSRF token and
  the validation of the production settings. The primitives of \<open>hashlib\<close>, \<open>hmac\<close> and
  \<open>cryptography\<close> are arguments (record \<open>crypto\<close>): every theorem holds for any functions in
  their place, and the few that need a law of one of them state it.
\<close>

section \<open>Primitives\<close>

text \<open>
  \<open>scrypt_fn password salt n r p dklen\<close>, \<open>pbkdf2_fn password salt iterations\<close>,
  \<open>sha256_fn message\<close> and \<open>hmac_fn key message\<close> return raw bytes. \<open>is_p256_pem\<close> says that bytes
  load as a PEM public key on the curve P-256 (\<open>None\<close>: the loader raises), \<open>ecdsa_verify\<close> is the
  signature check with such a key, and \<open>fernet_encrypt key nonce\<close> and \<open>fernet_decrypt key\<close> are the
  Fernet cipher with the random part of its token as an argument.
\<close>

record crypto =
  scrypt_fn :: "string \<Rightarrow> string \<Rightarrow> nat \<Rightarrow> nat \<Rightarrow> nat \<Rightarrow> nat \<Rightarrow> string"
  pbkdf2_fn :: "string \<Rightarrow> string \<Rightarrow> nat \<Rightarrow> string"
  sha256_fn :: "string \<Rightarrow> string"
  hmac_fn :: "string \<Rightarrow> string \<Rightarrow> string"
  is_p256_pem :: "string \<Rightarrow> bool option"
  spki_der :: "string \<Rightarrow> string"
  ecdsa_verify :: "string \<Rightarrow> string \<Rightarrow> string \<Rightarrow> bool"
  fernet_encrypt :: "string \<Rightarrow> string \<Rightarrow> string \<Rightarrow> string"
  fernet_decrypt :: "string \<Rightarrow> string \<Rightarrow> string option"

section \<open>Access Key verifiers\<close>

definition SCRYPT_N :: nat where "SCRYPT_N = 16384"
definition SCRYPT_R :: nat where "SCRYPT_R = 8"
definition SCRYPT_P :: nat where "SCRYPT_P = 1"
definition SCRYPT_DKLEN :: nat where "SCRYPT_DKLEN = 64"

definition PASSWORD_PREFIX :: string where
  "PASSWORD_PREFIX = ''scrypt''"

definition url_encode :: "string \<Rightarrow> string" where
  "url_encode value = rstrip_pad (urlsafe_b64encode value)"

definition url_decode :: "string \<Rightarrow> string option" where
  "url_decode value = urlsafe_b64decode (value @ replicate ((4 - length value mod 4) mod 4) pad)"

text \<open>\<open>secrets.token_bytes(16)\<close> is the argument \<open>salt\<close>.\<close>

definition hash_password :: "crypto \<Rightarrow> string \<Rightarrow> string \<Rightarrow> string" where
  "hash_password C salt password =
     (let derived = scrypt_fn C (utf8 password) salt SCRYPT_N SCRYPT_R SCRYPT_P SCRYPT_DKLEN
      in PASSWORD_PREFIX @ ''$'' @ url_encode salt @ ''$'' @ url_encode derived)"

definition is_password_hash :: "string \<Rightarrow> bool" where
  "is_password_hash value =
     (case split_on CHR ''$'' value of
        [algorithm, salt, digest] \<Rightarrow>
          algorithm = PASSWORD_PREFIX \<and>
          (case url_decode salt of None \<Rightarrow> False | Some s \<Rightarrow>
             length s = 16 \<and>
             (case url_decode digest of None \<Rightarrow> False | Some d \<Rightarrow> length d = SCRYPT_DKLEN))
      | _ \<Rightarrow> False)"

definition verify_password :: "crypto \<Rightarrow> string \<Rightarrow> string \<Rightarrow> bool" where
  "verify_password C password encoded =
     (case split_max 2 CHR ''$'' encoded of
        [algorithm, salt_value, expected_value] \<Rightarrow>
          if algorithm \<noteq> PASSWORD_PREFIX then False
          else (case url_decode salt_value of None \<Rightarrow> False | Some salt \<Rightarrow>
            (case url_decode expected_value of None \<Rightarrow> False | Some expected \<Rightarrow>
              if length salt \<noteq> 16 \<or> length expected \<noteq> SCRYPT_DKLEN then False
              else scrypt_fn C (utf8 password) salt SCRYPT_N SCRYPT_R SCRYPT_P (length expected)
                   = expected))
      | _ \<Rightarrow> False)"

definition constant_time_text_equal :: "string \<Rightarrow> string \<Rightarrow> bool" where
  "constant_time_text_equal left right \<longleftrightarrow> utf8 left = utf8 right"

lemma constant_time_text_equal_iff [simp]: "constant_time_text_equal a b \<longleftrightarrow> a = b"
  by (simp add: constant_time_text_equal_def)

lemma url_encode_unpadded: "url_encode b = unpadded True b"
  by (simp add: url_encode_def urlsafe_b64encode_def rstrip_pad_b64encode)

lemma url_decode_encode: "url_decode (url_encode b) = Some b"
proof -
  have "url_decode (url_encode b) = urlsafe_b64decode (b64encode True b)"
    by (simp add: url_decode_def url_encode_unpadded b64encode_unpadded [of True b])
  then show ?thesis using b64_round_trips(3) [of b] by (simp add: urlsafe_b64encode_def)
qed

lemma sextet_char_neq_dollar: "n < 64 \<Longrightarrow> sextet_char True n \<noteq> CHR ''$''"
proof
  assume "n < 64" "sextet_char True n = CHR ''$''"
  then have "sextet_val True CHR ''$'' = Some n" using sextet_val_char [of n True] by simp
  then show False
    by (simp add: sextet_val_def is_upper_def is_lower_def is_digit_def)
qed

lemma dollar_notin_url_encode: "CHR ''$'' \<notin> set (url_encode b)"
proof -
  have ne: "n < 64 \<Longrightarrow> CHR ''$'' \<noteq> sextet_char True n" for n
    using sextet_char_neq_dollar by metis
  have "u \<Longrightarrow> CHR ''$'' \<notin> set (unpadded u b)" for u
    by (induction u b rule: unpadded.induct) (simp_all add: sextet_facts ne)
  then show ?thesis by (simp add: url_encode_unpadded)
qed

lemma hash_password_fields:
  "split_on CHR ''$'' (hash_password C salt pw) =
     [PASSWORD_PREFIX, url_encode salt,
      url_encode (scrypt_fn C (utf8 pw) salt SCRYPT_N SCRYPT_R SCRYPT_P SCRYPT_DKLEN)]"
proof -
  have "split_on CHR ''$'' (join ''$'' [PASSWORD_PREFIX, url_encode salt,
      url_encode (scrypt_fn C (utf8 pw) salt SCRYPT_N SCRYPT_R SCRYPT_P SCRYPT_DKLEN)]) =
    [PASSWORD_PREFIX, url_encode salt,
      url_encode (scrypt_fn C (utf8 pw) salt SCRYPT_N SCRYPT_R SCRYPT_P SCRYPT_DKLEN)]"
    by (rule split_on_join) (simp_all add: dollar_notin_url_encode PASSWORD_PREFIX_def)
  then show ?thesis by (simp add: hash_password_def Let_def)
qed

lemma split_max_2_fields:
  assumes "split_on d s = [a, b, c]"
  shows "split_max 2 d s = [a, b, c]"
proof -
  have "s = join [d] [a, b, c]" using assms join_split_on [of d s] by simp
  then have s: "s = a @ d # b @ d # c" by simp
  have n: "d \<notin> set a" "d \<notin> set b" using assms split_on_no_sep [of _ d s] by auto
  show ?thesis
    using split_max_Suc_append [OF n(1), of 1 "b @ d # c"] split_max_Suc_append [OF n(2), of 0 c]
    by (simp add: s numeral_2_eq_2)
qed

lemma is_password_hash_iff_fields:
  "is_password_hash v \<longleftrightarrow> (\<exists>salt digest s d. split_on CHR ''$'' v = [PASSWORD_PREFIX, salt, digest] \<and>
     url_decode salt = Some s \<and> length s = 16 \<and> url_decode digest = Some d \<and> length d = SCRYPT_DKLEN)"
  by (auto simp: is_password_hash_def split: list.splits option.splits)

text \<open>Any verifier the system accepts as one is decided by a single scrypt comparison.\<close>

lemma verify_password_of_hash:
  assumes "split_on CHR ''$'' v = [PASSWORD_PREFIX, salt, digest]"
    and "url_decode salt = Some s" and "length s = 16"
    and "url_decode digest = Some d" and "length d = SCRYPT_DKLEN"
  shows "verify_password C pw v \<longleftrightarrow>
    scrypt_fn C (utf8 pw) s SCRYPT_N SCRYPT_R SCRYPT_P SCRYPT_DKLEN = d"
  using assms split_max_2_fields [OF assms(1)] by (simp add: verify_password_def)

lemma verify_password_hash_password:
  assumes "length salt = 16"
    and "\<And>p s. length (scrypt_fn C p s SCRYPT_N SCRYPT_R SCRYPT_P SCRYPT_DKLEN) = SCRYPT_DKLEN"
  shows "verify_password C pw' (hash_password C salt pw) \<longleftrightarrow>
    scrypt_fn C (utf8 pw') salt SCRYPT_N SCRYPT_R SCRYPT_P SCRYPT_DKLEN =
    scrypt_fn C (utf8 pw) salt SCRYPT_N SCRYPT_R SCRYPT_P SCRYPT_DKLEN"
  by (rule verify_password_of_hash [OF hash_password_fields])
    (simp_all add: url_decode_encode assms)

section \<open>CSRF token\<close>

text \<open>\<open>encode("ascii")\<close> of the key hash: it is always a hex digest in the callers.\<close>

definition csrf_token :: "crypto \<Rightarrow> string \<Rightarrow> string" where
  "csrf_token C session_key_hash = hexdigest (hmac_fn C session_key_hash ''perimetr.csrf.v1'')"

section \<open>Round trip\<close>

text \<open>Access Key round trip: the verifier stored for an Access Key is recognised as a verifier, and
  a presented key is accepted for it exactly when scrypt derives the same bytes from it. The
  hypotheses are that \<open>secrets.token_bytes(16)\<close> returns 16 bytes and scrypt as many as asked for.\<close>

theorem access_key_round_trip:
  assumes "length salt = 16"
    and "\<And>p s. length (scrypt_fn C p s SCRYPT_N SCRYPT_R SCRYPT_P SCRYPT_DKLEN) = SCRYPT_DKLEN"
  shows "is_password_hash (hash_password C salt pw)
    \<and> verify_password C pw (hash_password C salt pw)
    \<and> (verify_password C pw' (hash_password C salt pw) \<longleftrightarrow>
        scrypt_fn C (utf8 pw') salt SCRYPT_N SCRYPT_R SCRYPT_P SCRYPT_DKLEN =
        scrypt_fn C (utf8 pw) salt SCRYPT_N SCRYPT_R SCRYPT_P SCRYPT_DKLEN)"
  using assms hash_password_fields [of C salt pw]
  by (auto simp: verify_password_hash_password is_password_hash_iff_fields url_decode_encode)

text \<open>A concrete instance of the primitives for closed examples: every digest is the padded input.\<close>

definition toy_crypto :: crypto where
  "toy_crypto = \<lparr>scrypt_fn = (\<lambda>p s n r q l. take l (p @ s @ replicate l CHR 0x00)),
     pbkdf2_fn = (\<lambda>p s n. take 32 (p @ s @ replicate 32 CHR 0x00)),
     sha256_fn = (\<lambda>b. take 32 (b @ replicate 32 CHR 0x00)),
     hmac_fn = (\<lambda>k b. take 32 (k @ b @ replicate 32 CHR 0x00)),
     is_p256_pem = (\<lambda>pem. if starts_with ''-----BEGIN PUBLIC KEY-----'' pem then Some True else None),
     spki_der = (\<lambda>pem. pem), ecdsa_verify = (\<lambda>k s b. s = b),
     fernet_encrypt = (\<lambda>k n b. CHR ''g'' # b64encode True b),
     fernet_decrypt = (\<lambda>k t. case t of [] \<Rightarrow> None | _ # s \<Rightarrow> urlsafe_b64decode s)\<rparr>"

theorem access_key_round_trip_witness:
  "is_password_hash (hash_password toy_crypto (replicate 16 CHR ''s'') ''key'')
    \<and> verify_password toy_crypto ''key'' (hash_password toy_crypto (replicate 16 CHR ''s'') ''key'')
    \<and> (verify_password toy_crypto ''kez'' (hash_password toy_crypto (replicate 16 CHR ''s'') ''key'') \<longleftrightarrow>
        scrypt_fn toy_crypto (utf8 ''kez'') (replicate 16 CHR ''s'') SCRYPT_N SCRYPT_R SCRYPT_P SCRYPT_DKLEN =
        scrypt_fn toy_crypto (utf8 ''key'') (replicate 16 CHR ''s'') SCRYPT_N SCRYPT_R SCRYPT_P SCRYPT_DKLEN)"
  by (rule access_key_round_trip) (simp_all add: toy_crypto_def SCRYPT_DKLEN_def)

end
