(* ===== verification/Settings.thy ===== *)
theory Settings
  imports Security
begin

text \<open>
  The configuration record of \<open>app/settings.py\<close> (the fields the modelled code reads; the
  environment loading of pydantic is a library) and \<open>validate_runtime_settings\<close> of
  \<open>app/security.py\<close>, which decides whether a production process may start. Seconds are
  integers; the float time-outs are integers of seconds too.
\<close>

record settings =
  perimetr_version :: string
  perimetr_env :: string
  perimetr_repository_url :: string
  perimetr_service_port :: int
  perimetr_sni :: string
  perimetr_database_url :: string
  perimetr_access_key :: "string option"
  perimetr_access_key_hash :: string
  perimetr_public_url :: string
  perimetr_cookie_secure :: bool
  perimetr_session_ttl_sec :: int
  perimetr_audit_max_entries :: int
  perimetr_audit_max_bytes :: int
  perimetr_audit_retention_days :: int
  perimetr_log_max_file_bytes :: int
  perimetr_logs_max_total_bytes :: int
  perimetr_max_backup_upload_bytes :: int
  perimetr_backup_max_expanded_bytes :: int
  perimetr_backup_max_member_bytes :: int
  perimetr_backup_max_members :: int
  perimetr_backup_max_ratio :: int
  perimetr_trusted_proxies :: string
  perimetr_pod_signing_secret :: string
  perimetr_pod_version :: string
  perimetr_pod_update_public_key :: "string option"
  perimetr_pod_refresh_sec :: int
  perimetr_pod_download_timeout_sec :: int
  perimetr_pod_max_artifact_bytes :: int
  perimetr_pod_enrollment_ttl_sec :: int
  perimetr_pod_offline_after_sec :: int
  perimetr_pod_repository_url :: string
  perimetr_pod_update_manifest_url :: string
  perimetr_xray_version :: string
  perimetr_xray_source_url :: string
  perimetr_xray_sha256 :: string
  perimetr_xray_dns_url :: string
  perimetr_proxy_verification_url :: string
  perimetr_default_pod_url :: string
  kernel_url :: string
  kernel_service_token :: string
  kernel_refresh_sec :: int
  kernel_register_revision :: string
  kernel_register_stale :: bool
  updater_head_id :: string
  updater_control_token :: string

text \<open>The class defaults of \<open>Settings\<close>; paths are not part of the record.\<close>

definition default_settings :: settings where
  "default_settings = \<lparr>
     perimetr_version = ''2.0.0'',
     perimetr_env = ''development'',
     perimetr_repository_url = [],
     perimetr_service_port = 18080,
     perimetr_sni = ''localhost'',
     perimetr_database_url = ''sqlite:///./perimetr.db'',
     perimetr_access_key = None,
     perimetr_access_key_hash = [],
     perimetr_public_url = ''http://localhost:18080'',
     perimetr_cookie_secure = False,
     perimetr_session_ttl_sec = 3600,
     perimetr_audit_max_entries = 10000,
     perimetr_audit_max_bytes = 64 * 1024 * 1024,
     perimetr_audit_retention_days = 30,
     perimetr_log_max_file_bytes = 5 * 1024 * 1024,
     perimetr_logs_max_total_bytes = 64 * 1024 * 1024,
     perimetr_max_backup_upload_bytes = 128 * 1024 * 1024,
     perimetr_backup_max_expanded_bytes = 256 * 1024 * 1024,
     perimetr_backup_max_member_bytes = 64 * 1024 * 1024,
     perimetr_backup_max_members = 64,
     perimetr_backup_max_ratio = 200,
     perimetr_trusted_proxies = ''127.0.0.1,::1'',
     perimetr_pod_signing_secret = ''change-this-pod-signing-secret'',
     perimetr_pod_version = ''0.1.3'',
     perimetr_pod_update_public_key = None,
     perimetr_pod_refresh_sec = 900,
     perimetr_pod_download_timeout_sec = 120,
     perimetr_pod_max_artifact_bytes = 320 * 1024 * 1024,
     perimetr_pod_enrollment_ttl_sec = 86400,
     perimetr_pod_offline_after_sec = 90,
     perimetr_pod_repository_url = [],
     perimetr_pod_update_manifest_url = [],
     perimetr_xray_version = [],
     perimetr_xray_source_url = [],
     perimetr_xray_sha256 = [],
     perimetr_xray_dns_url = [],
     perimetr_proxy_verification_url = [],
     perimetr_default_pod_url = ''about:blank'',
     kernel_url = [],
     kernel_service_token = [],
     kernel_refresh_sec = 60,
     kernel_register_revision = [],
     kernel_register_stale = False,
     updater_head_id = ''perimetr'',
     updater_control_token = [] \<rparr>"

section \<open>Production validation\<close>

definition PLACEHOLDER_MARKERS :: "string list" where
  "PLACEHOLDER_MARKERS =
     [''change-this'', ''replace-with'', ''example-password'', ''perimetr-entry-password'']"

definition is_placeholder :: "string \<Rightarrow> bool" where
  "is_placeholder value =
     (let lowered = lower (strip value)
      in lowered = [] \<or> list_ex (\<lambda>marker. has_infix marker lowered) PLACEHOLDER_MARKERS)"

text \<open>Each check of the source, with the issue it appends, in the source's order.\<close>

definition runtime_checks :: "crypto \<Rightarrow> settings \<Rightarrow> (bool \<times> string) list" where
  "runtime_checks C s =
     (let signing_secret = perimetr_pod_signing_secret s;
          kernel_token = kernel_service_token s;
          updater_token = updater_control_token s;
          valid_pod_update_key =
            (case perimetr_pod_update_public_key s of
               None \<Rightarrow> False
             | Some pem \<Rightarrow> is_p256_pem C pem = Some True)
      in [(length signing_secret < 32 \<or> is_placeholder signing_secret,
             ''PERIMETR_POD_SIGNING_SECRET must contain at least 32 non-placeholder characters''),
          (length kernel_token < 24 \<or> is_placeholder kernel_token,
             ''KERNEL_SERVICE_TOKEN must contain at least 24 non-placeholder characters''),
          (length updater_token < 32 \<or> is_placeholder updater_token,
             ''UPDATER_CONTROL_TOKEN must contain at least 32 non-placeholder characters''),
          (\<not> (starts_with ''postgresql://'' (perimetr_database_url s) \<or>
              starts_with ''postgresql+psycopg://'' (perimetr_database_url s)),
             ''PERIMETR_DATABASE_URL must use PostgreSQL in production''),
          (is_placeholder (perimetr_database_url s),
             ''PERIMETR_DATABASE_URL contains a placeholder credential''),
          (\<not> perimetr_cookie_secure s, ''PERIMETR_COOKIE_SECURE must be true in production''),
          (\<not> starts_with ''https://'' (perimetr_public_url s),
             ''Perimetr public URL resolved from Kernel Register must use HTTPS in production''),
          (\<not> starts_with ''https://'' (kernel_url s), ''KERNEL_URL must use HTTPS in production''),
          (\<not> valid_pod_update_key,
             ''PERIMETR_POD_UPDATE_PUBLIC_KEY_PATH must reference the trusted Pod ECDSA public key''),
          (\<not> (60 \<le> perimetr_pod_refresh_sec s \<and> perimetr_pod_refresh_sec s \<le> 86400),
             ''PERIMETR_POD_REFRESH_SEC must be between 60 and 86400''),
          (\<not> (10 \<le> perimetr_pod_download_timeout_sec s \<and> perimetr_pod_download_timeout_sec s \<le> 900),
             ''PERIMETR_POD_DOWNLOAD_TIMEOUT_SEC must be between 10 and 900''),
          (\<not> (10 * 1024 * 1024 \<le> perimetr_pod_max_artifact_bytes s \<and>
              perimetr_pod_max_artifact_bytes s \<le> 1024 * 1024 * 1024),
             ''PERIMETR_POD_MAX_ARTIFACT_BYTES must be between 10 MiB and 1 GiB'')])"

definition validate_runtime_settings :: "crypto \<Rightarrow> settings \<Rightarrow> string + unit" where
  "validate_runtime_settings C s =
     (if lower (strip (perimetr_env s)) \<noteq> ''production'' then Inr ()
      else (let issues = map snd (filter fst (runtime_checks C s))
            in if issues \<noteq> [] then Inl (join ''; '' issues) else Inr ()))"

definition normalize_database_url :: "string \<Rightarrow> string" where
  "normalize_database_url url =
     (if starts_with ''postgresql://'' url
      then ''postgresql+psycopg://'' @ drop (length ''postgresql://'') url
      else url)"

lemma validate_runtime_settings_Inr_iff:
  "validate_runtime_settings C s = Inr u \<longleftrightarrow>
     lower (strip (perimetr_env s)) \<noteq> ''production'' \<or> list_all (\<lambda>c. \<not> fst c) (runtime_checks C s)"
  by (auto simp: validate_runtime_settings_def Let_def filter_empty_conv list_all_iff)


text \<open>Settings that pass.\<close>

definition production_settings :: settings where
  "production_settings = default_settings\<lparr>perimetr_env := ''Production '',
     perimetr_pod_signing_secret := replicate 32 CHR ''k'',
     kernel_service_token := replicate 24 CHR ''k'',
     updater_control_token := replicate 32 CHR ''k'',
     perimetr_database_url := ''postgresql://u:p@db/perimetr'',
     perimetr_cookie_secure := True, perimetr_public_url := ''https://perimetr.example'',
     kernel_url := ''https://kernel.example'',
     perimetr_pod_update_public_key := Some ''-----BEGIN PUBLIC KEY-----''\<rparr>"


end
