(* ===== verification/Json.thy ===== *)
theory Json
  imports Text "HOL-Library.List_Lexorder" "HOL-Library.Char_ord"
begin

text \<open>
  Python values as they occur in JSON columns, request bodies and responses, with the
  dictionary operations the code uses on them, \<open>json.dumps\<close> and \<open>json.loads\<close>. A dictionary is
  an association list in insertion order. A float is carried as its literal, because no code
  computes with a float of a stored value. \<open>JTime\<close> is a timezone-aware \<open>datetime\<close>, in
  microseconds since the epoch; it has no JSON form of its own.
\<close>

datatype json =
    JNull
  | JBool bool
  | JInt int
  | JFloat string
  | JStr string
  | JTime int
  | JArr "json list"
  | JObj "(string \<times> json) list"

section \<open>Dictionaries\<close>

type_synonym dict = "(string \<times> json) list"

definition get_key :: "string \<Rightarrow> (string \<times> 'v) list \<Rightarrow> 'v option" where
  "get_key k d = map_of d k"

text \<open>\<open>d[k] = v\<close> keeps the position of a key that is present.\<close>

fun set_key :: "string \<Rightarrow> 'v \<Rightarrow> (string \<times> 'v) list \<Rightarrow> (string \<times> 'v) list" where
  "set_key k v [] = [(k, v)]"
| "set_key k v ((k', v') # d) = (if k' = k then (k, v) # d else (k', v') # set_key k v d)"

definition del_key :: "string \<Rightarrow> (string \<times> 'v) list \<Rightarrow> (string \<times> 'v) list" where
  "del_key k d = filter (\<lambda>p. fst p \<noteq> k) d"

text \<open>\<open>d.setdefault(k, v)\<close> as a statement.\<close>

definition set_default :: "string \<Rightarrow> 'v \<Rightarrow> (string \<times> 'v) list \<Rightarrow> (string \<times> 'v) list" where
  "set_default k v d = (if get_key k d = None then set_key k v d else d)"

text \<open>\<open>{**d, **e}\<close>.\<close>

definition merge :: "(string \<times> 'v) list \<Rightarrow> (string \<times> 'v) list \<Rightarrow> (string \<times> 'v) list" where
  "merge d e = foldl (\<lambda>acc p. set_key (fst p) (snd p) acc) d e"

definition has_key :: "string \<Rightarrow> (string \<times> 'v) list \<Rightarrow> bool" where
  "has_key k d \<longleftrightarrow> get_key k d \<noteq> None"

lemma get_set_key [json_simps]: "get_key k (set_key k' v d) = (if k = k' then Some v else get_key k d)"
  by (induction d) (auto simp: get_key_def)

lemma get_del_key [json_simps]: "get_key k (del_key k' d) = (if k = k' then None else get_key k d)"
  by (induction d) (auto simp: get_key_def del_key_def)

lemma get_set_default [json_simps]:
  "get_key k (set_default k' v d) =
     (if k = k' then Some (case get_key k d of None \<Rightarrow> v | Some x \<Rightarrow> x) else get_key k d)"
  by (auto simp: set_default_def json_simps split: option.splits)

lemma get_key_Nil [simp]: "get_key k [] = None"
  by (simp add: get_key_def)

lemma get_key_Cons [json_simps]: "get_key k (p # d) = (if fst p = k then Some (snd p) else get_key k d)"
  by (cases p) (simp add: get_key_def)

lemma merge_Nil [simp]: "merge d [] = d"
  by (simp add: merge_def)

lemma merge_Cons [json_simps]: "merge d (p # e) = merge (set_key (fst p) (snd p) d) e"
  by (simp add: merge_def)

lemma get_merge:
  "get_key k (merge d e) = (case get_key k (rev e) of None \<Rightarrow> get_key k d | Some v \<Rightarrow> Some v)"
  by (induction e rule: rev_induct)
    (auto simp: merge_def json_simps split: option.splits)

lemma get_key_rev:
  assumes "distinct (map fst e)"
  shows "get_key k (rev e) = get_key k e"
proof -
  have "map_of (rev e) = map_of e" using assms by (intro map_of_inject_set [THEN iffD2]) (simp_all add: rev_map [symmetric])
  then show ?thesis by (simp add: get_key_def)
qed

lemma get_merge_distinct:
  "distinct (map fst e) \<Longrightarrow>
     get_key k (merge d e) = (case get_key k e of None \<Rightarrow> get_key k d | Some v \<Rightarrow> Some v)"
  by (simp add: get_merge get_key_rev)

lemma keys_set_key: "fst ` set (set_key k v d) = insert k (fst ` set d)"
proof (induction d)
  case (Cons p d)
  then show ?case by (cases p; cases "fst p = k") (simp_all add: insert_commute)
qed simp

lemma distinct_set_key: "distinct (map fst d) \<Longrightarrow> distinct (map fst (set_key k v d))"
proof (induction d)
  case (Cons p d)
  show ?case
  proof (cases "fst p = k")
    case True
    with Cons.prems show ?thesis by (cases p) auto
  next
    case False
    have "fst p \<notin> insert k (fst ` set d)" using Cons.prems False by simp
    then have "fst p \<notin> set (map fst (set_key k v d))" using keys_set_key [of k v d] by simp
    with Cons False show ?thesis by (cases p) simp
  qed
qed simp

lemma distinct_del_key: "distinct (map fst d) \<Longrightarrow> distinct (map fst (del_key k d))"
  by (simp add: del_key_def distinct_map_filter)

lemma set_key_fresh: "k \<notin> fst ` set d \<Longrightarrow> set_key k v d = d @ [(k, v)]"
  by (induction d) auto

lemma merge_fresh:
  "distinct (map fst (d @ e)) \<Longrightarrow> merge d e = d @ e"
proof (induction e arbitrary: d)
  case (Cons p e)
  then have "set_key (fst p) (snd p) d = d @ [p]" by (intro trans [OF set_key_fresh]) auto
  with Cons.IH [of "d @ [p]"] Cons.prems show ?case by (simp add: json_simps)
qed simp

section \<open>Truth, access and comparison\<close>

text \<open>\<open>bool(value)\<close>. A float is false when it is a zero.\<close>

fun truthy :: "json \<Rightarrow> bool" where
  "truthy JNull = False"
| "truthy (JBool b) = b"
| "truthy (JInt i) = (i \<noteq> 0)"
| "truthy (JFloat s) = (s \<noteq> ''0.0'' \<and> s \<noteq> ''-0.0'')"
| "truthy (JStr s) = (s \<noteq> [])"
| "truthy (JTime t) = True"
| "truthy (JArr xs) = (xs \<noteq> [])"
| "truthy (JObj d) = (d \<noteq> [])"

text \<open>\<open>dict(value or {})\<close> for the values the code stores there, dictionaries or null.\<close>

definition dict_or_empty :: "json \<Rightarrow> dict" where
  "dict_or_empty v = (case v of JObj d \<Rightarrow> d | _ \<Rightarrow> [])"

definition jget :: "string \<Rightarrow> json \<Rightarrow> json option" where
  "jget k v = (case v of JObj d \<Rightarrow> get_key k d | _ \<Rightarrow> None)"

text \<open>\<open>d.get(k)\<close> with null for a missing key, and \<open>str(d.get(k) or "")\<close> for text values.\<close>

definition get_or_null :: "string \<Rightarrow> dict \<Rightarrow> json" where
  "get_or_null k d = (case get_key k d of None \<Rightarrow> JNull | Some v \<Rightarrow> v)"

text \<open>\<open>==\<close> of Python values: dictionaries are compared without regard to order, a bool is the
  integer 0 or 1.\<close>

fun jeq :: "json \<Rightarrow> json \<Rightarrow> bool" where
  "jeq JNull w = (w = JNull)"
| "jeq (JBool b) w = (w = JBool b \<or> w = JInt (if b then 1 else 0))"
| "jeq (JInt i) w = (w = JInt i \<or> (i = 0 \<and> w = JBool False) \<or> (i = 1 \<and> w = JBool True))"
| "jeq (JFloat s) w = (w = JFloat s)"
| "jeq (JStr s) w = (w = JStr s)"
| "jeq (JTime t) w = (w = JTime t)"
| "jeq (JArr xs) w = (case w of JArr ys \<Rightarrow> list_all2 jeq xs ys | _ \<Rightarrow> False)"
| "jeq (JObj d) w = (case w of
     JObj e \<Rightarrow> length d = length e \<and>
       (\<forall>p \<in> set d. case get_key (fst p) e of None \<Rightarrow> False | Some v \<Rightarrow> jeq (snd p) v)
   | _ \<Rightarrow> False)"

section \<open>\<open>json.dumps\<close>\<close>

definition hex4 :: "nat \<Rightarrow> string" where
  "hex4 n = [hex_digit (n div 4096), hex_digit (n div 256 mod 16), hex_digit (n div 16 mod 16),
     hex_digit (n mod 16)]"

text \<open>\<open>ensure_ascii\<close>: everything outside the printable ASCII range is escaped.\<close>

definition dumps_char :: "char \<Rightarrow> string" where
  "dumps_char c =
     (if c = CHR 0x22 then [CHR 0x5c, CHR 0x22]
      else if c = CHR 0x5c then [CHR 0x5c, CHR 0x5c]
      else if c = CHR 0x0a then [CHR 0x5c, CHR ''n'']
      else if c = CHR 0x0d then [CHR 0x5c, CHR ''r'']
      else if c = CHR 0x09 then [CHR 0x5c, CHR ''t'']
      else if c = CHR 0x0c then [CHR 0x5c, CHR ''f'']
      else if c = CHR 0x08 then [CHR 0x5c, CHR ''b'']
      else if 32 \<le> code c \<and> code c \<le> 126 then [c]
      else [CHR 0x5c, CHR ''u''] @ hex4 (code c))"

definition dumps_str :: "string \<Rightarrow> string" where
  "dumps_str s = CHR 0x22 # concat (map dumps_char s) @ [CHR 0x22]"

text \<open>\<open>render\<close> takes the item and key separators and whether keys are sorted. A datetime has no
  JSON form: \<open>dumps\<close> raises TypeError, the value \<open>None\<close>.\<close>

fun jsonable :: "json \<Rightarrow> bool" where
  "jsonable (JTime t) = False"
| "jsonable (JArr xs) = (\<forall>x \<in> set xs. jsonable x)"
| "jsonable (JObj d) = (\<forall>p \<in> set d. jsonable (snd p))"
| "jsonable _ = True"

fun render :: "string \<Rightarrow> string \<Rightarrow> bool \<Rightarrow> json \<Rightarrow> string" where
  "render i k s JNull = ''null''"
| "render i k s (JBool b) = (if b then ''true'' else ''false'')"
| "render i k s (JInt n) = str_int n"
| "render i k s (JFloat f) = f"
| "render i k s (JStr t) = dumps_str t"
| "render i k s (JTime t) = []"
| "render i k s (JArr xs) = ''['' @ join i (map (render i k s) xs) @ '']''"
| "render i k s (JObj d) =
     (let items = map (\<lambda>p. (fst p, dumps_str (fst p) @ k @ render i k s (snd p))) d
      in ''{'' @ join i (map snd (if s then sort_key fst items else items)) @ ''}'')"

definition dumps :: "json \<Rightarrow> string option" where
  "dumps v = (if jsonable v then Some (render '', '' '': '' False v) else None)"

definition dumps_canonical :: "json \<Rightarrow> string option" where
  "dumps_canonical v = (if jsonable v then Some (render '','' '':'' True v) else None)"

section \<open>\<open>json.loads\<close>\<close>

text \<open>
  The scanner works on the rest of the text and returns the value with what follows it. A
  \<open>\u\<close> escape above 255 has no character in the model and is refused. The number of nested
  calls is bounded by fuel; twice the length of the text and one is always enough (lemma \<open>p_fuel_enough\<close>).
  A strict scanner (\<open>st\<close>) refuses an object with a key twice and the constants NaN and Infinity, as the hooks do that the
  code passes in one place.
\<close>

definition json_space :: "char \<Rightarrow> bool" where
  "json_space c \<longleftrightarrow> c \<in> {CHR 0x20, CHR 0x09, CHR 0x0a, CHR 0x0d}"

definition skip :: "string \<Rightarrow> string" where
  "skip s = dropWhile json_space s"

definition hex_val :: "char \<Rightarrow> nat" where
  "hex_val c = (if is_digit c then code c - 48
     else if 97 \<le> code c then code c - 87 else code c - 55)"

definition unescape :: "char \<Rightarrow> char option" where
  "unescape c = map_of [(CHR 0x22, CHR 0x22), (CHR 0x5c, CHR 0x5c), (CHR ''/'', CHR ''/''),
     (CHR ''b'', CHR 0x08), (CHR ''f'', CHR 0x0c), (CHR ''n'', CHR 0x0a), (CHR ''r'', CHR 0x0d),
     (CHR ''t'', CHR 0x09)] c"

text \<open>The rest of a string literal after its opening quote.\<close>

fun p_string :: "string \<Rightarrow> (string \<times> string) option" where
  "p_string [] = None"
| "p_string (c # s) =
     (if c = CHR 0x22 then Some ([], s)
      else if c = CHR 0x5c then
        (case s of
           [] \<Rightarrow> None
         | e # s1 \<Rightarrow>
             if e = CHR ''u'' then
               (case s1 of
                  h1 # h2 # h3 # h4 # s2 \<Rightarrow>
                    if is_hex h1 \<and> is_hex h2 \<and> is_hex h3 \<and> is_hex h4 then
                      (let n = ((hex_val h1 * 16 + hex_val h2) * 16 + hex_val h3) * 16 + hex_val h4
                       in if n < 256
                          then map_option (\<lambda>r. (chr n # fst r, snd r)) (p_string s2)
                          else None)
                    else None
                | _ \<Rightarrow> None)
             else (case unescape e of None \<Rightarrow> None
                   | Some x \<Rightarrow> map_option (\<lambda>r. (x # fst r, snd r)) (p_string s1)))
      else if code c < 32 then None
      else map_option (\<lambda>r. (c # fst r, snd r)) (p_string s))"

text \<open>A number: an optional minus, an integer part without a leading zero, then an optional
  fraction and an optional exponent, each taken only when it is complete.\<close>

definition span_digits :: "string \<Rightarrow> string \<times> string" where
  "span_digits s = (takeWhile is_digit s, dropWhile is_digit s)"

definition p_frac :: "string \<Rightarrow> string \<times> string" where
  "p_frac s = (case s of
     c # t \<Rightarrow> if c = CHR ''.'' \<and> takeWhile is_digit t \<noteq> []
              then (c # takeWhile is_digit t, dropWhile is_digit t) else ([], s)
   | [] \<Rightarrow> ([], s))"

definition p_exp :: "string \<Rightarrow> string \<times> string" where
  "p_exp s = (case s of
     [] \<Rightarrow> ([], s)
   | c # t \<Rightarrow>
       if c = CHR ''e'' \<or> c = CHR ''E'' then
         (case t of
            [] \<Rightarrow> ([], s)
          | g # u \<Rightarrow>
              if (g = CHR ''+'' \<or> g = CHR ''-'') \<and> takeWhile is_digit u \<noteq> []
              then (c # g # takeWhile is_digit u, dropWhile is_digit u)
              else if takeWhile is_digit t \<noteq> []
              then (c # takeWhile is_digit t, dropWhile is_digit t)
              else ([], s))
       else ([], s))"

definition p_int_part :: "string \<Rightarrow> (string \<times> string) option" where
  "p_int_part s = (case s of
     [] \<Rightarrow> None
   | c # t \<Rightarrow> if c = CHR ''0'' then Some ([c], t)
              else if is_digit c then Some (takeWhile is_digit s, dropWhile is_digit s)
              else None)"

definition p_number :: "string \<Rightarrow> (json \<times> string) option" where
  "p_number s =
     (let neg = (case s of c # _ \<Rightarrow> c = CHR ''-'' | [] \<Rightarrow> False);
          body = (if neg then tl s else s);
          sign = (if neg then ''-'' else [])
      in (case p_int_part body of
            None \<Rightarrow> None
          | Some (digits, rest) \<Rightarrow>
              (let (frac, rest1) = p_frac rest; (ex, rest2) = p_exp rest1
               in if frac = [] \<and> ex = []
                  then Some (JInt (if neg then - int (digits_val 0 digits) else int (digits_val 0 digits)), rest)
                  else Some (JFloat (sign @ digits @ frac @ ex), rest2))))"

definition p_literal :: "bool \<Rightarrow> string \<Rightarrow> (json \<times> string) option" where
  "p_literal st s =
     (if starts_with ''null'' s then Some (JNull, drop 4 s)
      else if starts_with ''true'' s then Some (JBool True, drop 4 s)
      else if starts_with ''false'' s then Some (JBool False, drop 5 s)
      else if starts_with ''NaN'' s then (if st then None else Some (JFloat ''NaN'', drop 3 s))
      else if starts_with ''Infinity'' s then (if st then None else Some (JFloat ''Infinity'', drop 8 s))
      else if starts_with ''-Infinity'' s then (if st then None else Some (JFloat ''-Infinity'', drop 9 s))
      else p_number s)"

fun p_value :: "bool \<Rightarrow> nat \<Rightarrow> string \<Rightarrow> (json \<times> string) option"
and p_items :: "bool \<Rightarrow> nat \<Rightarrow> string \<Rightarrow> (json list \<times> string) option"
and p_members :: "bool \<Rightarrow> nat \<Rightarrow> string \<Rightarrow> (dict \<times> string) option" where
  "p_value st 0 s = None"
| "p_value st (Suc n) s =
     (case s of
        [] \<Rightarrow> None
      | c # t \<Rightarrow>
          if c = CHR 0x22 then map_option (\<lambda>r. (JStr (fst r), snd r)) (p_string t)
          else if c = CHR ''['' then
            (let u = skip t in
             if u \<noteq> [] \<and> hd u = CHR '']'' then Some (JArr [], tl u)
             else map_option (\<lambda>r. (JArr (fst r), snd r)) (p_items st n u))
          else if c = CHR ''{'' then
            (let u = skip t in
             if u \<noteq> [] \<and> hd u = CHR ''}'' then Some (JObj [], tl u)
             else Option.bind (p_members st n u) (\<lambda>r.
                    if st \<and> \<not> distinct (map fst (fst r)) then None else Some (JObj (merge [] (fst r)), snd r)))
          else p_literal st s)"
| "p_items st 0 s = None"
| "p_items st (Suc n) s =
     (case p_value st n s of
        None \<Rightarrow> None
      | Some (v, r) \<Rightarrow>
          (let u = skip r in
           if u \<noteq> [] \<and> hd u = CHR '']'' then Some ([v], tl u)
           else if u \<noteq> [] \<and> hd u = CHR '',''
           then map_option (\<lambda>q. (v # fst q, snd q)) (p_items st n (skip (tl u)))
           else None))"
| "p_members st 0 s = None"
| "p_members st (Suc n) s =
     (if s \<noteq> [] \<and> hd s = CHR 0x22 then
        (case p_string (tl s) of
           None \<Rightarrow> None
         | Some (key, r) \<Rightarrow>
             (let u = skip r in
              if u \<noteq> [] \<and> hd u = CHR '':'' then
                (case p_value st n (skip (tl u)) of
                   None \<Rightarrow> None
                 | Some (v, r2) \<Rightarrow>
                     (let w = skip r2 in
                      if w \<noteq> [] \<and> hd w = CHR ''}'' then Some ([(key, v)], tl w)
                      else if w \<noteq> [] \<and> hd w = CHR '',''
                      then map_option (\<lambda>q. ((key, v) # fst q, snd q)) (p_members st n (skip (tl w)))
                      else None))
              else None))
      else None)"

definition loads_by :: "bool \<Rightarrow> string \<Rightarrow> json option" where
  "loads_by st s = (case p_value st (2 * length s + 1) (skip s) of
     None \<Rightarrow> None | Some (v, r) \<Rightarrow> if skip r = [] then Some v else None)"

definition loads :: "string \<Rightarrow> json option" where
  "loads s = loads_by False s"

section \<open>Fuel\<close>

lemma length_skip: "length (skip s) \<le> length s"
  by (simp add: skip_def length_dropWhile_le)

lemma skip_tl_less: "u \<noteq> [] \<Longrightarrow> length (skip (tl u)) < length u"
  using length_skip [of "tl u"] by (cases u) auto

lemma p_string_shorter: "p_string s = Some (x, r) \<Longrightarrow> length r < length s"
proof (induction s arbitrary: x r rule: p_string.induct)
  case (2 c s)
  show ?case
  proof (cases "c = CHR 0x22 \<or> c \<noteq> CHR 0x5c")
    case True
    with 2 show ?thesis by (fastforce split: if_splits)
  next
    case False
    with 2 show ?thesis by (fastforce simp: Let_def split: if_splits list.splits option.splits)
  qed
qed simp

lemma p_frac_shorter: "length (snd (p_frac s)) \<le> length s"
  by (auto simp: p_frac_def length_dropWhile_le le_SucI split: list.splits)

lemma p_exp_shorter: "length (snd (p_exp s)) \<le> length s"
  by (auto simp: p_exp_def length_dropWhile_le le_SucI split: list.splits)

lemma p_int_part_shorter: "p_int_part s = Some (d, r) \<Longrightarrow> length r < length s"
  by (cases s) (auto simp: p_int_part_def length_dropWhile_le less_Suc_eq_le split: if_splits)

lemma p_number_shorter: "p_number s = Some (v, r) \<Longrightarrow> length r < length s"
proof -
  assume a: "p_number s = Some (v, r)"
  define body where "body = (if (case s of c # _ \<Rightarrow> c = CHR ''-'' | [] \<Rightarrow> False) then tl s else s)"
  have b: "length body \<le> length s" by (auto simp: body_def split: list.splits)
  from a obtain d r0 where i: "p_int_part body = Some (d, r0)"
    by (auto simp: p_number_def Let_def body_def split: option.splits)
  have l: "length r0 < length body" using p_int_part_shorter [OF i] .
  have "length (snd (p_exp (snd (p_frac r0)))) \<le> length r0"
    using p_exp_shorter p_frac_shorter le_trans by blast
  with a i l b show ?thesis
    by (auto simp: p_number_def Let_def body_def [symmetric] split: prod.splits if_splits)
qed

lemma starts_with_shorter: "starts_with p s \<Longrightarrow> p \<noteq> [] \<Longrightarrow> length (drop (length p) s) < length s"
  by (cases s) (auto simp: starts_with_def)

lemma p_literal_shorter: "p_literal st s = Some (v, r) \<Longrightarrow> length r < length s"
  using starts_with_shorter [of "''null''" s] starts_with_shorter [of "''true''" s]
    starts_with_shorter [of "''false''" s] starts_with_shorter [of "''NaN''" s]
    starts_with_shorter [of "''Infinity''" s] starts_with_shorter [of "''-Infinity''" s]
  by (auto simp: p_literal_def dest: p_number_shorter split: if_splits)

lemma p_shorter:
  "p_value st n s = Some (v, r) \<Longrightarrow> length r < length s"
  "p_items st n s = Some (vs, r) \<Longrightarrow> length r < length s"
  "p_members st n s = Some (d, r) \<Longrightarrow> length r < length s"
proof (induction st n s and st n s and st n s arbitrary: v r and vs r and d r
    rule: p_value_p_items_p_members.induct)
  case (2 st n s)
  show ?case
  proof (cases s)
    case (Cons c t)
    have t: "length (skip t) \<le> length t" by (rule length_skip)
    from 2(3) Cons consider
        (str) x where "p_string t = Some (x, r)"
      | (closed) "skip t \<noteq> []" "r = tl (skip t)"
      | (items) vs where "c = CHR ''[''" "\<not> (skip t \<noteq> [] \<and> hd (skip t) = CHR '']'')" "p_items st n (skip t) = Some (vs, r)"
      | (members) d where "c = CHR ''{''" "\<not> (skip t \<noteq> [] \<and> hd (skip t) = CHR ''}'')" "p_members st n (skip t) = Some (d, r)"
      | (literal) "p_literal st s = Some (v, r)"
      by (auto simp: Let_def bind_eq_Some_conv split: if_splits)
    then show ?thesis
    proof cases
      case str
      then show ?thesis using p_string_shorter [of t] Cons by fastforce
    next
      case closed
      then show ?thesis using t Cons by (cases "skip t") auto
    next
      case items
      then show ?thesis using 2(1) [OF Cons _ items(1) refl items(2)] t Cons by fastforce
    next
      case members
      then show ?thesis using 2(2) [OF Cons _ _ members(1) refl members(2)] t Cons by fastforce
    qed (rule p_literal_shorter)
  qed (use 2 in simp)
next
  case (4 st n s)
  from 4(3) obtain v1 r1 where v: "p_value st n s = Some (v1, r1)" by (auto split: option.splits)
  have l: "length r1 < length s" using 4(1) [OF v] .
  have t: "length (skip r1) \<le> length r1" by (rule length_skip)
  show ?case
    using 4(2) [OF v refl refl] 4(3) v l t skip_tl_less [of "skip r1"]
    by (fastforce simp: Let_def split: if_splits)
next
  case (6 st n s)
  from 6(3) obtain k r1 where s: "s \<noteq> []" "p_string (tl s) = Some (k, r1)"
    by (auto split: if_splits option.splits)
  have l0: "length r1 < length s" using p_string_shorter [OF s(2)] by simp
  have t0: "length (skip r1) \<le> length r1" by (rule length_skip)
  from 6(3) s obtain v1 r2 where c: "skip r1 \<noteq> []" "p_value st n (skip (tl (skip r1))) = Some (v1, r2)"
    by (auto simp: Let_def split: if_splits option.splits)
  have l1: "length r2 < length (skip (tl (skip r1)))"
    using 6 s c by (auto simp: Let_def split: if_splits)
  have t1: "length (skip (tl (skip r1))) < length (skip r1)" using skip_tl_less [OF c(1)] .
  have t2: "length (skip r2) \<le> length r2" by (rule length_skip)
  show ?case
    using 6 s c l0 t0 l1 t1 t2 skip_tl_less [of "skip r2"]
    by (fastforce simp: Let_def split: if_splits)
qed simp_all

text \<open>With twice the length of the text and one (two for the lists) more fuel changes nothing.\<close>

lemma p_fuel_Suc:
  "2 * length s + 1 \<le> n \<Longrightarrow> p_value st (Suc n) s = p_value st n s"
  "2 * length s + 2 \<le> n \<Longrightarrow> p_items st (Suc n) s = p_items st n s"
  "2 * length s + 2 \<le> n \<Longrightarrow> p_members st (Suc n) s = p_members st n s"
proof (induction st n s and st n s and st n s rule: p_value_p_items_p_members.induct)
  case (2 st n s)
  show ?case
  proof (cases s)
    case (Cons c t)
    have t: "length (skip t) \<le> length t" by (rule length_skip)
    have i: "p_items st (Suc n) (skip t) = p_items st n (skip t)"
      if "c = CHR ''[''" "\<not> (skip t \<noteq> [] \<and> hd (skip t) = CHR '']'')"
      using 2(1) [OF Cons _ that(1) refl that(2)] that(1) 2(3) Cons t by simp
    have m: "p_members st (Suc n) (skip t) = p_members st n (skip t)"
      if "c = CHR ''{''" "\<not> (skip t \<noteq> [] \<and> hd (skip t) = CHR ''}'')"
      using 2(2) [OF Cons _ _ that(1) refl that(2)] that(1) 2(3) Cons t by simp
    show ?thesis
      unfolding Cons p_value.simps(2) [of st "Suc n" "c # t"] p_value.simps(2) [of st n "c # t"] list.case Let_def
      using i m by (intro if_cong refl arg_cong [where f = "map_option _"] arg_cong [where f = "\<lambda>x. Option.bind x _"]) blast+
  qed simp
next
  case (4 st n s)
  have v: "p_value st (Suc n) s = p_value st n s" using 4 by simp
  show ?case
  proof (cases "p_value st n s")
    case None
    with v show ?thesis by simp
  next
    case (Some q)
    obtain v1 r1 where q: "q = (v1, r1)" by (cases q)
    have l: "length r1 < length s" using p_shorter(1) Some q by blast
    have t: "length (skip r1) \<le> length r1" by (rule length_skip)
    have "p_items st (Suc n) (skip (tl (skip r1))) = p_items st n (skip (tl (skip r1)))"
      if e: "skip r1 \<noteq> []" "hd (skip r1) \<noteq> CHR '']''" "hd (skip r1) = CHR '',''"
    proof (rule 4(2) [OF Some q [symmetric] refl])
      show "\<not> (skip r1 \<noteq> [] \<and> hd (skip r1) = CHR '']'')" using e by blast
      show "2 * length (skip (tl (skip r1))) + 2 \<le> n"
        using 4(3) l t skip_tl_less [OF e(1)] by linarith
    qed (use e in blast)
    with v Some q show ?thesis
      unfolding p_items.simps(2) [of st "Suc n" s] p_items.simps(2) [of st n s] Let_def
      by (simp del: p_items.simps p_value.simps)
  qed
next
  case (6 st n s)
  show ?case
  proof (cases "s \<noteq> [] \<and> hd s = CHR 0x22 \<and> (\<exists>k r1. p_string (tl s) = Some (k, r1) \<and> skip r1 \<noteq> []
      \<and> hd (skip r1) = CHR '':'')")
    case False
    have "p_members st (Suc m) s = None" for m
    proof (cases "s \<noteq> [] \<and> hd s = CHR 0x22")
      case True
      show ?thesis
      proof (cases "p_string (tl s)")
        case (Some q)
        with True False show ?thesis
          unfolding p_members.simps(2) [of st m s] Let_def
          by (cases q) (auto simp del: p_value.simps p_members.simps)
      qed (use True in \<open>simp only: p_members.simps(2), simp\<close>)
    qed (simp only: p_members.simps(2) if_False)
    then show ?thesis by metis
  next
    case True
    then obtain k r1 where s: "s \<noteq> []" "hd s = CHR 0x22" "p_string (tl s) = Some (k, r1)"
      "skip r1 \<noteq> []" "hd (skip r1) = CHR '':''" by blast
    have l0: "length r1 < length s" using p_string_shorter [OF s(3)] by simp
    have t0: "length (skip r1) \<le> length r1" by (rule length_skip)
    have t1: "length (skip (tl (skip r1))) < length (skip r1)" using skip_tl_less [OF s(4)] .
    have v: "p_value st (Suc n) (skip (tl (skip r1))) = p_value st n (skip (tl (skip r1)))"
    proof (rule 6(1) [OF _ s(3) refl refl])
      show "2 * length (skip (tl (skip r1))) + 1 \<le> n" using 6(3) l0 t0 t1 by linarith
    qed (use s in blast)+
    show ?thesis
    proof (cases "p_value st n (skip (tl (skip r1)))")
      case None
      with v s show ?thesis by (simp add: Let_def del: p_value.simps)
    next
      case (Some q)
      obtain v1 r2 where q: "q = (v1, r2)" by (cases q)
      have l1: "length r2 < length (skip (tl (skip r1)))" using p_shorter(1) Some q by blast
      have t2: "length (skip r2) \<le> length r2" by (rule length_skip)
      have "p_members st (Suc n) (skip (tl (skip r2))) = p_members st n (skip (tl (skip r2)))"
        if e: "skip r2 \<noteq> []" "hd (skip r2) \<noteq> CHR ''}''" "hd (skip r2) = CHR '',''"
      proof (rule 6(2) [OF _ s(3) refl refl _ Some q [symmetric] refl])
        show "\<not> (skip r2 \<noteq> [] \<and> hd (skip r2) = CHR ''}'')" using e by blast
        show "2 * length (skip (tl (skip r2))) + 2 \<le> n"
          using 6(3) l0 t0 t1 l1 t2 skip_tl_less [OF e(1)] by linarith
      qed (use e s in blast)+
      with v Some q s show ?thesis
        unfolding p_members.simps(2) [of st "Suc n" s] p_members.simps(2) [of st n s] Let_def
        by (simp del: p_members.simps p_value.simps)
    qed
  qed
qed simp_all

lemma p_fuel_enough:
  assumes "2 * length s + 1 \<le> n"
  shows "p_value st n s = p_value st (2 * length s + 1) s"
proof -
  have "p_value st (2 * length s + 1 + d) s = p_value st (2 * length s + 1) s" for d
  proof (induction d)
    case (Suc d)
    then show ?case using p_fuel_Suc(1) [of s "2 * length s + 1 + d"] by simp
  qed simp
  from this [of "n - (2 * length s + 1)"] assms show ?thesis by simp
qed

end
