(* ===== verification/Schema.thy ===== *)
theory Schema
  imports Json
begin

text \<open>
  The tables of \<open>app/models.py\<close>: one record per model with the columns of the model, and the
  database as the lists of their rows in insertion order. A datetime is its microseconds since the
  epoch. The column \<open>updated_at\<close> of the mixin, which only versions image links, and the unused
  table \<open>backup_manifests\<close> are left out. \<open>constraints_ok\<close> is what PostgreSQL enforces: primary
  keys, unique columns and foreign keys.
\<close>

record perimetr_object =
  obj_id :: string
  obj_entity_id :: string
  obj_name :: string
  obj_kind :: string
  obj_description :: string
  obj_tags :: "string list"
  obj_image_data :: string
  obj_image_media_type :: string
  obj_created_at :: int

record access_policy =
  pol_id :: string
  pol_scope_type :: string
  pol_scope_id :: string
  pol_rules :: dict
  pol_status :: string
  pol_created_at :: int

record system_setting =
  ss_id :: string
  ss_scope :: string
  ss_key :: string
  ss_value :: json
  ss_created_at :: int

record subject =
  sub_id :: string
  sub_entity_id :: string
  sub_object_id :: "string option"
  sub_name :: string
  sub_kind :: string
  sub_description :: string
  sub_tags :: "string list"
  sub_image_data :: string
  sub_image_media_type :: string
  sub_runtime_type :: string
  sub_pod_id :: "string option"
  sub_access_policy_id :: "string option"
  sub_primary_route :: "string option"
  sub_vless_uri_encrypted :: string
  sub_network_profile_version :: int
  sub_system_tabs :: "json list"
  sub_system_tabs_profile_version :: int
  sub_update_channel :: string
  sub_ui_policy :: dict
  sub_security_policy :: dict
  sub_created_at :: int

record pod =
  pod_id :: string
  pod_subject_id :: string
  pod_provisioning_id :: "string option"
  pod_name :: string
  pod_login :: string
  pod_password_hash :: string
  pod_decoy_password_hash :: string
  pod_status :: string
  pod_host_id :: string
  pod_path :: string
  pod_launcher_path :: string
  pod_runtime_state :: dict
  pod_is_portable :: bool
  pod_last_materialized_at :: "int option"
  pod_public_key_pem :: string
  pod_identity_certificate :: string
  pod_certificate_fingerprint :: string
  pod_device_binding_fingerprint :: string
  pod_device_binding_status :: string
  pod_version :: string
  pod_xray_version :: string
  pod_network_profile_version :: int
  pod_system_tabs_profile_version :: int
  pod_heartbeat_sequence :: int
  pod_last_seen_at :: "int option"
  pod_last_heartbeat_at :: "int option"
  pod_activated_at :: "int option"
  pod_revoked_at :: "int option"
  pod_revoke_reason :: string
  pod_created_at :: int

record provisioning =
  prov_id :: string
  prov_subject_id :: string
  prov_name :: string
  prov_login :: string
  prov_password_hash :: string
  prov_decoy_password_hash :: string
  prov_status :: string
  prov_token_hash :: string
  prov_token_encrypted :: string
  prov_bundle_version :: string
  prov_artifact_sha256 :: string
  prov_download_count :: int
  prov_downloaded_at :: "int option"
  prov_expires_at :: "int option"
  prov_activated_at :: "int option"
  prov_revoked_at :: "int option"
  prov_metadata :: dict
  prov_created_at :: int

record denied =
  deny_id :: string
  deny_pod_id :: "string option"
  deny_subject_id :: "string option"
  deny_type :: string
  deny_value :: string
  deny_reason :: string

record authorization =
  auth_id :: string
  auth_subject_id :: string
  auth_pod_id :: string
  auth_decision :: string
  auth_reason :: string
  auth_issued_at :: "int option"
  auth_expires_at :: "int option"
  auth_revoked_at :: "int option"
  auth_created_at :: int

record lease =
  lease_id :: string
  lease_subject_id :: "string option"
  lease_pod_id :: "string option"
  lease_status :: string
  lease_key_hash :: string
  lease_access_scope :: string
  lease_transport :: "string option"
  lease_started_at :: int
  lease_expires_at :: "int option"
  lease_ended_at :: "int option"

record audit_event =
  ev_id :: string
  ev_actor_type :: string
  ev_actor_id :: string
  ev_action :: string
  ev_target_type :: string
  ev_target_id :: string
  ev_payload :: json
  ev_result :: json
  ev_created_at :: int

record db =
  objects :: "perimetr_object list"
  policies :: "access_policy list"
  system_settings :: "system_setting list"
  subjects :: "subject list"
  pods :: "pod list"
  provisionings :: "provisioning list"
  denylist :: "denied list"
  authorizations :: "authorization list"
  leases :: "lease list"
  audit_events :: "audit_event list"

definition empty_db :: db where
  "empty_db = \<lparr>objects = [], policies = [], system_settings = [], subjects = [], pods = [],
     provisionings = [], denylist = [], authorizations = [], leases = [], audit_events = []\<rparr>"

section \<open>Constraints\<close>

definition refs_ok :: "'k option list \<Rightarrow> 'k list \<Rightarrow> bool" where
  "refs_ok refs keys \<longleftrightarrow> list_all (\<lambda>r. case r of None \<Rightarrow> True | Some k \<Rightarrow> k \<in> set keys) refs"

definition keys_ok :: "db \<Rightarrow> bool" where
  "keys_ok d \<longleftrightarrow>
     distinct (map obj_id (objects d)) \<and> distinct (map obj_entity_id (objects d))
   \<and> distinct (map pol_id (policies d))
   \<and> distinct (map ss_id (system_settings d)) \<and> distinct (map ss_key (system_settings d))
   \<and> distinct (map sub_id (subjects d)) \<and> distinct (map sub_entity_id (subjects d))
   \<and> distinct (map pod_id (pods d))
   \<and> distinct (map prov_id (provisionings d)) \<and> distinct (map prov_token_hash (provisionings d))
   \<and> distinct (map deny_id (denylist d)) \<and> distinct (map (\<lambda>r. (deny_type r, deny_value r)) (denylist d))
   \<and> distinct (map auth_id (authorizations d))
   \<and> distinct (map lease_id (leases d))
   \<and> distinct (map ev_id (audit_events d))"

definition foreign_ok :: "db \<Rightarrow> bool" where
  "foreign_ok d \<longleftrightarrow>
     refs_ok (map sub_object_id (subjects d)) (map obj_id (objects d))
   \<and> refs_ok (map sub_access_policy_id (subjects d)) (map pol_id (policies d))
   \<and> refs_ok (map (Some \<circ> pod_subject_id) (pods d)) (map sub_id (subjects d))
   \<and> refs_ok (map pod_provisioning_id (pods d)) (map prov_id (provisionings d))
   \<and> refs_ok (map (Some \<circ> prov_subject_id) (provisionings d)) (map sub_id (subjects d))
   \<and> refs_ok (map (Some \<circ> auth_subject_id) (authorizations d)) (map sub_id (subjects d))
   \<and> refs_ok (map (Some \<circ> auth_pod_id) (authorizations d)) (map pod_id (pods d))
   \<and> refs_ok (map lease_subject_id (leases d)) (map sub_id (subjects d))
   \<and> refs_ok (map lease_pod_id (leases d)) (map pod_id (pods d))"

definition constraints_ok :: "db \<Rightarrow> bool" where
  "constraints_ok d \<longleftrightarrow> keys_ok d \<and> foreign_ok d"

lemma constraints_empty: "constraints_ok empty_db"
  by (simp add: constraints_ok_def keys_ok_def foreign_ok_def refs_ok_def empty_db_def)

section \<open>Tables\<close>

text \<open>A table is how its rows are read and replaced and their primary key. The laws of a table are
  the interface between the transaction model and the schema.\<close>

record 'r table =
  rows :: "db \<Rightarrow> 'r list"
  with_rows :: "'r list \<Rightarrow> db \<Rightarrow> db"
  pk :: "'r \<Rightarrow> string"

definition lookup :: "'r table \<Rightarrow> db \<Rightarrow> string \<Rightarrow> 'r option" where
  "lookup T d k = find (\<lambda>r. pk T r = k) (rows T d)"

definition insert_row :: "'r table \<Rightarrow> 'r \<Rightarrow> db \<Rightarrow> db" where
  "insert_row T r d = with_rows T (rows T d @ [r]) d"

definition modify_row :: "'r table \<Rightarrow> string \<Rightarrow> ('r \<Rightarrow> 'r) \<Rightarrow> db \<Rightarrow> db" where
  "modify_row T k f d = with_rows T (map (\<lambda>r. if pk T r = k then f r else r) (rows T d)) d"

definition modify_rows :: "'r table \<Rightarrow> ('r \<Rightarrow> bool) \<Rightarrow> ('r \<Rightarrow> 'r) \<Rightarrow> db \<Rightarrow> db" where
  "modify_rows T P f d = with_rows T (map (\<lambda>r. if P r then f r else r) (rows T d)) d"

definition remove_rows :: "'r table \<Rightarrow> ('r \<Rightarrow> bool) \<Rightarrow> db \<Rightarrow> db" where
  "remove_rows T P d = with_rows T (filter (\<lambda>r. \<not> P r) (rows T d)) d"

locale table_laws =
  fixes T :: "'r table"
  assumes rows_with_rows: "rows T (with_rows T xs d) = xs"
    and with_rows_rows: "with_rows T (rows T d) d = d"
    and with_rows_twice: "with_rows T xs (with_rows T ys d) = with_rows T xs d"
    and distinct_pk: "keys_ok d \<Longrightarrow> distinct (map (pk T) (rows T d))"
begin

lemma rows_insert: "rows T (insert_row T r d) = rows T d @ [r]"
  by (simp add: insert_row_def rows_with_rows)

lemma rows_modify: "rows T (modify_row T k f d) = map (\<lambda>r. if pk T r = k then f r else r) (rows T d)"
  by (simp add: modify_row_def rows_with_rows)

lemma rows_remove: "rows T (remove_rows T P d) = filter (\<lambda>r. \<not> P r) (rows T d)"
  by (simp add: remove_rows_def rows_with_rows)

lemma lookup_pk: "lookup T d k = Some r \<Longrightarrow> pk T r = k \<and> r \<in> set (rows T d)"
  using find_SomeD by (fastforce simp: lookup_def)

lemma lookup_insert:
  "lookup T (insert_row T r d) k =
     (case lookup T d k of Some x \<Rightarrow> Some x | None \<Rightarrow> if pk T r = k then Some r else None)"
  by (simp add: lookup_def rows_insert find_append split: option.splits)

lemma lookup_modify:
  assumes "\<And>r. pk T (f r) = pk T r"
  shows "lookup T (modify_row T k f d) k' =
     (if k' = k then map_option f (lookup T d k) else lookup T d k')"
proof -
  have "find (\<lambda>r. pk T r = k') (map (\<lambda>r. if pk T r = k then f r else r) xs) =
      (if k' = k then map_option f (find (\<lambda>r. pk T r = k) xs) else find (\<lambda>r. pk T r = k') xs)" for xs
    by (induction xs) (auto simp: assms)
  then show ?thesis by (simp add: lookup_def rows_modify)
qed

lemma modify_modify:
  assumes "\<And>r. pk T (f r) = pk T r"
  shows "modify_row T k g (modify_row T k f d) = modify_row T k (g \<circ> f) d"
  by (simp add: modify_row_def rows_with_rows with_rows_twice comp_def assms if_distrib cong: if_cong)

lemma pks_modify:
  assumes "\<And>r. pk T (f r) = pk T r"
  shows "map (pk T) (rows T (modify_row T k f d)) = map (pk T) (rows T d)"
  by (simp add: rows_modify assms)

lemma lookup_remove_gone:
  assumes "distinct (map (pk T) (rows T d))" and "lookup T d k = Some r" and "P r"
  shows "lookup T (remove_rows T P d) k = None"
proof -
  from assms(2) have r: "r \<in> set (rows T d)" "pk T r = k" using lookup_pk by blast+
  have "x = r" if "x \<in> set (rows T d)" "pk T x = k" for x
    using assms(1) r that by (auto simp: distinct_map inj_on_def)
  with assms(3) show ?thesis by (auto simp: lookup_def rows_remove find_None_iff)
qed

end

definition OBJECTS :: "perimetr_object table" where
  "OBJECTS = \<lparr>rows = objects, with_rows = (\<lambda>xs d. d\<lparr>objects := xs\<rparr>), pk = obj_id\<rparr>"
definition POLICIES :: "access_policy table" where
  "POLICIES = \<lparr>rows = policies, with_rows = (\<lambda>xs d. d\<lparr>policies := xs\<rparr>), pk = pol_id\<rparr>"
definition SETTINGS :: "system_setting table" where
  "SETTINGS = \<lparr>rows = system_settings, with_rows = (\<lambda>xs d. d\<lparr>system_settings := xs\<rparr>), pk = ss_id\<rparr>"
definition SUBJECTS :: "subject table" where
  "SUBJECTS = \<lparr>rows = subjects, with_rows = (\<lambda>xs d. d\<lparr>subjects := xs\<rparr>), pk = sub_id\<rparr>"
definition PODS :: "pod table" where
  "PODS = \<lparr>rows = pods, with_rows = (\<lambda>xs d. d\<lparr>pods := xs\<rparr>), pk = pod_id\<rparr>"
definition PROVISIONINGS :: "provisioning table" where
  "PROVISIONINGS = \<lparr>rows = provisionings, with_rows = (\<lambda>xs d. d\<lparr>provisionings := xs\<rparr>), pk = prov_id\<rparr>"
definition DENYLIST :: "denied table" where
  "DENYLIST = \<lparr>rows = denylist, with_rows = (\<lambda>xs d. d\<lparr>denylist := xs\<rparr>), pk = deny_id\<rparr>"
definition AUTHORIZATIONS :: "authorization table" where
  "AUTHORIZATIONS = \<lparr>rows = authorizations, with_rows = (\<lambda>xs d. d\<lparr>authorizations := xs\<rparr>), pk = auth_id\<rparr>"
definition LEASES :: "lease table" where
  "LEASES = \<lparr>rows = leases, with_rows = (\<lambda>xs d. d\<lparr>leases := xs\<rparr>), pk = lease_id\<rparr>"
definition EVENTS :: "audit_event table" where
  "EVENTS = \<lparr>rows = audit_events, with_rows = (\<lambda>xs d. d\<lparr>audit_events := xs\<rparr>), pk = ev_id\<rparr>"

lemmas table_defs = OBJECTS_def POLICIES_def SETTINGS_def SUBJECTS_def PODS_def PROVISIONINGS_def
  DENYLIST_def AUTHORIZATIONS_def LEASES_def EVENTS_def

interpretation objects_table: table_laws OBJECTS by unfold_locales (simp_all add: OBJECTS_def keys_ok_def)
interpretation policies_table: table_laws POLICIES by unfold_locales (simp_all add: POLICIES_def keys_ok_def)
interpretation settings_table: table_laws SETTINGS by unfold_locales (simp_all add: SETTINGS_def keys_ok_def)
interpretation subjects_table: table_laws SUBJECTS by unfold_locales (simp_all add: SUBJECTS_def keys_ok_def)
interpretation pods_table: table_laws PODS by unfold_locales (simp_all add: PODS_def keys_ok_def)
interpretation provisionings_table: table_laws PROVISIONINGS by unfold_locales (simp_all add: PROVISIONINGS_def keys_ok_def)
interpretation denylist_table: table_laws DENYLIST by unfold_locales (simp_all add: DENYLIST_def keys_ok_def)
interpretation authorizations_table: table_laws AUTHORIZATIONS by unfold_locales (simp_all add: AUTHORIZATIONS_def keys_ok_def)
interpretation leases_table: table_laws LEASES by unfold_locales (simp_all add: LEASES_def keys_ok_def)
interpretation events_table: table_laws EVENTS by unfold_locales (simp_all add: EVENTS_def keys_ok_def)

end
