(* ===== verification/Ip.thy ===== *)
theory Ip
  imports Text
begin

text \<open>
  The part of Python's \<open>ipaddress\<close> that the request policy uses: \<open>ip_address\<close>,
  \<open>ip_network(..., strict=False)\<close>, membership and the textual form of an address. A ValueError is
  the value \<open>None\<close>.
\<close>

datatype ip = V4 nat | V6 nat "string option"

section \<open>Addresses\<close>

definition all_digits :: "string \<Rightarrow> bool" where
  "all_digits s \<longleftrightarrow> s \<noteq> [] \<and> list_all is_digit s"

definition parse_octet :: "string \<Rightarrow> nat option" where
  "parse_octet s =
     (if \<not> all_digits s \<or> 3 < length s \<or> (s \<noteq> ''0'' \<and> hd s = CHR ''0'') \<or> 255 < digits_val 0 s
      then None else Some (digits_val 0 s))"

definition parse_v4 :: "string \<Rightarrow> nat option" where
  "parse_v4 s =
     (case split_on CHR ''.'' s of
        [a, b, c, d] \<Rightarrow>
          (case (parse_octet a, parse_octet b, parse_octet c, parse_octet d) of
             (Some w, Some x, Some y, Some z) \<Rightarrow> Some (((w * 256 + x) * 256 + y) * 256 + z)
           | _ \<Rightarrow> None)
      | _ \<Rightarrow> None)"

definition hex_value :: "char \<Rightarrow> nat" where
  "hex_value c = (if is_digit c then code c - 48 else if 97 \<le> code c then code c - 87 else code c - 55)"

definition hexs_val :: "string \<Rightarrow> nat" where
  "hexs_val s = foldl (\<lambda>a c. a * 16 + hex_value c) 0 s"

text \<open>\<open>int('', 16)\<close> raises.\<close>

definition parse_hextet :: "string \<Rightarrow> nat option" where
  "parse_hextet s = (if s = [] \<or> \<not> list_all is_hex s \<or> 4 < length s then None else Some (hexs_val s))"

fun parse_hextets :: "nat \<Rightarrow> string list \<Rightarrow> nat option" where
  "parse_hextets acc [] = Some acc"
| "parse_hextets acc (p # ps) =
     (case parse_hextet p of None \<Rightarrow> None | Some h \<Rightarrow> parse_hextets (acc * 65536 + h) ps)"

fun hex_str :: "nat \<Rightarrow> string" where
  "hex_str n = (if n < 16 then [hex_digit n] else hex_str (n div 16) @ [hex_digit (n mod 16)])"

declare hex_str.simps [simp del]

text \<open>The parts after the IPv4 suffix, if there is one, has become two hextets.\<close>

definition v6_parts :: "string \<Rightarrow> string list option" where
  "v6_parts s =
     (let parts = split_on CHR '':'' s
      in if length parts < 3 then None
         else if CHR ''.'' \<in> set (last parts) then
           (case parse_v4 (last parts) of
              None \<Rightarrow> None
            | Some n \<Rightarrow> Some (butlast parts @ [hex_str (n div 65536 mod 65536), hex_str (n mod 65536)]))
         else Some parts)"

definition inner_gaps :: "string list \<Rightarrow> nat list" where
  "inner_gaps parts = filter (\<lambda>i. parts ! i = []) [1..<length parts - 1]"

definition parse_v6 :: "string \<Rightarrow> nat option" where
  "parse_v6 s =
     (case v6_parts s of
        None \<Rightarrow> None
      | Some parts \<Rightarrow>
          if 9 < length parts then None
          else (case inner_gaps parts of
             [] \<Rightarrow>
               if length parts \<noteq> 8 \<or> hd parts = [] \<or> last parts = [] then None
               else parse_hextets 0 parts
           | [skip_index] \<Rightarrow>
               (let hi = (if hd parts = [] then skip_index - 1 else skip_index);
                    lo0 = length parts - skip_index - 1;
                    lo = (if last parts = [] then lo0 - 1 else lo0)
                in if (hd parts = [] \<and> hi \<noteq> 0) \<or> (last parts = [] \<and> lo \<noteq> 0) \<or> 8 \<le> hi + lo then None
                   else (case parse_hextets 0 (take hi parts) of
                           None \<Rightarrow> None
                         | Some high \<Rightarrow>
                             parse_hextets (high * 65536 ^ (8 - (hi + lo)))
                               (drop (length parts - lo) parts)))
           | _ \<Rightarrow> None))"

definition v6_address :: "string \<Rightarrow> ip option" where
  "v6_address s =
     (if CHR ''/'' \<in> set s then None
      else if CHR ''%'' \<notin> set s then map_option (\<lambda>n. V6 n None) (parse_v6 s)
      else (let addr = takeWhile (\<lambda>c. c \<noteq> CHR ''%'') s; scope = tl (dropWhile (\<lambda>c. c \<noteq> CHR ''%'') s)
            in if scope = [] \<or> CHR ''%'' \<in> set scope then None
               else map_option (\<lambda>n. V6 n (Some scope)) (parse_v6 addr)))"

definition ip_address :: "string \<Rightarrow> ip option" where
  "ip_address s = (case (if CHR ''/'' \<in> set s then None else parse_v4 s) of
     Some n \<Rightarrow> Some (V4 n) | None \<Rightarrow> v6_address s)"

section \<open>Networks\<close>

text \<open>A network is its address family, the address with the host bits, and the prefix length.\<close>

datatype ip_net = Net4 nat nat | Net6 nat nat

definition prefix_string :: "nat \<Rightarrow> string \<Rightarrow> nat option" where
  "prefix_string max_len s =
     (if all_digits s \<and> digits_val 0 s \<le> max_len then Some (digits_val 0 s) else None)"

text \<open>A dotted mask: a netmask (ones then zeros) or, failing that, a hostmask.\<close>

definition mask_prefix :: "nat \<Rightarrow> nat option" where
  "mask_prefix n = find (\<lambda>p. n = (2 ^ p - 1) * 2 ^ (32 - p)) [0..<33]"

definition prefix_from_ip :: "string \<Rightarrow> nat option" where
  "prefix_from_ip s =
     (case parse_v4 s of
        None \<Rightarrow> None
      | Some n \<Rightarrow> (case mask_prefix n of Some p \<Rightarrow> Some p | None \<Rightarrow> mask_prefix (2 ^ 32 - 1 - n)))"

definition v4_network :: "string \<Rightarrow> ip_net option" where
  "v4_network s =
     (case split_on CHR ''/'' s of
        [a] \<Rightarrow> map_option (\<lambda>n. Net4 n 32) (parse_v4 a)
      | [a, m] \<Rightarrow>
          (case parse_v4 a of
             None \<Rightarrow> None
           | Some n \<Rightarrow>
               (case (case prefix_string 32 m of Some p \<Rightarrow> Some p | None \<Rightarrow> prefix_from_ip m) of
                  None \<Rightarrow> None | Some p \<Rightarrow> Some (Net4 n p)))
      | _ \<Rightarrow> None)"

definition v6_network :: "string \<Rightarrow> ip_net option" where
  "v6_network s =
     (case split_on CHR ''/'' s of
        [a] \<Rightarrow> (case v6_address a of Some (V6 n _) \<Rightarrow> Some (Net6 n 128) | _ \<Rightarrow> None)
      | [a, m] \<Rightarrow>
          (case v6_address a of
             Some (V6 n _) \<Rightarrow> map_option (Net6 n) (prefix_string 128 m)
           | _ \<Rightarrow> None)
      | _ \<Rightarrow> None)"

definition ip_network :: "string \<Rightarrow> ip_net option" where
  "ip_network s = (case v4_network s of Some n \<Rightarrow> Some n | None \<Rightarrow> v6_network s)"

fun ip_in :: "ip \<Rightarrow> ip_net \<Rightarrow> bool" where
  "ip_in (V4 a) (Net4 n p) = (a div 2 ^ (32 - p) = n div 2 ^ (32 - p))"
| "ip_in (V6 a _) (Net6 n p) = (a div 2 ^ (128 - p) = n div 2 ^ (128 - p))"
| "ip_in _ _ = False"

section \<open>Text of an address\<close>

definition str_v4 :: "nat \<Rightarrow> string" where
  "str_v4 n = join ''.'' (map str_nat
     [n div 16777216, n div 65536 mod 256, n div 256 mod 256, n mod 256])"

definition hextets :: "nat \<Rightarrow> string list" where
  "hextets n = map (\<lambda>i. hex_str (n div 65536 ^ (7 - i) mod 65536)) [0..<8]"

text \<open>The first longest run of zeros: start and length. The loop carries the best run and the
  current one.\<close>

fun zero_run :: "nat \<Rightarrow> nat \<times> nat \<Rightarrow> nat option \<times> nat \<Rightarrow> string list \<Rightarrow> nat \<times> nat" where
  "zero_run i best cur [] = best"
| "zero_run i best cur (h # hs) =
     (if h = ''0'' then
        (let start = (case fst cur of None \<Rightarrow> i | Some k \<Rightarrow> k); len = Suc (snd cur);
             best' = (if snd best < len then (start, len) else best)
         in zero_run (Suc i) best' (Some start, len) hs)
      else zero_run (Suc i) best (None, 0) hs)"

definition compress_hextets :: "string list \<Rightarrow> string list" where
  "compress_hextets hs =
     (let (start, len) = zero_run 0 (0, 0) (None, 0) hs
      in if len \<le> 1 then hs
         else (if start = 0 then [[]] else []) @ take start hs @ [[]] @ drop (start + len) hs
              @ (if start + len = length hs then [[]] else []))"

fun str_ip :: "ip \<Rightarrow> string" where
  "str_ip (V4 n) = str_v4 n"
| "str_ip (V6 n scope) =
     join '':'' (compress_hextets (hextets n)) @ (case scope of None \<Rightarrow> [] | Some s \<Rightarrow> ''%'' @ s)"

end
