(* ===== verification/Url.thy ===== *)
theory Url
  imports Ip
begin

text \<open>
  The part of \<open>urllib.parse\<close> that the code uses: \<open>urlsplit\<close> with the derived parts of the network
  location, \<open>urlunsplit\<close> for hierarchical URLs and \<open>parse_qs\<close>. A ValueError is the value \<open>None\<close>.
\<close>

record url =
  url_scheme :: string
  url_netloc :: string
  url_path :: string
  url_query :: string
  url_fragment :: string

text \<open>\<open>s.partition(d)\<close> and \<open>s.rpartition(d)\<close> with \<open>None\<close> when the separator is missing.\<close>

definition cut :: "char \<Rightarrow> string \<Rightarrow> (string \<times> string) option" where
  "cut d s = (if d \<in> set s
     then Some (takeWhile (\<lambda>c. c \<noteq> d) s, tl (dropWhile (\<lambda>c. c \<noteq> d) s)) else None)"

definition rcut :: "char \<Rightarrow> string \<Rightarrow> (string \<times> string) option" where
  "rcut d s = map_option (\<lambda>(a, b). (rev b, rev a)) (cut d (rev s))"

definition scheme_char :: "char \<Rightarrow> bool" where
  "scheme_char c \<longleftrightarrow> is_alnum c \<or> c \<in> set ''+-.''"

definition c0_or_space :: "char \<Rightarrow> bool" where
  "c0_or_space c \<longleftrightarrow> code c \<le> 32"

definition unsafe_url_char :: "char \<Rightarrow> bool" where
  "unsafe_url_char c \<longleftrightarrow> code c = 9 \<or> code c = 10 \<or> code c = 13"

definition ipvfuture_ok :: "string \<Rightarrow> bool" where
  "ipvfuture_ok h = (case cut CHR ''.'' (tl h) of
     None \<Rightarrow> False
   | Some (v, rest) \<Rightarrow> v \<noteq> [] \<and> list_all is_hex v \<and> rest \<noteq> [] \<and> CHR 0x0a \<notin> set rest)"

definition bracketed_ok :: "string \<Rightarrow> bool" where
  "bracketed_ok h =
     (if starts_with ''v'' h then ipvfuture_ok h
      else (case ip_address h of Some (V6 _ _) \<Rightarrow> True | _ \<Rightarrow> False))"

definition netloc_ok :: "string \<Rightarrow> bool" where
  "netloc_ok n =
     (if CHR ''['' \<in> set n \<and> CHR '']'' \<in> set n then
        (case cut CHR ''['' n of
           None \<Rightarrow> False
         | Some (_, rest) \<Rightarrow> bracketed_ok (takeWhile (\<lambda>c. c \<noteq> CHR '']'') rest))
      else CHR ''['' \<notin> set n \<and> CHR '']'' \<notin> set n)"

definition urlsplit :: "string \<Rightarrow> url option" where
  "urlsplit raw =
     (let u = filter (\<lambda>c. \<not> unsafe_url_char c) (dropWhile c0_or_space raw);
          (sch, u1) = (case cut CHR '':'' u of
              None \<Rightarrow> ([], u)
            | Some (p, rest) \<Rightarrow>
                if p \<noteq> [] \<and> is_alpha (hd p) \<and> list_all scheme_char p then (lower p, rest) else ([], u));
          (net, u2) = (if starts_with ''//'' u1
              then (takeWhile (\<lambda>c. c \<notin> set ''/?#'') (drop 2 u1), dropWhile (\<lambda>c. c \<notin> set ''/?#'') (drop 2 u1))
              else ([], u1))
      in if \<not> netloc_ok net then None
         else (let (u3, frag) = (case cut CHR ''#'' u2 of None \<Rightarrow> (u2, []) | Some p \<Rightarrow> p);
                   (pth, qry) = (case cut CHR ''?'' u3 of None \<Rightarrow> (u3, []) | Some p \<Rightarrow> p)
               in Some \<lparr>url_scheme = sch, url_netloc = net, url_path = pth, url_query = qry, url_fragment = frag\<rparr>))"

section \<open>The network location\<close>

definition url_userinfo :: "url \<Rightarrow> string option \<times> string option" where
  "url_userinfo u = (case rcut CHR ''@'' (url_netloc u) of
     None \<Rightarrow> (None, None)
   | Some (info, _) \<Rightarrow>
       (case cut CHR '':'' info of None \<Rightarrow> (Some info, None) | Some (n, p) \<Rightarrow> (Some n, Some p)))"

definition url_username :: "url \<Rightarrow> string option" where
  "url_username u = fst (url_userinfo u)"

definition url_password :: "url \<Rightarrow> string option" where
  "url_password u = snd (url_userinfo u)"

definition before_colon :: "string \<Rightarrow> string \<times> string" where
  "before_colon s = (case cut CHR '':'' s of None \<Rightarrow> (s, []) | Some p \<Rightarrow> p)"

text \<open>Host and port text; an empty port is no port.\<close>

definition url_hostinfo :: "url \<Rightarrow> string \<times> string" where
  "url_hostinfo u =
     (let info = (case rcut CHR ''@'' (url_netloc u) of None \<Rightarrow> url_netloc u | Some (_, h) \<Rightarrow> h)
      in (case cut CHR ''['' info of
            None \<Rightarrow> before_colon info
          | Some (_, bracketed) \<Rightarrow>
              (let (host, rest) = (case cut CHR '']'' bracketed of None \<Rightarrow> (bracketed, []) | Some p \<Rightarrow> p)
               in (host, snd (before_colon rest)))))"

definition url_hostname :: "url \<Rightarrow> string option" where
  "url_hostname u =
     (let h = fst (url_hostinfo u)
      in if h = [] then None
         else (case cut CHR ''%'' h of
                 None \<Rightarrow> Some (lower h) | Some (a, zone) \<Rightarrow> Some (lower a @ ''%'' @ zone)))"

text \<open>\<open>url.port\<close>: \<open>None\<close> is the ValueError, \<open>Some None\<close> a URL without port.\<close>

definition url_port :: "url \<Rightarrow> nat option option" where
  "url_port u =
     (let p = snd (url_hostinfo u)
      in if p = [] then Some None
         else if \<not> list_all is_digit p \<or> 65535 < digits_val 0 p then None
         else Some (Some (digits_val 0 p)))"

section \<open>Building and querying\<close>

text \<open>\<open>urlunsplit\<close> for a scheme and network location that are not empty.\<close>

definition urlunsplit :: "string \<Rightarrow> string \<Rightarrow> string \<Rightarrow> string \<Rightarrow> string" where
  "urlunsplit sch net pth qry =
     sch @ ''://'' @ net
       @ (if pth \<noteq> [] \<and> hd pth \<noteq> CHR ''/'' then CHR ''/'' # pth else pth)
       @ (if qry = [] then [] else CHR ''?'' # qry)"

definition hex_pair :: "char \<Rightarrow> char \<Rightarrow> char" where
  "hex_pair a b = chr (16 * hex_value a + hex_value b)"

fun unquote_bytes :: "string \<Rightarrow> string" where
  "unquote_bytes [] = []"
| "unquote_bytes [c] = utf8_char c"
| "unquote_bytes [c, d] = utf8_char c @ unquote_bytes [d]"
| "unquote_bytes (c # a # b # s) =
     (if c = CHR ''%'' \<and> is_hex a \<and> is_hex b then hex_pair a b # unquote_bytes s
      else utf8_char c @ unquote_bytes (a # b # s))"

text \<open>Decoding of the bytes with replacement: what has no Latin-1 character becomes the substitute
  character.\<close>

fun decode_replace :: "string \<Rightarrow> string" where
  "decode_replace [] = []"
| "decode_replace [c] = (if code c < 128 then [c] else [CHR 0x1a])"
| "decode_replace (c # d # s) =
     (if code c < 128 then c # decode_replace (d # s)
      else if (code c = 194 \<or> code c = 195) \<and> 128 \<le> code d \<and> code d < 192
      then chr ((code c - 192) * 64 + (code d - 128)) # decode_replace s
      else CHR 0x1a # decode_replace (d # s))"

definition unquote_plus :: "string \<Rightarrow> string" where
  "unquote_plus s = decode_replace (unquote_bytes (map (\<lambda>c. if c = CHR ''+'' then CHR '' '' else c) s))"

text \<open>\<open>parse_qs\<close> as its list of pairs; \<open>query_first k\<close> is \<open>parse_qs(q).get(k)[0]\<close>.\<close>

definition parse_qsl :: "string \<Rightarrow> (string \<times> string) list" where
  "parse_qsl q = concat (map (\<lambda>field.
     (case cut CHR ''='' field of
        None \<Rightarrow> []
      | Some (n, v) \<Rightarrow> if v = [] then [] else [(unquote_plus n, unquote_plus v)]))
     (split_on CHR ''&'' q))"

definition query_first :: "string \<Rightarrow> string \<Rightarrow> string option" where
  "query_first k q = map_of (parse_qsl q) k"

end
