(* ===== verification/Request_Policy.thy ===== *)
theory Request_Policy
  imports Url Security Settings
begin

text \<open>
  \<open>app/request_policy.py\<close>: the identity of a client behind trusted proxies, the same-origin and
  CSRF checks of browser requests, and the admission of requests by \<open>RequestBoundary\<close>. The
  exceptions of a handler are the values of \<open>failure\<close>: an \<open>HTTPException\<close> with its headers, or any
  other exception, which the server answers with status 500.
\<close>

datatype failure =
    Http nat string "(string \<times> string) list"
  | Crash string

abbreviation http_error :: "nat \<Rightarrow> string \<Rightarrow> failure" where
  "http_error status detail \<equiv> Http status detail []"

record request =
  req_method :: string
  req_path :: string
  req_headers :: "(string \<times> string) list"
  req_cookies :: "(string \<times> string) list"
  req_client :: "string option"

definition header :: "request \<Rightarrow> string \<Rightarrow> string option" where
  "header req name = map_of (req_headers req) name"

text \<open>A missing header and an empty one are both false.\<close>

definition header_text :: "request \<Rightarrow> string \<Rightarrow> string" where
  "header_text req name = (case header req name of None \<Rightarrow> [] | Some v \<Rightarrow> v)"

definition SAFE_METHODS :: "string list" where
  "SAFE_METHODS = [''GET'', ''HEAD'', ''OPTIONS'']"

section \<open>Client identity\<close>

text \<open>\<open>any(address in ip_network(item))\<close> over the configured items, in order: an item that does not
  parse raises, unless an earlier one matched.\<close>

fun any_network :: "ip \<Rightarrow> string list \<Rightarrow> bool option" where
  "any_network a [] = Some False"
| "any_network a (item # items) =
     (if strip item = [] then any_network a items
      else (case ip_network (strip item) of
              None \<Rightarrow> None
            | Some n \<Rightarrow> if ip_in a n then Some True else any_network a items))"

definition client_identity :: "request \<Rightarrow> string \<Rightarrow> string" where
  "client_identity req trusted_proxies =
     (let peer = (case req_client req of None \<Rightarrow> ''unknown'' | Some h \<Rightarrow> h)
      in (case ip_address peer of
            None \<Rightarrow> peer
          | Some address \<Rightarrow>
              (case any_network address (split_on CHR '','' trusted_proxies) of
                 None \<Rightarrow> peer
               | Some trusted \<Rightarrow>
                   if trusted \<and> header_text req ''x-real-ip'' \<noteq> [] then
                     (case ip_address (header_text req ''x-real-ip'') of
                        None \<Rightarrow> peer | Some real_ip \<Rightarrow> str_ip real_ip)
                   else peer)))"

section \<open>Origin and CSRF\<close>

definition origin_identity :: "url \<Rightarrow> (string \<times> string option \<times> nat) option" where
  "origin_identity value =
     (case url_port value of
        None \<Rightarrow> None
      | Some p \<Rightarrow>
          (let default = (if url_scheme value = ''https'' then 443 else 80)
           in Some (lower (url_scheme value), url_hostname value,
                    case p of None \<Rightarrow> default | Some n \<Rightarrow> if n = 0 then default else n)))"

definition empty_text :: "string option \<Rightarrow> bool" where
  "empty_text v \<longleftrightarrow> v = None \<or> v = Some []"

definition same_origin :: "string \<Rightarrow> url \<Rightarrow> bool" where
  "same_origin origin expected =
     (case urlsplit origin of
        None \<Rightarrow> False
      | Some observed \<Rightarrow>
          (case (origin_identity observed, origin_identity expected) of
             (Some a, Some b) \<Rightarrow>
               a = b \<and> empty_text (url_username observed) \<and> empty_text (url_password observed)
               \<and> url_query observed = [] \<and> url_fragment observed = []
               \<and> (url_path observed = [] \<or> url_path observed = ''/'')
           | _ \<Rightarrow> False))"

definition validate_browser_origin :: "request \<Rightarrow> string \<Rightarrow> failure + unit" where
  "validate_browser_origin req public_url =
     (if req_method req \<in> set SAFE_METHODS then Inr ()
      else (case urlsplit public_url of
              None \<Rightarrow> Inl (Crash ''ValueError'')
            | Some expected \<Rightarrow>
                if header req ''sec-fetch-site'' = Some ''cross-site''
                then Inl (http_error 403 ''Cross-site request denied'')
                else if header_text req ''origin'' \<noteq> [] \<and> \<not> same_origin (header_text req ''origin'') expected
                then Inl (http_error 403 ''Cross-site request denied'')
                else Inr ()))"

definition validate_csrf :: "crypto \<Rightarrow> request \<Rightarrow> string \<Rightarrow> string \<Rightarrow> failure + unit" where
  "validate_csrf C req session_key_hash public_url =
     try_bind (validate_browser_origin req public_url) (\<lambda>_.
       raise_when (req_method req \<notin> set SAFE_METHODS
           \<and> \<not> constant_time_text_equal (header_text req ''x-csrf-token'') (csrf_token C session_key_hash))
         (http_error 403 ''Refresh the session before submitting this action''))"

section \<open>Request boundary\<close>

text \<open>
  What the server receives for one request, in order; a \<open>Timeout\<close> is an expired wait, so the two
  deadlines of the code are part of the event sequence. The boundary refuses, forwards the buffered
  messages to the application, drops a disconnected request, or is still waiting.
\<close>

datatype receive = Chunk string bool | Disconnect | Timeout

datatype admission =
    Refuse nat string
  | Forward "receive list"
  | Dropped
  | Waiting

definition host_allowed :: "settings \<Rightarrow> string \<Rightarrow> bool" where
  "host_allowed cfg host_header =
     (if \<not> is_ascii host_header then False
      else (case (urlsplit (''//'' @ host_header), urlsplit (perimetr_public_url cfg)) of
              (Some h, Some p) \<Rightarrow>
                url_hostname h \<in> {url_hostname p, Some ''127.0.0.1'', Some ''localhost'', Some ''::1''}
            | _ \<Rightarrow> False))"

definition body_limit :: "settings \<Rightarrow> string \<Rightarrow> int" where
  "body_limit cfg request_path =
     (if starts_with ''/v1/backups/'' request_path \<or> starts_with ''/v1/updater/'' request_path
         \<or> request_path = ''/v1/internal/updater/restore''
      then perimetr_max_backup_upload_bytes cfg + 65536 else 16 * 1024 * 1024)"

fun buffer_body :: "int \<Rightarrow> int \<Rightarrow> receive list \<Rightarrow> receive list \<Rightarrow> admission" where
  "buffer_body limit received messages [] = Waiting"
| "buffer_body limit received messages (Timeout # events) = Refuse 408 ''Request timed out''"
| "buffer_body limit received messages (Disconnect # events) = Dropped"
| "buffer_body limit received messages (Chunk body more_body # events) =
     (let received' = received + int (length body); messages' = messages @ [Chunk body more_body]
      in if limit < received' then Refuse 413 ''Request body too large''
         else if more_body then buffer_body limit received' messages' events
         else Forward messages')"

definition request_boundary :: "settings \<Rightarrow> request \<Rightarrow> receive list \<Rightarrow> admission" where
  "request_boundary cfg req events =
     (if perimetr_env cfg = ''production'' \<and> \<not> host_allowed cfg (header_text req ''host'')
      then Refuse 404 ''Not found''
      else if req_method req \<notin> set SAFE_METHODS
      then buffer_body (body_limit cfg (req_path req)) 0 [] events
      else Forward [])"

section \<open>Properties\<close>

lemma client_identity_no_header: "header_text req ''x-real-ip'' = [] \<Longrightarrow>
    client_identity req tp = (case req_client req of None \<Rightarrow> ''unknown'' | Some h \<Rightarrow> h)"
  by (auto simp: client_identity_def Let_def split: option.splits)

text \<open>C28. No spoofing: a client whose address is in none of the trusted networks is identified by its
  own address, whatever headers it sends; a trusted proxy can only name a well-formed address.\<close>

theorem client_identity_not_spoofed:
  assumes "req_client req = Some peer"
  shows "client_identity req tp = peer \<or>
    (\<exists>a real_ip. ip_address peer = Some a \<and> any_network a (split_on CHR '','' tp) = Some True
       \<and> ip_address (header_text req ''x-real-ip'') = Some real_ip
       \<and> client_identity req tp = str_ip real_ip)"
  using assms by (auto simp: client_identity_def Let_def split: option.splits if_splits)

definition example_request :: request where
  "example_request = \<lparr>req_method = ''POST'', req_path = ''/v1/auth/direct'',
     req_headers = [(''x-real-ip'', ''203.0.113.7''), (''origin'', ''https://perimetr.example'')],
     req_cookies = [], req_client = Some ''198.51.100.9''\<rparr>"

theorem client_identity_not_spoofed_witness:
  "client_identity example_request ''127.0.0.1,::1'' = ''198.51.100.9''"
proof -
  have a: "ip_address ''198.51.100.9'' = Some (V4 3325256713)"
    by (simp add: ip_address_def parse_v4_def parse_octet_def all_digits_def is_digit_def digit_val_def)
  have n: "any_network (V4 3325256713) (split_on CHR '','' ''127.0.0.1,::1'') = Some False"
    by (simp add: ip_network_def v4_network_def v6_network_def v6_address_def parse_v4_def parse_v6_def
        v6_parts_def inner_gaps_def parse_octet_def all_digits_def is_digit_def digit_val_def
        strip_def strip_by_def rstrip_by_def lstrip_by_def is_space_def parse_hextet_def is_hex_def
        is_lower_hex_def hexs_val_def hex_value_def upt_rec)
  have "req_client example_request = Some ''198.51.100.9''" by (simp add: example_request_def)
  from client_identity_not_spoofed [OF this, of "''127.0.0.1,::1''"] a n show ?thesis
    by (elim disjE exE conjE) simp_all
qed

text \<open>C14. CSRF protection: a request with a method that changes state passes only when it carries the
  token derived from its own session, does not declare itself cross-site, and, when it has an origin,
  that origin has the scheme, host and port of the public URL.\<close>

theorem csrf_guard:
  assumes "validate_csrf C req key_hash public_url = Inr u" and "req_method req \<notin> set SAFE_METHODS"
  shows "header_text req ''x-csrf-token'' = csrf_token C key_hash
    \<and> header req ''sec-fetch-site'' \<noteq> Some ''cross-site''
    \<and> (header_text req ''origin'' = [] \<or>
       (\<exists>observed expected i. urlsplit (header_text req ''origin'') = Some observed
          \<and> urlsplit public_url = Some expected
          \<and> origin_identity observed = Some i \<and> origin_identity expected = Some i))"
  using assms
  by (auto simp: validate_csrf_def validate_browser_origin_def same_origin_def try_inv
      split: option.splits if_splits)

theorem csrf_guard_witness:
  "header_text (example_request\<lparr>req_headers := [(''x-csrf-token'', csrf_token toy_crypto [])]\<rparr>) ''x-csrf-token''
     = csrf_token toy_crypto []"
proof -
  let ?r = "example_request\<lparr>req_headers := [(''x-csrf-token'', csrf_token toy_crypto [])]\<rparr>"
  obtain v where v: "urlsplit ''https://perimetr.example'' = Some v"
    by (cases "urlsplit ''https://perimetr.example''") (code_simp, blast)
  have m: "req_method ?r \<notin> set SAFE_METHODS" by (simp add: example_request_def SAFE_METHODS_def)
  have "validate_csrf toy_crypto ?r [] ''https://perimetr.example'' = Inr ()"
    using m v
    by (simp add: validate_csrf_def validate_browser_origin_def header_text_def header_def
        raise_when_def)
  from csrf_guard [OF this m] show ?thesis by blast
qed

lemma buffer_body_bound:
  "buffer_body limit received acc events = Forward msgs \<Longrightarrow>
     \<exists>chunks. msgs = acc @ chunks \<and> chunks = take (length chunks) events
       \<and> received + (\<Sum>c\<leftarrow>chunks. case c of Chunk b m \<Rightarrow> int (length b) | _ \<Rightarrow> 0) \<le> limit"
proof (induction limit received acc events rule: buffer_body.induct)
  case (4 limit received messages body more events)
  let ?t = "received + int (length body)"
  from 4(2) have le: "\<not> limit < ?t" by (auto simp: Let_def split: if_splits)
  show ?case
  proof (cases more)
    case True
    with 4 le obtain chunks where c: "msgs = (messages @ [Chunk body more]) @ chunks"
      "chunks = take (length chunks) events"
      "?t + (\<Sum>c\<leftarrow>chunks. case c of Chunk b m \<Rightarrow> int (length b) | _ \<Rightarrow> 0) \<le> limit"
      by (auto simp: Let_def)
    then show ?thesis
      by (intro exI [of _ "Chunk body more # chunks"]) (simp add: c(2) [symmetric] algebra_simps)
  next
    case False
    with 4 le show ?thesis
      by (intro exI [of _ "[Chunk body more]"]) (auto simp: Let_def)
  qed
qed simp_all

text \<open>Bounded bodies: what reaches an endpoint is a prefix of what the client sent and its bodies
  together never exceed the limit of the path, whether the length was declared or not.\<close>

theorem forwarded_body_bounded:
  assumes "request_boundary cfg req events = Forward msgs"
  shows "msgs = take (length msgs) events
    \<and> (msgs = [] \<or> (\<Sum>c\<leftarrow>msgs. case c of Chunk b m \<Rightarrow> int (length b) | _ \<Rightarrow> 0) \<le> body_limit cfg (req_path req))"
  using assms buffer_body_bound [of "body_limit cfg (req_path req)" 0 "[]" events msgs]
  by (auto simp: request_boundary_def split: if_splits)

theorem forwarded_body_bounded_witness:
  "[Chunk ''ab'' True, Chunk ''c'' False] = take 2 [Chunk ''ab'' True, Chunk ''c'' False, Timeout]
    \<and> (\<Sum>c\<leftarrow>[Chunk ''ab'' True, Chunk ''c'' False]. case c of Chunk b m \<Rightarrow> int (length b) | _ \<Rightarrow> 0)
        \<le> body_limit default_settings ''/v1/auth/direct''"
proof -
  have "request_boundary default_settings example_request [Chunk ''ab'' True, Chunk ''c'' False, Timeout]
      = Forward [Chunk ''ab'' True, Chunk ''c'' False]"
    by (simp add: request_boundary_def default_settings_def example_request_def SAFE_METHODS_def
        body_limit_def starts_with_def)
  from forwarded_body_bounded [OF this] show ?thesis
    by (simp add: example_request_def)
qed

end
