(* ===== verification/Rate_Limiter.thy ===== *)
theory Rate_Limiter
  imports Complex_Main Text
begin

text \<open>
  \<open>LoginRateLimiter\<close> of \<open>app/security.py\<close>. The dictionary of clients keeps its insertion
  order, because a full table evicts the oldest client: an association list in that order.
  Timestamps of the monotonic clock are exact rationals instead of floats. \<open>fail\<close> raises
  StopIteration when the table is full and empty at once (\<open>max_clients = 0\<close>): the value
  \<open>None\<close>.
\<close>

record limiter =
  max_attempts :: nat
  window_seconds :: rat
  base_delay_seconds :: rat
  maximum_delay_seconds :: rat
  max_clients :: nat
  attempts_table :: "(string \<times> rat list) list"

record login_decision =
  allowed :: bool
  retry_after_seconds :: int
  delay_seconds :: rat

definition new_limiter :: limiter where
  "new_limiter = \<lparr>max_attempts = 10, window_seconds = 600, base_delay_seconds = 1/4,
     maximum_delay_seconds = 2, max_clients = 10000, attempts_table = []\<rparr>"

text \<open>The dictionary operations.\<close>

definition attempts_get :: "limiter \<Rightarrow> string \<Rightarrow> rat list option" where
  "attempts_get L k = map_of (attempts_table L) k"

definition table_set :: "string \<Rightarrow> rat list \<Rightarrow> (string \<times> rat list) list \<Rightarrow> (string \<times> rat list) list" where
  "table_set k v m = (if k \<in> fst ` set m
     then map (\<lambda>(k', v'). if k' = k then (k', v) else (k', v')) m else m @ [(k, v)])"

definition table_pop :: "string \<Rightarrow> (string \<times> rat list) list \<Rightarrow> (string \<times> rat list) list" where
  "table_pop k m = filter (\<lambda>p. fst p \<noteq> k) m"

definition trim :: "limiter \<Rightarrow> rat list \<Rightarrow> rat \<Rightarrow> rat list" where
  "trim L attempts timestamp =
     (let cutoff = timestamp - window_seconds L in dropWhile (\<lambda>a. a \<le> cutoff) attempts)"

text \<open>\<open>int(x)\<close> of a float truncates towards zero.\<close>

definition py_trunc :: "rat \<Rightarrow> int" where
  "py_trunc x = (if 0 \<le> x then \<lfloor>x\<rfloor> else \<lceil>x\<rceil>)"

definition check :: "limiter \<Rightarrow> string \<Rightarrow> rat \<Rightarrow> login_decision \<times> limiter" where
  "check L key timestamp =
     (case attempts_get L key of
        None \<Rightarrow> (\<lparr>allowed = True, retry_after_seconds = 0, delay_seconds = 0\<rparr>, L)
      | Some old \<Rightarrow>
          (case trim L old timestamp of
             [] \<Rightarrow> (\<lparr>allowed = True, retry_after_seconds = 0, delay_seconds = 0\<rparr>,
                   L\<lparr>attempts_table := table_pop key (attempts_table L)\<rparr>)
           | first # rest \<Rightarrow>
               (let attempts = first # rest;
                    L' = L\<lparr>attempts_table := table_set key attempts (attempts_table L)\<rparr>
                in if max_attempts L \<le> length attempts then
                     (let retry_after =
                            max 1 (py_trunc (window_seconds L - (timestamp - first) + 999/1000))
                      in (\<lparr>allowed = False, retry_after_seconds = retry_after, delay_seconds = 0\<rparr>, L'))
                   else
                     (let delay = min (maximum_delay_seconds L)
                                      (base_delay_seconds L * of_nat (length attempts))
                      in (\<lparr>allowed = True, retry_after_seconds = 0, delay_seconds = delay\<rparr>, L')))))"

definition fail_attempt :: "limiter \<Rightarrow> string \<Rightarrow> rat \<Rightarrow> limiter option" where
  "fail_attempt L key timestamp =
     (case attempts_get L key of
        None \<Rightarrow>
          (if max_clients L \<le> length (attempts_table L) then
             (case attempts_table L of
                [] \<Rightarrow> None
              | _ # others \<Rightarrow> Some (L\<lparr>attempts_table := table_set key [timestamp] others\<rparr>))
           else Some (L\<lparr>attempts_table := table_set key [timestamp] (attempts_table L)\<rparr>))
      | Some old \<Rightarrow>
          Some (L\<lparr>attempts_table :=
                   table_set key (trim L old timestamp @ [timestamp]) (attempts_table L)\<rparr>))"

definition success :: "limiter \<Rightarrow> string \<Rightarrow> limiter" where
  "success L key = L\<lparr>attempts_table := table_pop key (attempts_table L)\<rparr>"

section \<open>The dictionary\<close>

lemma keys_table_set: "map fst (table_set k v m) =
    (if k \<in> fst ` set m then map fst m else map fst m @ [k])"
  by (simp add: table_set_def comp_def split_def if_distrib cong: if_cong)

lemma keys_table_pop: "map fst (table_pop k m) = filter (\<lambda>k'. k' \<noteq> k) (map fst m)"
  by (simp add: table_pop_def filter_map comp_def)

lemma map_of_replace:
  "map_of (map (\<lambda>(k', v'). if k' = k then (k', v) else (k', v')) m) x =
     (if x = k \<and> k \<in> fst ` set m then Some v else map_of m x)"
proof (induction m)
  case (Cons p m)
  then show ?case by (cases p; cases "x = k"; cases "fst p = k") simp_all
qed simp

lemma map_of_table_set: "map_of (table_set k v m) = (map_of m)(k \<mapsto> v)"
proof (cases "k \<in> fst ` set m")
  case True
  then show ?thesis by (simp add: table_set_def map_of_replace fun_eq_iff)
next
  case False
  then have "map_of m k = None" by (simp add: map_of_eq_None_iff)
  with False show ?thesis by (auto simp: table_set_def fun_eq_iff map_add_def split: option.splits)
qed

lemma map_of_table_pop: "map_of (table_pop k m) = (map_of m)(k := None)"
  by (induction m) (auto simp: table_pop_def fun_eq_iff)

lemma length_table_set:
  "length (table_set k v m) = (if k \<in> fst ` set m then length m else Suc (length m))"
  by (simp add: table_set_def)

lemma length_table_pop: "length (table_pop k m) \<le> length m"
  by (simp add: table_pop_def)

lemma check_params:
  "max_attempts (snd (check L k t)) = max_attempts L"
  "window_seconds (snd (check L k t)) = window_seconds L"
  "max_clients (snd (check L k t)) = max_clients L"
  by (auto simp: check_def Let_def split: option.splits list.splits)

lemma fail_params:
  "fail_attempt L k t = Some L' \<Longrightarrow> max_attempts L' = max_attempts L
     \<and> window_seconds L' = window_seconds L \<and> max_clients L' = max_clients L"
  by (auto simp: fail_attempt_def split: option.splits list.splits if_splits)

lemma success_params:
  "max_attempts (success L k) = max_attempts L"
  "window_seconds (success L k) = window_seconds L"
  "max_clients (success L k) = max_clients L"
  by (simp_all add: success_def)

section \<open>Runs\<close>

datatype limiter_event = Check string rat | Fail string rat | Success string

fun limiter_step :: "limiter \<Rightarrow> limiter_event \<Rightarrow> limiter option" where
  "limiter_step L (Check k t) = Some (snd (check L k t))"
| "limiter_step L (Fail k t) = fail_attempt L k t"
| "limiter_step L (Success k) = Some (success L k)"

fun limiter_run :: "limiter \<Rightarrow> limiter_event list \<Rightarrow> limiter option" where
  "limiter_run L [] = Some L"
| "limiter_run L (e # es) =
     (case limiter_step L e of None \<Rightarrow> None | Some L' \<Rightarrow> limiter_run L' es)"

definition table_ok :: "limiter \<Rightarrow> bool" where
  "table_ok L \<longleftrightarrow> distinct (map fst (attempts_table L)) \<and> length (attempts_table L) \<le> max_clients L
     \<and> 0 < max_clients L"

lemma check_table_ok: "table_ok L \<Longrightarrow> table_ok (snd (check L k t))"
proof -
  assume a: "table_ok L"
  have "attempts_get L k = Some v \<Longrightarrow> k \<in> fst ` set (attempts_table L)" for v
    by (force simp: attempts_get_def dest: map_of_SomeD)
  with a show ?thesis
    using length_table_pop [of k "attempts_table L"]
    by (auto simp: table_ok_def check_def Let_def keys_table_set keys_table_pop length_table_set
        split: option.splits list.splits)
qed

lemma success_table_ok: "table_ok L \<Longrightarrow> table_ok (success L k)"
  using length_table_pop [of k "attempts_table L"]
  by (auto simp: table_ok_def success_def keys_table_pop)

lemma fail_table_ok:
  assumes "table_ok L"
  shows "\<exists>L'. fail_attempt L k t = Some L' \<and> table_ok L'"
proof (cases "attempts_get L k")
  case None
  then have k: "k \<notin> fst ` set (attempts_table L)"
    by (simp add: attempts_get_def map_of_eq_None_iff)
  show ?thesis
  proof (cases "max_clients L \<le> length (attempts_table L)")
    case True
    with assms obtain p others where o: "attempts_table L = p # others"
      by (cases "attempts_table L") (auto simp: table_ok_def)
    with None True k assms show ?thesis
      by (auto simp: fail_attempt_def table_ok_def keys_table_set length_table_set)
  next
    case False
    with None k assms show ?thesis
      by (auto simp: fail_attempt_def table_ok_def keys_table_set length_table_set)
  qed
next
  case (Some old)
  then have "k \<in> fst ` set (attempts_table L)"
    by (force simp: attempts_get_def dest: map_of_SomeD)
  with Some assms show ?thesis
    by (auto simp: fail_attempt_def table_ok_def keys_table_set length_table_set)
qed

lemma step_table_ok:
  assumes "table_ok L"
  shows "\<exists>L'. limiter_step L e = Some L' \<and> table_ok L'"
  using assms by (cases e) (auto simp: check_table_ok success_table_ok fail_table_ok)

lemma run_table_ok: "table_ok L \<Longrightarrow> \<exists>L'. limiter_run L es = Some L' \<and> table_ok L'"
proof (induction es arbitrary: L)
  case (Cons e es)
  from step_table_ok [OF Cons.prems, of e] obtain L1 where "limiter_step L e = Some L1" "table_ok L1"
    by blast
  with Cons.IH [of L1] show ?case by simp
qed simp

lemma run_params:
  "limiter_run L es = Some L' \<Longrightarrow> max_attempts L' = max_attempts L
     \<and> window_seconds L' = window_seconds L \<and> max_clients L' = max_clients L"
proof (induction es arbitrary: L)
  case (Cons e es)
  then obtain L1 where s: "limiter_step L e = Some L1" and r: "limiter_run L1 es = Some L'"
    by (auto split: option.splits)
  have "max_attempts L1 = max_attempts L \<and> window_seconds L1 = window_seconds L
      \<and> max_clients L1 = max_clients L"
    using s by (cases e) (auto simp: check_params success_params dest: fail_params)
  with Cons.IH [OF r] show ?case by simp
qed simp

lemma table_ok_new: "table_ok new_limiter"
  by (simp add: table_ok_def new_limiter_def)

text \<open>C32. The limiter never raises and never tracks more than its bound of clients, whatever
  sequence of checks, failures and successes it sees, at whatever times.\<close>

theorem limiter_memory_bounded:
  "\<exists>L. limiter_run new_limiter es = Some L \<and> length (attempts_table L) \<le> 10000
     \<and> distinct (map fst (attempts_table L))"
proof -
  obtain L where r: "limiter_run new_limiter es = Some L" and ok: "table_ok L"
    using run_table_ok [OF table_ok_new] by blast
  from run_params [OF r] have "max_clients L = 10000" by (simp add: new_limiter_def)
  with r ok show ?thesis by (simp add: table_ok_def)
qed

section \<open>What the limiter decides\<close>

text \<open>
  The abstract specification: the failures of a client since its last success, oldest first.
  The decision depends on those inside the window only.
\<close>

fun history_step :: "string \<Rightarrow> rat list \<Rightarrow> limiter_event \<Rightarrow> rat list" where
  "history_step k acc (Check k' t) = acc"
| "history_step k acc (Fail k' t) = (if k' = k then acc @ [t] else acc)"
| "history_step k acc (Success k') = (if k' = k then [] else acc)"

definition history :: "string \<Rightarrow> limiter_event list \<Rightarrow> rat list" where
  "history k es = foldl (history_step k) [] es"

definition recent :: "rat \<Rightarrow> rat \<Rightarrow> rat list \<Rightarrow> rat list" where
  "recent w now ts = filter (\<lambda>t. now - w < t) ts"

definition decide :: "limiter \<Rightarrow> rat list \<Rightarrow> rat \<Rightarrow> login_decision" where
  "decide L fails now =
     (case recent (window_seconds L) now fails of
        [] \<Rightarrow> \<lparr>allowed = True, retry_after_seconds = 0, delay_seconds = 0\<rparr>
      | oldest # rest \<Rightarrow>
          if max_attempts L \<le> Suc (length rest)
          then \<lparr>allowed = False, retry_after_seconds =
                  max 1 (py_trunc (window_seconds L - (now - oldest) + 999/1000)), delay_seconds = 0\<rparr>
          else \<lparr>allowed = True, retry_after_seconds = 0, delay_seconds =
                  min (maximum_delay_seconds L) (base_delay_seconds L * of_nat (Suc (length rest)))\<rparr>)"

fun event_times :: "limiter_event list \<Rightarrow> rat list" where
  "event_times [] = []"
| "event_times (Check k t # es) = t # event_times es"
| "event_times (Fail k t # es) = t # event_times es"
| "event_times (Success k # es) = event_times es"

fun failing_clients :: "limiter_event list \<Rightarrow> string set" where
  "failing_clients [] = {}"
| "failing_clients (Fail k t # es) = insert k (failing_clients es)"
| "failing_clients (Check k t # es) = failing_clients es"
| "failing_clients (Success k # es) = failing_clients es"

lemma finite_failing_clients [simp]: "finite (failing_clients es)"
  by (induction es rule: failing_clients.induct) auto

lemma failing_clients_append: "failing_clients (xs @ ys) = failing_clients xs \<union> failing_clients ys"
  by (induction xs rule: failing_clients.induct) auto

definition stored_fails :: "limiter \<Rightarrow> string \<Rightarrow> rat list" where
  "stored_fails L k = (case attempts_get L k of None \<Rightarrow> [] | Some v \<Rightarrow> v)"

definition tracks :: "limiter \<Rightarrow> limiter_event list \<Rightarrow> rat \<Rightarrow> bool" where
  "tracks L es T \<longleftrightarrow> distinct (map fst (attempts_table L))
     \<and> fst ` set (attempts_table L) \<subseteq> failing_clients es
     \<and> (\<forall>k. recent (window_seconds L) T (stored_fails L k) = recent (window_seconds L) T (history k es))
     \<and> (\<forall>k. sorted (stored_fails L k))
     \<and> (\<forall>k. \<forall>x \<in> set (stored_fails L k). x \<le> T)"

lemma recent_mono:
  assumes "recent w T xs = recent w T ys" and "T \<le> T'"
  shows "recent w T' xs = recent w T' ys"
proof -
  have "recent w T' zs = recent w T' (recent w T zs)" for zs
    using assms(2) by (induction zs) (auto simp: recent_def)
  with assms(1) show ?thesis by metis
qed

lemma tracks_mono: "tracks L es T \<Longrightarrow> T \<le> T' \<Longrightarrow> tracks L es T'"
  unfolding tracks_def by (meson order_trans recent_mono)

lemma trim_recent: "sorted xs \<Longrightarrow> trim L xs t = recent (window_seconds L) t xs"
  by (simp add: trim_def Let_def recent_def dropWhile_eq_filter_if_mono not_le)

lemma stored_fails_sorted: "tracks L es T \<Longrightarrow> attempts_get L k = Some v \<Longrightarrow> sorted v"
  by (metis tracks_def stored_fails_def option.case(2))

lemma recent_recent [simp]: "recent w t (recent w t xs) = recent w t xs"
  by (simp add: recent_def)

lemma recent_append: "recent w t (xs @ ys) = recent w t xs @ recent w t ys"
  by (simp add: recent_def)

lemma recent_subset: "x \<in> set (recent w t xs) \<Longrightarrow> x \<in> set xs"
  by (simp add: recent_def)

lemma recent_sorted: "sorted xs \<Longrightarrow> sorted (recent w t xs)"
  by (simp add: recent_def sorted_wrt_filter)

lemma tracks_recent:
  assumes "tracks L es t"
  shows "sorted (recent (window_seconds L) t (history k es))"
    and "x \<in> set (recent (window_seconds L) t (history k es)) \<Longrightarrow> x \<le> t"
proof -
  have e: "recent (window_seconds L) t (history k es) = recent (window_seconds L) t (stored_fails L k)"
    and "sorted (stored_fails L k)" and "\<forall>x \<in> set (stored_fails L k). x \<le> t"
    using assms by (auto simp: tracks_def)
  then show "sorted (recent (window_seconds L) t (history k es))"
    and "x \<in> set (recent (window_seconds L) t (history k es)) \<Longrightarrow> x \<le> t"
    by (auto simp: recent_sorted dest: recent_subset)
qed

lemma check_is_decide:
  assumes "tracks L es T" and "T \<le> t"
  shows "fst (check L k t) = decide L (history k es) t"
proof -
  have r: "recent (window_seconds L) t (stored_fails L k) = recent (window_seconds L) t (history k es)"
    using tracks_mono [OF assms] by (simp add: tracks_def)
  show ?thesis
  proof (cases "attempts_get L k")
    case None
    with r have "recent (window_seconds L) t (history k es) = []"
      by (simp add: stored_fails_def recent_def)
    with None show ?thesis by (simp add: check_def decide_def)
  next
    case (Some v)
    then have "trim L v t = recent (window_seconds L) t (history k es)"
      using r trim_recent [OF stored_fails_sorted [OF assms(1) Some]] by (simp add: stored_fails_def)
    with Some show ?thesis
      by (auto simp: check_def decide_def Let_def split: list.splits)
  qed
qed

lemma stored_fails_check:
  assumes "tracks L es T"
  shows "stored_fails (snd (check L k t)) k' =
    (if k' = k then recent (window_seconds L) t (stored_fails L k) else stored_fails L k')"
proof (cases "attempts_get L k")
  case None
  then show ?thesis by (simp add: check_def stored_fails_def recent_def)
next
  case (Some v)
  with trim_recent [OF stored_fails_sorted [OF assms Some], of L t]
  have "trim L v t = recent (window_seconds L) t (stored_fails L k)" by (simp add: stored_fails_def)
  with Some show ?thesis
    by (auto simp: check_def Let_def stored_fails_def attempts_get_def map_of_table_set map_of_table_pop
        split: list.splits)
qed

lemma keys_table_set_present:
  "map_of m k = Some v \<Longrightarrow> fst ` set (table_set k v' m) = fst ` set m"
  using arg_cong [OF keys_table_set [of k v' m], of set]
  by (force dest: map_of_SomeD split: if_splits)

lemma keys_check: "fst ` set (attempts_table (snd (check L k t))) \<subseteq> fst ` set (attempts_table L)"
proof (cases "attempts_get L k")
  case (Some v)
  then have "fst ` set (table_set k v' (attempts_table L)) = fst ` set (attempts_table L)" for v'
    using keys_table_set_present by (simp add: attempts_get_def)
  with Some show ?thesis
    by (auto simp: check_def Let_def table_pop_def split: list.splits)
qed (simp add: check_def)

lemma tracks_check:
  assumes "tracks L es T" and "T \<le> t"
  shows "tracks (snd (check L k t)) (es @ [Check k t]) t"
proof -
  have t: "tracks L es t" using tracks_mono assms by blast
  have d: "distinct (map fst (attempts_table (snd (check L k t))))"
    using t by (auto simp: tracks_def check_def Let_def keys_table_set keys_table_pop
        split: option.splits list.splits)
  have h: "history k' (es @ [Check k t]) = history k' es" for k' by (simp add: history_def)
  have "fst ` set (attempts_table (snd (check L k t))) \<subseteq> failing_clients es"
    using keys_check [of L k t] t by (auto simp: tracks_def)
  then show ?thesis
    using t d tracks_recent [OF t]
    unfolding tracks_def check_params stored_fails_check [OF t] h failing_clients_append
    by (auto split: if_splits)
qed

lemma tracks_success:
  assumes "tracks L es T"
  shows "tracks (success L k) (es @ [Success k]) T"
proof -
  have "stored_fails (success L k) k' = (if k' = k then [] else stored_fails L k')" for k'
    by (simp add: stored_fails_def attempts_get_def success_def map_of_table_pop)
  moreover have "fst ` set (attempts_table (success L k)) \<subseteq> fst ` set (attempts_table L)"
    by (auto simp: success_def table_pop_def)
  ultimately show ?thesis
    using assms by (auto simp: tracks_def success_params failing_clients_append history_def
        recent_def success_def keys_table_pop)
qed

lemma tracks_fail:
  assumes "tracks L es T" and "T \<le> t" and f: "fail_attempt L k t = Some L'"
    and room: "card (failing_clients (es @ [Fail k t])) \<le> max_clients L"
  shows "tracks L' (es @ [Fail k t]) t"
proof -
  have tr: "tracks L es t" using tracks_mono assms(1,2) by blast
  have L': "L' = L\<lparr>attempts_table :=
      table_set k (recent (window_seconds L) t (stored_fails L k) @ [t]) (attempts_table L)\<rparr>"
  proof (cases "attempts_get L k")
    case None
    then have k: "k \<notin> fst ` set (attempts_table L)" by (simp add: attempts_get_def map_of_eq_None_iff)
    have "insert k (fst ` set (attempts_table L)) \<subseteq> failing_clients (es @ [Fail k t])"
      using tr by (auto simp: tracks_def failing_clients_append)
    then have "card (insert k (fst ` set (attempts_table L))) \<le> card (failing_clients (es @ [Fail k t]))"
      by (intro card_mono) simp_all
    moreover have "card (insert k (fst ` set (attempts_table L))) = Suc (length (attempts_table L))"
      using k tr distinct_card [of "map fst (attempts_table L)"] by (simp add: tracks_def)
    ultimately have "\<not> max_clients L \<le> length (attempts_table L)" using room by linarith
    with None f show ?thesis
      by (simp add: fail_attempt_def stored_fails_def recent_def)
  next
    case (Some v)
    with f trim_recent [OF stored_fails_sorted [OF tr Some], of L t] show ?thesis
      by (simp add: fail_attempt_def stored_fails_def)
  qed
  have s: "stored_fails L' k' = (if k' = k then recent (window_seconds L) t (stored_fails L k) @ [t]
      else stored_fails L k')" for k'
    by (simp add: L' stored_fails_def attempts_get_def map_of_table_set)
  have w: "window_seconds L' = window_seconds L" by (simp add: L')
  have srt: "sorted (recent (window_seconds L) t (stored_fails L k) @ [t])"
    unfolding sorted_append using tracks_recent(1) [OF tr, of k] tracks_recent(2) [OF tr, of _ k] tr
    by (auto simp: tracks_def)
  have "fst ` set (attempts_table L') \<subseteq> insert k (fst ` set (attempts_table L))"
    using keys_table_set [of k _ "attempts_table L"] by (auto simp: L' table_set_def split: if_splits)
  moreover have "fst ` set (attempts_table L) \<subseteq> failing_clients es" using tr by (simp add: tracks_def)
  moreover have "failing_clients (es @ [Fail k t]) = insert k (failing_clients es)"
    by (simp add: failing_clients_append)
  ultimately have "fst ` set (attempts_table L') \<subseteq> failing_clients (es @ [Fail k t])"
    by (metis insert_mono subset_trans)
  moreover have "distinct (map fst (attempts_table L'))"
    using tr by (auto simp: L' tracks_def keys_table_set)
  moreover have "history k' (es @ [Fail k t]) = (if k' = k then history k' es @ [t] else history k' es)"
    for k' by (simp add: history_def)
  ultimately show ?thesis
    using tr srt tracks_recent(2) [OF tr, of _ k] unfolding tracks_def s w
    by (auto simp: recent_append)
qed

lemma limiter_run_tracks:
  assumes "tracks L pre T" and "limiter_run L es = Some L'" and "sorted (T # event_times es)"
    and "card (failing_clients (pre @ es)) \<le> max_clients L" and "\<forall>t \<in> set (event_times es). t \<le> now" and "T \<le> now"
  shows "tracks L' (pre @ es) now"
  using assms
proof (induction es arbitrary: L pre T)
  case Nil
  then show ?case using tracks_mono by force
next
  case (Cons e es)
  then obtain L1 where s: "limiter_step L e = Some L1" and r: "limiter_run L1 es = Some L'"
    by (auto split: option.splits)
  have c: "card (failing_clients ((pre @ [e]) @ es)) \<le> max_clients L" using Cons.prems(4) by simp
  have room: "card (failing_clients (pre @ [e])) \<le> max_clients L"
  proof (rule le_trans [OF card_mono c])
    show "failing_clients (pre @ [e]) \<subseteq> failing_clients ((pre @ [e]) @ es)"
      by (simp only: failing_clients_append) blast
  qed simp
  have "\<exists>T1. tracks L1 (pre @ [e]) T1 \<and> sorted (T1 # event_times es) \<and> T1 \<le> now
      \<and> (\<forall>t \<in> set (event_times es). t \<le> now) \<and> max_clients L1 = max_clients L"
  proof (cases e)
    case (Check k t)
    with s Cons.prems show ?thesis
      by (intro exI [of _ t]) (auto simp: check_params intro: tracks_check)
  next
    case (Fail k t)
    with s Cons.prems room show ?thesis
      by (intro exI [of _ t]) (auto dest: fail_params intro: tracks_fail)
  next
    case (Success k)
    with s Cons.prems show ?thesis
      by (intro exI [of _ T]) (auto simp: success_params intro: tracks_success)
  qed
  then obtain T1 where "tracks L1 (pre @ [e]) T1" "sorted (T1 # event_times es)" "T1 \<le> now"
    "\<forall>t \<in> set (event_times es). t \<le> now" "max_clients L1 = max_clients L" by blast
  from Cons.IH [OF this(1) r this(2) _ this(4) this(3)] c this(5) show ?case by simp
qed

lemma tracks_new: "tracks new_limiter [] T"
  by (simp add: tracks_def new_limiter_def stored_fails_def attempts_get_def history_def)

lemma check_delay_params:
  "base_delay_seconds (snd (check L k t)) = base_delay_seconds L"
  "maximum_delay_seconds (snd (check L k t)) = maximum_delay_seconds L"
  by (auto simp: check_def Let_def split: option.splits list.splits)

lemma run_delay_params:
  "limiter_run L es = Some L' \<Longrightarrow> base_delay_seconds L' = base_delay_seconds L
     \<and> maximum_delay_seconds L' = maximum_delay_seconds L"
proof (induction es arbitrary: L)
  case (Cons e es)
  then obtain L1 where s: "limiter_step L e = Some L1" and r: "limiter_run L1 es = Some L'"
    by (auto split: option.splits)
  have "base_delay_seconds L1 = base_delay_seconds L \<and> maximum_delay_seconds L1 = maximum_delay_seconds L"
    using s by (cases e)
      (auto simp: check_delay_params success_def fail_attempt_def split: option.splits list.splits if_splits)
  with Cons.IH [OF r] show ?case by simp
qed simp

lemma decide_cong:
  "max_attempts L' = max_attempts L \<Longrightarrow> window_seconds L' = window_seconds L
     \<Longrightarrow> base_delay_seconds L' = base_delay_seconds L
     \<Longrightarrow> maximum_delay_seconds L' = maximum_delay_seconds L \<Longrightarrow> decide L' h t = decide L h t"
  by (simp add: decide_def split: list.splits)



text \<open>A refusal announces a delay of at least one second that is never more than 999
  milliseconds longer than the time left until the oldest counted failure leaves the window, and
  that may be shorter than it by less than one millisecond, because the code rounds up with
  \<open>int(x + 0.999)\<close>.\<close>

theorem limiter_retry_after_bounds:
  assumes "fst (check L k now) = \<lparr>allowed = False, retry_after_seconds = r, delay_seconds = d\<rparr>"
    and "attempts_get L k = Some old" and "trim L old now = oldest # rest"
  shows "1 \<le> r \<and> oldest + window_seconds L - now < of_int r + 1/1000
    \<and> of_int r \<le> max 1 (oldest + window_seconds L - now + 999/1000) \<and> d = 0"
proof -
  define x where "x = window_seconds L - (now - oldest) + 999/1000"
  have "oldest \<in> set (trim L old now)" using assms(3) by simp
  have "\<not> oldest \<le> now - window_seconds L"
    using dropWhile_eq_Cons_conv [of "\<lambda>a. a \<le> now - window_seconds L" old] assms(3)
    by (simp add: trim_def Let_def)
  then have x0: "0 \<le> x" by (simp add: x_def)
  have r: "r = max 1 (py_trunc x)" and d: "d = 0"
    using assms by (auto simp: check_def Let_def x_def split: if_splits)
  have "py_trunc x = \<lfloor>x\<rfloor>" using x0 by (simp add: py_trunc_def)
  moreover have "x < of_int \<lfloor>x\<rfloor> + 1" and "of_int \<lfloor>x\<rfloor> \<le> x" by linarith+
  ultimately have "x < of_int r + 1" and "of_int r \<le> max 1 x" and "1 \<le> r"
    by (auto simp: r max_def)
  with d show ?thesis by (auto simp: x_def max_def split: if_splits)
qed

definition blocked_limiter :: limiter where
  "blocked_limiter = new_limiter\<lparr>max_attempts := 2, attempts_table := [(''a'', [1, 2])]\<rparr>"

theorem limiter_retry_after_bounds_witness:
  "1 \<le> (599::int) \<and> 1 + window_seconds blocked_limiter - 2001/1000 < of_int 599 + 1/1000
    \<and> of_int 599 \<le> max 1 (1 + window_seconds blocked_limiter - 2001/1000 + 999/1000) \<and> (0::rat) = 0"
proof (rule limiter_retry_after_bounds)
  have "\<lfloor>299999 / 500 :: rat\<rfloor> = 599" by (rule floor_unique) simp_all
  then show "fst (check blocked_limiter ''a'' (2001/1000))
      = \<lparr>allowed = False, retry_after_seconds = 599, delay_seconds = 0\<rparr>"
    by (simp add: blocked_limiter_def new_limiter_def check_def attempts_get_def trim_def Let_def
        py_trunc_def)
  show "attempts_get blocked_limiter ''a'' = Some [1, 2]"
    by (simp add: blocked_limiter_def attempts_get_def)
  show "trim blocked_limiter [1, 2] (2001/1000) = 1 # [2]"
    by (simp add: blocked_limiter_def new_limiter_def trim_def)
qed

end
