(* ===== verification/Clock.thy ===== *)
theory Clock
  imports Text
begin

text \<open>
  Timezone-aware \<open>datetime\<close> values as integers, the microseconds since the epoch in UTC, and their
  textual forms \<open>isoformat()\<close> and \<open>str()\<close>. The calendar is the proleptic Gregorian one, computed
  from the day number with the eras of 400 years.
\<close>

definition DAY :: int where "DAY = 86400 * 1000000"
definition SECOND :: int where "SECOND = 1000000"

text \<open>\<open>timedelta(seconds=n)\<close> and \<open>timedelta(days=n)\<close>.\<close>

definition seconds :: "int \<Rightarrow> int" where "seconds n = n * SECOND"
definition days :: "int \<Rightarrow> int" where "days n = n * DAY"

text \<open>\<open>t.replace(microsecond=0)\<close>.\<close>

definition whole_second :: "int \<Rightarrow> int" where
  "whole_second t = (t div SECOND) * SECOND"

lemma whole_second_le: "whole_second t \<le> t" and whole_second_gt: "t - SECOND < whole_second t"
proof -
  have "t = whole_second t + t mod SECOND" by (simp add: whole_second_def)
  moreover have "0 \<le> t mod SECOND" "t mod SECOND < SECOND" by (simp_all add: SECOND_def)
  ultimately show "whole_second t \<le> t" and "t - SECOND < whole_second t" by linarith+
qed

definition civil :: "int \<Rightarrow> int \<times> int \<times> int" where
  "civil day =
     (let z = day + 719468; era = z div 146097; doe = z mod 146097;
          yoe = (doe - doe div 1460 + doe div 36524 - doe div 146096) div 365;
          doy = doe - (365 * yoe + yoe div 4 - yoe div 100);
          mp = (5 * doy + 2) div 153;
          d = doy - (153 * mp + 2) div 5 + 1;
          m = (if mp < 10 then mp + 3 else mp - 9)
      in (yoe + era * 400 + (if m \<le> 2 then 1 else 0), m, d))"

definition zfill :: "nat \<Rightarrow> int \<Rightarrow> string" where
  "zfill w n = (let s = str_nat (nat n) in replicate (w - length s) CHR ''0'' @ s)"

definition time_text :: "string \<Rightarrow> int \<Rightarrow> string" where
  "time_text sep t =
     (let (y, m, d) = civil (t div DAY); us = t mod DAY; s = us div SECOND; f = us mod SECOND
      in zfill 4 y @ ''-'' @ zfill 2 m @ ''-'' @ zfill 2 d @ sep
         @ zfill 2 (s div 3600) @ '':'' @ zfill 2 (s div 60 mod 60) @ '':'' @ zfill 2 (s mod 60)
         @ (if f = 0 then [] else ''.'' @ zfill 6 f) @ ''+00:00'')"

definition isoformat :: "int \<Rightarrow> string" where
  "isoformat t = time_text ''T'' t"

definition str_time :: "int \<Rightarrow> string" where
  "str_time t = time_text '' '' t"

end
