(* ===== verification/Web.thy ===== *)
theory Web
  imports Schema Request_Policy Rate_Limiter Clock
begin

text \<open>
  How a request handler runs. A handler is a function on the \<open>world\<close>: the committed database, what
  the session has written to its transaction (\<open>stored\<close>), the objects of the session (\<open>live\<close>), the
  audit events waiting for the commit, the audit file, the login limiter and the number of values
  drawn from the environment.

  The sessions of \<open>app/database.py\<close> do not autoflush: a query filters on \<open>stored\<close> and returns the
  session's version of the rows it finds, \<open>flush\<close> writes the objects and checks the constraints, and
  \<open>commit\<close> makes the transaction permanent. A handler that raises before a commit leaves no trace in
  the database, because \<open>get_db\<close> closes the session.
\<close>

section \<open>World and environment\<close>

text \<open>What the code asks the operating system for, as streams: the \<open>n\<close>-th value drawn of each kind
  is the value at \<open>n\<close>. The clock of \<open>now_utc()\<close> is in microseconds.\<close>

record env =
  cfg :: settings
  crypt :: crypto
  clock :: "nat \<Rightarrow> int"
  monotonic :: "nat \<Rightarrow> rat"
  uuid4_hex :: "nat \<Rightarrow> string"
  entity_ids :: "nat \<Rightarrow> string"
  token_urlsafe :: "nat \<Rightarrow> string"
  token_bytes :: "nat \<Rightarrow> string"

record world =
  committed :: db
  stored :: db
  live :: db
  pending_log :: "audit_event list"
  file_log :: "audit_event list"
  login_limiter :: limiter
  draws :: nat

definition initial_world :: world where
  "initial_world = \<lparr>committed = empty_db, stored = empty_db, live = empty_db, pending_log = [],
     file_log = [], login_limiter = new_limiter, draws = 0\<rparr>"

type_synonym 'a web = "world \<Rightarrow> (failure + 'a) \<times> world"

section \<open>Handlers\<close>

definition ret :: "'a \<Rightarrow> 'a web" where
  "ret a w = (Inr a, w)"

definition raiseM :: "failure \<Rightarrow> 'a web" where
  "raiseM e w = (Inl e, w)"

definition letM :: "'a web \<Rightarrow> ('a \<Rightarrow> 'b web) \<Rightarrow> 'b web" where
  "letM m f w = (case m w of (Inl e, w') \<Rightarrow> (Inl e, w') | (Inr a, w') \<Rightarrow> f a w')"

definition seqM :: "'a web \<Rightarrow> 'b web \<Rightarrow> 'b web" where
  "seqM m n = letM m (\<lambda>_. n)"

definition raise_if :: "bool \<Rightarrow> failure \<Rightarrow> unit web" where
  "raise_if b e = (if b then raiseM e else ret ())"

definition whenM :: "bool \<Rightarrow> unit web \<Rightarrow> unit web" where
  "whenM b m = (if b then m else ret ())"

definition liftM :: "failure + 'a \<Rightarrow> 'a web" where
  "liftM r = (case r of Inl e \<Rightarrow> raiseM e | Inr a \<Rightarrow> ret a)"

text \<open>\<open>try: m except HTTPException as exc: h exc\<close>. The changes of \<open>m\<close> to the session stay.\<close>

definition catch_http :: "'a web \<Rightarrow> (failure \<Rightarrow> 'a web) \<Rightarrow> 'a web" where
  "catch_http m h w = (case m w of (Inl (Http s d hs), w') \<Rightarrow> h (Http s d hs) w' | r \<Rightarrow> r)"

fun eachM :: "'a list \<Rightarrow> ('a \<Rightarrow> unit web) \<Rightarrow> unit web" where
  "eachM [] f = ret ()"
| "eachM (x # xs) f = seqM (f x) (eachM xs f)"

definition draw :: "(nat \<Rightarrow> 'a) \<Rightarrow> 'a web" where
  "draw f w = (Inr (f (draws w)), w\<lparr>draws := Suc (draws w)\<rparr>)"

definition now_utc :: "env \<Rightarrow> int web" where
  "now_utc E = draw (clock E)"

definition new_id :: "env \<Rightarrow> string web" where
  "new_id E = draw (uuid4_hex E)"

section \<open>The session\<close>

definition current :: "'r table \<Rightarrow> world \<Rightarrow> 'r \<Rightarrow> 'r" where
  "current T w r = (case lookup T (live w) (pk T r) of None \<Rightarrow> r | Some x \<Rightarrow> x)"

definition db_get :: "'r table \<Rightarrow> string \<Rightarrow> 'r option web" where
  "db_get T k w = (Inr (map_option (current T w) (lookup T (stored w) k)), w)"

definition db_all :: "'r table \<Rightarrow> ('r \<Rightarrow> bool) \<Rightarrow> 'r list web" where
  "db_all T P w = (Inr (map (current T w) (filter P (rows T (stored w)))), w)"

definition db_scalar :: "'r table \<Rightarrow> ('r \<Rightarrow> bool) \<Rightarrow> 'r option web" where
  "db_scalar T P w = (Inr (map_option (current T w) (find P (rows T (stored w)))), w)"

definition db_add :: "'r table \<Rightarrow> 'r \<Rightarrow> unit web" where
  "db_add T r w = (Inr (), w\<lparr>live := insert_row T r (live w)\<rparr>)"

text \<open>Assignments to the attributes of the object with key \<open>k\<close>.\<close>

definition db_set :: "'r table \<Rightarrow> string \<Rightarrow> ('r \<Rightarrow> 'r) \<Rightarrow> unit web" where
  "db_set T k f w = (Inr (), w\<lparr>live := modify_row T k f (live w)\<rparr>)"

definition db_delete :: "'r table \<Rightarrow> string \<Rightarrow> unit web" where
  "db_delete T k w = (Inr (), w\<lparr>live := remove_rows T (\<lambda>r. pk T r = k) (live w)\<rparr>)"

text \<open>\<open>db.execute(delete(T).where(P))\<close> runs at once in the transaction, where the foreign keys are
  checked, and removes the objects of the deleted rows from the session.\<close>

definition db_execute_delete :: "'r table \<Rightarrow> ('r \<Rightarrow> bool) \<Rightarrow> unit web" where
  "db_execute_delete T P w =
     (let gone = map (pk T) (filter P (rows T (stored w)));
          stored' = remove_rows T P (stored w);
          live' = remove_rows T (\<lambda>r. pk T r \<in> set gone) (live w)
      in if foreign_ok stored' then (Inr (), w\<lparr>stored := stored', live := live'\<rparr>)
         else (Inl (Crash ''IntegrityError''), w))"

definition flush :: "unit web" where
  "flush w = (if constraints_ok (live w) then (Inr (), w\<lparr>stored := live w\<rparr>)
     else (Inl (Crash ''IntegrityError''), w))"

definition commit :: "unit web" where
  "commit = seqM flush (\<lambda>w. (Inr (), w\<lparr>committed := stored w,
     file_log := file_log w @ pending_log w, pending_log := []\<rparr>))"

text \<open>A request runs on a fresh session; closing it drops what was not committed.\<close>

definition serve :: "'a web \<Rightarrow> world \<Rightarrow> (failure + 'a) \<times> world" where
  "serve m w =
     (let (r, w') = m (w\<lparr>stored := committed w, live := committed w, pending_log := []\<rparr>)
      in (r, w'\<lparr>stored := committed w', live := committed w', pending_log := []\<rparr>))"

text \<open>Access to the limiter, which is shared by all requests and not transactional.\<close>

definition limiter_check :: "env \<Rightarrow> string \<Rightarrow> login_decision web" where
  "limiter_check E key = letM (draw (monotonic E)) (\<lambda>t w.
     (let (d, L) = check (login_limiter w) key t in (Inr d, w\<lparr>login_limiter := L\<rparr>)))"

definition limiter_fail :: "env \<Rightarrow> string \<Rightarrow> unit web" where
  "limiter_fail E key = letM (draw (monotonic E)) (\<lambda>t w.
     (case fail_attempt (login_limiter w) key t of
        None \<Rightarrow> (Inl (Crash ''StopIteration''), w)
      | Some L \<Rightarrow> (Inr (), w\<lparr>login_limiter := L\<rparr>)))"

definition limiter_success :: "string \<Rightarrow> unit web" where
  "limiter_success key w = (Inr (), w\<lparr>login_limiter := success (login_limiter w) key\<rparr>)"

section \<open>Reasoning about handlers\<close>

text \<open>\<open>wp m Q X w\<close>: run in \<open>w\<close>, the handler returns a value and world in \<open>Q\<close> or raises with \<open>X\<close>.\<close>

definition wp :: "'a web \<Rightarrow> ('a \<Rightarrow> world \<Rightarrow> bool) \<Rightarrow> (failure \<Rightarrow> world \<Rightarrow> bool) \<Rightarrow> world \<Rightarrow> bool" where
  "wp m Q X w = (case m w of (Inl e, w') \<Rightarrow> X e w' | (Inr a, w') \<Rightarrow> Q a w')"

lemma wp_ret [web_simps]: "wp (ret a) Q X w = Q a w"
  by (simp add: wp_def ret_def)

lemma wp_raiseM [web_simps]: "wp (raiseM e) Q X w = X e w"
  by (simp add: wp_def raiseM_def)

lemma wp_letM [web_simps]: "wp (letM m f) Q X w = wp m (\<lambda>a. wp (f a) Q X) X w"
  by (auto simp: wp_def letM_def split: prod.splits sum.splits)

lemma wp_seqM [web_simps]: "wp (seqM m n) Q X w = wp m (\<lambda>_. wp n Q X) X w"
  by (simp add: seqM_def wp_letM)

lemma wp_letM_seqM: "wp (letM m (\<lambda>a. seqM (f a) n)) Q X w = wp (letM m f) (\<lambda>_. wp n Q X) X w"
  by (auto simp: wp_def letM_def seqM_def split: prod.splits sum.splits)

lemma wp_raise_if [web_simps]: "wp (raise_if b e) Q X w = (if b then X e w else Q () w)"
  by (simp add: raise_if_def web_simps)

lemma wp_whenM [web_simps]: "wp (whenM b m) Q X w = (if b then wp m Q X w else Q () w)"
  by (simp add: whenM_def web_simps)

lemma wp_liftM [web_simps]: "wp (liftM r) Q X w = (case r of Inl e \<Rightarrow> X e w | Inr a \<Rightarrow> Q a w)"
  by (cases r) (simp_all add: liftM_def web_simps)

lemma wp_catch_http [web_simps]:
  "wp (catch_http m h) Q X w =
     wp m Q (\<lambda>e w'. case e of Http s d hs \<Rightarrow> wp (h e) Q X w' | Crash c \<Rightarrow> X e w') w"
  by (auto simp: wp_def catch_http_def split: prod.splits sum.splits failure.splits)

lemma wp_draw [web_simps]: "wp (draw f) Q X w = Q (f (draws w)) (w\<lparr>draws := Suc (draws w)\<rparr>)"
  by (simp add: wp_def draw_def)

lemma wp_now_utc [web_simps]: "wp (now_utc E) Q X w = Q (clock E (draws w)) (w\<lparr>draws := Suc (draws w)\<rparr>)"
  by (simp add: now_utc_def web_simps)

lemma wp_new_id [web_simps]: "wp (new_id E) Q X w = Q (uuid4_hex E (draws w)) (w\<lparr>draws := Suc (draws w)\<rparr>)"
  by (simp add: new_id_def web_simps)

lemma wp_db_get [web_simps]:
  "wp (db_get T k) Q X w = Q (map_option (current T w) (lookup T (stored w) k)) w"
  by (simp add: wp_def db_get_def)

lemma wp_db_all [web_simps]:
  "wp (db_all T P) Q X w = Q (map (current T w) (filter P (rows T (stored w)))) w"
  by (simp add: wp_def db_all_def)

lemma wp_db_scalar [web_simps]:
  "wp (db_scalar T P) Q X w = Q (map_option (current T w) (find P (rows T (stored w)))) w"
  by (simp add: wp_def db_scalar_def)

lemma wp_db_add [web_simps]: "wp (db_add T r) Q X w = Q () (w\<lparr>live := insert_row T r (live w)\<rparr>)"
  by (simp add: wp_def db_add_def)

lemma wp_db_set [web_simps]: "wp (db_set T k f) Q X w = Q () (w\<lparr>live := modify_row T k f (live w)\<rparr>)"
  by (simp add: wp_def db_set_def)

lemma wp_db_delete [web_simps]:
  "wp (db_delete T k) Q X w = Q () (w\<lparr>live := remove_rows T (\<lambda>r. pk T r = k) (live w)\<rparr>)"
  by (simp add: wp_def db_delete_def)

lemma wp_db_execute_delete [web_simps]:
  "wp (db_execute_delete T P) Q X w =
     (if foreign_ok (remove_rows T P (stored w))
      then Q () (w\<lparr>stored := remove_rows T P (stored w),
             live := remove_rows T (\<lambda>r. pk T r \<in> set (map (pk T) (filter P (rows T (stored w))))) (live w)\<rparr>)
      else X (Crash ''IntegrityError'') w)"
  by (simp add: wp_def db_execute_delete_def Let_def)

lemma wp_flush [web_simps]:
  "wp flush Q X w = (if constraints_ok (live w) then Q () (w\<lparr>stored := live w\<rparr>)
     else X (Crash ''IntegrityError'') w)"
  by (simp add: wp_def flush_def)

lemma wp_commit [web_simps]:
  "wp commit Q X w = (if constraints_ok (live w)
     then Q () (w\<lparr>stored := live w, committed := live w, file_log := file_log w @ pending_log w,
        pending_log := []\<rparr>)
     else X (Crash ''IntegrityError'') w)"
  by (simp add: wp_def commit_def seqM_def letM_def flush_def)

lemma wp_limiter_check [web_simps]:
  "wp (limiter_check E key) Q X w =
     Q (fst (check (login_limiter w) key (monotonic E (draws w))))
       (w\<lparr>draws := Suc (draws w), login_limiter := snd (check (login_limiter w) key (monotonic E (draws w)))\<rparr>)"
  by (simp add: limiter_check_def web_simps, simp add: wp_def split: prod.splits)

lemma wp_limiter_fail [web_simps]:
  "wp (limiter_fail E key) Q X w =
     (case fail_attempt (login_limiter w) key (monotonic E (draws w)) of
        None \<Rightarrow> X (Crash ''StopIteration'') (w\<lparr>draws := Suc (draws w)\<rparr>)
      | Some L \<Rightarrow> Q () (w\<lparr>draws := Suc (draws w), login_limiter := L\<rparr>))"
  by (simp add: limiter_fail_def web_simps, simp add: wp_def split: prod.splits option.splits)

lemma wp_limiter_success [web_simps]:
  "wp (limiter_success key) Q X w = Q () (w\<lparr>login_limiter := success (login_limiter w) key\<rparr>)"
  by (simp add: wp_def limiter_success_def)

text \<open>Evaluation of everything but the queries.\<close>

lemmas wp_core = wp_ret wp_raiseM wp_letM wp_seqM wp_raise_if wp_whenM wp_liftM wp_catch_http wp_draw
  wp_now_utc wp_new_id wp_db_add wp_db_set wp_db_delete wp_flush wp_commit

lemma wp_mono: "wp m Q X w \<Longrightarrow> (\<And>a w'. Q a w' \<Longrightarrow> Q' a w') \<Longrightarrow> (\<And>e w'. X e w' \<Longrightarrow> X' e w') \<Longrightarrow> wp m Q' X' w"
  by (auto simp: wp_def split: prod.splits sum.splits)

lemma wp_if: "wp (if b then m else n) Q X w = (if b then wp m Q X w else wp n Q X w)"
  by simp

lemma wp_option: "wp (case x of None \<Rightarrow> m | Some a \<Rightarrow> f a) Q X w =
    (case x of None \<Rightarrow> wp m Q X w | Some a \<Rightarrow> wp (f a) Q X w)"
  by (cases x) simp_all

lemma wp_prod: "wp (case p of (a, b) \<Rightarrow> f a b) Q X w = (case p of (a, b) \<Rightarrow> wp (f a b) Q X w)"
  by (cases p) simp

lemmas wp_split = wp_if wp_option wp_prod

text \<open>From a run to its precondition and back.\<close>

lemma wp_success: "m w = (Inr a, w') \<Longrightarrow> wp m Q X w \<Longrightarrow> Q a w'"
  by (simp add: wp_def)

lemma wp_failure: "m w = (Inl e, w') \<Longrightarrow> wp m Q X w \<Longrightarrow> X e w'"
  by (simp add: wp_def)

lemma wp_complete: "(\<And>a w'. m w = (Inr a, w') \<Longrightarrow> Q a w') \<Longrightarrow> (\<And>e w'. m w = (Inl e, w') \<Longrightarrow> X e w') \<Longrightarrow> wp m Q X w"
  by (auto simp: wp_def split: prod.splits sum.splits)

text \<open>\<open>keeps I m\<close>: the handler preserves a property of the world, whether it returns or raises.\<close>

definition keeps :: "(world \<Rightarrow> bool) \<Rightarrow> 'a web \<Rightarrow> bool" where
  "keeps I m \<longleftrightarrow> (\<forall>w. I w \<longrightarrow> I (snd (m w)))"

lemma keeps_wp: "keeps I m \<longleftrightarrow> (\<forall>w. I w \<longrightarrow> wp m (\<lambda>_. I) (\<lambda>_. I) w)"
proof -
  have "wp m (\<lambda>_. I) (\<lambda>_. I) w = I (snd (m w))" for w
    by (cases "m w"; cases "fst (m w)") (auto simp: wp_def)
  then show ?thesis by (simp add: keeps_def)
qed

lemma keeps_ret [keeps_intros]: "keeps I (ret a)"
  by (simp add: keeps_wp web_simps)

lemma keeps_raiseM [keeps_intros]: "keeps I (raiseM e)"
  by (simp add: keeps_wp web_simps)

lemma keeps_letM [keeps_intros]: "keeps I m \<Longrightarrow> (\<And>a. keeps I (f a)) \<Longrightarrow> keeps I (letM m f)"
  unfolding keeps_wp wp_letM by (blast intro: wp_mono)

lemma keeps_seqM [keeps_intros]: "keeps I m \<Longrightarrow> keeps I n \<Longrightarrow> keeps I (seqM m n)"
  unfolding seqM_def by (rule keeps_letM)

lemma keeps_raise_if [keeps_intros]: "keeps I (raise_if b e)"
  by (simp add: keeps_wp web_simps)

lemma keeps_whenM [keeps_intros]: "(b \<Longrightarrow> keeps I m) \<Longrightarrow> keeps I (whenM b m)"
  by (simp add: keeps_wp web_simps)

lemma keeps_liftM [keeps_intros]: "keeps I (liftM r)"
  by (simp add: keeps_wp web_simps split: sum.splits)

lemma keeps_catch_http [keeps_intros]: "keeps I m \<Longrightarrow> (\<And>e. keeps I (h e)) \<Longrightarrow> keeps I (catch_http m h)"
  unfolding keeps_wp wp_catch_http by (auto elim!: wp_mono split: failure.splits)

lemma keeps_if [keeps_intros]: "(b \<Longrightarrow> keeps I m) \<Longrightarrow> (\<not> b \<Longrightarrow> keeps I n) \<Longrightarrow> keeps I (if b then m else n)"
  by simp

lemma keeps_option [keeps_intros]:
  "(x = None \<Longrightarrow> keeps I m) \<Longrightarrow> (\<And>a. x = Some a \<Longrightarrow> keeps I (f a)) \<Longrightarrow>
     keeps I (case x of None \<Rightarrow> m | Some a \<Rightarrow> f a)"
  by (cases x) simp_all

lemma keeps_prod [keeps_intros]: "(\<And>a b. keeps I (f a b)) \<Longrightarrow> keeps I (case p of (a, b) \<Rightarrow> f a b)"
  by (cases p) simp

lemma keeps_eachM [keeps_intros]: "(\<And>x. x \<in> set xs \<Longrightarrow> keeps I (f x)) \<Longrightarrow> keeps I (eachM xs f)"
  by (induction xs) (simp_all add: keeps_ret keeps_seqM)

lemma keeps_db_get [keeps_intros]: "keeps I (db_get T k)"
  by (simp add: keeps_wp web_simps)

lemma keeps_db_all [keeps_intros]: "keeps I (db_all T P)"
  by (simp add: keeps_wp web_simps)

lemma keeps_db_scalar [keeps_intros]: "keeps I (db_scalar T P)"
  by (simp add: keeps_wp web_simps)

text \<open>A property of the database in all three of its versions, since the draw \<open>N\<close>.\<close>

definition since :: "nat \<Rightarrow> (db \<Rightarrow> bool) \<Rightarrow> world \<Rightarrow> bool" where
  "since N I w \<longleftrightarrow> I (committed w) \<and> I (stored w) \<and> I (live w) \<and> N \<le> draws w"

lemma keeps_draw [keeps_intros]: "keeps (since N I) (draw f)"
  by (simp add: keeps_wp web_simps since_def)

lemma keeps_now_utc [keeps_intros]: "keeps (since N I) (now_utc E)"
  by (simp add: now_utc_def keeps_draw)

lemma keeps_new_id [keeps_intros]: "keeps (since N I) (new_id E)"
  by (simp add: new_id_def keeps_draw)

lemma keeps_limiter [keeps_intros]:
  "keeps (since N I) (limiter_check E key)"
  "keeps (since N I) (limiter_fail E key)"
  "keeps (since N I) (limiter_success key)"
  by (simp_all add: keeps_wp web_simps since_def split: option.splits)

lemma keeps_db_add [keeps_intros]:
  "(\<And>d. I d \<Longrightarrow> I (insert_row T r d)) \<Longrightarrow> keeps (since N I) (db_add T r)"
  by (simp add: keeps_wp web_simps since_def)

lemma keeps_db_set [keeps_intros]:
  "(\<And>d. I d \<Longrightarrow> I (modify_row T k f d)) \<Longrightarrow> keeps (since N I) (db_set T k f)"
  by (simp add: keeps_wp web_simps since_def)

lemma keeps_db_delete [keeps_intros]:
  "(\<And>d. I d \<Longrightarrow> I (remove_rows T (\<lambda>r. pk T r = k) d)) \<Longrightarrow> keeps (since N I) (db_delete T k)"
  by (simp add: keeps_wp web_simps since_def)

lemma keeps_db_execute_delete [keeps_intros]:
  "(\<And>Q d. I d \<Longrightarrow> I (remove_rows T Q d)) \<Longrightarrow> keeps (since N I) (db_execute_delete T P)"
  by (simp add: keeps_wp web_simps since_def)

lemma keeps_flush [keeps_intros]: "keeps (since N I) flush"
  by (simp add: keeps_wp web_simps since_def)

lemma keeps_commit [keeps_intros]: "keeps (since N I) commit"
  by (simp add: keeps_wp web_simps since_def)

lemma keeps_new_id_bind:
  "(\<And>n. N \<le> n \<Longrightarrow> keeps (since N I) (f (uuid4_hex E n))) \<Longrightarrow> keeps (since N I) (letM (new_id E) f)"
  unfolding keeps_wp wp_letM wp_new_id by (auto simp: since_def)

lemma keeps_serve:
  "keeps (since N I) m \<Longrightarrow> I (committed w) \<Longrightarrow> N \<le> draws w \<Longrightarrow> I (committed (snd (serve m w)))"
proof -
  assume k: "keeps (since N I) m" and i: "I (committed w)" and n: "N \<le> draws w"
  let ?w = "w\<lparr>stored := committed w, live := committed w, pending_log := []\<rparr>"
  have "since N I ?w" using i n by (simp add: since_def)
  with k have "since N I (snd (m ?w))" by (simp add: keeps_def)
  then show ?thesis by (simp add: serve_def since_def Let_def case_prod_beta)
qed

text \<open>Between two requests the three versions agree.\<close>

definition idle :: "world \<Rightarrow> bool" where
  "idle w \<longleftrightarrow> stored w = committed w \<and> live w = committed w \<and> pending_log w = []"

lemma idle_initial: "idle initial_world"
  by (simp add: idle_def initial_world_def)

lemma idle_serve: "idle (snd (serve m w))"
  by (simp add: idle_def serve_def Let_def split: prod.splits)

lemma idle_start: "idle w \<Longrightarrow> w\<lparr>stored := committed w, live := committed w, pending_log := []\<rparr> = w"
  by (simp add: idle_def)

lemma serve_idle: "idle w \<Longrightarrow> serve m w = (let (r, w') = m w
    in (r, w'\<lparr>stored := committed w', live := committed w', pending_log := []\<rparr>))"
  by (simp add: serve_def idle_start)

text \<open>Lookups of an idle world.\<close>

lemma current_same:
  assumes "live w = stored w" and "lookup T (stored w) k = Some r" and "pk T r = k"
  shows "current T w r = r"
  using assms by (simp add: current_def)

lemma wp_runs: "wp m Q (\<lambda>_ _. False) w \<Longrightarrow> \<exists>a w'. m w = (Inr a, w') \<and> Q a w'"
  by (auto simp: wp_def split: prod.splits sum.splits)

section \<open>A concrete environment\<close>

text \<open>For closed examples: a clock that advances, numbered identifiers, the toy primitives.\<close>

definition demo_env :: env where
  "demo_env = \<lparr>cfg = default_settings\<lparr>perimetr_access_key := Some ''key''\<rparr>, crypt = toy_crypto,
     clock = (\<lambda>n. int n * 1000000), monotonic = of_nat,
     uuid4_hex = (\<lambda>n. ''id'' @ str_nat n), entity_ids = (\<lambda>n. ''E'' @ str_nat n),
     token_urlsafe = (\<lambda>n. ''t'' @ str_nat n), token_bytes = (\<lambda>n. replicate 16 CHR ''s'')\<rparr>"

section \<open>Inversion of successful runs\<close>

lemma letM_Inr [web_inv]:
  "letM m f w = (Inr b, w') \<longleftrightarrow> (\<exists>a w1. m w = (Inr a, w1) \<and> f a w1 = (Inr b, w'))"
  by (auto simp: letM_def split: prod.splits sum.splits)

lemma seqM_Inr [web_inv]:
  "seqM m n w = (Inr b, w') \<longleftrightarrow> (\<exists>a w1. m w = (Inr a, w1) \<and> n w1 = (Inr b, w'))"
  by (simp add: seqM_def letM_Inr)

lemma ret_Inr [web_inv]: "ret a w = (Inr b, w') \<longleftrightarrow> b = a \<and> w' = w"
  by (auto simp: ret_def)

lemma raiseM_Inr [web_inv]: "raiseM e w = (Inr b, w') \<longleftrightarrow> False"
  by (simp add: raiseM_def)

lemma whenM_Inr [web_inv]: "whenM b m w = (Inr u, w') \<longleftrightarrow> (if b then m w = (Inr u, w') else w' = w)"
  by (auto simp: whenM_def ret_Inr)

lemma catch_http_Inr [web_inv]: "catch_http m h w = (Inr a, w') \<longleftrightarrow> m w = (Inr a, w')
    \<or> (\<exists>s d hs w1. m w = (Inl (Http s d hs), w1) \<and> h (Http s d hs) w1 = (Inr a, w'))"
  by (auto simp: catch_http_def split: prod.splits sum.splits failure.splits)

lemma new_id_Inr [web_inv]: "new_id E w = (Inr a, w') \<longleftrightarrow> a = uuid4_hex E (draws w) \<and> w' = w\<lparr>draws := Suc (draws w)\<rparr>"
  by (auto simp: new_id_def draw_def)

lemma now_utc_Inr [web_inv]: "now_utc E w = (Inr a, w') \<longleftrightarrow> a = clock E (draws w) \<and> w' = w\<lparr>draws := Suc (draws w)\<rparr>"
  by (auto simp: now_utc_def draw_def)

lemma db_add_Inr [web_inv]: "db_add T r w = (Inr u, w') \<longleftrightarrow> w' = w\<lparr>live := insert_row T r (live w)\<rparr>"
  by (auto simp: db_add_def)

lemma db_set_Inr [web_inv]: "db_set T k f w = (Inr u, w') \<longleftrightarrow> w' = w\<lparr>live := modify_row T k f (live w)\<rparr>"
  by (auto simp: db_set_def)

lemma raise_if_Inr [web_inv]: "raise_if c e w = (Inr u, w') \<longleftrightarrow> \<not> c \<and> w' = w"
  by (auto simp: raise_if_def web_inv)

lemma liftM_Inr [web_inv]: "liftM r w = (Inr a, w') \<longleftrightarrow> r = Inr a \<and> w' = w"
  by (cases r) (auto simp: liftM_def web_inv)

lemma commit_Inr [web_inv]: "commit w = (Inr u, w') \<longleftrightarrow> constraints_ok (live w)
    \<and> w' = w\<lparr>stored := live w, committed := live w, file_log := file_log w @ pending_log w, pending_log := []\<rparr>"
  by (auto simp: commit_def seqM_def letM_def flush_def)

lemma flush_Inr [web_inv]: "flush w = (Inr u, w') \<longleftrightarrow> constraints_ok (live w) \<and> w' = w\<lparr>stored := live w\<rparr>"
  by (auto simp: flush_def)

lemma draw_Inr [web_inv]: "draw f w = (Inr a, w') \<longleftrightarrow> a = f (draws w) \<and> w' = w\<lparr>draws := Suc (draws w)\<rparr>"
  by (auto simp: draw_def)

lemma serve_Inr: "idle w \<Longrightarrow> serve m w = (Inr a, w') \<longleftrightarrow>
    (\<exists>w1. m w = (Inr a, w1) \<and> w' = w1\<lparr>stored := committed w1, live := committed w1, pending_log := []\<rparr>)"
  by (auto simp: serve_idle Let_def split: prod.splits)

lemma serve_Inl: "idle w \<Longrightarrow> serve m w = (Inl e, w') \<longleftrightarrow>
    (\<exists>w1. m w = (Inl e, w1) \<and> w' = w1\<lparr>stored := committed w1, live := committed w1, pending_log := []\<rparr>)"
  by (auto simp: serve_idle Let_def split: prod.splits)

section \<open>Updates of several rows\<close>

context table_laws begin

lemma wp_each_set:
  assumes "\<And>r. pk T (g r) = pk T r" and "\<And>r. g (g r) = g r"
  shows "wp (eachM xs (\<lambda>x. whenM (c x) (db_set T (pk T x) g))) Q X w =
    Q () (w\<lparr>live := with_rows T
        (map (\<lambda>r. if pk T r \<in> pk T ` {x \<in> set xs. c x} then g r else r) (rows T (live w))) (live w)\<rparr>)"
proof (induction xs arbitrary: w)
  case Nil
  have "w\<lparr>live := live w\<rparr> = w" by simp
  then show ?case by (simp add: web_simps with_rows_rows)
next
  case (Cons x xs)
  let ?S = "pk T ` {x \<in> set xs. c x}"
  show ?case
  proof (cases "c x")
    case False
    then have "{y \<in> set (x # xs). c y} = {y \<in> set xs. c y}" by auto
    with Cons False show ?thesis by (simp add: web_simps)
  next
    case True
    then have s: "pk T ` {y \<in> set (x # xs). c y} = insert (pk T x) ?S" by auto
    have m: "map (\<lambda>r. if pk T r \<in> ?S then g r else r) (map (\<lambda>r. if pk T r = pk T x then g r else r) rs)
        = map (\<lambda>r. if pk T r \<in> insert (pk T x) ?S then g r else r) rs" for rs
      by (simp add: assms comp_def cong: if_cong)
    let ?w1 = "w\<lparr>live := modify_row T (pk T x) g (live w)\<rparr>"
    have "wp (eachM (x # xs) (\<lambda>x. whenM (c x) (db_set T (pk T x) g))) Q X w
        = wp (eachM xs (\<lambda>x. whenM (c x) (db_set T (pk T x) g))) Q X ?w1"
      using True by (simp add: web_simps)
    also have "\<dots> = Q () (?w1\<lparr>live := with_rows T (map (\<lambda>r. if pk T r \<in> ?S then g r else r)
        (rows T (live ?w1))) (live ?w1)\<rparr>)"
      by (rule Cons.IH)
    also have "?w1\<lparr>live := with_rows T (map (\<lambda>r. if pk T r \<in> ?S then g r else r) (rows T (live ?w1))) (live ?w1)\<rparr>
        = w\<lparr>live := with_rows T (map (\<lambda>r. if pk T r \<in> insert (pk T x) ?S then g r else r) (rows T (live w))) (live w)\<rparr>"
      by (simp add: modify_row_def rows_with_rows with_rows_twice m del: map_map list.map_comp)
    finally show ?thesis by (simp only: s)
  qed
qed

end

text \<open>A session in step with the database reads rows as they are stored.\<close>

definition synced :: "world \<Rightarrow> bool" where
  "synced w \<longleftrightarrow> live w = stored w \<and> constraints_ok (stored w)"

lemma idle_synced: "idle w \<Longrightarrow> constraints_ok (committed w) \<Longrightarrow> synced w"
  by (simp add: idle_def synced_def)

definition in_step :: "'r table \<Rightarrow> world \<Rightarrow> bool" where
  "in_step T w \<longleftrightarrow> rows T (live w) = rows T (stored w) \<and> keys_ok (stored w)"

lemma synced_in_step: "synced w \<Longrightarrow> in_step T w"
  by (simp add: in_step_def synced_def constraints_ok_def)

context table_laws begin

lemma synced_distinct: "in_step T w \<Longrightarrow> distinct (map (pk T) (rows T (stored w)))"
  by (simp add: in_step_def distinct_pk)

lemma current_synced:
  assumes "in_step T w" and "r \<in> set (rows T (stored w))"
  shows "current T w r = r"
  using find_key_unique [OF synced_distinct [OF assms(1)] assms(2)] assms(1)
  by (simp add: current_def lookup_def in_step_def)

lemma db_all_synced: "in_step T w \<Longrightarrow> db_all T P w = (Inr (filter P (rows T (stored w))), w)"
  using map_idI [of "filter P (rows T (stored w))" "current T w"] current_synced
  by (auto simp: db_all_def)

lemma db_scalar_synced: "in_step T w \<Longrightarrow> db_scalar T P w = (Inr (find P (rows T (stored w))), w)"
  using find_SomeD current_synced
  by (cases "find P (rows T (stored w))") (fastforce simp: db_scalar_def)+

lemma db_get_synced: "in_step T w \<Longrightarrow> db_get T k w = (Inr (lookup T (stored w) k), w)"
  using db_scalar_synced [of w "\<lambda>r. pk T r = k"] by (simp add: db_get_def db_scalar_def lookup_def)

lemma wp_db_all_synced: "in_step T w \<Longrightarrow> wp (db_all T P) Q X w = Q (filter P (rows T (stored w))) w"
  by (simp add: wp_def db_all_synced)

lemma wp_db_scalar_synced: "in_step T w \<Longrightarrow> wp (db_scalar T P) Q X w = Q (find P (rows T (stored w))) w"
  by (simp add: wp_def db_scalar_synced)

lemma wp_db_get_synced: "in_step T w \<Longrightarrow> wp (db_get T k) Q X w = Q (lookup T (stored w) k) w"
  by (simp add: wp_def db_get_synced)

text \<open>A loop over the rows of a query that assigns to some of them updates exactly those rows.\<close>

lemma wp_update_where:
  assumes "in_step T w" and "\<And>r. pk T (g r) = pk T r" and "\<And>r. g (g r) = g r"
  shows "wp (letM (db_all T P) (\<lambda>found. eachM found (\<lambda>x. whenM (c x) (db_set T (pk T x) g)))) Q X w
    = Q () (w\<lparr>live := modify_rows T (\<lambda>r. P r \<and> c r) g (live w)\<rparr>)"
proof -
  let ?rs = "rows T (live w)"
  have l: "rows T (live w) = rows T (stored w)" using assms(1) by (simp add: in_step_def)
  have "inj_on (pk T) (set ?rs)" using synced_distinct [OF assms(1)] l by (simp add: distinct_map)
  then have "(pk T r \<in> pk T ` {x \<in> set (filter P ?rs). c x}) = (P r \<and> c r)" if "r \<in> set ?rs" for r
    using that by (auto dest: inj_onD)
  then have "map (\<lambda>r. if pk T r \<in> pk T ` {x \<in> set (filter P ?rs). c x} then g r else r) ?rs
      = map (\<lambda>r. if P r \<and> c r then g r else r) ?rs"
    by (intro map_cong) simp_all
  then show ?thesis
    by (simp only: wp_letM wp_db_all_synced [OF assms(1)] wp_each_set [OF assms(2,3)] l modify_rows_def)
qed

end

text \<open>Assignments that keep the keys of a lease keep the constraints.\<close>

lemma constraints_modify_leases:
  assumes "\<And>l. lease_id (g l) = lease_id l" and "\<And>l. lease_subject_id (g l) = lease_subject_id l"
    and "\<And>l. lease_pod_id (g l) = lease_pod_id l"
  shows "constraints_ok (modify_rows LEASES P g d) = constraints_ok d"
  by (simp add: constraints_ok_def keys_ok_def foreign_ok_def modify_rows_def LEASES_def comp_def
      if_distrib assms cong: if_cong)

end
