(* ===== verification/Redaction.thy ===== *)
theory Redaction
  imports Json Url Clock
begin

text \<open>
  \<open>app/redaction.py\<close>: the filter every audit record and every log line passes. The regular
  expressions are matchers on the rest of the text that return the length of the match; \<open>re_sub\<close>
  is the search loop of \<open>re.sub\<close>, which tries each position from the left and goes on after a
  match. A matcher also learns whether the previous character is a word character.
\<close>

section \<open>Substitution\<close>

definition is_word :: "char \<Rightarrow> bool" where
  "is_word c \<longleftrightarrow> is_alnum c \<or> c = CHR ''_''
     \<or> (192 \<le> code c \<and> code c \<noteq> 215 \<and> code c \<noteq> 247)
     \<or> code c \<in> {170, 178, 179, 181, 185, 186, 188, 189, 190}"

fun re_sub :: "(bool \<Rightarrow> string \<Rightarrow> nat option) \<Rightarrow> (string \<Rightarrow> string) \<Rightarrow> bool \<Rightarrow> nat \<Rightarrow> string \<Rightarrow> string" where
  "re_sub mt f w skipping [] = []"
| "re_sub mt f w skipping (c # s) =
     (if 0 < skipping then re_sub mt f (is_word c) (skipping - 1) s
      else (case mt w (c # s) of
              None \<Rightarrow> c # re_sub mt f (is_word c) 0 s
            | Some n \<Rightarrow> f (take n (c # s)) @ re_sub mt f (is_word c) (n - 1) s))"

definition starts_with_ci :: "string \<Rightarrow> string \<Rightarrow> bool" where
  "starts_with_ci p s \<longleftrightarrow> lower (take (length p) s) = p"

section \<open>The patterns\<close>

text \<open>\<open>PRIVATE.search(key)\<close>. A dot matches any character but a newline.\<close>

definition any_char :: "char \<Rightarrow> bool" where
  "any_char c \<longleftrightarrow> c \<noteq> CHR 0x0a"

definition gap_key :: "string \<Rightarrow> string \<Rightarrow> bool" where
  "gap_key p s \<longleftrightarrow> starts_with_ci (p @ ''key'') s
     \<or> (starts_with_ci p s \<and> (case drop (length p) s of [] \<Rightarrow> False
          | c # t \<Rightarrow> any_char c \<and> starts_with_ci ''key'' t))"

definition private_words :: "string list" where
  "private_words = [''password'', ''passwd'', ''secret'', ''token'', ''authorization'', ''cookie'',
     ''credential'', ''vless'', ''data_base64'', ''enrollment'']"

definition private_at :: "string \<Rightarrow> bool" where
  "private_at s \<longleftrightarrow> list_ex (\<lambda>w. starts_with_ci w s) private_words
     \<or> gap_key ''access'' s \<or> gap_key ''private'' s"

fun is_private :: "string \<Rightarrow> bool" where
  "is_private [] = False"
| "is_private (c # s) = (private_at (c # s) \<or> is_private s)"

definition url_body_char :: "char \<Rightarrow> bool" where
  "url_body_char c \<longleftrightarrow> \<not> is_space c \<and> c \<notin> {CHR ''<'', CHR ''>'', CHR 0x22, CHR 0x27}"

definition match_url :: "bool \<Rightarrow> string \<Rightarrow> nat option" where
  "match_url w s =
     (case find (\<lambda>p. starts_with_ci p s)
        [''https://'', ''http://'', ''vless://'', ''ss://'', ''trojan://''] of
        None \<Rightarrow> None
      | Some p \<Rightarrow>
          (let body = takeWhile url_body_char (drop (length p) s)
           in if body = [] then None else Some (length p + length body)))"

definition redact_url :: "string \<Rightarrow> string" where
  "redact_url m =
     (case urlsplit m of
        None \<Rightarrow> ''[REDACTED URL]''
      | Some u \<Rightarrow>
          if url_scheme u \<noteq> ''http'' \<and> url_scheme u \<noteq> ''https'' then url_scheme u @ ''://[REDACTED]''
          else (case url_port u of
                  None \<Rightarrow> ''[REDACTED URL]''
                | Some p \<Rightarrow>
                    (let h = (case url_hostname u of None \<Rightarrow> [] | Some h \<Rightarrow> h);
                         host = (if CHR '':'' \<in> set h then ''['' @ h @ '']'' else h);
                         host' = (case p of None \<Rightarrow> host
                                  | Some n \<Rightarrow> if n = 0 then host else host @ '':'' @ str_nat n)
                     in urlunsplit (url_scheme u) host' (url_path u)
                          (if url_query u = [] then [] else ''[REDACTED]''))))"

text \<open>\<open>-----BEGIN [^-]*PRIVATE KEY-----\<close> and its END: the length of the match. The run of characters
  that are not dashes has to end with the two words.\<close>

definition match_pem_line :: "string \<Rightarrow> string \<Rightarrow> nat option" where
  "match_pem_line start s =
     (if starts_with start s then
        (let run = takeWhile (\<lambda>c. c \<noteq> CHR ''-'') (drop (length start) s);
             n = length start + length run
         in if ends_with ''PRIVATE KEY'' run \<and> starts_with ''-----'' (drop n s) then Some (n + 5) else None)
      else None)"

text \<open>The lazy body: up to the first END line, the end of the text, or its final newline.\<close>

fun pem_body :: "string \<Rightarrow> nat" where
  "pem_body [] = 0"
| "pem_body (c # s) =
     (case match_pem_line ''-----END '' (c # s) of
        Some n \<Rightarrow> n
      | None \<Rightarrow> if s = [] \<and> c = CHR 0x0a then 0 else Suc (pem_body s))"

definition match_pem :: "bool \<Rightarrow> string \<Rightarrow> nat option" where
  "match_pem w s = map_option (\<lambda>n. n + pem_body (drop n s)) (match_pem_line ''-----BEGIN '' s)"

definition match_bearer :: "string \<Rightarrow> nat option" where
  "match_bearer s =
     (if starts_with_ci ''bearer'' s then
        (let gap = takeWhile is_space (drop 6 s);
             word = takeWhile (\<lambda>c. \<not> is_space c) (drop (6 + length gap) s)
         in if gap = [] \<or> word = [] then None else Some (6 + length gap + length word))
      else None)"

definition assign_names :: "string list" where
  "assign_names = [''password'', ''access_key'', ''access key'', ''access-key'', ''accesskey'', ''token'',
     ''secret'', ''authorization'', ''cookie'']"

definition match_assign :: "string \<Rightarrow> nat option" where
  "match_assign s =
     (case find (\<lambda>p. starts_with_ci p s) assign_names of
        None \<Rightarrow> None
      | Some p \<Rightarrow>
          (let g1 = takeWhile is_space (drop (length p) s); n1 = length p + length g1
           in (case drop n1 s of
                 [] \<Rightarrow> None
               | c # t \<Rightarrow>
                   if c \<noteq> CHR '':'' \<and> c \<noteq> CHR ''='' then None
                   else (let g2 = takeWhile is_space t;
                             val = takeWhile (\<lambda>x. \<not> is_space x \<and> x \<noteq> CHR '','' \<and> x \<noteq> CHR '';'') (drop (length g2) t)
                         in if val = [] then None else Some (n1 + 1 + length g2 + length val)))))"

definition match_inline :: "bool \<Rightarrow> string \<Rightarrow> nat option" where
  "match_inline w s =
     (if w then None
      else (case match_bearer s of Some n \<Rightarrow> Some n | None \<Rightarrow> match_assign s))"

section \<open>Texts and values\<close>

definition redact_text :: "string \<Rightarrow> string" where
  "redact_text value =
     (let v1 = re_sub match_url redact_url False 0 value;
          v2 = re_sub match_pem (\<lambda>_. ''[REDACTED KEY]'') False 0 v1
      in take 4096 (re_sub match_inline (\<lambda>_. ''[REDACTED]'') False 0 v2))"

fun redact :: "nat \<Rightarrow> json \<Rightarrow> json" where
  "redact depth (JObj d) =
     (if 8 < depth then JStr ''[DEPTH LIMIT]''
      else JObj (merge [] (take 128 (map (\<lambda>p. (take 128 (fst p),
             if is_private (fst p) then JStr ''[REDACTED]'' else redact (Suc depth) (snd p))) d))))"
| "redact depth (JArr xs) =
     (if 8 < depth then JStr ''[DEPTH LIMIT]''
      else JArr (take 128 (map (redact (Suc depth)) xs)))"
| "redact depth (JStr s) = (if 8 < depth then JStr ''[DEPTH LIMIT]'' else JStr (redact_text s))"
| "redact depth (JTime t) =
     (if 8 < depth then JStr ''[DEPTH LIMIT]'' else JStr (redact_text (str_time t)))"
| "redact depth v = (if 8 < depth then JStr ''[DEPTH LIMIT]'' else v)"

definition json_size :: "json \<Rightarrow> nat" where
  "json_size v = length (render '', '' '': '' False v)"

definition bounded :: "json \<Rightarrow> int \<Rightarrow> json" where
  "bounded value limit =
     (let result = redact 0 value
      in if int (json_size result) \<le> limit then result
         else JObj [(''truncated'', JBool True), (''reason'', JStr ''event_size_limit'')])"

text \<open>\<open>SafeLogFilter\<close>: the message of a log record and the name of its exception type, if any.\<close>

definition safe_log_message :: "string \<Rightarrow> string option \<Rightarrow> string" where
  "safe_log_message message exc =
     redact_text message @ (case exc of None \<Rightarrow> []
       | Some name \<Rightarrow> '' ['' @ name @ '': exception detail suppressed]'')"

section \<open>What redaction guarantees\<close>

lemma length_lower [simp]: "length (lower s) = length s"
  by (simp add: lower_def)

lemma starts_with_ci_take: "starts_with_ci w (take n s) \<Longrightarrow> starts_with_ci w s"
proof -
  assume a: "starts_with_ci w (take n s)"
  then have "length (take (length w) (take n s)) = length w"
    unfolding starts_with_ci_def by (metis length_lower)
  then have "length w \<le> n \<or> take n s = s" by auto
  then have "take (length w) (take n s) = take (length w) s" by (auto simp: min_def)
  with a show ?thesis by (simp add: starts_with_ci_def)
qed

lemma gap_key_take: "gap_key p (take n s) \<Longrightarrow> gap_key p s"
proof -
  assume a: "gap_key p (take n s)"
  show ?thesis
  proof (cases "starts_with_ci (p @ ''key'') (take n s)")
    case True
    from starts_with_ci_take [OF this] show ?thesis by (simp add: gap_key_def)
  next
    case False
    with a obtain c t where p: "starts_with_ci p (take n s)" and d: "drop (length p) (take n s) = c # t"
      and c: "any_char c" "starts_with_ci ''key'' t"
      by (auto simp: gap_key_def split: list.splits)
    define r where "r = drop (length p) s"
    define m where "m = n - length p"
    from d have "take m r = c # t" by (simp add: drop_take r_def m_def)
    then obtain t' m' where t': "r = c # t'" and tt: "t = take m' t'"
      by (cases r; cases m) auto
    have "starts_with_ci ''key'' t'" using c(2) starts_with_ci_take tt by blast
    moreover have "starts_with_ci p s" using p starts_with_ci_take by blast
    ultimately show ?thesis using c(1) t' by (simp add: gap_key_def r_def)
  qed
qed

lemma private_at_take: "private_at (take n s) \<Longrightarrow> private_at s"
  unfolding private_at_def list_ex_iff using starts_with_ci_take gap_key_take by blast

lemma is_private_take: "is_private (take n s) \<Longrightarrow> is_private s"
proof (induction s arbitrary: n)
  case (Cons c s)
  then show ?case
    using private_at_take [of n "c # s"] by (cases n) auto
qed simp

text \<open>The shape of a redacted value: at most 128 entries per container, keys of at most 128
  characters, texts of at most 4096, no datetime left, and nothing but the mark under a private key.\<close>

fun redacted :: "json \<Rightarrow> bool" where
  "redacted (JObj d) = (length d \<le> 128 \<and> distinct (map fst d) \<and>
     (\<forall>p \<in> set d. length (fst p) \<le> 128 \<and> (is_private (fst p) \<longrightarrow> snd p = JStr ''[REDACTED]'')
        \<and> redacted (snd p)))"
| "redacted (JArr xs) = (length xs \<le> 128 \<and> (\<forall>x \<in> set xs. redacted x))"
| "redacted (JStr s) = (length s \<le> 4096)"
| "redacted (JTime t) = False"
| "redacted _ = True"

fun json_depth :: "json \<Rightarrow> nat" where
  "json_depth (JObj d) = Suc (Max (insert 0 (set (map (\<lambda>p. json_depth (snd p)) d))))"
| "json_depth (JArr xs) = Suc (Max (insert 0 (set (map json_depth xs))))"
| "json_depth _ = 0"

lemma set_merge: "set (merge d e) \<subseteq> set d \<union> set e"
proof -
  have k: "set (set_key k v d) \<subseteq> insert (k, v) (set d)" for k and v :: 'a and d
  proof (induction d)
    case (Cons p d)
    then show ?case by (cases p; cases "fst p = k") auto
  qed simp
  show ?thesis
  proof (induction e arbitrary: d)
    case (Cons p e)
    have "set (merge d (p # e)) \<subseteq> set (set_key (fst p) (snd p) d) \<union> set e"
      using Cons.IH by (simp add: json_simps)
    with k [of "fst p" "snd p" d] show ?case by auto
  qed simp
qed

lemma length_set_key: "length (set_key k v d) \<le> Suc (length d)"
  by (induction d) auto

lemma length_merge: "length (merge d e) \<le> length d + length e"
proof (induction e arbitrary: d)
  case (Cons p e)
  have "length (merge d (p # e)) \<le> length (set_key (fst p) (snd p) d) + length e"
    using Cons.IH by (simp add: json_simps)
  with length_set_key [of "fst p" "snd p" d] show ?case by simp
qed simp

lemma distinct_merge: "distinct (map fst d) \<Longrightarrow> distinct (map fst (merge d e))"
  by (induction e arbitrary: d) (simp_all add: json_simps distinct_set_key)

lemma length_redact_text: "length (redact_text s) \<le> 4096"
  by (simp add: redact_text_def Let_def)

definition redact_pair :: "nat \<Rightarrow> string \<times> json \<Rightarrow> string \<times> json" where
  "redact_pair depth p = (take 128 (fst p),
     if is_private (fst p) then JStr ''[REDACTED]'' else redact (Suc depth) (snd p))"

lemma redact_JObj: "redact depth (JObj d) =
     (if 8 < depth then JStr ''[DEPTH LIMIT]'' else JObj (merge [] (take 128 (map (redact_pair depth) d))))"
  by (simp add: redact_pair_def [abs_def])

lemma redact_members:
  assumes "p \<in> set (merge [] (take 128 (map (redact_pair depth) d)))"
  shows "\<exists>q \<in> set d. p = redact_pair depth q"
proof -
  have "p \<in> set (take 128 (map (redact_pair depth) d))"
    using assms set_merge [of "[]"] by fastforce
  then show ?thesis using in_set_takeD by fastforce
qed

lemma redacted_redact: "redacted (redact depth v)"
proof (induction v arbitrary: depth)
  case (JObj d)
  show ?case
  proof (cases "8 < depth")
    case False
    let ?m = "merge [] (take 128 (map (redact_pair depth) d))"
    have "length ?m \<le> 128" using length_merge [of "[]" "take 128 (map (redact_pair depth) d)"] by simp
    moreover have "distinct (map fst ?m)" using distinct_merge [of "[]"] by simp
    moreover have "length (fst p) \<le> 128 \<and> (is_private (fst p) \<longrightarrow> snd p = JStr ''[REDACTED]'')
        \<and> redacted (snd p)" if "p \<in> set ?m" for p
    proof -
      from redact_members [OF that] obtain q where q: "q \<in> set d" "p = redact_pair depth q" by blast
      moreover have "redacted (redact (Suc depth) (snd q))" using JObj [OF q(1), of "snd q"] by (cases q) auto
      ultimately show ?thesis using is_private_take [of 128 "fst q"] by (auto simp: redact_pair_def)
    qed
    ultimately show ?thesis using False by (simp only: redact_JObj if_False redacted.simps) blast
  qed simp
next
  case (JArr xs)
  then show ?case by (auto dest!: in_set_takeD)
qed (simp_all add: length_redact_text)

lemma depth_redact: "json_depth (redact depth v) \<le> 9 - depth"
proof (induction v arbitrary: depth)
  case (JObj d)
  show ?case
  proof (cases "8 < depth")
    case False
    have "json_depth (snd p) \<le> 8 - depth" if "p \<in> set (merge [] (take 128 (map (redact_pair depth) d)))" for p
    proof -
      from redact_members [OF that] obtain q where q: "q \<in> set d" "p = redact_pair depth q" by blast
      moreover have "json_depth (redact (Suc depth) (snd q)) \<le> 9 - Suc depth"
        using JObj [OF q(1), of "snd q" "Suc depth"] by (cases q) auto
      ultimately show ?thesis by (auto simp: redact_pair_def)
    qed
    then have "Max (insert 0 (set (map (\<lambda>p. json_depth (snd p))
        (merge [] (take 128 (map (redact_pair depth) d)))))) \<le> 8 - depth"
      by (intro Max.boundedI) auto
    with False have "Suc (Max (insert 0 (set (map (\<lambda>p. json_depth (snd p))
        (merge [] (take 128 (map (redact_pair depth) d))))))) \<le> 9 - depth" by linarith
    with False show ?thesis by (simp only: redact_JObj if_False json_depth.simps simp_thms)
  qed simp
next
  case (JArr xs)
  show ?case
  proof (cases "8 < depth")
    case False
    have "json_depth y \<le> 8 - depth" if "y \<in> set (take 128 (map (redact (Suc depth)) xs))" for y
    proof -
      from in_set_takeD [OF that] obtain x where x: "x \<in> set xs" "y = redact (Suc depth) x" by auto
      with JArr [OF x(1), of "Suc depth"] show ?thesis by simp
    qed
    then have "Max (insert 0 (set (map json_depth (take 128 (map (redact (Suc depth)) xs))))) \<le> 8 - depth"
      by (intro Max.boundedI) auto
    with False have "Suc (Max (insert 0 (set (map json_depth (take 128 (map (redact (Suc depth)) xs)))))) \<le> 9 - depth"
      by linarith
    with False show ?thesis by (simp only: redact.simps if_False json_depth.simps simp_thms)
  qed simp
qed simp_all

text \<open>C37. Redaction is total and bounded: whatever value an event carries, what is stored has at most
  nine levels of containers, at most 128 entries in each, texts of at most 4096 characters, and under
  every key that names a credential only the mark.\<close>

theorem redaction_bounded_and_private:
  "redacted (redact 0 v) \<and> json_depth (redact 0 v) \<le> 9"
  using redacted_redact depth_redact [of 0 v] by simp

lemma json_size_truncated:
  "json_size (JObj [(''truncated'', JBool True), (''reason'', JStr ''event_size_limit'')]) \<le> 50"
  by code_simp

text \<open>The serialised size of a bounded value is within the limit, except for the short notice that
  replaces a value that is too large.\<close>

theorem bounded_size:
  "int (json_size (bounded v limit)) \<le> max limit 50 \<and> redacted (bounded v limit)"
proof (cases "int (json_size (redact 0 v)) \<le> limit")
  case True
  then show ?thesis using redacted_redact by (simp add: bounded_def Let_def)
next
  case False
  have "redacted (JObj [(''truncated'', JBool True), (''reason'', JStr ''event_size_limit'')])" by code_simp
  with False json_size_truncated show ?thesis by (simp add: bounded_def Let_def max_def)
qed

end
