(* ===== verification/Audit_Log.thy ===== *)
theory Audit_Log
  imports Web Redaction "HOL-Library.Multiset"
begin

text \<open>
  The audit trail: \<open>audit\<close> of \<open>app/services.py\<close> and \<open>trim_audit_events\<close> of
  \<open>app/logs_service/service.py\<close>. Every event is redacted and bounded before it is stored; storing
  one flushes the session and then removes the events that are too old, and the oldest ones beyond
  the configured number and total size.
\<close>

section \<open>Retention\<close>

definition event_size :: "audit_event \<Rightarrow> int" where
  "event_size e = int (json_size (ev_payload e)) + int (json_size (ev_result e)) + 4096"

text \<open>\<open>order_by(created_at.desc(), id.desc())\<close>.\<close>

definition newest_first :: "audit_event list \<Rightarrow> audit_event list" where
  "newest_first es = rev (sort_key ev_created_at (sort_key ev_id es))"

fun stale_events :: "settings \<Rightarrow> int \<Rightarrow> int \<Rightarrow> audit_event list \<Rightarrow> string list" where
  "stale_events s used n [] = []"
| "stale_events s used n (e # es) =
     (let n' = n + 1; used' = used + event_size e
      in if perimetr_audit_max_entries s < n' \<or> perimetr_audit_max_bytes s < used'
         then ev_id e # stale_events s used' n' es
         else stale_events s used' n' es)"

text \<open>\<open>stale[start:start + 200]\<close> for the starts of \<open>range(0, len(stale), 200)\<close>.\<close>

definition batches :: "'a list \<Rightarrow> 'a list list" where
  "batches xs = map (\<lambda>i. take 200 (drop (200 * i) xs)) [0..<(length xs + 199) div 200]"

definition trim_audit_events :: "env \<Rightarrow> unit web" where
  "trim_audit_events E =
     letM (now_utc E) (\<lambda>now.
       (let cutoff = now - days (max (perimetr_audit_retention_days (cfg E)) 1)
        in seqM (db_execute_delete EVENTS (\<lambda>e. ev_created_at e < cutoff))
             (letM (\<lambda>w. (Inr (stale_events (cfg E) 0 0 (newest_first (audit_events (stored w)))), w)) (\<lambda>stale.
               eachM (batches stale) (\<lambda>batch. db_execute_delete EVENTS (\<lambda>e. ev_id e \<in> set batch))))))"

section \<open>Recording\<close>

definition audit :: "env \<Rightarrow> string \<Rightarrow> string \<Rightarrow> string \<Rightarrow> string \<Rightarrow> string \<Rightarrow> dict \<Rightarrow> dict \<Rightarrow> unit web" where
  "audit E actor_type actor_id action target_type target_id payload result =
     letM (new_id E) (\<lambda>i. letM (now_utc E) (\<lambda>t.
       (let event = \<lparr>ev_id = i,
              ev_actor_type = take 64 (redact_text actor_type),
              ev_actor_id = take 128 (redact_text actor_id),
              ev_action = take 128 (redact_text action),
              ev_target_type = take 64 (redact_text target_type),
              ev_target_id = take 128 (redact_text target_id),
              ev_payload = bounded (JObj payload) 7000,
              ev_result = bounded (JObj result) 7000,
              ev_created_at = t\<rparr>
        in seqM (db_add EVENTS event)
          (seqM flush
          (seqM (trim_audit_events E)
            (\<lambda>w. (Inr (), w\<lparr>pending_log := pending_log w @ [event]\<rparr>)))))))"

section \<open>The effect on the rest of the database\<close>

definition same_but_events :: "db \<Rightarrow> db \<Rightarrow> bool" where
  "same_but_events d d' \<longleftrightarrow> d'\<lparr>audit_events := audit_events d\<rparr> = d"

lemma same_but_events_iff: "same_but_events d d' \<longleftrightarrow> (\<exists>es. d' = d\<lparr>audit_events := es\<rparr>)"
proof
  assume "same_but_events d d'"
  then have "d' = d\<lparr>audit_events := audit_events d'\<rparr>" by (cases d; cases d') (simp add: same_but_events_def)
  then show "\<exists>es. d' = d\<lparr>audit_events := es\<rparr>" ..
qed (auto simp: same_but_events_def)

lemma foreign_ok_events [simp]: "foreign_ok (d\<lparr>audit_events := es\<rparr>) = foreign_ok d"
  by (simp add: foreign_ok_def)

lemma remove_events: "remove_rows EVENTS P d = d\<lparr>audit_events := filter (\<lambda>e. \<not> P e) (audit_events d)\<rparr>"
  by (simp add: remove_rows_def EVENTS_def)

lemma insert_event: "insert_row EVENTS e d = d\<lparr>audit_events := audit_events d @ [e]\<rparr>"
  by (simp add: insert_row_def EVENTS_def)

lemma keys_ok_fewer_events:
  "keys_ok d \<Longrightarrow> keys_ok (d\<lparr>audit_events := filter P (audit_events d)\<rparr>)"
  by (simp add: keys_ok_def distinct_map_filter)

lemma filter_pk_in:
  assumes "distinct (map f xs)"
  shows "filter (\<lambda>x. f x \<notin> f ` {y \<in> set xs. P y}) xs = filter (\<lambda>x. \<not> P x) xs"
  using assms by (intro filter_cong) (auto simp: distinct_map inj_on_def)

text \<open>A delete on a synchronised session keeps it synchronised.\<close>

lemma wp_delete_events:
  assumes "live w = stored w" and "constraints_ok (stored w)"
  shows "wp (db_execute_delete EVENTS P) Q X w =
    Q () (w\<lparr>stored := remove_rows EVENTS P (stored w), live := remove_rows EVENTS P (stored w)\<rparr>)"
proof -
  have "distinct (map ev_id (audit_events (stored w)))"
    using assms(2) by (simp add: constraints_ok_def keys_ok_def)
  from filter_pk_in [OF this, of P]
  have "remove_rows EVENTS (\<lambda>r. pk EVENTS r \<in> set (map (pk EVENTS) (filter P (rows EVENTS (stored w))))) (stored w)
      = remove_rows EVENTS P (stored w)"
    by (simp add: remove_events, simp add: EVENTS_def)
  moreover have "foreign_ok (remove_rows EVENTS P (stored w))"
    using assms(2) by (simp add: constraints_ok_def remove_events)
  ultimately show ?thesis by (simp only: wp_db_execute_delete assms(1) if_True)
qed

lemma constraints_remove_events:
  "constraints_ok d \<Longrightarrow> constraints_ok (remove_rows EVENTS P d)"
  by (simp add: constraints_ok_def remove_events keys_ok_fewer_events)

lemma remove_events_twice:
  "remove_rows EVENTS P (remove_rows EVENTS R d) = remove_rows EVENTS (\<lambda>e. R e \<or> P e) d"
  by (simp add: remove_events conj_commute)

lemma wp_delete_batches:
  assumes "live w = stored w" and "constraints_ok (stored w)"
  shows "wp (eachM bs (\<lambda>batch. db_execute_delete EVENTS (\<lambda>e. ev_id e \<in> set batch))) Q X w =
    Q () (w\<lparr>stored := remove_rows EVENTS (\<lambda>e. ev_id e \<in> set (concat bs)) (stored w),
            live := remove_rows EVENTS (\<lambda>e. ev_id e \<in> set (concat bs)) (stored w)\<rparr>)"
  using assms
proof (induction bs arbitrary: w)
  case Nil
  then show ?case by (cases w) (simp add: web_simps remove_events)
next
  case (Cons b bs)
  then show ?case
    by (simp add: wp_seqM wp_delete_events constraints_remove_events remove_events_twice)
qed

lemma concat_batches: "concat (batches xs) = xs"
proof -
  have "concat (map (\<lambda>i. take 200 (drop (200 * i) xs)) [0..<n]) = take (200 * n) xs" for n
  proof (induction n)
    case (Suc n)
    have "take (200 * Suc n) xs = take (200 * n) xs @ take 200 (drop (200 * n) xs)"
      using take_add [of "200 * n" 200 xs] by (simp add: add.commute)
    with Suc show ?case by simp
  qed simp
  moreover have "length xs \<le> 200 * ((length xs + 199) div 200)"
    using div_mult_mod_eq [of "length xs + 199" 200] mod_less_divisor [of 200 "length xs + 199"] by linarith
  ultimately show ?thesis by (simp add: batches_def)
qed

definition audit_cutoff :: "env \<Rightarrow> nat \<Rightarrow> int" where
  "audit_cutoff E n = clock E n - days (max (perimetr_audit_retention_days (cfg E)) 1)"

text \<open>The events that stay after a trim that reads the clock at draw \<open>n\<close>.\<close>

definition retained :: "env \<Rightarrow> nat \<Rightarrow> audit_event list \<Rightarrow> audit_event list" where
  "retained E n es =
     (let fresh = filter (\<lambda>e. \<not> ev_created_at e < audit_cutoff E n) es
      in filter (\<lambda>e. ev_id e \<notin> set (stale_events (cfg E) 0 0 (newest_first fresh))) fresh)"

lemma wp_trim:
  assumes "live w = stored w" and "constraints_ok (stored w)"
  shows "wp (trim_audit_events E) Q X w =
    (let d = (stored w)\<lparr>audit_events := retained E (draws w) (audit_events (stored w))\<rparr>
     in Q () (w\<lparr>draws := Suc (draws w), stored := d, live := d\<rparr>))"
proof -
  have r: "wp (\<lambda>w. (Inr (f w), w)) Q' X' w1 = Q' (f w1) w1" for f Q' X' w1
    by (simp add: wp_def)
  have "constraints_ok (remove_rows EVENTS P (stored w))" for P
    using assms(2) by (rule constraints_remove_events)
  then show ?thesis
    using assms
    by (simp add: trim_audit_events_def Let_def wp_letM wp_seqM wp_now_utc wp_delete_events
        wp_delete_batches r concat_batches remove_events retained_def audit_cutoff_def)
qed

definition audit_record ::
  "env \<Rightarrow> nat \<Rightarrow> string \<Rightarrow> string \<Rightarrow> string \<Rightarrow> string \<Rightarrow> string \<Rightarrow> dict \<Rightarrow> dict \<Rightarrow> audit_event" where
  "audit_record E n actor_type actor_id action target_type target_id payload result =
     \<lparr>ev_id = uuid4_hex E n,
      ev_actor_type = take 64 (redact_text actor_type), ev_actor_id = take 128 (redact_text actor_id),
      ev_action = take 128 (redact_text action),
      ev_target_type = take 64 (redact_text target_type), ev_target_id = take 128 (redact_text target_id),
      ev_payload = bounded (JObj payload) 7000, ev_result = bounded (JObj result) 7000,
      ev_created_at = clock E (Suc n)\<rparr>"

lemma wp_audit:
  "wp (audit E a1 a2 a3 a4 a5 p r) Q X w =
     (let e = audit_record E (draws w) a1 a2 a3 a4 a5 p r; es = audit_events (live w) @ [e];
          d = (live w)\<lparr>audit_events := retained E (draws w + 2) es\<rparr>
      in if constraints_ok ((live w)\<lparr>audit_events := es\<rparr>)
         then Q () (w\<lparr>draws := draws w + 3, stored := d, live := d, pending_log := pending_log w @ [e]\<rparr>)
         else X (Crash ''IntegrityError'') (w\<lparr>draws := draws w + 2, live := (live w)\<lparr>audit_events := es\<rparr>\<rparr>))"
proof -
  have r: "wp (\<lambda>w. (Inr u, f w)) Q' X' w1 = Q' u (f w1)" for f u Q' X' w1
    by (simp add: wp_def)
  show ?thesis
    by (simp add: audit_def web_simps Let_def insert_event wp_trim r audit_record_def numeral_2_eq_2 numeral_3_eq_3)
qed

text \<open>The general shape of a world after an event was recorded: the session is flushed, only the
  events and the bookkeeping changed.\<close>

definition audited :: "world \<Rightarrow> world \<Rightarrow> bool" where
  "audited w w' \<longleftrightarrow> (\<exists>es e. live w' = (live w)\<lparr>audit_events := es\<rparr> \<and> stored w' = live w'
     \<and> committed w' = committed w \<and> file_log w' = file_log w \<and> login_limiter w' = login_limiter w
     \<and> pending_log w' = pending_log w @ [e] \<and> draws w' = draws w + 3
     \<and> constraints_ok (live w'))"

lemma constraints_retained:
  "constraints_ok (d\<lparr>audit_events := es\<rparr>) \<Longrightarrow> constraints_ok (d\<lparr>audit_events := retained E n es\<rparr>)"
  by (simp add: constraints_ok_def keys_ok_def retained_def Let_def distinct_map_filter)

lemma wp_auditI:
  assumes "\<And>w'. audited w w' \<Longrightarrow> Q () w'" and "\<And>w'. X (Crash ''IntegrityError'') w'"
  shows "wp (audit E a1 a2 a3 a4 a5 p r) Q X w"
proof -
  let ?es = "audit_events (live w) @ [audit_record E (draws w) a1 a2 a3 a4 a5 p r]"
  let ?d = "(live w)\<lparr>audit_events := retained E (draws w + 2) ?es\<rparr>"
  let ?w = "w\<lparr>draws := draws w + 3, stored := ?d, live := ?d,
      pending_log := pending_log w @ [audit_record E (draws w) a1 a2 a3 a4 a5 p r]\<rparr>"
  show ?thesis
  proof (cases "constraints_ok ((live w)\<lparr>audit_events := ?es\<rparr>)")
    case True
    have "audited w ?w"
      unfolding audited_def
      by (rule exI [of _ "retained E (draws w + 2) ?es"]) (simp add: constraints_retained [OF True])
    from assms(1) [OF this] True show ?thesis by (simp only: wp_audit Let_def if_True)
  next
    case False
    then show ?thesis by (simp only: wp_audit Let_def if_False assms(2))
  qed
qed

lemma keeps_audit [keeps_intros]:
  assumes "\<And>d es. I (d\<lparr>audit_events := es\<rparr>) = I d"
  shows "keeps (since N I) (audit E a1 a2 a3 a4 a5 p r)"
  unfolding keeps_wp wp_audit Let_def by (simp add: since_def assms)

section \<open>The bounds\<close>

lemma event_size_pos: "0 < event_size e"
  by (simp add: event_size_def)

lemma stale_all:
  "perimetr_audit_max_entries s < n \<or> perimetr_audit_max_bytes s < used \<Longrightarrow>
     stale_events s used n es = map ev_id es"
proof (induction es arbitrary: used n)
  case (Cons e es)
  have "perimetr_audit_max_entries s < n + 1 \<or> perimetr_audit_max_bytes s < used + event_size e"
    using Cons.prems event_size_pos [of e] by linarith
  with Cons.IH [of "n + 1" "used + event_size e"] show ?case by (simp add: Let_def)
qed simp

lemma stale_suffix:
  assumes "n \<le> perimetr_audit_max_entries s" and "used \<le> perimetr_audit_max_bytes s"
  shows "\<exists>k \<le> length es. stale_events s used n es = map ev_id (drop k es)
    \<and> n + int k \<le> perimetr_audit_max_entries s
    \<and> used + (\<Sum>e\<leftarrow>take k es. event_size e) \<le> perimetr_audit_max_bytes s"
  using assms
proof (induction es arbitrary: used n)
  case (Cons e es)
  show ?case
  proof (cases "perimetr_audit_max_entries s < n + 1 \<or> perimetr_audit_max_bytes s < used + event_size e")
    case True
    with Cons.prems stale_all [OF True] show ?thesis by (intro exI [of _ 0]) (auto simp: Let_def)
  next
    case False
    then obtain k where "k \<le> length es"
      "stale_events s (used + event_size e) (n + 1) es = map ev_id (drop k es)"
      "n + 1 + int k \<le> perimetr_audit_max_entries s"
      "used + event_size e + (\<Sum>e\<leftarrow>take k es. event_size e) \<le> perimetr_audit_max_bytes s"
      using Cons.IH [of "n + 1" "used + event_size e"] by auto
    with False show ?thesis by (intro exI [of _ "Suc k"]) (auto simp: Let_def)
  qed
qed auto

lemma mset_newest_first: "mset (newest_first es) = mset es"
  by (simp add: newest_first_def)

lemma newest_first_sorted: "sorted (rev (map ev_created_at (newest_first es)))"
  by (simp add: newest_first_def rev_map)

lemma retained_prefix:
  assumes "distinct (map ev_id es)" and "0 \<le> perimetr_audit_max_entries (cfg E)"
    and "0 \<le> perimetr_audit_max_bytes (cfg E)"
  shows "\<exists>k. mset (retained E n es) = mset (take k (newest_first
        (filter (\<lambda>e. \<not> ev_created_at e < audit_cutoff E n) es)))
    \<and> int (length (retained E n es)) \<le> perimetr_audit_max_entries (cfg E)
    \<and> (\<Sum>e\<leftarrow>retained E n es. event_size e) \<le> perimetr_audit_max_bytes (cfg E)"
proof -
  define fresh where "fresh = filter (\<lambda>e. \<not> ev_created_at e < audit_cutoff E n) es"
  define ordered where "ordered = newest_first fresh"
  have m: "mset ordered = mset fresh" by (simp add: ordered_def mset_newest_first)
  have d: "distinct (map ev_id ordered)"
    using assms(1) m by (metis distinct_map_filter fresh_def mset_eq_imp_distinct_iff mset_map)
  from stale_suffix [of 0 "cfg E" 0 ordered] assms(2,3) obtain k where k: "k \<le> length ordered"
    "stale_events (cfg E) 0 0 ordered = map ev_id (drop k ordered)"
    "int k \<le> perimetr_audit_max_entries (cfg E)"
    "(\<Sum>e\<leftarrow>take k ordered. event_size e) \<le> perimetr_audit_max_bytes (cfg E)"
    by auto
  have "filter (\<lambda>e. ev_id e \<notin> set (map ev_id (drop k ordered))) ordered = take k ordered"
  proof -
    have sp: "ordered = take k ordered @ drop k ordered" by simp
    have "ev_id x \<notin> ev_id ` set (drop k ordered)" if "x \<in> set (take k ordered)" for x
      using d that by (subst (asm) sp) (auto simp del: append_take_drop_id)
    then have "filter (\<lambda>e. ev_id e \<notin> set (map ev_id (drop k ordered))) (take k ordered @ drop k ordered)
        = take k ordered"
      unfolding filter_append by (simp add: filter_id_conv filter_empty_conv)
    then show ?thesis by simp
  qed
  then have "mset (filter (\<lambda>e. ev_id e \<notin> set (stale_events (cfg E) 0 0 ordered)) fresh) = mset (take k ordered)"
    by (metis k(2) m mset_filter)
  then have r: "mset (retained E n es) = mset (take k ordered)"
    by (simp add: retained_def Let_def fresh_def [symmetric] ordered_def [symmetric])
  then have "length (retained E n es) = length (take k ordered)" by (metis size_mset)
  moreover from r have "(\<Sum>e\<leftarrow>retained E n es. event_size e) = (\<Sum>e\<leftarrow>take k ordered. event_size e)"
    by (metis mset_map sum_mset_sum_list)
  ultimately show ?thesis
    using r k by (intro exI [of _ k]) (auto simp: ordered_def fresh_def)
qed

text \<open>Bounded audit trail: after an event was recorded the transaction holds no event older than the
  retention time, and at most the configured number and total size of events: the newest ones.\<close>

theorem audit_trail_bounded:
  assumes "audit E a1 a2 a3 a4 a5 p r w = (Inr u, w')"
    and "0 \<le> perimetr_audit_max_entries (cfg E)" and "0 \<le> perimetr_audit_max_bytes (cfg E)"
  shows "int (length (audit_events (stored w'))) \<le> perimetr_audit_max_entries (cfg E)
    \<and> (\<Sum>e\<leftarrow>audit_events (stored w'). event_size e) \<le> perimetr_audit_max_bytes (cfg E)
    \<and> (\<forall>e \<in> set (audit_events (stored w')). audit_cutoff E (draws w + 2) \<le> ev_created_at e)
    \<and> (\<exists>k. mset (audit_events (stored w')) = mset (take k (newest_first
         (filter (\<lambda>e. audit_cutoff E (draws w + 2) \<le> ev_created_at e)
           (audit_events (live w) @ [audit_record E (draws w) a1 a2 a3 a4 a5 p r])))))"
proof -
  let ?es = "audit_events (live w) @ [audit_record E (draws w) a1 a2 a3 a4 a5 p r]"
  have "wp (audit E a1 a2 a3 a4 a5 p r) (\<lambda>_ w1. constraints_ok ((live w)\<lparr>audit_events := ?es\<rparr>)
      \<and> audit_events (stored w1) = retained E (draws w + 2) ?es) (\<lambda>_ _. True) w"
    by (simp add: wp_audit Let_def)
  from wp_success [OF assms(1) this] have c: "constraints_ok ((live w)\<lparr>audit_events := ?es\<rparr>)"
    and s: "audit_events (stored w') = retained E (draws w + 2) ?es" by auto
  from c have "distinct (map ev_id ?es)" by (simp add: constraints_ok_def keys_ok_def)
  moreover have "\<forall>e \<in> set (retained E (draws w + 2) ?es). audit_cutoff E (draws w + 2) \<le> ev_created_at e"
    by (auto simp: retained_def Let_def)
  ultimately show ?thesis
    using retained_prefix [of ?es E "draws w + 2"] assms(2,3) s by (simp add: not_less)
qed

theorem audit_trail_bounded_witness:
  "\<exists>w'. audit demo_env ''operator'' ''operator'' ''demo'' ''system'' ''x'' [] [] initial_world = (Inr (), w')
    \<and> int (length (audit_events (stored w'))) \<le> 10000"
proof -
  have "wp (audit demo_env ''operator'' ''operator'' ''demo'' ''system'' ''x'' [] []) (\<lambda>_ _. True)
      (\<lambda>_ _. False) initial_world"
    by (simp add: wp_audit Let_def initial_world_def empty_db_def constraints_ok_def keys_ok_def
        foreign_ok_def refs_ok_def)
  from wp_runs [OF this] obtain u w' where
    r: "audit demo_env ''operator'' ''operator'' ''demo'' ''system'' ''x'' [] [] initial_world = (Inr u, w')"
    by blast
  have "perimetr_audit_max_entries (cfg demo_env) = 10000" "0 \<le> perimetr_audit_max_bytes (cfg demo_env)"
    by (simp_all add: demo_env_def default_settings_def)
  with audit_trail_bounded [OF r] r show ?thesis by simp
qed

end
