(* ===== verification/Preferences.thy ===== *)
theory Preferences
  imports Complex_Main Audit_Log
begin

text \<open>
  \<open>app/operator_settings.py\<close>: the single settings record of the operator, which holds the Access Key
  verifier together with the presentation settings. \<open>ensure_preferences\<close> creates or migrates it,
  \<open>update_preferences\<close> changes its presentation under an expected revision, and every read goes
  through the projection \<open>public_preferences\<close>.
\<close>

definition PREFERENCES_KEY :: string where
  "PREFERENCES_KEY = ''perimetr.preferences''"

definition DEFAULT_PRESENTATION :: dict where
  "DEFAULT_PRESENTATION =
     [(''theme'', JObj [(''accent'', JStr ''#00A8FF'')]),
      (''sidebar'', JObj [(''auto_hide'', JBool False)]),
      (''layout'', JObj [(''navigation'', JArr []), (''dashboard'', JArr []), (''settings'', JArr [])]),
      (''backup'', JObj [(''include_audit'', JBool True), (''include_sessions'', JBool False)]),
      (''presentation_initialized'', JBool False),
      (''revision'', JInt 1)]"

text \<open>\<open>is_password_hash(value)\<close> of a value that need not be a text.\<close>

definition is_hash_value :: "json \<Rightarrow> bool" where
  "is_hash_value v = (case v of JStr s \<Rightarrow> is_password_hash s | _ \<Rightarrow> False)"

text \<open>\<open>a or b\<close> and \<open>str(d.get(k) or "")\<close>.\<close>

definition json_or :: "json \<Rightarrow> json \<Rightarrow> json" where
  "json_or a b = (if truthy a then a else b)"

definition text_or_empty :: "json option \<Rightarrow> string" where
  "text_or_empty v = (case v of Some (JStr s) \<Rightarrow> s | _ \<Rightarrow> [])"

text \<open>\<open>==\<close>; identical values are equal without a look at their keys.\<close>

definition json_eq :: "json \<Rightarrow> json \<Rightarrow> bool" where
  "json_eq a b \<longleftrightarrow> a = b \<or> jeq a b"

section \<open>Creation and migration\<close>

text \<open>The verifier when none is stored: an invalid one is never replaced; otherwise the configured
  verifier, the legacy password of the record, or the configured Access Key.\<close>

definition seed_verifier :: "env \<Rightarrow> dict \<Rightarrow> string web" where
  "seed_verifier E auth =
     (if has_key ''access_key_hash'' auth \<or> has_key ''password_hash'' auth
      then raiseM (Crash ''RuntimeError: stored operator verifier is invalid'')
      else (let legacy = text_or_empty (get_key ''password'' auth);
                seed = (if legacy \<noteq> [] then Some legacy else perimetr_access_key (cfg E))
            in if is_password_hash (perimetr_access_key_hash (cfg E))
               then ret (perimetr_access_key_hash (cfg E))
               else (case seed of
                       None \<Rightarrow> raiseM (Crash ''RuntimeError: PERIMETR_ACCESS_KEY is required'')
                     | Some s \<Rightarrow>
                         if s = [] then raiseM (Crash ''RuntimeError: PERIMETR_ACCESS_KEY is required'')
                         else letM (draw (token_bytes E)) (\<lambda>salt. ret (hash_password (crypt E) salt s)))))"

definition resolve_verifier :: "env \<Rightarrow> dict \<Rightarrow> string web" where
  "resolve_verifier E auth =
     (let stored_hash = json_or (get_or_null ''access_key_hash'' auth) (get_or_null ''password_hash'' auth)
      in if is_hash_value stored_hash then ret (text_or_empty (Some stored_hash))
         else seed_verifier E auth)"

text \<open>The normalised record: the verifier alone under \<open>auth\<close>, defaults for what is missing, the
  accent alone under \<open>theme\<close>, fixed backup switches.\<close>

definition normal_preferences :: "dict \<Rightarrow> string \<Rightarrow> dict" where
  "normal_preferences cur verifier =
     (let c1 = set_key ''auth'' (JObj [(''access_key_hash'', JStr verifier)]) cur;
          c2 = foldl (\<lambda>c p. set_default (fst p) (snd p) c) c1 DEFAULT_PRESENTATION;
          accent = (case jget ''accent'' (get_or_null ''theme'' c2) of
                      None \<Rightarrow> JStr ''#00A8FF'' | Some a \<Rightarrow> a);
          c3 = set_key ''theme'' (JObj [(''accent'', accent)]) c2
      in set_key ''backup''
           (JObj [(''include_audit'', JBool True), (''include_sessions'', JBool False)]) c3)"

definition preferences_row :: "system_setting \<Rightarrow> bool" where
  "preferences_row r \<longleftrightarrow> ss_key r = PREFERENCES_KEY"

definition ensure_preferences :: "env \<Rightarrow> system_setting web" where
  "ensure_preferences E =
     letM (db_scalar SETTINGS preferences_row) (\<lambda>found.
       (let original = (case found of None \<Rightarrow> [] | Some r \<Rightarrow> dict_or_empty (ss_value r));
            auth = dict_or_empty (get_or_null ''auth'' original)
        in letM (resolve_verifier E auth) (\<lambda>verifier.
          (let cur = normal_preferences original verifier
           in (case found of
                 None \<Rightarrow>
                   letM (new_id E) (\<lambda>i. letM (now_utc E) (\<lambda>t.
                     (let r = \<lparr>ss_id = i, ss_scope = ''perimetr'', ss_key = PREFERENCES_KEY,
                                ss_value = JObj cur, ss_created_at = t\<rparr>
                      in seqM (db_add SETTINGS r) (seqM flush (ret r)))))
               | Some r \<Rightarrow>
                   seqM (whenM (\<not> json_eq (JObj cur) (JObj original))
                          (db_set SETTINGS (ss_id r) (\<lambda>x. x\<lparr>ss_value := JObj cur\<rparr>)))
                     (seqM flush
                       (ret (if json_eq (JObj cur) (JObj original) then r else r\<lparr>ss_value := JObj cur\<rparr>))))))))"

definition public_preferences :: "dict \<Rightarrow> failure + dict" where
  "public_preferences value =
     (if list_all (\<lambda>p. has_key (fst p) value) DEFAULT_PRESENTATION
      then Inr (map (\<lambda>p. (fst p, get_or_null (fst p) value)) DEFAULT_PRESENTATION)
      else Inl (Crash ''KeyError''))"

section \<open>Changes\<close>

definition accent_format :: "string \<Rightarrow> bool" where
  "accent_format s \<longleftrightarrow> (case s of [] \<Rightarrow> False
     | c # t \<Rightarrow> c = CHR ''#'' \<and> length t = 6 \<and> list_all is_hex t)"

text \<open>The linear light of a channel and the relative luminance. The floats of the source are real
  numbers here.\<close>

definition channel :: "string \<Rightarrow> nat \<Rightarrow> real" where
  "channel s n = real (hexs_val (take 2 (drop n s))) / 255"

definition linear_light :: "real \<Rightarrow> real" where
  "linear_light v = (if v \<le> 0.04045 then v / 12.92 else ((v + 0.055) / 1.055) powr 2.4)"

definition luminance :: "string \<Rightarrow> real" where
  "luminance s = linear_light (channel s 1) * 0.2126 + linear_light (channel s 3) * 0.7152
     + linear_light (channel s 5) * 0.0722"

definition validate_accent :: "json \<Rightarrow> failure + json" where
  "validate_accent value =
     (case value of
        JStr s \<Rightarrow>
          if \<not> accent_format s then Inl (http_error 422 ''Accent must use #RRGGBB'')
          else if (luminance s + 0.05) / 0.05 < 4.5
          then Inl (http_error 422 ''Accent needs at least 4.5:1 contrast against black'')
          else Inr (JStr (upper s))
      | _ \<Rightarrow> Inl (http_error 422 ''Accent must use #RRGGBB''))"

text \<open>\<open>[A-Za-z0-9_-]{1,64}\<close> and a list of at most 32 different such texts.\<close>

definition layout_item :: "json \<Rightarrow> bool" where
  "layout_item v = (case v of
     JStr s \<Rightarrow> s \<noteq> [] \<and> length s \<le> 64 \<and> list_all (\<lambda>c. is_alnum c \<or> c = CHR ''_'' \<or> c = CHR ''-'') s
   | _ \<Rightarrow> False)"

definition layout_order :: "json \<Rightarrow> bool" where
  "layout_order v = (case v of
     JArr xs \<Rightarrow> length xs \<le> 32 \<and> list_all layout_item xs \<and> distinct xs
   | _ \<Rightarrow> False)"

definition apply_theme :: "dict \<Rightarrow> dict \<Rightarrow> failure + dict" where
  "apply_theme payload cur =
     (case get_key ''theme'' payload of
        None \<Rightarrow> Inr cur
      | Some theme \<Rightarrow>
          (case theme of
             JObj d \<Rightarrow>
               if map fst d = [''accent'']
               then try_bind (validate_accent (get_or_null ''accent'' d)) (\<lambda>a.
                      Inr (set_key ''theme'' (JObj [(''accent'', a)]) cur))
               else Inl (http_error 422 ''Only accent is editable'')
           | _ \<Rightarrow> Inl (http_error 422 ''Only accent is editable'')))"

definition apply_sidebar :: "dict \<Rightarrow> dict \<Rightarrow> failure + dict" where
  "apply_sidebar payload cur =
     (case get_key ''sidebar'' payload of
        None \<Rightarrow> Inr cur
      | Some (JObj [(k, JBool b)]) \<Rightarrow>
          if k = ''auto_hide'' then Inr (set_key ''sidebar'' (JObj [(k, JBool b)]) cur)
          else Inl (http_error 422 ''Invalid sidebar mode'')
      | Some _ \<Rightarrow> Inl (http_error 422 ''Invalid sidebar mode''))"

definition LAYOUT_SCOPES :: "string list" where
  "LAYOUT_SCOPES = [''navigation'', ''dashboard'', ''settings'']"

definition apply_layout :: "dict \<Rightarrow> dict \<Rightarrow> failure + dict" where
  "apply_layout payload cur =
     (case get_key ''layout'' payload of
        None \<Rightarrow> Inr cur
      | Some (JObj l) \<Rightarrow>
          if \<not> list_all (\<lambda>p. fst p \<in> set LAYOUT_SCOPES) l
          then Inl (http_error 422 ''Invalid layout scope'')
          else if \<not> list_all (\<lambda>p. layout_order (snd p)) l
          then Inl (http_error 422 ''Invalid layout order'')
          else Inr (set_key ''layout'' (JObj (merge (dict_or_empty (get_or_null ''layout'' cur)) l)) cur)
      | Some _ \<Rightarrow> Inl (http_error 422 ''Invalid layout scope''))"

definition editable_keys :: "string list" where
  "editable_keys = [''expected_revision'', ''theme'', ''sidebar'', ''layout'', ''presentation_initialized'']"

text \<open>The checks of \<open>update_preferences\<close> in the source's order, on the current value.\<close>

definition next_preferences :: "dict \<Rightarrow> dict \<Rightarrow> failure + dict" where
  "next_preferences payload cur =
     (case (get_key ''expected_revision'' payload, get_or_null ''revision'' cur) of
        (Some (JInt expected), JInt revision) \<Rightarrow>
          if expected \<noteq> revision
          then Inl (http_error 409 ''Settings changed in another session; reload and review your change'')
          else if \<not> list_all (\<lambda>p. fst p \<in> set editable_keys) payload
          then Inl (http_error 422 ''Unsupported setting'')
          else try_bind (apply_theme payload cur) (\<lambda>c1.
               try_bind (apply_sidebar payload c1) (\<lambda>c2.
               try_bind (apply_layout payload c2) (\<lambda>c3.
               (if get_key ''presentation_initialized'' payload \<notin> {None, Some (JBool True)}
                then Inl (http_error 422 ''Presentation migration cannot be reset'')
                else Inr (set_key ''revision'' (JInt (revision + 1))
                       (set_key ''presentation_initialized'' (JBool True) c3))))))
      | _ \<Rightarrow> Inl (http_error 409 ''Settings changed in another session; reload and review your change''))"

definition update_preferences :: "env \<Rightarrow> dict \<Rightarrow> dict web" where
  "update_preferences E payload =
     seqM (ensure_preferences E)
       (letM (db_scalar SETTINGS preferences_row) (\<lambda>found.
         (case found of
            None \<Rightarrow> raiseM (Crash ''AssertionError'')
          | Some r \<Rightarrow>
              letM (liftM (next_preferences payload (dict_or_empty (ss_value r)))) (\<lambda>cur.
                seqM (db_set SETTINGS (ss_id r) (\<lambda>x. x\<lparr>ss_value := JObj cur\<rparr>))
                  (seqM flush (liftM (public_preferences cur)))))))"

definition get_perimetr_preferences :: "env \<Rightarrow> dict web" where
  "get_perimetr_preferences E =
     seqM (ensure_preferences E)
       (seqM flush
         (letM (db_scalar SETTINGS preferences_row) (\<lambda>found.
           ret (case found of None \<Rightarrow> [] | Some r \<Rightarrow> dict_or_empty (ss_value r)))))"

text \<open>The endpoints \<open>GET\<close> and \<open>PATCH /v1/settings/preferences\<close>, after the access check.\<close>

definition SYSTEM_ENTITY_ID :: string where
  "SYSTEM_ENTITY_ID = ''5f0b6d3d90f548a9a2f1d6e9cb7f3412''"

definition read_preferences :: "env \<Rightarrow> dict web" where
  "read_preferences E =
     letM (ensure_preferences E) (\<lambda>record.
     letM (liftM (public_preferences (dict_or_empty (ss_value record)))) (\<lambda>value.
       seqM commit (ret value)))"

definition save_preferences :: "env \<Rightarrow> dict \<Rightarrow> dict web" where
  "save_preferences E payload =
     letM (update_preferences E payload) (\<lambda>value.
       seqM (audit E ''operator'' ''operator'' ''settings.presentation.updated'' ''system''
               SYSTEM_ENTITY_ID [] [(''revision'', get_or_null ''revision'' value)])
         (seqM commit (ret value)))"

section \<open>The settled record\<close>

text \<open>A value that \<open>ensure_preferences\<close> leaves alone.\<close>

definition settled :: "dict \<Rightarrow> string \<Rightarrow> bool" where
  "settled cur h \<longleftrightarrow>
     get_key ''auth'' cur = Some (JObj [(''access_key_hash'', JStr h)]) \<and> is_password_hash h
   \<and> (\<exists>a. get_key ''theme'' cur = Some (JObj [(''accent'', a)]))
   \<and> get_key ''backup'' cur
       = Some (JObj [(''include_audit'', JBool True), (''include_sessions'', JBool False)])
   \<and> list_all (\<lambda>p. has_key (fst p) cur) DEFAULT_PRESENTATION"

lemma set_key_same: "get_key k d = Some v \<Longrightarrow> set_key k v d = d"
  by (induction d) (auto simp: json_simps split: if_splits)

lemma set_default_present: "has_key k d \<Longrightarrow> set_default k v d = d"
  by (auto simp: set_default_def has_key_def)

lemma settled_fixpoint: "settled cur h \<Longrightarrow> normal_preferences cur h = cur"
  by (auto simp: settled_def normal_preferences_def DEFAULT_PRESENTATION_def set_key_same
      set_default_present get_or_null_def jget_def json_simps)

lemma normal_settled: "is_password_hash h \<Longrightarrow> settled (normal_preferences cur h) h"
  by (simp add: settled_def normal_preferences_def DEFAULT_PRESENTATION_def has_key_def Let_def json_simps)

lemma normal_keeps: "k \<notin> insert ''auth'' (set (map fst DEFAULT_PRESENTATION)) \<Longrightarrow>
    get_key k (normal_preferences cur h) = get_key k cur"
  by (simp add: normal_preferences_def DEFAULT_PRESENTATION_def Let_def json_simps)

lemma settled_resolve:
  "settled cur h \<Longrightarrow> resolve_verifier E (dict_or_empty (get_or_null ''auth'' cur)) = ret h"
  by (auto simp: settled_def resolve_verifier_def get_or_null_def dict_or_empty_def json_or_def
      is_hash_value_def text_or_empty_def json_simps is_password_hash_def split: list.splits)

text \<open>The verifier that is resolved is well formed, if scrypt and the random source have their
  documented lengths.\<close>

definition sane_crypto :: "env \<Rightarrow> bool" where
  "sane_crypto E \<longleftrightarrow> (\<forall>n. length (token_bytes E n) = 16)
     \<and> (\<forall>p s. length (scrypt_fn (crypt E) p s SCRYPT_N SCRYPT_R SCRYPT_P SCRYPT_DKLEN) = SCRYPT_DKLEN)"

lemma hash_password_is_hash: "sane_crypto E \<Longrightarrow> is_password_hash (hash_password (crypt E) (token_bytes E n) pw)"
  using hash_password_fields [of "crypt E" "token_bytes E n" pw]
  by (simp add: sane_crypto_def is_password_hash_iff_fields url_decode_encode)

lemma resolve_verifier_result:
  assumes "sane_crypto E" and "resolve_verifier E auth w = (Inr h, w')"
  shows "is_password_hash h \<and> w' = w\<lparr>draws := draws w'\<rparr>"
proof -
  show ?thesis
    using assms hash_password_is_hash [OF assms(1)]
    by (auto simp: resolve_verifier_def seed_verifier_def is_hash_value_def text_or_empty_def Let_def
        ret_def raiseM_def letM_def draw_def split: if_splits json.splits option.splits)
qed

section \<open>What \<open>ensure_preferences\<close> does\<close>

definition preferences_of :: "db \<Rightarrow> dict" where
  "preferences_of d = (case find preferences_row (system_settings d) of
     None \<Rightarrow> [] | Some r \<Rightarrow> dict_or_empty (ss_value r))"

definition auth_of :: "dict \<Rightarrow> dict" where
  "auth_of cur = dict_or_empty (get_or_null ''auth'' cur)"

definition verifier_of :: "dict \<Rightarrow> string" where
  "verifier_of cur = text_or_empty (get_key ''access_key_hash'' (auth_of cur))"

lemma synced_scalar:
  assumes "live w = stored w" and "constraints_ok (stored w)"
  shows "map_option (current SETTINGS w) (find P (rows SETTINGS (stored w))) = find P (system_settings (stored w))"
proof (cases "find P (system_settings (stored w))")
  case None
  then show ?thesis by (simp add: SETTINGS_def)
next
  case (Some r)
  then have "r \<in> set (system_settings (stored w))" using find_SomeD by fast
  moreover have "distinct (map ss_id (system_settings (stored w)))"
    using assms(2) by (simp add: constraints_ok_def keys_ok_def)
  ultimately have "lookup SETTINGS (live w) (ss_id r) = Some r"
    using find_key_unique [of ss_id "system_settings (stored w)" r] assms(1)
    by (simp add: lookup_def SETTINGS_def)
  with Some show ?thesis by (simp add: current_def SETTINGS_def)
qed

lemma resolve_stored_verifier:
  assumes "is_password_hash (verifier_of cur)"
  shows "resolve_verifier E (auth_of cur) = ret (verifier_of cur)"
proof -
  have "verifier_of cur \<noteq> []" using assms by (auto simp: is_password_hash_def)
  with assms show ?thesis
    by (auto simp: verifier_of_def text_or_empty_def resolve_verifier_def json_or_def get_or_null_def
        is_hash_value_def split: option.splits json.splits)
qed

text \<open>The session after \<open>ensure_preferences\<close>: flushed, only the settings table may have changed.\<close>

definition ensured :: "world \<Rightarrow> world \<Rightarrow> bool" where
  "ensured w w' \<longleftrightarrow> live w' = stored w' \<and> constraints_ok (stored w') \<and> committed w' = committed w
     \<and> file_log w' = file_log w \<and> pending_log w' = pending_log w \<and> login_limiter w' = login_limiter w
     \<and> stored w' = (stored w)\<lparr>system_settings := system_settings (stored w')\<rparr>"

lemma find_map_key:
  assumes "find P xs = Some r" and "distinct (map key xs)" and "P (f r)" and "\<And>x. P (f x) = P x"
  shows "find P (map (\<lambda>x. if key x = key r then f x else x) xs) = Some (f r)"
  using assms(1,2)
proof (induction xs)
  case (Cons x xs)
  show ?case
  proof (cases "P x")
    case True
    with Cons.prems show ?thesis by (simp add: assms(4))
  next
    case False
    with Cons.prems have "find P xs = Some r" by simp
    with Cons False show ?thesis by (simp add: assms(4))
  qed
qed simp

lemma ensure_result:
  assumes sane: "sane_crypto E" and sync: "live w = stored w" and ok: "constraints_ok (stored w)"
    and run: "ensure_preferences E w = (Inr r, w')"
  shows "ensured w w' \<and> find preferences_row (system_settings (stored w')) = Some r
    \<and> (\<exists>h. is_password_hash h
        \<and> (is_password_hash (verifier_of (preferences_of (stored w))) \<longrightarrow>
             h = verifier_of (preferences_of (stored w)))
        \<and> (if find preferences_row (system_settings (stored w)) \<noteq> None
              \<and> json_eq (JObj (normal_preferences (preferences_of (stored w)) h)) (JObj (preferences_of (stored w)))
           then stored w' = stored w
           else dict_or_empty (ss_value r) = normal_preferences (preferences_of (stored w)) h))"
proof -
  let ?found = "find preferences_row (system_settings (stored w))"
  let ?cur = "preferences_of (stored w)"
  have look: "db_scalar SETTINGS preferences_row w = (Inr ?found, w)"
    using synced_scalar [OF sync ok] by (simp add: db_scalar_def)
  have cur: "?cur = (case ?found of None \<Rightarrow> [] | Some r \<Rightarrow> dict_or_empty (ss_value r))"
    by (simp add: preferences_of_def)
  obtain h w1 where v: "resolve_verifier E (auth_of ?cur) w = (Inr h, w1)"
    using run look by (cases "resolve_verifier E (auth_of ?cur) w"; cases "fst (resolve_verifier E (auth_of ?cur) w)")
      (auto simp: ensure_preferences_def letM_def Let_def auth_of_def preferences_of_def)
  have h: "is_password_hash h" and w1: "w1 = w\<lparr>draws := draws w1\<rparr>"
    using resolve_verifier_result [OF sane v] by auto
  have hv: "is_password_hash (verifier_of ?cur) \<Longrightarrow> h = verifier_of ?cur"
    using v by (auto simp: resolve_stored_verifier ret_def)
  from w1 have s1: "live w1 = stored w" "stored w1 = stored w" "committed w1 = committed w"
    "file_log w1 = file_log w" "pending_log w1 = pending_log w" "login_limiter w1 = login_limiter w"
    using sync by (metis world.select_convs(1-7) world.update_convs(7) world.surjective)+
  show ?thesis
  proof (cases ?found)
    case None
    let ?r = "\<lparr>ss_id = uuid4_hex E (draws w1), ss_scope = ''perimetr'', ss_key = PREFERENCES_KEY,
      ss_value = JObj (normal_preferences ?cur h), ss_created_at = clock E (Suc (draws w1))\<rparr>"
    let ?d = "insert_row SETTINGS ?r (stored w)"
    have "r = ?r \<and> w' = w1\<lparr>draws := Suc (Suc (draws w1)), live := ?d, stored := ?d\<rparr> \<and> constraints_ok ?d"
      using run look v None cur s1
      by (auto simp: ensure_preferences_def letM_def seqM_def Let_def auth_of_def new_id_def now_utc_def
          draw_def db_add_def flush_def ret_def split: if_splits)
    moreover have "find preferences_row (system_settings ?d) = Some ?r"
      using None by (simp add: insert_row_def SETTINGS_def find_append preferences_row_def)
    ultimately show ?thesis
      using h hv s1 by (auto simp: ensured_def insert_row_def SETTINGS_def None dict_or_empty_def)
  next
    case (Some r0)
    show ?thesis
    proof (cases "json_eq (JObj (normal_preferences ?cur h)) (JObj ?cur)")
      case True
      have "r = r0 \<and> w' = w1\<lparr>stored := stored w\<rparr>"
        using run look v Some cur s1 True ok
        by (auto simp: ensure_preferences_def letM_def seqM_def Let_def auth_of_def whenM_def
            flush_def ret_def)
      with h hv s1 Some True ok show ?thesis by (auto simp: ensured_def)
    next
      case False
      let ?f = "\<lambda>x. x\<lparr>ss_value := JObj (normal_preferences ?cur h)\<rparr>"
      let ?d = "modify_row SETTINGS (ss_id r0) ?f (stored w)"
      have r: "r = ?f r0 \<and> w' = w1\<lparr>live := ?d, stored := ?d\<rparr> \<and> constraints_ok ?d"
        using run look v Some cur s1 False
        by (auto simp: ensure_preferences_def letM_def seqM_def Let_def auth_of_def whenM_def db_set_def
            flush_def ret_def split: if_splits)
      have "distinct (map ss_id (system_settings (stored w)))"
        using ok by (simp add: constraints_ok_def keys_ok_def)
      from find_map_key [OF Some this, of ?f] find_SomeD [OF Some]
      have "find preferences_row (system_settings ?d) = Some (?f r0)"
        by (simp add: modify_row_def SETTINGS_def preferences_row_def)
      with r h hv s1 Some False show ?thesis
        by (auto simp: ensured_def modify_row_def SETTINGS_def dict_or_empty_def)
    qed
  qed
qed

lemma normal_auth: "get_key ''auth'' (normal_preferences cur h) = Some (JObj [(''access_key_hash'', JStr h)])"
  by (simp add: normal_preferences_def DEFAULT_PRESENTATION_def Let_def json_simps)

lemma jeq_singleton: "jeq (JObj [(k, JStr h)]) v \<Longrightarrow> v = JObj [(k, JStr h)]"
proof -
  assume "jeq (JObj [(k, JStr h)]) v"
  then obtain e where v: "v = JObj e" and l: "length e = 1" and g: "get_key k e = Some (JStr h)"
    by (auto split: json.splits option.splits)
  from l obtain p where "e = [p]" by (cases e) auto
  with v g show ?thesis by (cases p) (auto simp: json_simps split: if_splits)
qed

lemma json_eq_auth:
  assumes "json_eq (JObj (normal_preferences cur h)) (JObj cur)"
  shows "get_key ''auth'' cur = Some (JObj [(''access_key_hash'', JStr h)])"
proof (cases "normal_preferences cur h = cur")
  case True
  then show ?thesis using normal_auth [of cur h] by simp
next
  case False
  with assms have j: "jeq (JObj (normal_preferences cur h)) (JObj cur)" by (simp add: json_eq_def)
  have "(''auth'', JObj [(''access_key_hash'', JStr h)]) \<in> set (normal_preferences cur h)"
    using normal_auth [of cur h] map_of_SomeD by (fastforce simp: get_key_def)
  with j obtain v where "get_key ''auth'' cur = Some v" "jeq (JObj [(''access_key_hash'', JStr h)]) v"
    by (fastforce split: option.splits)
  then show ?thesis using jeq_singleton by blast
qed

lemma resolve_stored:
  assumes "get_key ''auth'' cur = Some (JObj [(''access_key_hash'', JStr h)])" and "is_password_hash h"
  shows "resolve_verifier E (auth_of cur) = ret h"
  using assms
  by (auto simp: resolve_verifier_def get_or_null_def dict_or_empty_def json_or_def auth_of_def
      is_hash_value_def text_or_empty_def json_simps is_password_hash_def split: list.splits)

lemma ensure_when_equal:
  assumes "live w = stored w" and "constraints_ok (stored w)"
    and f: "find preferences_row (system_settings (stored w)) = Some r"
    and "resolve_verifier E (auth_of (preferences_of (stored w))) = ret h"
    and "json_eq (JObj (normal_preferences (preferences_of (stored w)) h)) (JObj (preferences_of (stored w)))"
  shows "ensure_preferences E w = (Inr r, w)"
proof -
  have look: "db_scalar SETTINGS preferences_row w = (Inr (Some r), w)"
    using synced_scalar [OF assms(1,2), of preferences_row] f by (simp add: db_scalar_def)
  have same: "w\<lparr>stored := stored w\<rparr> = w" by simp
  show ?thesis
    using assms look same
    by (simp add: ensure_preferences_def letM_def seqM_def Let_def auth_of_def whenM_def flush_def ret_def
        preferences_of_def)
qed

lemma ensured_verifier:
  assumes "sane_crypto E" and "live w = stored w" and "constraints_ok (stored w)"
    and "ensure_preferences E w = (Inr r, w')"
  shows "\<exists>h. is_password_hash h \<and> preferences_of (stored w') = dict_or_empty (ss_value r)
    \<and> get_key ''auth'' (preferences_of (stored w')) = Some (JObj [(''access_key_hash'', JStr h)])
    \<and> json_eq (JObj (normal_preferences (preferences_of (stored w')) h)) (JObj (preferences_of (stored w')))"
proof -
  from ensure_result [OF assms] obtain h where f: "find preferences_row (system_settings (stored w')) = Some r"
    and h: "is_password_hash h"
    and c: "if find preferences_row (system_settings (stored w)) \<noteq> None
          \<and> json_eq (JObj (normal_preferences (preferences_of (stored w)) h)) (JObj (preferences_of (stored w)))
        then stored w' = stored w
        else dict_or_empty (ss_value r) = normal_preferences (preferences_of (stored w)) h" by blast
  from f have p: "preferences_of (stored w') = dict_or_empty (ss_value r)" by (simp add: preferences_of_def)
  show ?thesis
  proof (cases "find preferences_row (system_settings (stored w)) \<noteq> None
      \<and> json_eq (JObj (normal_preferences (preferences_of (stored w)) h)) (JObj (preferences_of (stored w)))")
    case True
    with c have s: "stored w' = stored w" by simp
    with True h p json_eq_auth [of "preferences_of (stored w)" h] show ?thesis by auto
  next
    case False
    with c have n: "dict_or_empty (ss_value r) = normal_preferences (preferences_of (stored w)) h"
      by (simp split: if_splits)
    with settled_fixpoint [OF normal_settled [OF h]] h p normal_auth show ?thesis
      by (auto simp: json_eq_def)
  qed
qed

text \<open>Creating or migrating the settings record is idempotent: once it succeeded, the record holds a
  well-formed verifier, and running it again returns the same record and writes nothing.\<close>

theorem ensure_preferences_idempotent:
  assumes "sane_crypto E" and "live w = stored w" and "constraints_ok (stored w)"
    and "ensure_preferences E w = (Inr r, w')"
  shows "ensure_preferences E w' = (Inr r, w')
    \<and> is_password_hash (verifier_of (dict_or_empty (ss_value r)))"
proof -
  from ensured_verifier [OF assms] obtain h where h: "is_password_hash h"
    "preferences_of (stored w') = dict_or_empty (ss_value r)"
    "get_key ''auth'' (preferences_of (stored w')) = Some (JObj [(''access_key_hash'', JStr h)])"
    "json_eq (JObj (normal_preferences (preferences_of (stored w')) h)) (JObj (preferences_of (stored w')))"
    by blast
  have v: "verifier_of (dict_or_empty (ss_value r)) = h"
    using h(2,3) by (simp add: verifier_of_def auth_of_def get_or_null_def dict_or_empty_def text_or_empty_def
        json_simps)
  from ensure_result [OF assms] have e: "ensured w w'"
    and f: "find preferences_row (system_settings (stored w')) = Some r" by blast+
  have s: "live w' = stored w'" "constraints_ok (stored w')" using e by (simp_all add: ensured_def)
  have "ensure_preferences E w' = (Inr r, w')"
    using ensure_when_equal [OF s f resolve_stored [OF h(3,1)] h(4)] .
  with v h(1) show ?thesis by simp
qed

lemma sane_demo: "sane_crypto demo_env"
  by (auto simp add: sane_crypto_def demo_env_def toy_crypto_def SCRYPT_DKLEN_def min_def)

lemma ensure_runs_initially: "\<exists>r w'. ensure_preferences demo_env initial_world = (Inr r, w')"
proof -
  have c: "get_key ''access_key_hash'' [] = (None :: json option)" by simp
  have "\<not> is_password_hash []" by (simp add: is_password_hash_def)
  then show ?thesis
    by (simp add: ensure_preferences_def letM_def seqM_def Let_def db_scalar_def SETTINGS_def initial_world_def
        empty_db_def resolve_verifier_def seed_verifier_def get_or_null_def dict_or_empty_def json_or_def
        is_hash_value_def has_key_def text_or_empty_def demo_env_def default_settings_def draw_def ret_def
        new_id_def now_utc_def db_add_def flush_def insert_row_def constraints_ok_def keys_ok_def
        foreign_ok_def refs_ok_def)
qed

theorem ensure_preferences_idempotent_witness:
  "\<exists>r w'. ensure_preferences demo_env initial_world = (Inr r, w')
    \<and> ensure_preferences demo_env w' = (Inr r, w')"
proof -
  obtain r w' where run: "ensure_preferences demo_env initial_world = (Inr r, w')"
    using ensure_runs_initially by blast
  have "live initial_world = stored initial_world" "constraints_ok (stored initial_world)"
    using constraints_empty by (simp_all add: initial_world_def)
  with ensure_preferences_idempotent [OF sane_demo _ _ run] run show ?thesis by blast
qed

section \<open>The optimistic update\<close>

lemma apply_keeps:
  "apply_theme payload cur = Inr c \<Longrightarrow> k \<noteq> ''theme'' \<Longrightarrow> get_key k c = get_key k cur"
  "apply_sidebar payload cur = Inr c \<Longrightarrow> k \<noteq> ''sidebar'' \<Longrightarrow> get_key k c = get_key k cur"
  "apply_layout payload cur = Inr c \<Longrightarrow> k \<noteq> ''layout'' \<Longrightarrow> get_key k c = get_key k cur"
  by (auto simp: apply_theme_def apply_sidebar_def apply_layout_def try_inv json_simps
      split: option.splits json.splits list.splits if_splits)

lemma next_preferences_result:
  assumes "next_preferences payload cur = Inr c"
  shows "\<exists>n. get_key ''expected_revision'' payload = Some (JInt n) \<and> get_key ''revision'' cur = Some (JInt n)
    \<and> get_key ''revision'' c = Some (JInt (n + 1)) \<and> get_key ''auth'' c = get_key ''auth'' cur
    \<and> get_key ''presentation_initialized'' c = Some (JBool True)
    \<and> list_all (\<lambda>p. fst p \<in> set editable_keys) payload"
  using assms
  by (auto simp: next_preferences_def get_or_null_def try_inv json_simps apply_keeps
      split: option.splits json.splits if_splits)

lemma update_preferences_result:
  assumes "sane_crypto E" and "live w = stored w" and "constraints_ok (stored w)"
    and run: "update_preferences E payload w = (Inr out, w')"
  shows "\<exists>r w1 cur. ensure_preferences E w = (Inr r, w1)
    \<and> next_preferences payload (preferences_of (stored w1)) = Inr cur
    \<and> public_preferences cur = Inr out
    \<and> preferences_of (stored w') = cur \<and> ensured w w'"
proof -
  obtain r w1 where e: "ensure_preferences E w = (Inr r, w1)"
    using run by (cases "ensure_preferences E w"; cases "fst (ensure_preferences E w)")
      (auto simp: update_preferences_def seqM_def letM_def)
  from ensure_result [OF assms(1-3) e] have en: "ensured w w1"
    and f: "find preferences_row (system_settings (stored w1)) = Some r" by blast+
  have s: "live w1 = stored w1" "constraints_ok (stored w1)" using en by (simp_all add: ensured_def)
  have look: "db_scalar SETTINGS preferences_row w1 = (Inr (Some r), w1)"
    using synced_scalar [OF s, of preferences_row] f by (simp add: db_scalar_def)
  have p: "preferences_of (stored w1) = dict_or_empty (ss_value r)" using f by (simp add: preferences_of_def)
  obtain cur where c: "next_preferences payload (preferences_of (stored w1)) = Inr cur"
    using run e look p by (cases "next_preferences payload (preferences_of (stored w1))")
      (auto simp: update_preferences_def seqM_def letM_def liftM_def raiseM_def)
  let ?f = "\<lambda>x. x\<lparr>ss_value := JObj cur\<rparr>"
  let ?d = "modify_row SETTINGS (ss_id r) ?f (stored w1)"
  have d: "w' = w1\<lparr>live := ?d, stored := ?d\<rparr> \<and> constraints_ok ?d \<and> public_preferences cur = Inr out"
    using run e look c p s
    by (auto simp: update_preferences_def seqM_def letM_def liftM_def ret_def raiseM_def db_set_def flush_def
        split: if_splits sum.splits)
  have "distinct (map ss_id (system_settings (stored w1)))"
    using s by (simp add: constraints_ok_def keys_ok_def)
  from find_map_key [OF f this, of ?f] find_SomeD [OF f]
  have "find preferences_row (system_settings ?d) = Some (?f r)"
    by (simp add: modify_row_def SETTINGS_def preferences_row_def)
  then have "preferences_of (stored w') = cur" using d by (simp add: preferences_of_def dict_or_empty_def)
  moreover have "ensured w w'"
  proof -
    obtain xs where st: "stored w1 = (stored w)\<lparr>system_settings := xs\<rparr>" using en ensured_def by blast
    have "?d = (stored w)\<lparr>system_settings := system_settings ?d\<rparr>"
      unfolding st by (simp add: modify_row_def SETTINGS_def)
    with en d show ?thesis by (simp add: ensured_def)
  qed
  ultimately show ?thesis using e c d by blast
qed

lemma public_keys: "public_preferences cur = Inr out \<Longrightarrow> map fst out = map fst DEFAULT_PRESENTATION"
  by (auto simp: public_preferences_def split: if_splits)

lemma public_value: "public_preferences cur = Inr out \<Longrightarrow> k \<in> set (map fst DEFAULT_PRESENTATION) \<Longrightarrow>
    get_key k out = get_key k cur"
  by (auto simp: public_preferences_def DEFAULT_PRESENTATION_def json_simps get_or_null_def has_key_def
      split: if_splits)

lemma save_failure_keeps: "save_preferences E payload w = (Inl e, w') \<Longrightarrow> committed w' = committed w"
proof -
  assume run: "save_preferences E payload w = (Inl e, w')"
  have e: "wp (ensure_preferences E) Q X w1" if "\<And>r w2. committed w2 = committed w1 \<Longrightarrow> Q r w2"
    "\<And>e w2. committed w2 = committed w1 \<Longrightarrow> X e w2" for Q X w1
    using that
    by (simp add: ensure_preferences_def resolve_verifier_def seed_verifier_def web_simps Let_def
        split: option.splits)
  have "wp (save_preferences E payload) (\<lambda>_ _. True) (\<lambda>_ w2. committed w2 = committed w) w"
    unfolding save_preferences_def update_preferences_def
    by (auto simp: web_simps wp_audit Let_def intro!: e split: option.splits sum.splits)
  from wp_failure [OF run this] show ?thesis .
qed

text \<open>C36. Optimistic concurrency on the settings record. A change is accepted only when it names the
  current revision; it then raises the revision by one, keeps the verifier, and answers with exactly
  the six presentation keys, never with the verifier. A refused change leaves the database as it was.\<close>

theorem preferences_optimistic_update:
  assumes "sane_crypto E" and "idle w" and "constraints_ok (committed w)"
    and run: "serve (save_preferences E payload) w = (res, w')"
  shows "case res of
      Inl e \<Rightarrow> committed w' = committed w
    | Inr out \<Rightarrow> \<exists>n h. get_key ''expected_revision'' payload = Some (JInt n)
        \<and> (case get_key ''revision'' (preferences_of (committed w)) of None \<Rightarrow> n = 1 | Some v \<Rightarrow> v = JInt n)
        \<and> get_key ''revision'' (preferences_of (committed w')) = Some (JInt (n + 1))
        \<and> get_key ''revision'' out = Some (JInt (n + 1))
        \<and> map fst out = map fst DEFAULT_PRESENTATION
        \<and> get_key ''auth'' (preferences_of (committed w')) = Some (JObj [(''access_key_hash'', JStr h)])
        \<and> is_password_hash h
        \<and> (is_password_hash (verifier_of (preferences_of (committed w))) \<longrightarrow>
             h = verifier_of (preferences_of (committed w)))"
proof (cases res)
  case (Inl e)
  with run obtain w1 where "save_preferences E payload w = (Inl e, w1)" "committed w' = committed w1"
    by (auto simp: serve_idle [OF assms(2)] Let_def split: prod.splits)
  with Inl save_failure_keeps show ?thesis by fastforce
next
  case (Inr out)
  have sync: "live w = stored w" "constraints_ok (stored w)" "stored w = committed w"
    using assms(2,3) by (simp_all add: idle_def)
  from run Inr obtain w3 where s: "save_preferences E payload w = (Inr out, w3)"
    and cw: "committed w' = committed w3"
    by (auto simp: serve_idle [OF assms(2)] Let_def split: prod.splits)
  from s obtain w2 where u: "update_preferences E payload w = (Inr out, w2)"
    by (auto simp: save_preferences_def web_inv)
  from update_preferences_result [OF assms(1) sync(1,2) u] obtain r w1 cur where
    e: "ensure_preferences E w = (Inr r, w1)" and nx: "next_preferences payload (preferences_of (stored w1)) = Inr cur"
    and pub: "public_preferences cur = Inr out" and cur: "preferences_of (stored w2) = cur"
    and en2: "ensured w w2" by blast
  have "wp (seqM (audit E ''operator'' ''operator'' ''settings.presentation.updated'' ''system''
      SYSTEM_ENTITY_ID [] [(''revision'', get_or_null ''revision'' out)]) (seqM commit (ret out)))
    (\<lambda>_ w3. system_settings (committed w3) = system_settings (stored w2)) (\<lambda>_ _. True) w2"
    using en2 by (auto simp: web_simps audited_def ensured_def intro!: wp_auditI)
  moreover have "seqM (audit E ''operator'' ''operator'' ''settings.presentation.updated'' ''system''
      SYSTEM_ENTITY_ID [] [(''revision'', get_or_null ''revision'' out)]) (seqM commit (ret out)) w2 = (Inr out, w3)"
    using s u by (simp add: save_preferences_def letM_def)
  ultimately have "system_settings (committed w3) = system_settings (stored w2)" using wp_success by fast
  then have p': "preferences_of (committed w') = cur" using cur cw by (simp add: preferences_of_def)
  from ensured_verifier [OF assms(1) sync(1,2) e] obtain h where h: "is_password_hash h"
    and ha: "get_key ''auth'' (preferences_of (stored w1)) = Some (JObj [(''access_key_hash'', JStr h)])" by blast
  from next_preferences_result [OF nx] obtain n where n: "get_key ''expected_revision'' payload = Some (JInt n)"
    "get_key ''revision'' (preferences_of (stored w1)) = Some (JInt n)" "get_key ''revision'' cur = Some (JInt (n + 1))"
    "get_key ''auth'' cur = get_key ''auth'' (preferences_of (stored w1))" by blast
  from ensure_result [OF assms(1) sync(1,2) e] obtain h' where
    f: "find preferences_row (system_settings (stored w1)) = Some r" and
    hv: "is_password_hash (verifier_of (preferences_of (stored w))) \<longrightarrow> h' = verifier_of (preferences_of (stored w))"
    and c: "if find preferences_row (system_settings (stored w)) \<noteq> None
          \<and> json_eq (JObj (normal_preferences (preferences_of (stored w)) h')) (JObj (preferences_of (stored w)))
        then stored w1 = stored w
        else dict_or_empty (ss_value r) = normal_preferences (preferences_of (stored w)) h'" by blast
  have r1: "preferences_of (stored w1) = dict_or_empty (ss_value r)" using f by (simp add: preferences_of_def)
  have "h' = h \<and> (case get_key ''revision'' (preferences_of (stored w)) of None \<Rightarrow> n = 1 | Some v \<Rightarrow> v = JInt n)"
  proof (cases "find preferences_row (system_settings (stored w)) \<noteq> None
      \<and> json_eq (JObj (normal_preferences (preferences_of (stored w)) h')) (JObj (preferences_of (stored w)))")
    case True
    with c have "preferences_of (stored w1) = preferences_of (stored w)" by (simp add: preferences_of_def)
    with True ha n(2) json_eq_auth show ?thesis by fastforce
  next
    case False
    with c r1 have "preferences_of (stored w1) = normal_preferences (preferences_of (stored w)) h'"
      by (simp split: if_splits)
    with ha n(2) normal_auth show ?thesis
      by (auto simp: normal_preferences_def DEFAULT_PRESENTATION_def Let_def json_simps split: option.splits)
  qed
  with Inr n p' ha h hv pub sync(3) public_keys [OF pub] public_value [OF pub, of "''revision''"] show ?thesis
    by (auto simp: DEFAULT_PRESENTATION_def)
qed

lemma save_runs_initially:
  "\<exists>out w'. save_preferences demo_env [(''expected_revision'', JInt 1)] initial_world = (Inr out, w')"
proof -
  obtain r w1 where e: "ensure_preferences demo_env initial_world = (Inr r, w1)"
    using ensure_runs_initially by blast
  have i: "live initial_world = stored initial_world" "constraints_ok (stored initial_world)"
    using constraints_empty by (simp_all add: initial_world_def)
  have "find preferences_row (system_settings (stored initial_world)) = None"
    and "preferences_of (stored initial_world) = []"
    by (simp_all add: initial_world_def empty_db_def preferences_of_def)
  with ensure_result [OF sane_demo i e] obtain h where en: "ensured initial_world w1"
    and f: "find preferences_row (system_settings (stored w1)) = Some r"
    and h: "is_password_hash h" and n: "dict_or_empty (ss_value r) = normal_preferences [] h"
    by (auto simp: preferences_of_def split: if_splits)
  have s: "live w1 = stored w1" "constraints_ok (stored w1)" using en by (simp_all add: ensured_def)
  let ?cur = "set_key ''revision'' (JInt 2) (set_key ''presentation_initialized'' (JBool True) (normal_preferences [] h))"
  have look: "db_scalar SETTINGS preferences_row w1 = (Inr (Some r), w1)"
    using synced_scalar [OF s, of preferences_row] f by (simp add: db_scalar_def)
  have nx: "next_preferences [(''expected_revision'', JInt 1)] (normal_preferences [] h) = Inr ?cur"
    by (simp add: next_preferences_def apply_theme_def apply_sidebar_def apply_layout_def editable_keys_def
        normal_preferences_def DEFAULT_PRESENTATION_def Let_def json_simps get_or_null_def)
  have pub: "\<exists>out. public_preferences ?cur = Inr out"
    by (simp add: public_preferences_def normal_preferences_def DEFAULT_PRESENTATION_def Let_def json_simps
        has_key_def)
  let ?d = "modify_row SETTINGS (ss_id r) (\<lambda>x. x\<lparr>ss_value := JObj ?cur\<rparr>) (stored w1)"
  have "map f (system_settings ?d) = map f (system_settings (stored w1))" if "\<And>x v. f (x\<lparr>ss_value := v\<rparr>) = f x"
    for f :: "system_setting \<Rightarrow> string"
    using that by (simp add: modify_row_def SETTINGS_def)
  then have k: "keys_ok ?d \<longleftrightarrow> keys_ok (stored w1)" "foreign_ok ?d \<longleftrightarrow> foreign_ok (stored w1)"
    by (simp_all add: keys_ok_def foreign_ok_def modify_row_def SETTINGS_def comp_def if_distrib cong: if_cong)
  then have d: "constraints_ok ?d" using s by (simp add: constraints_ok_def)
  then obtain out where u: "update_preferences demo_env [(''expected_revision'', JInt 1)] initial_world
      = (Inr out, w1\<lparr>live := ?d, stored := ?d\<rparr>)"
    using e look n nx pub s(1)
    by (auto simp: update_preferences_def web_inv db_set_def)
  have ev: "audit_events ?d = []"
  proof -
    obtain xs where "stored w1 = (stored initial_world)\<lparr>system_settings := xs\<rparr>" using en ensured_def by blast
    then show ?thesis by (simp add: modify_row_def SETTINGS_def initial_world_def empty_db_def)
  qed
  have "constraints_ok (?d\<lparr>audit_events := [e]\<rparr>)" for e
    using d by (simp add: constraints_ok_def keys_ok_def)
  then have "wp (seqM (audit demo_env ''operator'' ''operator'' ''settings.presentation.updated'' ''system''
      SYSTEM_ENTITY_ID [] [(''revision'', get_or_null ''revision'' out)]) (seqM commit (ret out))) (\<lambda>_ _. True)
      (\<lambda>_ _. False) (w1\<lparr>live := ?d, stored := ?d\<rparr>)"
    by (simp add: web_simps wp_audit Let_def ev constraints_retained)
  from wp_runs [OF this] u show ?thesis by (auto simp: save_preferences_def letM_def)
qed

theorem preferences_optimistic_update_witness:
  "\<exists>out w'. serve (save_preferences demo_env [(''expected_revision'', JInt 1)]) initial_world = (Inr out, w')
    \<and> get_key ''revision'' (preferences_of (committed w')) = Some (JInt 2)"
proof -
  obtain out w' where r: "serve (save_preferences demo_env [(''expected_revision'', JInt 1)]) initial_world = (Inr out, w')"
    using save_runs_initially by (fastforce simp: serve_Inr [OF idle_initial])
  have "constraints_ok (committed initial_world)" using constraints_empty by (simp add: initial_world_def)
  from preferences_optimistic_update [OF sane_demo idle_initial this r]
  have "get_key ''revision'' (preferences_of (committed w')) = Some (JInt 2)" by (auto simp: json_simps)
  with r show ?thesis by blast
qed

end
