(* ===== verification/Sessions.thy ===== *)
theory Sessions
  imports Preferences
begin

text \<open>
  Operator sessions: the session functions of \<open>app/services.py\<close> and the endpoints of
  \<open>app/api_service/app.py\<close> that log in, log out, check access and rotate the Access Key. A session
  is a lease whose row holds the SHA-256 of the session key; the key itself is only in the cookie.
\<close>

section \<open>Services\<close>

definition ensure_exists :: "'a option \<Rightarrow> string \<Rightarrow> string \<Rightarrow> 'a web" where
  "ensure_exists found entity entity_id =
     (case found of
        None \<Rightarrow> raiseM (http_error 404 (entity @ '' '' @ entity_id @ '' not found''))
      | Some x \<Rightarrow> ret x)"

definition get_session_lease :: "string \<Rightarrow> lease web" where
  "get_session_lease session_id =
     letM (db_get LEASES session_id) (\<lambda>found. ensure_exists found ''session'' session_id)"

definition hash_session_key :: "env \<Rightarrow> string \<Rightarrow> string" where
  "hash_session_key E key = hexdigest (sha256_fn (crypt E) (utf8 key))"

definition normalize_access_target :: "string \<Rightarrow> failure + string" where
  "normalize_access_target target =
     (let value = lower (strip (if target = [] then ''perimetr'' else target))
      in if value \<noteq> ''perimetr'' then Inl (http_error 400 (''unsupported_target:'' @ value)) else Inr value)"

definition verify_direct_login :: "env \<Rightarrow> string \<Rightarrow> string \<Rightarrow> bool web" where
  "verify_direct_login E target access_key =
     seqM (liftM (normalize_access_target target))
       (letM (get_perimetr_preferences E) (\<lambda>preferences.
         ret (access_key \<noteq> [] \<and> verify_password (crypt E) access_key (verifier_of preferences))))"

text \<open>The leases that are active and have an expiry; those that are due become expired.\<close>

definition expire_stale_sessions :: "env \<Rightarrow> unit web" where
  "expire_stale_sessions E =
     letM (now_utc E) (\<lambda>current_time.
     letM (db_all LEASES (\<lambda>l. lease_status l = ''active'' \<and> lease_expires_at l \<noteq> None)) (\<lambda>found.
       eachM found (\<lambda>l.
         (case lease_expires_at l of
            None \<Rightarrow> ret ()
          | Some t \<Rightarrow> whenM (t \<le> current_time)
              (db_set LEASES (lease_id l)
                (\<lambda>x. x\<lparr>lease_status := ''expired'', lease_ended_at := Some current_time\<rparr>))))))"

text \<open>Returns the lease with the plain session key.\<close>

definition create_direct_session :: "env \<Rightarrow> string \<Rightarrow> string \<Rightarrow> (lease \<times> string) web" where
  "create_direct_session E target access_key =
     letM (liftM (normalize_access_target target)) (\<lambda>scope.
     seqM (expire_stale_sessions E)
     (letM (verify_direct_login E scope access_key) (\<lambda>valid.
     seqM (raise_if (\<not> valid) (http_error 403 ''invalid_credentials''))
     (letM (draw (token_urlsafe E)) (\<lambda>session_key.
     letM (now_utc E) (\<lambda>now.
     letM (new_id E) (\<lambda>i.
     letM (now_utc E) (\<lambda>started.
       (let l = \<lparr>lease_id = i, lease_subject_id = None, lease_pod_id = None, lease_status = ''active'',
              lease_key_hash = hash_session_key E session_key, lease_access_scope = scope,
              lease_transport = Some ''direct'', lease_started_at = started,
              lease_expires_at = Some (whole_second now + seconds (perimetr_session_ttl_sec (cfg E))),
              lease_ended_at = None\<rparr>
        in seqM (db_add LEASES l) (seqM flush (ret (l, session_key))))))))))))"

text \<open>\<open>update_access_key\<close> returns the new plain key of the current session.\<close>

definition update_access_key :: "env \<Rightarrow> string \<Rightarrow> string \<Rightarrow> string \<Rightarrow> string \<Rightarrow> string web" where
  "update_access_key E current_key new_key confirm_key session_id =
     seqM (raise_if (new_key = [] \<or> new_key \<noteq> confirm_key)
             (http_error 400 ''Supply the same new Access Key twice''))
     (letM (get_perimetr_preferences E) (\<lambda>preferences.
     seqM (raise_if (\<not> verify_password (crypt E) current_key (verifier_of preferences))
             (http_error 403 ''Current Access Key is incorrect''))
     (letM (draw (token_bytes E)) (\<lambda>salt.
     (let changed = set_key ''auth''
            (JObj [(''access_key_hash'', JStr (hash_password (crypt E) salt new_key))]) preferences
      in letM (db_scalar SETTINGS preferences_row) (\<lambda>found.
         (case found of
            None \<Rightarrow> raiseM (Crash ''AssertionError'')
          | Some r \<Rightarrow>
              seqM (db_set SETTINGS (ss_id r) (\<lambda>x. x\<lparr>ss_value := JObj changed\<rparr>))
              (letM (now_utc E) (\<lambda>now.
              letM (db_all LEASES (\<lambda>l. lease_status l = ''active'' \<and> lease_transport l = Some ''direct'')) (\<lambda>others.
              seqM (eachM others (\<lambda>l. whenM (lease_id l \<noteq> session_id)
                     (db_set LEASES (lease_id l)
                       (\<lambda>x. x\<lparr>lease_status := ''revoked'', lease_ended_at := Some now\<rparr>))))
              (letM (draw (token_urlsafe E)) (\<lambda>session_key.
              seqM (db_set LEASES session_id
                     (\<lambda>x. x\<lparr>lease_key_hash := hash_session_key E session_key,
                        lease_expires_at := Some (now + seconds (perimetr_session_ttl_sec (cfg E)))\<rparr>))
              (seqM flush (ret session_key))))))))))))))"

section \<open>Endpoints\<close>

record cookie =
  cookie_name :: string
  cookie_value :: string
  cookie_httponly :: bool
  cookie_secure :: bool
  cookie_samesite :: string
  cookie_max_age :: int

definition PERIMETR_SESSION_ID_COOKIE :: string where
  "PERIMETR_SESSION_ID_COOKIE = ''perimetr_session_id''"

definition PERIMETR_SESSION_KEY_COOKIE :: string where
  "PERIMETR_SESSION_KEY_COOKIE = ''perimetr_session_key''"

definition session_cookie :: "env \<Rightarrow> string \<Rightarrow> string \<Rightarrow> cookie" where
  "session_cookie E name value =
     \<lparr>cookie_name = name, cookie_value = value, cookie_httponly = True,
      cookie_secure = perimetr_cookie_secure (cfg E), cookie_samesite = ''strict'',
      cookie_max_age = perimetr_session_ttl_sec (cfg E)\<rparr>"

definition request_cookie :: "request \<Rightarrow> string \<Rightarrow> string" where
  "request_cookie req name = (case map_of (req_cookies req) name of None \<Rightarrow> [] | Some v \<Rightarrow> v)"

definition require_core_access :: "env \<Rightarrow> request \<Rightarrow> lease web" where
  "require_core_access E req =
     seqM (expire_stale_sessions E)
     (seqM commit
     (let session_id = request_cookie req PERIMETR_SESSION_ID_COOKIE;
          session_key = request_cookie req PERIMETR_SESSION_KEY_COOKIE
      in seqM (raise_if (session_id = [] \<or> session_key = []) (http_error 403 ''perimetr_access_required''))
         (letM (get_session_lease session_id) (\<lambda>l.
         seqM (raise_if (lease_status l \<noteq> ''active'') (http_error 403 ''perimetr_session_inactive''))
         (seqM (raise_if (lease_key_hash l \<noteq> hash_session_key E session_key)
                 (http_error 403 ''perimetr_session_invalid''))
         (seqM (raise_if (lease_access_scope l \<noteq> ''perimetr'' \<or> lease_transport l \<noteq> Some ''direct'')
                 (http_error 403 ''perimetr_access_required''))
         (seqM (liftM (validate_csrf (crypt E) req (lease_key_hash l) (perimetr_public_url (cfg E))))
           (ret l))))))))"

record direct_login_request =
  dl_access_key :: string
  dl_target :: string

definition deny_login :: "env \<Rightarrow> string \<Rightarrow> string \<Rightarrow> string \<Rightarrow> unit web" where
  "deny_login E source_ip target reason =
     audit E ''anonymous'' source_ip ''direct.session.denied'' ''system'' SYSTEM_ENTITY_ID
       [(''target'', JStr target)] [(''outcome'', JStr ''denied''), (''reason'', JStr reason)]"

text \<open>The login endpoint; the pause before the check of the key is not modelled.\<close>

definition direct_login :: "env \<Rightarrow> request \<Rightarrow> direct_login_request \<Rightarrow> (dict \<times> cookie list) web" where
  "direct_login E req payload =
     letM (liftM (normalize_access_target (dl_target payload))) (\<lambda>target.
     seqM (liftM (validate_browser_origin req (perimetr_public_url (cfg E))))
     (let source_ip = client_identity req (perimetr_trusted_proxies (cfg E))
      in letM (limiter_check E source_ip) (\<lambda>decision.
         if \<not> allowed decision then
           seqM (deny_login E source_ip target ''rate_limit'')
           (seqM commit
             (raiseM (Http 429 ''too_many_login_attempts''
               [(''Retry-After'', str_int (retry_after_seconds decision))])))
         else
           letM (catch_http
                  (letM (create_direct_session E target (dl_access_key payload)) (\<lambda>r. ret (Some r)))
                  (\<lambda>_. seqM (limiter_fail E source_ip)
                       (seqM (deny_login E source_ip target ''invalid_credentials'')
                       (seqM commit (raiseM (http_error 401 ''invalid_credentials'')))))) (\<lambda>made.
           (case made of
              None \<Rightarrow> raiseM (http_error 401 ''invalid_credentials'')
            | Some (l, session_key) \<Rightarrow>
                seqM (limiter_success source_ip)
                (seqM (audit E ''direct_browser'' ''operator'' ''direct.session.created'' ''system''
                        SYSTEM_ENTITY_ID [(''target'', JStr target)]
                        [(''lease_id'', JStr (lease_id l)), (''transport'', JStr ''direct'')])
                (seqM commit
                  (ret ([(''approved'', JBool True), (''target'', JStr target), (''transport'', JStr ''direct''),
                         (''renderer_url'', JStr (perimetr_public_url (cfg E))),
                         (''csrf_token'', JStr (csrf_token (crypt E) (lease_key_hash l)))],
                        [session_cookie E PERIMETR_SESSION_ID_COOKIE (lease_id l),
                         session_cookie E PERIMETR_SESSION_KEY_COOKIE session_key])))))))))"

definition current_session :: "env \<Rightarrow> lease \<Rightarrow> dict web" where
  "current_session E l =
     ret [(''csrf_token'', JStr (csrf_token (crypt E) (lease_key_hash l))),
          (''expires_at'', case lease_expires_at l of None \<Rightarrow> JNull | Some t \<Rightarrow> JTime t)]"

definition direct_logout :: "env \<Rightarrow> lease \<Rightarrow> dict web" where
  "direct_logout E l =
     letM (now_utc E) (\<lambda>now.
     seqM (db_set LEASES (lease_id l) (\<lambda>x. x\<lparr>lease_status := ''revoked'', lease_ended_at := Some now\<rparr>))
     (seqM commit (ret [(''signed_out'', JBool True)])))"

record access_key_change =
  ak_current_key :: string
  ak_new_key :: string
  ak_confirm_key :: string

definition change_access_key :: "env \<Rightarrow> lease \<Rightarrow> access_key_change \<Rightarrow> (dict \<times> cookie list) web" where
  "change_access_key E l payload =
     (let rate_key = ''rotation:'' @ lease_id l
      in letM (limiter_check E rate_key) (\<lambda>decision.
         seqM (raise_if (\<not> allowed decision)
                (Http 429 ''Too many attempts'' [(''Retry-After'', str_int (retry_after_seconds decision))]))
         (letM (catch_http
                 (update_access_key E (ak_current_key payload) (ak_new_key payload) (ak_confirm_key payload)
                   (lease_id l))
                 (\<lambda>exc. seqM (limiter_fail E rate_key)
                   (seqM (audit E ''operator'' ''operator'' ''auth.access_key.denied'' ''system''
                           SYSTEM_ENTITY_ID [] [(''outcome'', JStr ''denied'')])
                   (seqM commit (raiseM exc))))) (\<lambda>session_key.
         seqM (limiter_success rate_key)
         (seqM (audit E ''operator'' ''operator'' ''auth.access_key.updated'' ''system''
                 SYSTEM_ENTITY_ID [] [(''other_sessions_revoked'', JBool True)])
         (seqM commit
           (ret ([(''changed'', JBool True),
                  (''csrf_token'', JStr (csrf_token (crypt E) (hash_session_key E session_key)))],
                 [session_cookie E PERIMETR_SESSION_KEY_COOKIE session_key,
                  session_cookie E PERIMETR_SESSION_ID_COOKIE (lease_id l)]))))))))"

text \<open>The start page shows the operator interface to an active session and the login page to others.\<close>

datatype page = Core_Page | Login_Page "string option" json

definition index :: "env \<Rightarrow> request \<Rightarrow> string option \<Rightarrow> page web" where
  "index E req error =
     seqM (expire_stale_sessions E)
     (seqM commit
     (let session_id = request_cookie req PERIMETR_SESSION_ID_COOKIE;
          session_key = request_cookie req PERIMETR_SESSION_KEY_COOKIE
      in letM (if session_id \<noteq> [] \<and> session_key \<noteq> [] then
                 catch_http
                   (letM (get_session_lease session_id) (\<lambda>l.
                      ret (lease_status l = ''active'' \<and> lease_transport l = Some ''direct''
                           \<and> lease_access_scope l = ''perimetr''
                           \<and> lease_key_hash l = hash_session_key E session_key)))
                   (\<lambda>_. ret False)
               else ret False) (\<lambda>signed_in.
         if signed_in then ret Core_Page
         else letM (ensure_preferences E) (\<lambda>record.
              letM (liftM (public_preferences (dict_or_empty (ss_value record)))) (\<lambda>value.
              seqM commit
                (ret (Login_Page error (case jget ''accent'' (get_or_null ''theme'' value) of
                   None \<Rightarrow> JNull | Some a \<Rightarrow> a))))))))"

text \<open>Static files: a fixed list, of which the operator interface needs access.\<close>

definition PUBLIC_ASSETS :: "string list" where
  "PUBLIC_ASSETS = [''unified.css'', ''space-grotesk.woff2'', ''exact-key.js'', ''core.css'', ''core.js'',
     ''operator.js'', ''perimetr-icon.png'']"

definition PRIVATE_ASSETS :: "string list" where
  "PRIVATE_ASSETS = [''core.css'', ''core.js'', ''operator.js'']"

definition asset_media_type :: "string \<Rightarrow> string" where
  "asset_media_type name =
     (if ends_with ''.css'' name then ''text/css''
      else if ends_with ''.js'' name then ''application/javascript''
      else if ends_with ''.png'' name then ''image/png'' else ''font/woff2'')"

definition public_asset :: "env \<Rightarrow> request \<Rightarrow> string \<Rightarrow> (string \<times> string) web" where
  "public_asset E req name =
     seqM (raise_if (name \<notin> set PUBLIC_ASSETS) (http_error 404 ''not_found''))
     (seqM (whenM (name \<in> set PRIVATE_ASSETS) (letM (require_core_access E req) (\<lambda>_. ret ())))
       (ret (name, asset_media_type name)))"

end
