(* ===== verification/Session_Safety.thy ===== *)
theory Session_Safety
  imports Sessions
begin

text \<open>
  What operator sessions guarantee: which requests pass the access check, what a login, a logout and
  a rotation of the Access Key do to the sessions in the database.
\<close>

section \<open>Expiry\<close>

definition due :: "int \<Rightarrow> lease \<Rightarrow> bool" where
  "due t l \<longleftrightarrow> lease_status l = ''active'' \<and> (case lease_expires_at l of None \<Rightarrow> False | Some e \<Rightarrow> e \<le> t)"

definition close_lease :: "string \<Rightarrow> int \<Rightarrow> lease \<Rightarrow> lease" where
  "close_lease s t l = l\<lparr>lease_status := s, lease_ended_at := Some t\<rparr>"

definition expired_db :: "int \<Rightarrow> db \<Rightarrow> db" where
  "expired_db t d = modify_rows LEASES (due t) (close_lease ''expired'' t) d"

lemma close_lease_simps [simp]:
  "lease_id (close_lease s t l) = lease_id l" "lease_status (close_lease s t l) = s"
  "lease_key_hash (close_lease s t l) = lease_key_hash l"
  "close_lease s t (close_lease s' t' l) = close_lease s t l"
  "lease_subject_id (close_lease s t l) = lease_subject_id l" "lease_pod_id (close_lease s t l) = lease_pod_id l"
  by (simp_all add: close_lease_def)

lemma constraints_close: "constraints_ok (modify_rows LEASES P (close_lease s t) d) = constraints_ok d"
  by (rule constraints_modify_leases) simp_all

lemma constraints_expired [simp]: "constraints_ok (expired_db t d) = constraints_ok d"
  by (simp add: expired_db_def constraints_close)

lemma lease_rows [simp]: "rows LEASES d = leases d" "pk LEASES = lease_id"
  "with_rows LEASES xs d = d\<lparr>leases := xs\<rparr>"
  by (simp_all add: LEASES_def)

lemma leases_expired: "leases (expired_db t d)
    = map (\<lambda>l. if due t l then close_lease ''expired'' t l else l) (leases d)"
  by (simp add: expired_db_def modify_rows_def)

lemma expired_settings [simp]: "system_settings (expired_db t d) = system_settings d"
  by (simp add: expired_db_def modify_rows_def)

lemma wp_expire:
  assumes "in_step LEASES w"
  shows "wp (expire_stale_sessions E) Q X w =
    Q () (w\<lparr>draws := Suc (draws w), live := expired_db (clock E (draws w)) (live w)\<rparr>)"
proof -
  let ?t = "clock E (draws w)" and ?w = "w\<lparr>draws := Suc (draws w)\<rparr>"
  have s: "in_step LEASES ?w" using assms by (simp add: in_step_def)
  have b: "(\<lambda>l. case lease_expires_at l of None \<Rightarrow> ret ()
        | Some e \<Rightarrow> whenM (e \<le> ?t) (db_set LEASES (lease_id l)
            (\<lambda>x. x\<lparr>lease_status := ''expired'', lease_ended_at := Some ?t\<rparr>)))
      = (\<lambda>l. whenM (case lease_expires_at l of None \<Rightarrow> False | Some e \<Rightarrow> e \<le> ?t)
            (db_set LEASES (pk LEASES l) (close_lease ''expired'' ?t)))"
    by (auto simp: whenM_def close_lease_def [abs_def] split: option.splits)
  have p: "(\<lambda>r. lease_status r = ''active'' \<and> lease_expires_at r \<noteq> None \<and>
        (case lease_expires_at r of None \<Rightarrow> False | Some e \<Rightarrow> e \<le> ?t)) = due ?t"
    by (auto simp: due_def split: option.splits)
  have "wp (letM (db_all LEASES (\<lambda>l. lease_status l = ''active'' \<and> lease_expires_at l \<noteq> None))
      (\<lambda>found. eachM found (\<lambda>l. whenM (case lease_expires_at l of None \<Rightarrow> False | Some e \<Rightarrow> e \<le> ?t)
            (db_set LEASES (pk LEASES l) (close_lease ''expired'' ?t))))) Q X ?w
    = Q () (?w\<lparr>live := expired_db ?t (live ?w)\<rparr>)"
    by (subst leases_table.wp_update_where [OF s]) (simp_all add: p expired_db_def del: not_None_eq)
  then show ?thesis by (simp only: expire_stale_sessions_def wp_letM wp_now_utc b) simp
qed

section \<open>The access check\<close>

text \<open>An endpoint that depends on the access check.\<close>

definition protected :: "env \<Rightarrow> request \<Rightarrow> (lease \<Rightarrow> 'a web) \<Rightarrow> 'a web" where
  "protected E req h = letM (require_core_access E req) h"

text \<open>The request presents, at time \<open>t\<close>, the key of a session that may use the operator interface.\<close>

definition valid_session :: "env \<Rightarrow> request \<Rightarrow> int \<Rightarrow> db \<Rightarrow> lease \<Rightarrow> bool" where
  "valid_session E req t d l \<longleftrightarrow>
     lookup LEASES d (request_cookie req PERIMETR_SESSION_ID_COOKIE) = Some l
   \<and> request_cookie req PERIMETR_SESSION_ID_COOKIE \<noteq> [] \<and> request_cookie req PERIMETR_SESSION_KEY_COOKIE \<noteq> []
   \<and> lease_status l = ''active'' \<and> \<not> due t l
   \<and> lease_key_hash l = hash_session_key E (request_cookie req PERIMETR_SESSION_KEY_COOKIE)
   \<and> lease_access_scope l = ''perimetr'' \<and> lease_transport l = Some ''direct''
   \<and> validate_csrf (crypt E) req (lease_key_hash l) (perimetr_public_url (cfg E)) = Inr ()"

lemma lookup_expired:
  "lookup LEASES (expired_db t d) k = map_option (\<lambda>l. if due t l then close_lease ''expired'' t l else l)
     (lookup LEASES d k)"
proof -
  have "find (\<lambda>r. lease_id r = k) (map (\<lambda>l. if due t l then close_lease ''expired'' t l else l) ls)
      = map_option (\<lambda>l. if due t l then close_lease ''expired'' t l else l) (find (\<lambda>r. lease_id r = k) ls)" for ls
    by (induction ls) auto
  then show ?thesis by (simp add: lookup_def leases_expired)
qed

text \<open>The world in which the handler of a protected endpoint starts.\<close>

definition admitted :: "env \<Rightarrow> world \<Rightarrow> world" where
  "admitted E w = (let d = expired_db (clock E (draws w)) (committed w)
     in w\<lparr>draws := Suc (draws w), committed := d, stored := d, live := d\<rparr>)"

lemma admitted_idle: "idle w \<Longrightarrow> idle (admitted E w)"
  by (simp add: idle_def admitted_def Let_def)

lemma admitted_constraints: "constraints_ok (committed (admitted E w)) = constraints_ok (committed w)"
  by (simp add: admitted_def Let_def)

lemma require_core_access_cases:
  assumes "idle w" and "constraints_ok (committed w)"
  shows "(\<exists>l. valid_session E req (clock E (draws w)) (committed w) l
            \<and> require_core_access E req w = (Inr l, admitted E w))
       \<or> ((\<nexists>l. valid_session E req (clock E (draws w)) (committed w) l)
            \<and> (\<exists>e. require_core_access E req w = (Inl e, admitted E w)))"
proof -
  let ?t = "clock E (draws w)"
  let ?id = "request_cookie req PERIMETR_SESSION_ID_COOKIE"
  have s: "live w = committed w" "stored w = committed w" "pending_log w = []" using assms(1) by (simp_all add: idle_def)
  have i: "in_step LEASES w" using synced_in_step idle_synced assms by blast
  have a: "in_step LEASES (admitted E w)"
    using synced_in_step idle_synced admitted_idle [OF assms(1)] assms(2) admitted_constraints by blast
  have w1: "w\<lparr>draws := Suc (draws w), live := expired_db ?t (live w), stored := expired_db ?t (live w),
        committed := expired_db ?t (live w), pending_log := []\<rparr> = admitted E w"
    using s by (cases w) (simp add: admitted_def Let_def)
  have c: "constraints_ok (live w)" using assms(2) s by simp
  have st: "stored (admitted E w) = expired_db ?t (committed w)" by (simp add: admitted_def Let_def)
  have "wp (require_core_access E req) (\<lambda>l w'. valid_session E req ?t (committed w) l \<and> w' = admitted E w)
      (\<lambda>e w'. (\<nexists>l. valid_session E req ?t (committed w) l) \<and> w' = admitted E w) w"
    unfolding require_core_access_def
    apply (simp add: wp_expire [OF i] c s(3) w1 Let_def wp_core get_session_lease_def
        leases_table.wp_db_get_synced [OF a] st lookup_expired ensure_exists_def)
    apply (cases "lookup LEASES (committed w) ?id")
     apply (auto simp add: valid_session_def wp_core split: sum.splits)
    done
  then show ?thesis
    by (cases "require_core_access E req w"; cases "fst (require_core_access E req w)") (auto simp: wp_def)
qed

text \<open>C1. The access check is exact. A request that presents the key of a live session, and for an unsafe
  method its CSRF token, runs the handler on that session in the world where due sessions are
  expired. Every other request is refused before the handler, and changes nothing but the expiry of
  due sessions.\<close>

theorem core_access_guard:
  assumes "idle w" and "constraints_ok (committed w)"
  shows "if \<exists>l. valid_session E req (clock E (draws w)) (committed w) l
    then \<exists>l. valid_session E req (clock E (draws w)) (committed w) l
           \<and> serve (protected E req h) w = serve (h l) (admitted E w)
    else (\<exists>e. fst (serve (protected E req h) w) = Inl e)
           \<and> committed (snd (serve (protected E req h) w)) = expired_db (clock E (draws w)) (committed w)"
proof (cases "\<exists>l. valid_session E req (clock E (draws w)) (committed w) l")
  case True
  with require_core_access_cases [OF assms, of E req] obtain l where
    "valid_session E req (clock E (draws w)) (committed w) l" "require_core_access E req w = (Inr l, admitted E w)"
    by blast
  then have "valid_session E req (clock E (draws w)) (committed w) l
      \<and> serve (protected E req h) w = serve (h l) (admitted E w)"
    by (simp add: protected_def serve_idle assms(1) admitted_idle letM_def)
  with True show ?thesis by auto
next
  case False
  with require_core_access_cases [OF assms, of E req] obtain e where
    "require_core_access E req w = (Inl e, admitted E w)"
    by blast
  with False show ?thesis by (simp add: protected_def serve_idle assms(1) letM_def admitted_def Let_def)
qed

lemma core_access_cases_run:
  assumes "idle w" and "constraints_ok (committed w)" and "serve (protected E req h) w = (Inr x, w')"
  shows "\<exists>l. valid_session E req (clock E (draws w)) (committed w) l
    \<and> serve (h l) (admitted E w) = (Inr x, w')"
  using require_core_access_cases [OF assms(1,2), of E req] assms(3) admitted_idle [OF assms(1), of E]
  by (auto simp: protected_def serve_idle assms(1) letM_def Let_def split: prod.splits)

section \<open>Login\<close>

lemma run_wp: "wp m (\<lambda>a w'. a = x \<and> w' = w1) (\<lambda>_ _. False) w \<Longrightarrow> m w = (Inr x, w1)"
  by (auto simp: wp_def split: prod.splits sum.splits)

lemma expire_run: "in_step LEASES w \<Longrightarrow> expire_stale_sessions E w
    = (Inr (), w\<lparr>draws := Suc (draws w), live := expired_db (clock E (draws w)) (live w)\<rparr>)"
  by (rule run_wp) (simp add: wp_expire)

lemma resolve_verifier_stored: "resolve_verifier E auth (w\<lparr>stored := d\<rparr>) =
    (fst (resolve_verifier E auth w), (snd (resolve_verifier E auth w))\<lparr>stored := d\<rparr>)"
  by (simp add: resolve_verifier_def seed_verifier_def ret_def raiseM_def letM_def draw_def Let_def
      split: option.splits)

text \<open>Normalising the preferences reads only the settings table of what is stored.\<close>

lemma ensure_from_live:
  assumes "system_settings (live w) = system_settings (stored w)" and "ensure_preferences E w = (Inr r, w')"
  shows "ensure_preferences E (w\<lparr>stored := live w\<rparr>) = (Inr r, w')"
proof -
  obtain found where db: "db_scalar SETTINGS preferences_row w = (Inr found, w)"
    "db_scalar SETTINGS preferences_row (w\<lparr>stored := live w\<rparr>) = (Inr found, w\<lparr>stored := live w\<rparr>)"
    using assms(1) by (simp add: db_scalar_def current_def [abs_def] lookup_def SETTINGS_def)
  have s: "resolve_verifier E auth (w\<lparr>stored := live w\<rparr>) = (Inr v, w1\<lparr>stored := live w\<rparr>)"
    if "resolve_verifier E auth w = (Inr v, w1)" for auth v w1
    using that by (simp add: resolve_verifier_stored)
  show ?thesis
    using assms(2)
    by (auto simp: ensure_preferences_def web_inv db Let_def dest!: s split: option.splits if_splits)
qed

lemma get_preferences_result:
  assumes "sane_crypto E" and "system_settings (live w) = system_settings (stored w)"
    and "constraints_ok (live w)" and "get_perimetr_preferences E w = (Inr p, w')"
  shows "ensured (w\<lparr>stored := live w\<rparr>) w' \<and> p = preferences_of (stored w')"
proof -
  from assms(4) obtain r w1 where e: "ensure_preferences E w = (Inr r, w1)"
    by (auto simp: get_perimetr_preferences_def web_inv)
  from ensure_result [OF assms(1) _ _ ensure_from_live [OF assms(2) e]] assms(3)
  have en: "ensured (w\<lparr>stored := live w\<rparr>) w1" and f: "find preferences_row (system_settings (stored w1)) = Some r"
    by auto
  then have s: "synced w1" by (simp add: ensured_def synced_def)
  then have i: "w1\<lparr>stored := live w1\<rparr> = w1" by (simp add: synced_def)
  have r: "rows SETTINGS = system_settings" by (simp add: SETTINGS_def)
  have "w' = w1 \<and> p = preferences_of (stored w1)"
    using assms(4) e f i settings_table.db_scalar_synced [OF synced_in_step [OF s]]
    by (auto simp: get_perimetr_preferences_def web_inv r preferences_of_def)
  with en show ?thesis by simp
qed

text \<open>The row of a session that is created at draw \<open>n\<close>.\<close>

definition session_row :: "env \<Rightarrow> nat \<Rightarrow> lease" where
  "session_row E n = \<lparr>lease_id = uuid4_hex E (n + 2), lease_subject_id = None, lease_pod_id = None,
     lease_status = ''active'', lease_key_hash = hash_session_key E (token_urlsafe E n),
     lease_access_scope = ''perimetr'', lease_transport = Some ''direct'', lease_started_at = clock E (n + 3),
     lease_expires_at = Some (whole_second (clock E (n + 1)) + seconds (perimetr_session_ttl_sec (cfg E))),
     lease_ended_at = None\<rparr>"

lemma get_preferences_ensures:
  assumes "sane_crypto E" and "live w = stored w" and "constraints_ok (stored w)"
    and "get_perimetr_preferences E w = (Inr p, w')"
  shows "\<exists>r. ensure_preferences E w = (Inr r, w')"
proof -
  from assms(4) obtain r w1 where e: "ensure_preferences E w = (Inr r, w1)"
    by (auto simp: get_perimetr_preferences_def web_inv)
  from ensure_result [OF assms(1-3) e] have "w1\<lparr>stored := live w1\<rparr> = w1" by (simp add: ensured_def)
  with assms(4) e have "w' = w1" by (auto simp: get_perimetr_preferences_def web_inv db_scalar_def)
  with e show ?thesis by blast
qed

lemma create_session_result:
  assumes "sane_crypto E" and "synced w" and run: "create_direct_session E target key w = (Inr (l, k), w')"
  shows "\<exists>w2 d. d = expired_db (clock E (draws w)) (live w)
    \<and> ensured (w\<lparr>draws := Suc (draws w), live := d, stored := d\<rparr>) w2
    \<and> key \<noteq> [] \<and> verify_password (crypt E) key (verifier_of (preferences_of (stored w2)))
    \<and> k = token_urlsafe E (draws w2) \<and> l = session_row E (draws w2)
    \<and> w' = w2\<lparr>draws := draws w2 + 4, live := insert_row LEASES l (stored w2),
                stored := insert_row LEASES l (stored w2)\<rparr>
    \<and> constraints_ok (live w')"
proof -
  let ?d = "expired_db (clock E (draws w)) (live w)"
  let ?w1 = "w\<lparr>draws := Suc (draws w), live := ?d\<rparr>"
  have x: "expire_stale_sessions E w = (Inr (), ?w1)" by (rule expire_run [OF synced_in_step [OF assms(2)]])
  from run obtain scope p w2 where sc: "normalize_access_target target = Inr scope"
    and p: "get_perimetr_preferences E ?w1 = (Inr p, w2)"
    and rest: "key \<noteq> []" "verify_password (crypt E) key (verifier_of p)"
      "k = token_urlsafe E (draws w2)"
      "l = (session_row E (draws w2))\<lparr>lease_access_scope := scope\<rparr>"
      "w' = w2\<lparr>draws := draws w2 + 4, live := insert_row LEASES l (live w2), stored := insert_row LEASES l (live w2)\<rparr>"
      "constraints_ok (live w')"
    by (auto simp: create_direct_session_def web_inv x verify_direct_login_def Let_def session_row_def numeral_eq_Suc)
  have "scope = ''perimetr''"
    using sc by (auto simp: normalize_access_target_def Let_def split: if_splits)
  then have l: "l = session_row E (draws w2)" using rest(4) by (simp add: session_row_def)
  have "system_settings (live ?w1) = system_settings (stored ?w1)" "constraints_ok (live ?w1)"
    using assms(2) by (simp_all add: synced_def)
  from get_preferences_result [OF assms(1) this p]
  have "ensured (w\<lparr>draws := Suc (draws w), live := ?d, stored := ?d\<rparr>) w2" "p = preferences_of (stored w2)" by simp_all
  moreover from this(1) have "live w2 = stored w2" by (simp add: ensured_def)
  ultimately show ?thesis using rest l by auto
qed

text \<open>Documented shape of the identifiers: they are not empty.\<close>

definition sane_ids :: "env \<Rightarrow> bool" where
  "sane_ids E \<longleftrightarrow> (\<forall>n. uuid4_hex E n \<noteq> [] \<and> token_urlsafe E n \<noteq> [])"

lemma limiter_check_run: "limiter_check E key w = (Inr (fst (check (login_limiter w) key (monotonic E (draws w)))),
    w\<lparr>draws := Suc (draws w), login_limiter := snd (check (login_limiter w) key (monotonic E (draws w)))\<rparr>)"
  by (rule run_wp) (simp add: wp_limiter_check)

lemma login_result:
  assumes "sane_crypto E" and "idle w" and "constraints_ok (committed w)"
    and run: "direct_login E req p w = (Inr (out, cookies), w')"
  shows "\<exists>m d pr. constraints_ok (committed w')
    \<and> leases (committed w') = map (\<lambda>l. if due (clock E m) l then close_lease ''expired'' (clock E m) l else l)
         (leases (committed w)) @ [session_row E d]
    \<and> pr = preferences_of (committed w') \<and> verify_password (crypt E) (dl_access_key p) (verifier_of pr)
    \<and> dl_access_key p \<noteq> []
    \<and> get_key ''csrf_token'' out = Some (JStr (csrf_token (crypt E) (lease_key_hash (session_row E d))))
    \<and> cookies = [session_cookie E PERIMETR_SESSION_ID_COOKIE (lease_id (session_row E d)),
                  session_cookie E PERIMETR_SESSION_KEY_COOKIE (token_urlsafe E d)]"
proof -
  from run obtain target w1 l k w2 M where
    t: "normalize_access_target (dl_target p) = Inr target"
    and w1: "w1 = w\<lparr>draws := Suc (draws w), login_limiter := login_limiter w1\<rparr>"
    and c: "create_direct_session E target (dl_access_key p) w1 = (Inr (l, k), w2)"
    and M: "M = seqM (limiter_success (client_identity req (perimetr_trusted_proxies (cfg E))))
                (seqM (audit E ''direct_browser'' ''operator'' ''direct.session.created'' ''system''
                        SYSTEM_ENTITY_ID [(''target'', JStr target)]
                        [(''lease_id'', JStr (lease_id l)), (''transport'', JStr ''direct'')])
                (seqM commit
                  (ret ([(''approved'', JBool True), (''target'', JStr target), (''transport'', JStr ''direct''),
                         (''renderer_url'', JStr (perimetr_public_url (cfg E))),
                         (''csrf_token'', JStr (csrf_token (crypt E) (lease_key_hash l)))],
                        [session_cookie E PERIMETR_SESSION_ID_COOKIE (lease_id l),
                         session_cookie E PERIMETR_SESSION_KEY_COOKIE k]))))"
    and rest: "M w2 = (Inr (out, cookies), w')"
  proof -
    obtain d w1 where lc: "limiter_check E (client_identity req (perimetr_trusted_proxies (cfg E))) w = (Inr d, w1)"
      and w1: "w1 = w\<lparr>draws := Suc (draws w), login_limiter := login_limiter w1\<rparr>"
      by (simp add: limiter_check_run)
    from run lc that [OF _ w1] show thesis
      by (auto simp: direct_login_def web_inv Let_def split: if_splits option.splits)
  qed
  have s1: "synced w1" "live w1 = committed w" "committed w1 = committed w"
    using idle_synced [OF assms(2,3)] assms(2) w1
    by (metis (no_types, lifting) idle_def synced_def world.select_convs(1-3) world.surjective world.update_convs(6,7))+
  obtain w3 where en: "ensured (w1\<lparr>draws := Suc (draws w1), live := expired_db (clock E (draws w1)) (committed w),
        stored := expired_db (clock E (draws w1)) (committed w)\<rparr>) w3"
    and v: "dl_access_key p \<noteq> []" "verify_password (crypt E) (dl_access_key p) (verifier_of (preferences_of (stored w3)))"
    and l: "k = token_urlsafe E (draws w3)" "l = session_row E (draws w3)"
    and w2: "w2 = w3\<lparr>draws := draws w3 + 4, live := insert_row LEASES l (stored w3),
        stored := insert_row LEASES l (stored w3)\<rparr>" and ok: "constraints_ok (live w2)"
    using create_session_result [OF assms(1) s1(1) c] s1 by auto
  have le: "leases (stored w3) = leases (expired_db (clock E (draws w1)) (committed w))"
  proof -
    obtain xs where "stored w3 = (expired_db (clock E (draws w1)) (committed w))\<lparr>system_settings := xs\<rparr>"
      using en by (auto simp: ensured_def)
    then show ?thesis by simp
  qed
  let ?Q = "\<lambda>r w'. (\<exists>es. committed w' = (live w2)\<lparr>audit_events := es\<rparr> \<and> constraints_ok (committed w'))
      \<and> r = ([(''approved'', JBool True), (''target'', JStr target), (''transport'', JStr ''direct''),
           (''renderer_url'', JStr (perimetr_public_url (cfg E))),
           (''csrf_token'', JStr (csrf_token (crypt E) (lease_key_hash l)))],
          [session_cookie E PERIMETR_SESSION_ID_COOKIE (lease_id l),
           session_cookie E PERIMETR_SESSION_KEY_COOKIE k])"
  have "?Q (out, cookies) w'"
    by (rule wp_success [where m = M, OF rest]) (auto simp: M wp_core wp_limiter_success audited_def intro!: wp_auditI)
  then obtain es where cm: "committed w' = (live w2)\<lparr>audit_events := es\<rparr>" "constraints_ok (committed w')"
    and oc: "out = [(''approved'', JBool True), (''target'', JStr target), (''transport'', JStr ''direct''),
           (''renderer_url'', JStr (perimetr_public_url (cfg E))),
           (''csrf_token'', JStr (csrf_token (crypt E) (lease_key_hash l)))]"
      "cookies = [session_cookie E PERIMETR_SESSION_ID_COOKIE (lease_id l),
           session_cookie E PERIMETR_SESSION_KEY_COOKIE k]" by auto
  have "preferences_of (committed w') = preferences_of (stored w3)"
    "leases (committed w') = leases (stored w3) @ [l]"
    by (simp_all add: cm w2 preferences_of_def insert_row_def)
  with v l oc cm le show ?thesis
    by (intro exI [of _ "draws w1"] exI [of _ "draws w3"] exI [of _ "preferences_of (stored w3)"])
      (simp add: json_simps leases_expired)
qed


section \<open>Logout\<close>

text \<open>A logout ends the session it is made with and no other: afterwards no request passes the access
  check with its identifier, and every other session is as it was, expiry apart.\<close>

theorem logout_ends_session:
  assumes "idle w" and "constraints_ok (committed w)"
    and run: "serve (protected E req (direct_logout E)) w = (Inr out, w')"
    and sid: "sid = request_cookie req PERIMETR_SESSION_ID_COOKIE"
  shows "(\<exists>l. lookup LEASES (committed w') sid = Some l \<and> lease_status l = ''revoked'')
    \<and> (\<forall>req' t l. request_cookie req' PERIMETR_SESSION_ID_COOKIE = sid \<longrightarrow>
         \<not> valid_session E req' t (committed w') l)
    \<and> (\<forall>k. k \<noteq> sid \<longrightarrow> lookup LEASES (committed w') k
         = lookup LEASES (expired_db (clock E (draws w)) (committed w)) k)"
proof -
  obtain l where v: "valid_session E req (clock E (draws w)) (committed w) l"
    and s: "serve (direct_logout E l) (admitted E w) = (Inr out, w')"
    using core_access_cases_run [OF assms(1,2) run] by blast
  let ?d = "expired_db (clock E (draws w)) (committed w)"
  let ?g = "\<lambda>x. x\<lparr>lease_status := ''revoked'', lease_ended_at := Some (clock E (Suc (draws w)))\<rparr>"
  have l: "lookup LEASES ?d sid = Some l" "lease_id l = sid"
    using v sid leases_table.lookup_pk [of "committed w"] by (auto simp: valid_session_def lookup_expired)
  have c: "committed w' = modify_row LEASES sid ?g ?d"
    using s by (auto simp: serve_Inr [OF admitted_idle [OF assms(1)]] direct_logout_def web_inv l(2))
      (simp add: admitted_def Let_def)
  have look: "lookup LEASES (committed w') k = (if k = sid then map_option ?g (lookup LEASES ?d sid) else lookup LEASES ?d k)" for k
    unfolding c by (rule leases_table.lookup_modify) simp
  then show ?thesis using l by (auto simp: valid_session_def)
qed

section \<open>Rotation of the Access Key\<close>

lemma wp_revoke_others:
  assumes "in_step LEASES w"
  shows "wp (letM (db_all LEASES (\<lambda>l. lease_status l = ''active'' \<and> lease_transport l = Some ''direct''))
      (\<lambda>others. seqM (eachM others (\<lambda>l. whenM (lease_id l \<noteq> sid) (db_set LEASES (lease_id l)
        (\<lambda>x. x\<lparr>lease_status := ''revoked'', lease_ended_at := Some t\<rparr>)))) m)) Q X w
    = wp m Q X (w\<lparr>live := modify_rows LEASES (\<lambda>l. lease_status l = ''active'' \<and> lease_transport l = Some ''direct''
        \<and> lease_id l \<noteq> sid) (close_lease ''revoked'' t) (live w)\<rparr>)"
proof -
  have f: "(\<lambda>x. x\<lparr>lease_status := ''revoked'', lease_ended_at := Some t\<rparr>) = close_lease ''revoked'' t"
    by (simp add: close_lease_def [abs_def])
  show ?thesis
    using leases_table.wp_update_where [OF assms, of "close_lease ''revoked'' t"
      "\<lambda>l. lease_status l = ''active'' \<and> lease_transport l = Some ''direct''" "\<lambda>l. lease_id l \<noteq> sid"
      "\<lambda>_. wp m Q X" X]
    by (simp add: f wp_letM_seqM)
qed

text \<open>The database after a rotation in the session \<open>sid\<close>, from the normalised preferences \<open>d\<close>.\<close>

definition rotated :: "env \<Rightarrow> nat \<Rightarrow> string \<Rightarrow> string \<Rightarrow> db \<Rightarrow> db" where
  "rotated E n new_key sid d =
     (let changed = set_key ''auth'' (JObj [(''access_key_hash'',
            JStr (hash_password (crypt E) (token_bytes E n) new_key))]) (preferences_of d);
          d1 = modify_rows SETTINGS preferences_row (\<lambda>x. x\<lparr>ss_value := JObj changed\<rparr>) d;
          d2 = modify_rows LEASES (\<lambda>l. lease_status l = ''active'' \<and> lease_transport l = Some ''direct''
                 \<and> lease_id l \<noteq> sid) (close_lease ''revoked'' (clock E (n + 1))) d1
      in modify_row LEASES sid (\<lambda>x. x\<lparr>lease_key_hash := hash_session_key E (token_urlsafe E (n + 2)),
           lease_expires_at := Some (clock E (n + 1) + seconds (perimetr_session_ttl_sec (cfg E)))\<rparr>) d2)"

lemma modify_preferences_row:
  assumes "keys_ok d" and "find preferences_row (system_settings d) = Some r"
  shows "modify_row SETTINGS (ss_id r) f d = modify_rows SETTINGS preferences_row f d"
proof -
  have r: "r \<in> set (system_settings d)" "ss_key r = PREFERENCES_KEY"
    using find_SomeD [OF assms(2)] by (simp_all add: preferences_row_def)
  have "inj_on ss_id (set (system_settings d))" "inj_on ss_key (set (system_settings d))"
    using assms(1) by (simp_all add: keys_ok_def distinct_map)
  then have "(ss_id x = ss_id r) = preferences_row x" if "x \<in> set (system_settings d)" for x
    using that r inj_onD [of ss_id _ x r] inj_onD [of ss_key _ x r] by (auto simp: preferences_row_def)
  then show ?thesis by (simp add: modify_row_def modify_rows_def SETTINGS_def cong: map_cong)
qed

lemma kept_verifier:
  assumes "sane_crypto E" and "live w = stored w" and "constraints_ok (stored w)"
    and "ensure_preferences E w = (Inr r, w')"
    and "is_password_hash (verifier_of (preferences_of (stored w)))"
  shows "verifier_of (preferences_of (stored w')) = verifier_of (preferences_of (stored w))"
proof -
  from ensure_result [OF assms(1-4)] assms(5)
  have f: "find preferences_row (system_settings (stored w')) = Some r"
    and c: "if find preferences_row (system_settings (stored w)) \<noteq> None
          \<and> json_eq (JObj (normal_preferences (preferences_of (stored w)) (verifier_of (preferences_of (stored w)))))
              (JObj (preferences_of (stored w)))
        then stored w' = stored w
        else dict_or_empty (ss_value r) = normal_preferences (preferences_of (stored w)) (verifier_of (preferences_of (stored w)))"
    by auto
  have "verifier_of (normal_preferences p h) = h" for p h
    by (simp add: verifier_of_def auth_of_def get_or_null_def dict_or_empty_def normal_auth text_or_empty_def json_simps)
  with c f show ?thesis by (simp add: preferences_of_def split: if_splits)
qed

lemma wp_update_access_key:
  assumes p: "get_perimetr_preferences E w = (Inr p, w2)" and pr: "p = preferences_of (stored w2)"
    and syn: "synced w2" and f: "find preferences_row (system_settings (stored w2)) = Some r1"
  shows "wp (update_access_key E cur new conf sid) Q X w =
    (if new = [] \<or> new \<noteq> conf then X (http_error 400 ''Supply the same new Access Key twice'') w
     else if \<not> verify_password (crypt E) cur (verifier_of p) then X (http_error 403 ''Current Access Key is incorrect'') w2
     else let d = rotated E (draws w2) new sid (stored w2) in
       if constraints_ok d then Q (token_urlsafe E (draws w2 + 2)) (w2\<lparr>draws := draws w2 + 3, live := d, stored := d\<rparr>)
       else X (Crash ''IntegrityError'') (w2\<lparr>draws := draws w2 + 3, live := d\<rparr>))"
proof -
  have look: "wp (db_scalar SETTINGS preferences_row) Q X (w2\<lparr>draws := n\<rparr>) = Q (Some r1) (w2\<lparr>draws := n\<rparr>)" for Q X n
  proof -
    have "in_step SETTINGS (w2\<lparr>draws := n\<rparr>)" using syn by (simp add: in_step_def synced_def constraints_ok_def)
    from settings_table.wp_db_scalar_synced [OF this] f show ?thesis by (simp add: SETTINGS_def)
  qed
  have ins: "keys_ok (stored w2)" using syn by (simp add: synced_def constraints_ok_def)
  have keep: "leases (modify_rows SETTINGS P h d) = leases d" for P h d
    by (simp add: modify_rows_def SETTINGS_def)
  have m: "modify_row SETTINGS (ss_id r1) h (stored w2) = modify_rows SETTINGS preferences_row h (stored w2)" for h
    using modify_preferences_row [OF ins f] .
  have l: "live w2 = stored w2" using syn by (simp add: synced_def)
  have first: "wp (letM (draw f) h) Q X w = wp (h (f (draws w))) Q X (w\<lparr>draws := Suc (draws w)\<rparr>)"
    "wp (letM (now_utc E) h') Q X w = wp (h' (clock E (draws w))) Q X (w\<lparr>draws := Suc (draws w)\<rparr>)"
    for f :: "nat \<Rightarrow> string" and h h' Q X w by (simp_all add: wp_core)
  have read: "wp (letM (db_scalar SETTINGS preferences_row) h) Q X (w2\<lparr>draws := n\<rparr>) = wp (h (Some r1)) Q X (w2\<lparr>draws := n\<rparr>)"
    for h Q X n by (simp add: wp_letM look)
  have load: "wp (letM (get_perimetr_preferences E) h) Q X w = wp (h p) Q X w2" for h Q X
    by (simp add: wp_letM) (simp add: wp_def p)
  show ?thesis
    unfolding update_access_key_def Let_def
    by (auto simp add: wp_seqM wp_raise_if wp_ret wp_db_set wp_flush load first read wp_revoke_others
        in_step_def keep ins l m pr rotated_def Let_def numeral_eq_Suc)
qed

lemma update_access_key_result:
  assumes "sane_crypto E" and "synced w" and run: "update_access_key E cur new conf sid w = (Inr k, w')"
  shows "\<exists>w2. ensured w w2 \<and> verify_password (crypt E) cur (verifier_of (preferences_of (stored w2)))
    \<and> find preferences_row (system_settings (stored w2)) \<noteq> None
    \<and> (is_password_hash (verifier_of (preferences_of (stored w))) \<longrightarrow>
         verifier_of (preferences_of (stored w2)) = verifier_of (preferences_of (stored w)))
    \<and> new \<noteq> [] \<and> new = conf \<and> k = token_urlsafe E (draws w2 + 2)
    \<and> w' = w2\<lparr>draws := draws w2 + 3, live := rotated E (draws w2) new sid (stored w2),
                stored := rotated E (draws w2) new sid (stored w2)\<rparr>
    \<and> constraints_ok (live w')"
proof -
  have s: "live w = stored w" "constraints_ok (stored w)" using assms(2) by (simp_all add: synced_def)
  from run obtain p w2 where p: "get_perimetr_preferences E w = (Inr p, w2)"
    by (auto simp: update_access_key_def web_inv)
  then obtain r where e: "ensure_preferences E w = (Inr r, w2)"
    using get_preferences_ensures [OF assms(1) s] by blast
  from ensure_result [OF assms(1) s e] have en: "ensured w w2"
    and f: "find preferences_row (system_settings (stored w2)) = Some r" by blast+
  then have syn: "synced w2" by (simp add: ensured_def synced_def)
  have pr: "p = preferences_of (stored w2)"
    using get_preferences_result [OF assms(1) _ _ p] s by simp
  have "wp (update_access_key E cur new conf sid)
    (\<lambda>k w'. verify_password (crypt E) cur (verifier_of (preferences_of (stored w2)))
      \<and> new \<noteq> [] \<and> new = conf \<and> k = token_urlsafe E (draws w2 + 2)
      \<and> w' = w2\<lparr>draws := draws w2 + 3, live := rotated E (draws w2) new sid (stored w2),
                  stored := rotated E (draws w2) new sid (stored w2)\<rparr>
      \<and> constraints_ok (live w')) (\<lambda>_ _. True) w"
    by (simp add: wp_update_access_key [OF p pr syn f] Let_def) (auto simp: pr)
  from wp_success [OF run this] en f kept_verifier [OF assms(1) s e] show ?thesis by auto
qed

text \<open>What the rotated database says about the verifier and the sessions.\<close>

lemma rotated_settings:
  assumes "find preferences_row (system_settings d) = Some r"
  shows "verifier_of (preferences_of (rotated E n new sid d)) = hash_password (crypt E) (token_bytes E n) new"
proof -
  have f: "find preferences_row (map (\<lambda>x. if preferences_row x then x\<lparr>ss_value := v\<rparr> else x) xs)
      = map_option (\<lambda>x. x\<lparr>ss_value := v\<rparr>) (find preferences_row xs)" for v xs
    by (induction xs) (auto simp: preferences_row_def)
  have s: "system_settings (modify_row LEASES k g d') = system_settings d'"
    "system_settings (modify_rows LEASES P g d') = system_settings d'" for k g P d'
    by (simp_all add: modify_row_def modify_rows_def)
  let ?c = "set_key ''auth'' (JObj [(''access_key_hash'', JStr (hash_password (crypt E) (token_bytes E n) new))])
      (preferences_of d)"
  have "system_settings (modify_rows SETTINGS preferences_row (\<lambda>x. x\<lparr>ss_value := v\<rparr>) d)
      = map (\<lambda>x. if preferences_row x then x\<lparr>ss_value := v\<rparr> else x) (system_settings d)" for v
    by (simp add: modify_rows_def SETTINGS_def)
  with assms have "preferences_of (rotated E n new sid d) = ?c"
    by (subst preferences_of_def) (simp add: rotated_def Let_def s f dict_or_empty_def)
  then show ?thesis by (simp add: verifier_of_def auth_of_def get_or_null_def dict_or_empty_def json_simps text_or_empty_def)
qed

lemma rotated_leases: "leases (rotated E n new sid d) = map (\<lambda>l.
    if lease_id l = sid then l\<lparr>lease_key_hash := hash_session_key E (token_urlsafe E (n + 2)),
           lease_expires_at := Some (clock E (n + 1) + seconds (perimetr_session_ttl_sec (cfg E)))\<rparr>
    else if lease_status l = ''active'' \<and> lease_transport l = Some ''direct''
         then close_lease ''revoked'' (clock E (n + 1)) l else l) (leases d)"
  by (auto simp: rotated_def Let_def modify_row_def modify_rows_def SETTINGS_def)

lemma limiter_check_shape: "\<exists>dec n L. limiter_check E k w = (Inr dec, w\<lparr>draws := n, login_limiter := L\<rparr>)"
  by (simp add: limiter_check_run) blast

lemma change_access_key_result:
  assumes "sane_crypto E" and "synced w" and run: "change_access_key E l payload w = (Inr (out, cookies), w')"
  shows "\<exists>d n es. (\<exists>xs. d = (live w)\<lparr>system_settings := xs\<rparr>)
    \<and> find preferences_row (system_settings d) \<noteq> None
    \<and> (is_password_hash (verifier_of (preferences_of (live w))) \<longrightarrow>
         verifier_of (preferences_of d) = verifier_of (preferences_of (live w)))
    \<and> verify_password (crypt E) (ak_current_key payload) (verifier_of (preferences_of d))
    \<and> ak_new_key payload \<noteq> [] \<and> ak_new_key payload = ak_confirm_key payload
    \<and> committed w' = (rotated E n (ak_new_key payload) (lease_id l) d)\<lparr>audit_events := es\<rparr>
    \<and> cookies = [session_cookie E PERIMETR_SESSION_KEY_COOKIE (token_urlsafe E (n + 2)),
                 session_cookie E PERIMETR_SESSION_ID_COOKIE (lease_id l)]"
proof -
  obtain dec m L where lc: "limiter_check E (''rotation:'' @ lease_id l) w = (Inr dec, w\<lparr>draws := m, login_limiter := L\<rparr>)"
    using limiter_check_shape by blast
  let ?w1 = "w\<lparr>draws := m, login_limiter := L\<rparr>"
  from run lc obtain k w3 M where u: "update_access_key E (ak_current_key payload) (ak_new_key payload)
       (ak_confirm_key payload) (lease_id l) ?w1 = (Inr k, w3)"
    and M: "M = seqM (limiter_success (''rotation:'' @ lease_id l))
         (seqM (audit E ''operator'' ''operator'' ''auth.access_key.updated'' ''system''
                 SYSTEM_ENTITY_ID [] [(''other_sessions_revoked'', JBool True)])
         (seqM commit
           (ret ([(''changed'', JBool True),
                  (''csrf_token'', JStr (csrf_token (crypt E) (hash_session_key E k)))],
                 [session_cookie E PERIMETR_SESSION_KEY_COOKIE k,
                  session_cookie E PERIMETR_SESSION_ID_COOKIE (lease_id l)]))))"
    and rest: "M w3 = (Inr (out, cookies), w')"
    by (auto simp: change_access_key_def web_inv Let_def)
  have "synced ?w1" using assms(2) by (simp add: synced_def)
  from update_access_key_result [OF assms(1) this u] obtain w2 where en: "ensured ?w1 w2"
    and ver: "verify_password (crypt E) (ak_current_key payload) (verifier_of (preferences_of (stored w2)))"
    and new: "ak_new_key payload \<noteq> []" "ak_new_key payload = ak_confirm_key payload"
    and k: "k = token_urlsafe E (draws w2 + 2)"
    and w3: "live w3 = rotated E (draws w2) (ak_new_key payload) (lease_id l) (stored w2)"
    and f: "find preferences_row (system_settings (stored w2)) \<noteq> None"
    and same: "is_password_hash (verifier_of (preferences_of (stored ?w1))) \<longrightarrow>
         verifier_of (preferences_of (stored w2)) = verifier_of (preferences_of (stored ?w1))"
    by auto
  have "(\<exists>es. committed w' = (live w3)\<lparr>audit_events := es\<rparr>)
      \<and> cookies = [session_cookie E PERIMETR_SESSION_KEY_COOKIE k, session_cookie E PERIMETR_SESSION_ID_COOKIE (lease_id l)]"
    by (rule wp_success [where m = M and Q = "\<lambda>r w'. (\<exists>es. committed w' = (live w3)\<lparr>audit_events := es\<rparr>)
      \<and> snd r = [session_cookie E PERIMETR_SESSION_KEY_COOKIE k, session_cookie E PERIMETR_SESSION_ID_COOKIE (lease_id l)]",
        OF rest, simplified])
      (auto simp: M wp_core wp_limiter_success audited_def intro!: wp_auditI)
  moreover have "\<exists>xs. stored w2 = (live w)\<lparr>system_settings := xs\<rparr>"
    using en assms(2) by (auto simp: ensured_def synced_def)
  ultimately show ?thesis
    using ver new f same k w3 assms(2)
    by (intro exI [of _ "stored w2"] exI [of _ "draws w2"]) (auto simp: synced_def)
qed

lemma find_map_split:
  assumes "\<And>x. key (g x) = key x" and "\<And>x. key (h x) = key x"
  shows "find (\<lambda>x. key x = k) (map (\<lambda>x. if key x = k then g x else h x) xs) = map_option g (find (\<lambda>x. key x = k) xs)"
  using assms by (induction xs) auto

text \<open>C10. A rotation of the Access Key. It needs the current key and the new key twice. Afterwards the new
  key is the one that is verified, the session it was made with continues under a fresh key, and no
  other direct session is active.\<close>

theorem rotation_revokes_other_sessions:
  assumes "sane_crypto E" and "idle w" and "constraints_ok (committed w)"
    and old: "is_password_hash (verifier_of (preferences_of (committed w)))"
    and run: "serve (protected E req (\<lambda>l. change_access_key E l payload)) w = (Inr (out, cookies), w')"
    and sid: "sid = request_cookie req PERIMETR_SESSION_ID_COOKIE"
  shows "verify_password (crypt E) (ak_current_key payload) (verifier_of (preferences_of (committed w)))
    \<and> ak_new_key payload = ak_confirm_key payload \<and> ak_new_key payload \<noteq> []
    \<and> (\<exists>salt. verifier_of (preferences_of (committed w')) = hash_password (crypt E) salt (ak_new_key payload))
    \<and> (\<forall>l \<in> set (leases (committed w')). lease_status l = ''active'' \<and> lease_transport l = Some ''direct''
         \<longrightarrow> lease_id l = sid)
    \<and> (\<exists>l key. lookup LEASES (committed w') sid = Some l \<and> lease_status l = ''active''
         \<and> lease_key_hash l = hash_session_key E key
         \<and> cookies = [session_cookie E PERIMETR_SESSION_KEY_COOKIE key, session_cookie E PERIMETR_SESSION_ID_COOKIE sid])"
proof -
  let ?d = "expired_db (clock E (draws w)) (committed w)"
  obtain l where v: "valid_session E req (clock E (draws w)) (committed w) l"
    and s: "serve (change_access_key E l payload) (admitted E w) = (Inr (out, cookies), w')"
    using core_access_cases_run [OF assms(2,3) run] by blast
  obtain w0 where w0: "change_access_key E l payload (admitted E w) = (Inr (out, cookies), w0)"
    and c: "committed w' = committed w0"
    using s by (auto simp: serve_Inr [OF admitted_idle [OF assms(2)]])
  have l: "lookup LEASES ?d sid = Some l" "lease_id l = sid" "lease_status l = ''active''"
    using v sid leases_table.lookup_pk [of "committed w"] by (auto simp: valid_session_def lookup_expired)
  have "synced (admitted E w)" and li: "live (admitted E w) = ?d"
    using idle_synced [OF admitted_idle [OF assms(2)]] assms(3) admitted_constraints
    by (simp_all add: admitted_def Let_def)
  from change_access_key_result [OF assms(1) this(1) w0] obtain d n es where
    st: "\<exists>xs. d = ?d\<lparr>system_settings := xs\<rparr>" and f: "find preferences_row (system_settings d) \<noteq> None"
    and same: "is_password_hash (verifier_of (preferences_of ?d)) \<longrightarrow>
        verifier_of (preferences_of d) = verifier_of (preferences_of ?d)"
    and ver: "verify_password (crypt E) (ak_current_key payload) (verifier_of (preferences_of d))"
    and new: "ak_new_key payload \<noteq> []" "ak_new_key payload = ak_confirm_key payload"
    and cm: "committed w0 = (rotated E n (ak_new_key payload) sid d)\<lparr>audit_events := es\<rparr>"
    and ck: "cookies = [session_cookie E PERIMETR_SESSION_KEY_COOKIE (token_urlsafe E (n + 2)),
                        session_cookie E PERIMETR_SESSION_ID_COOKIE sid]"
    unfolding li l(2) by blast
  have pe: "preferences_of ?d = preferences_of (committed w)" by (simp add: preferences_of_def)
  have le: "leases d = leases ?d" using st by auto
  have ve: "verifier_of (preferences_of (committed w'))
      = hash_password (crypt E) (token_bytes E n) (ak_new_key payload)"
    using rotated_settings f by (auto simp: c cm preferences_of_def)
  have "lookup LEASES (committed w') sid = Some (l\<lparr>lease_key_hash := hash_session_key E (token_urlsafe E (n + 2)),
           lease_expires_at := Some (clock E (n + 1) + seconds (perimetr_session_ttl_sec (cfg E)))\<rparr>)"
  proof -
    have "find (\<lambda>l. lease_id l = sid) (leases (rotated E n (ak_new_key payload) sid d))
        = map_option (\<lambda>l. l\<lparr>lease_key_hash := hash_session_key E (token_urlsafe E (n + 2)),
           lease_expires_at := Some (clock E (n + 1) + seconds (perimetr_session_ttl_sec (cfg E)))\<rparr>)
          (find (\<lambda>l. lease_id l = sid) (leases d))"
      unfolding rotated_leases by (rule find_map_split) auto
    then show ?thesis using l(1) by (simp add: lookup_def c cm le)
  qed
  with l(3) ck have ex: "\<exists>l key. lookup LEASES (committed w') sid = Some l \<and> lease_status l = ''active''
         \<and> lease_key_hash l = hash_session_key E key
         \<and> cookies = [session_cookie E PERIMETR_SESSION_KEY_COOKIE key, session_cookie E PERIMETR_SESSION_ID_COOKIE sid]"
    by auto
  have "\<forall>l \<in> set (leases (committed w')). lease_status l = ''active'' \<and> lease_transport l = Some ''direct''
         \<longrightarrow> lease_id l = sid"
    by (auto simp: c cm rotated_leases close_lease_def split: if_splits)
  with ver new same old pe ve ex show ?thesis by auto
qed

end
