(* ===== verification/Session_Examples.thy ===== *)
theory Session_Examples
  imports Session_Safety
begin

text \<open>
  A small concrete deployment with one signed-in operator, and the session properties applied to it.
\<close>

definition demo_verifier :: string where
  "demo_verifier = hash_password toy_crypto (replicate 16 CHR ''s'') ''key''"

definition demo_preferences :: system_setting where
  "demo_preferences = \<lparr>ss_id = ''p'', ss_scope = ''perimetr'', ss_key = PREFERENCES_KEY,
     ss_value = JObj (normal_preferences [] demo_verifier), ss_created_at = 0\<rparr>"

definition demo_lease :: lease where
  "demo_lease = \<lparr>lease_id = ''s1'', lease_subject_id = None, lease_pod_id = None, lease_status = ''active'',
     lease_key_hash = hash_session_key demo_env ''k1'', lease_access_scope = ''perimetr'',
     lease_transport = Some ''direct'', lease_started_at = 0, lease_expires_at = None, lease_ended_at = None\<rparr>"

definition demo_db :: db where
  "demo_db = empty_db\<lparr>system_settings := [demo_preferences], leases := [demo_lease]\<rparr>"

definition world_of :: "db \<Rightarrow> world" where
  "world_of d = initial_world\<lparr>committed := d, stored := d, live := d\<rparr>"

definition demo_request :: request where
  "demo_request = \<lparr>req_method = ''GET'', req_path = ''/'', req_headers = [],
     req_cookies = [(PERIMETR_SESSION_ID_COOKIE, ''s1''), (PERIMETR_SESSION_KEY_COOKIE, ''k1'')],
     req_client = None\<rparr>"

lemma world_of_simps [simp]:
  "committed (world_of d) = d" "stored (world_of d) = d" "live (world_of d) = d" "pending_log (world_of d) = []"
  "draws (world_of d) = 0" "file_log (world_of d) = []" "login_limiter (world_of d) = new_limiter"
  by (simp_all add: world_of_def initial_world_def)

lemma idle_world_of: "idle (world_of d)"
  by (simp add: idle_def)

lemma demo_constraints: "constraints_ok demo_db"
  by (simp add: constraints_ok_def keys_ok_def foreign_ok_def refs_ok_def demo_db_def empty_db_def demo_lease_def)

lemma demo_cookies:
  "request_cookie demo_request PERIMETR_SESSION_ID_COOKIE = ''s1''"
  "request_cookie demo_request PERIMETR_SESSION_KEY_COOKIE = ''k1''"
  by (simp_all add: request_cookie_def demo_request_def PERIMETR_SESSION_ID_COOKIE_def PERIMETR_SESSION_KEY_COOKIE_def)

lemma demo_safe: "validate_browser_origin demo_request url = Inr ()" "req_method demo_request \<in> set SAFE_METHODS"
  by (simp_all add: validate_browser_origin_def demo_request_def SAFE_METHODS_def)

lemma demo_not_due: "\<not> due t demo_lease"
  by (simp add: due_def demo_lease_def)

lemma demo_valid: "valid_session demo_env demo_request t demo_db demo_lease"
  using demo_cookies demo_not_due [of t]
  by (simp add: valid_session_def demo_safe validate_csrf_def lookup_def demo_db_def demo_lease_def)

lemma demo_expired: "expired_db t demo_db = demo_db"
  using demo_not_due [of t] by (simp add: expired_db_def modify_rows_def demo_db_def)

lemma demo_admitted: "admitted demo_env (world_of demo_db) = (world_of demo_db)\<lparr>draws := 1\<rparr>"
  by (simp add: admitted_def demo_expired world_of_def initial_world_def)

lemma demo_lookup: "lookup LEASES demo_db ''s1'' = Some demo_lease"
  by (simp add: lookup_def demo_db_def demo_lease_def)

theorem core_access_guard_witness:
  "\<exists>l. valid_session demo_env demo_request (clock demo_env 0) demo_db l
     \<and> serve (protected demo_env demo_request (\<lambda>l. ret (lease_id l))) (world_of demo_db)
         = serve (ret (lease_id l)) ((world_of demo_db)\<lparr>draws := 1\<rparr>)"
proof -
  have "\<exists>l. valid_session demo_env demo_request (clock demo_env 0) demo_db l" using demo_valid by blast
  with core_access_guard [OF idle_world_of, of demo_db demo_env demo_request "\<lambda>l. ret (lease_id l)"]
  show ?thesis unfolding world_of_simps demo_admitted by (simp add: demo_constraints)
qed

lemma demo_require: "require_core_access demo_env demo_request (world_of demo_db)
    = (Inr demo_lease, (world_of demo_db)\<lparr>draws := 1\<rparr>)"
  using require_core_access_cases [OF idle_world_of, of demo_db demo_env demo_request] demo_constraints
    demo_valid [of "clock demo_env 0"] demo_admitted by (auto simp: valid_session_def demo_lookup demo_cookies)

lemma demo_logout: "serve (protected demo_env demo_request (direct_logout demo_env)) (world_of demo_db)
    = (Inr [(''signed_out'', JBool True)], (world_of (demo_db\<lparr>leases :=
        [close_lease ''revoked'' (clock demo_env 1) demo_lease]\<rparr>))\<lparr>draws := 2\<rparr>)"
proof -
  have c: "constraints_ok (demo_db\<lparr>leases := [close_lease ''revoked'' t demo_lease]\<rparr>)" for t
    using demo_constraints
    by (simp add: constraints_ok_def keys_ok_def foreign_ok_def refs_ok_def demo_db_def empty_db_def demo_lease_def)
  have m: "modify_row LEASES (lease_id demo_lease) (\<lambda>x. x\<lparr>lease_status := ''revoked'', lease_ended_at := Some t\<rparr>) demo_db
      = demo_db\<lparr>leases := [close_lease ''revoked'' t demo_lease]\<rparr>" for t
    by (simp add: modify_row_def demo_db_def close_lease_def)
  have "protected demo_env demo_request (direct_logout demo_env) (world_of demo_db)
      = direct_logout demo_env demo_lease ((world_of demo_db)\<lparr>draws := 1\<rparr>)"
    by (simp add: protected_def letM_def demo_require)
  moreover have "direct_logout demo_env demo_lease ((world_of demo_db)\<lparr>draws := 1\<rparr>)
    = (Inr [(''signed_out'', JBool True)], (world_of (demo_db\<lparr>leases :=
        [close_lease ''revoked'' (clock demo_env 1) demo_lease]\<rparr>))\<lparr>draws := 2\<rparr>)"
    by (rule run_wp) (simp add: direct_logout_def wp_core m c world_of_def initial_world_def)
  ultimately show ?thesis by (simp add: serve_idle idle_world_of)
qed

theorem logout_ends_session_witness:
  "\<exists>w'. serve (protected demo_env demo_request (direct_logout demo_env)) (world_of demo_db)
      = (Inr [(''signed_out'', JBool True)], w')
    \<and> (\<forall>req' t l. request_cookie req' PERIMETR_SESSION_ID_COOKIE = ''s1'' \<longrightarrow>
         \<not> valid_session demo_env req' t (committed w') l)"
  using logout_ends_session [OF idle_world_of _ demo_logout demo_cookies(1) [symmetric]] demo_logout
    demo_constraints by auto

lemma demo_preferences_of: "preferences_of demo_db = normal_preferences [] demo_verifier"
  by (simp add: preferences_of_def demo_db_def demo_preferences_def preferences_row_def dict_or_empty_def)

lemma demo_hash: "is_password_hash demo_verifier" "verify_password toy_crypto ''key'' demo_verifier"
proof -
  have l: "length (scrypt_fn toy_crypto p s SCRYPT_N SCRYPT_R SCRYPT_P SCRYPT_DKLEN) = SCRYPT_DKLEN" for p s
    by (simp add: toy_crypto_def SCRYPT_DKLEN_def)
  show "is_password_hash demo_verifier"
    using hash_password_is_hash [OF sane_demo, of 0 "''key''"] by (simp add: demo_verifier_def demo_env_def)
  show "verify_password toy_crypto ''key'' demo_verifier"
    unfolding demo_verifier_def by (subst verify_password_hash_password) (simp_all add: l)
qed

lemma demo_verifier_of: "verifier_of (normal_preferences [] h) = h"
  by (simp add: verifier_of_def auth_of_def get_or_null_def dict_or_empty_def normal_auth text_or_empty_def json_simps)

text \<open>Reading the preferences of the demonstration changes nothing.\<close>

lemma demo_ensure:
  assumes "live w = demo_db" and "stored w = demo_db"
  shows "ensure_preferences demo_env w = (Inr demo_preferences, w)"
proof (rule ensure_when_equal)
  have n: "normal_preferences (normal_preferences [] demo_verifier) demo_verifier = normal_preferences [] demo_verifier"
    using settled_fixpoint [OF normal_settled [OF demo_hash(1)]] .
  show "resolve_verifier demo_env (auth_of (preferences_of (stored w))) = ret demo_verifier"
    using resolve_stored [OF normal_auth demo_hash(1)] by (simp add: assms demo_preferences_of)
  show "json_eq (JObj (normal_preferences (preferences_of (stored w)) demo_verifier)) (JObj (preferences_of (stored w)))"
    using n by (simp add: assms demo_preferences_of json_eq_def)
qed (use assms demo_constraints in \<open>simp_all add: demo_db_def preferences_row_def demo_preferences_def\<close>)

lemma demo_get_preferences:
  assumes "live w = demo_db" and "stored w = demo_db"
  shows "get_perimetr_preferences demo_env w = (Inr (normal_preferences [] demo_verifier), w)"
proof -
  have s: "synced w" using assms demo_constraints by (simp add: synced_def)
  have f: "find preferences_row (system_settings demo_db) = Some demo_preferences"
    by (simp add: demo_db_def preferences_row_def demo_preferences_def)
  moreover have "rows SETTINGS = system_settings" by (simp add: SETTINGS_def)
  moreover have "flush w = (Inr (), w)" using assms demo_constraints by (simp add: flush_def)
  ultimately show ?thesis
    using settings_table.db_scalar_synced [OF synced_in_step [OF s], of preferences_row] assms demo_ensure [OF assms]
    by (simp add: get_perimetr_preferences_def seqM_def letM_def ret_def demo_preferences_def dict_or_empty_def)
qed

text \<open>A rotation of the demonstration key.\<close>

definition demo_rotation :: access_key_change where
  "demo_rotation = \<lparr>ak_current_key = ''key'', ak_new_key = ''new key'', ak_confirm_key = ''new key''\<rparr>"

lemma demo_rotated:
  "constraints_ok (rotated demo_env n k ''s1'' demo_db)" "audit_events (rotated demo_env n k ''s1'' demo_db) = []"
  by (simp_all add: constraints_ok_def keys_ok_def foreign_ok_def refs_ok_def rotated_def Let_def modify_rows_def
      modify_row_def demo_db_def empty_db_def SETTINGS_def preferences_row_def demo_preferences_def demo_lease_def)

lemma demo_crypt: "crypt demo_env = toy_crypto"
  by (simp add: demo_env_def)

text \<open>Recording the first event succeeds.\<close>

lemma wp_first_audit:
  assumes "constraints_ok (live w)" and "audit_events (live w) = []" and "\<And>w'. audited w w' \<Longrightarrow> Q () w'"
  shows "wp (audit E a1 a2 a3 a4 a5 p r) Q X w"
proof -
  have "wp (audit E a1 a2 a3 a4 a5 p r) (\<lambda>_ w'. audited w w') (\<lambda>_ _. True) w"
    by (rule wp_auditI) simp_all
  moreover have "constraints_ok ((live w)\<lparr>audit_events := [e]\<rparr>)" for e
    using assms(1) by (simp add: constraints_ok_def keys_ok_def)
  then have "wp (audit E a1 a2 a3 a4 a5 p r) (\<lambda>_ _. True) (\<lambda>_ _. False) w"
    by (simp add: wp_audit Let_def assms(2))
  ultimately have "wp (audit E a1 a2 a3 a4 a5 p r) (\<lambda>_ w'. audited w w') (\<lambda>_ _. False) w"
    by (auto simp: wp_def split: prod.splits sum.splits)
  then show ?thesis by (rule wp_mono) (simp_all add: assms(3))
qed

lemma fresh_check: "allowed (fst (check new_limiter k t))"
  by (simp add: check_def new_limiter_def attempts_get_def)

lemma demo_rotates: "\<exists>r w'. serve (protected demo_env demo_request
    (\<lambda>l. change_access_key demo_env l demo_rotation)) (world_of demo_db) = (Inr r, w')"
proof -
  have u: "wp (update_access_key demo_env ''key'' ''new key'' ''new key'' ''s1'') Q X w
      = Q (token_urlsafe demo_env (draws w + 2)) (w\<lparr>draws := draws w + 3,
          live := rotated demo_env (draws w) ''new key'' ''s1'' demo_db,
          stored := rotated demo_env (draws w) ''new key'' ''s1'' demo_db\<rparr>)"
    if "live w = demo_db" "stored w = demo_db" for Q X w
  proof -
    have "synced w" using that demo_constraints by (simp add: synced_def)
    moreover have "find preferences_row (system_settings (stored w)) = Some demo_preferences"
      using that by (simp add: demo_db_def preferences_row_def demo_preferences_def)
    ultimately show ?thesis
      using that demo_hash(2)
      by (subst wp_update_access_key [OF demo_get_preferences [OF that]])
        (simp_all add: demo_preferences_of demo_verifier_of Let_def demo_rotated demo_crypt)
  qed
  have i: "lease_id demo_lease = ''s1''" by (simp add: demo_lease_def)
  have "wp (change_access_key demo_env demo_lease demo_rotation) (\<lambda>_ _. True) (\<lambda>_ _. False) ((world_of demo_db)\<lparr>draws := 1\<rparr>)"
    by (auto simp: change_access_key_def Let_def wp_core wp_limiter_check wp_limiter_success fresh_check demo_rotation_def u i demo_rotated
        audited_def intro!: wp_first_audit)
  from wp_runs [OF this] obtain r w' where "change_access_key demo_env demo_lease demo_rotation
      ((world_of demo_db)\<lparr>draws := 1\<rparr>) = (Inr r, w')" by auto
  then show ?thesis by (simp add: serve_idle idle_world_of protected_def letM_def demo_require)
qed

theorem rotation_revokes_other_sessions_witness:
  "\<exists>out cookies w'. serve (protected demo_env demo_request
      (\<lambda>l. change_access_key demo_env l demo_rotation)) (world_of demo_db) = (Inr (out, cookies), w')
    \<and> (\<exists>salt. verifier_of (preferences_of (committed w')) = hash_password toy_crypto salt ''new key'')"
proof -
  obtain out cookies w' where r: "serve (protected demo_env demo_request
      (\<lambda>l. change_access_key demo_env l demo_rotation)) (world_of demo_db) = (Inr (out, cookies), w')"
    using demo_rotates by (metis surj_pair)
  have "is_password_hash (verifier_of (preferences_of (committed (world_of demo_db))))"
    using demo_hash(1) by (simp add: demo_preferences_of demo_verifier_of)
  from rotation_revokes_other_sessions [OF sane_demo idle_world_of _ this r refl] demo_constraints r
  show ?thesis by (auto simp: demo_rotation_def demo_env_def)
qed

text \<open>A second login on the demonstration.\<close>

definition demo_login :: direct_login_request where
  "demo_login = \<lparr>dl_access_key = ''key'', dl_target = ''perimetr''\<rparr>"

lemma demo_logs_in: "\<exists>r w'. serve (direct_login demo_env demo_request demo_login) (world_of demo_db) = (Inr r, w')"
proof -
  have t: "normalize_access_target ''perimetr'' = Inr ''perimetr''"
    by code_simp
  have o: "validate_browser_origin demo_request url = Inr ()" for url by (rule demo_safe)
  have g: "wp (get_perimetr_preferences demo_env) Q X w = Q (normal_preferences [] demo_verifier) w"
    if "live w = demo_db" "stored w = demo_db" for Q X w
    using demo_get_preferences [OF that] by (simp add: wp_def)
  have s: "in_step LEASES w" if "live w = demo_db" "stored w = demo_db" for w
    using that demo_constraints by (simp add: in_step_def constraints_ok_def)
  have c: "constraints_ok (insert_row LEASES l demo_db)" if "lease_id l = ''id'' @ str_nat n"
      "lease_subject_id l = None" "lease_pod_id l = None" for l n
    using demo_constraints that
    by (simp add: constraints_ok_def keys_ok_def foreign_ok_def refs_ok_def insert_row_def demo_db_def empty_db_def
        demo_lease_def)
  have a: "audit_events (insert_row LEASES l demo_db) = []" for l
    by (simp add: insert_row_def demo_db_def empty_db_def)
  have u: "uuid4_hex demo_env n = ''id'' @ str_nat n" for n by (simp add: demo_env_def)
  have "wp (direct_login demo_env demo_request demo_login) (\<lambda>_ _. True) (\<lambda>_ _. False) (world_of demo_db)"
    by (auto simp: direct_login_def demo_login_def t o wp_core wp_limiter_check fresh_check Let_def wp_if
        create_direct_session_def wp_expire s demo_expired verify_direct_login_def g demo_verifier_of demo_crypt
        demo_hash c u wp_prod wp_limiter_success a audited_def intro!: wp_first_audit)
  from wp_runs [OF this] show ?thesis by (auto simp: serve_idle idle_world_of)
qed


end
