(* ===== verification/Py_Str.thy ===== *)
theory Py_Str
  imports Json Clock
begin

text \<open>
  \<open>str(value)\<close> and \<open>repr(value)\<close> of the Python values of \<open>Json\<close>, for the places where the code turns
  a stored value into text. The literal of a float is taken to be its shortest form, which is what
  \<open>repr\<close> prints.
\<close>

definition printable :: "char \<Rightarrow> bool" where
  "printable c \<longleftrightarrow> (let n = (of_char c :: nat) in 32 \<le> n \<and> n \<noteq> 127 \<and> \<not> (128 \<le> n \<and> n \<le> 160) \<and> n \<noteq> 173)"

definition repr_char :: "char \<Rightarrow> char \<Rightarrow> string" where
  "repr_char q c =
     (if c = q \<or> c = CHR 0x5c then [CHR 0x5c, c]
      else if c = CHR 0x0a then [CHR 0x5c, CHR ''n'']
      else if c = CHR 0x0d then [CHR 0x5c, CHR ''r'']
      else if c = CHR 0x09 then [CHR 0x5c, CHR ''t'']
      else if printable c then [c]
      else [CHR 0x5c, CHR ''x''] @ hex_byte c)"

definition repr_str :: "string \<Rightarrow> string" where
  "repr_str s =
     (let q = (if CHR 0x27 \<in> set s \<and> CHR 0x22 \<notin> set s then CHR 0x22 else CHR 0x27)
      in q # concat (map (repr_char q) s) @ [q])"

fun py_repr :: "json \<Rightarrow> string" where
  "py_repr JNull = ''None''"
| "py_repr (JBool b) = (if b then ''True'' else ''False'')"
| "py_repr (JInt n) = str_int n"
| "py_repr (JFloat f) = f"
| "py_repr (JStr s) = repr_str s"
| "py_repr (JTime t) = str_time t"
| "py_repr (JArr xs) = ''['' @ join '', '' (map py_repr xs) @ '']''"
| "py_repr (JObj d) = ''{'' @ join '', '' (map (\<lambda>p. repr_str (fst p) @ '': '' @ py_repr (snd p)) d) @ ''}''"

definition py_str :: "json \<Rightarrow> string" where
  "py_str v = (case v of JStr s \<Rightarrow> s | _ \<Rightarrow> py_repr v)"

text \<open>\<open>str(d.get(k) or default)\<close>.\<close>

definition str_or :: "string \<Rightarrow> json option \<Rightarrow> string" where
  "str_or alt v = (case v of None \<Rightarrow> alt | Some x \<Rightarrow> if truthy x then py_str x else alt)"

lemma py_str_JStr [simp]: "py_str (JStr s) = s"
  by (simp add: py_str_def)

lemma str_or_simps [simp]:
  "str_or d None = d" "str_or d (Some JNull) = d" "str_or d (Some (JStr s)) = (if s = [] then d else s)"
  by (simp_all add: str_or_def)

text \<open>An optional value as JSON.\<close>

definition jopt :: "('a \<Rightarrow> json) \<Rightarrow> 'a option \<Rightarrow> json" where
  "jopt f v = (case v of None \<Rightarrow> JNull | Some x \<Rightarrow> f x)"

text \<open>The fields that \<open>model_dump(exclude_none=True)\<close> keeps.\<close>

definition given :: "string \<Rightarrow> ('a \<Rightarrow> json) \<Rightarrow> 'a option \<Rightarrow> dict" where
  "given k f v = (case v of None \<Rightarrow> [] | Some x \<Rightarrow> [(k, f x)])"

definition assign :: "'a option \<Rightarrow> 'a \<Rightarrow> 'a" where
  "assign v old = (case v of None \<Rightarrow> old | Some x \<Rightarrow> x)"

lemma assign_simps [simp]: "assign None a = a" "assign (Some b) a = b"
  by (simp_all add: assign_def)

text \<open>\<open>order_by(created_at.desc())\<close>, equal times in insertion order.\<close>

definition newest :: "('r \<Rightarrow> int) \<Rightarrow> 'r list \<Rightarrow> 'r list" where
  "newest f xs = sort_key (\<lambda>r. - f r) xs"

definition oldest :: "('r \<Rightarrow> int) \<Rightarrow> 'r list \<Rightarrow> 'r list" where
  "oldest f xs = sort_key f xs"

end
