(* ===== verification/Entities.thy ===== *)
theory Entities
  imports Session_Safety Py_Str Base64
begin

text \<open>
  Objects, their images, the blocks of the overview and the correlation map: the lookups and state
  functions of \<open>app/services.py\<close> and the endpoints of \<open>app/api_service/app.py\<close> on them. A handler
  here is what runs after the access check. The column \<open>updated_at\<close> and the image links that carry it
  are left out of the answers.
\<close>

section \<open>Requests and answers\<close>

record object_create =
  oc_name :: string
  oc_kind :: string
  oc_description :: string
  oc_tags :: "string list"

record object_update =
  ou_name :: "string option"
  ou_kind :: "string option"
  ou_description :: "string option"
  ou_tags :: "string list option"

definition OBJECT_KINDS :: "string list" where
  "OBJECT_KINDS = [''workspace'', ''service'', ''website'', ''module'']"

definition jstrs :: "string list \<Rightarrow> json" where
  "jstrs xs = JArr (map JStr xs)"

definition object_create_dump :: "object_create \<Rightarrow> dict" where
  "object_create_dump p = [(''name'', JStr (oc_name p)), (''kind'', JStr (oc_kind p)),
     (''description'', JStr (oc_description p)), (''tags'', jstrs (oc_tags p))]"

definition object_update_dump :: "object_update \<Rightarrow> dict" where
  "object_update_dump p = given ''name'' JStr (ou_name p) @ given ''kind'' JStr (ou_kind p)
     @ given ''description'' JStr (ou_description p) @ given ''tags'' jstrs (ou_tags p)"

definition object_read :: "perimetr_object \<Rightarrow> dict" where
  "object_read x = [(''id'', JStr (obj_entity_id x)), (''name'', JStr (obj_name x)), (''kind'', JStr (obj_kind x)),
     (''description'', JStr (obj_description x)), (''tags'', jstrs (obj_tags x)),
     (''created_at'', JTime (obj_created_at x))]"

section \<open>Lookups\<close>

text \<open>By primary key, or else by public identifier.\<close>

definition get_object :: "string \<Rightarrow> perimetr_object web" where
  "get_object object_id =
     letM (db_get OBJECTS object_id) (\<lambda>found.
       (case found of
          Some x \<Rightarrow> ret x
        | None \<Rightarrow> letM (db_scalar OBJECTS (\<lambda>r. obj_entity_id r = object_id)) (\<lambda>other.
                    ensure_exists other ''object'' object_id)))"

definition get_subject :: "string \<Rightarrow> subject web" where
  "get_subject subject_id =
     letM (db_get SUBJECTS subject_id) (\<lambda>found.
       (case found of
          Some x \<Rightarrow> ret x
        | None \<Rightarrow> letM (db_scalar SUBJECTS (\<lambda>s. sub_entity_id s = subject_id)) (\<lambda>other.
                    ensure_exists other ''subject'' subject_id)))"

definition get_pod :: "string \<Rightarrow> pod web" where
  "get_pod i = letM (db_get PODS i) (\<lambda>found. ensure_exists found ''pod'' i)"

section \<open>Images\<close>

record upload =
  up_content :: string
  up_content_type :: string

definition MAX_ENTITY_IMAGE_BYTES :: nat where
  "MAX_ENTITY_IMAGE_BYTES = 4 * 1024 * 1024"

definition PNG_SIGNATURE :: string where
  "PNG_SIGNATURE = [CHR 0x89, CHR ''P'', CHR ''N'', CHR ''G'', CHR 0x0d, CHR 0x0a, CHR 0x1a, CHR 0x0a]"

definition read_entity_image :: "upload \<Rightarrow> failure + string" where
  "read_entity_image up =
     (let content = take (MAX_ENTITY_IMAGE_BYTES + 1) (up_content up)
      in if content = [] then Inl (http_error 400 ''entity_image_required'')
         else if MAX_ENTITY_IMAGE_BYTES < length content then Inl (http_error 413 ''entity_image_too_large'')
         else if up_content_type up \<noteq> ''image/png'' \<or> \<not> starts_with PNG_SIGNATURE content
         then Inl (http_error 400 ''entity_image_must_be_png'')
         else Inr (b64encode False content))"

record image_response =
  img_content :: string
  img_media_type :: string

definition stored_png_response :: "string \<Rightarrow> string \<Rightarrow> failure + image_response" where
  "stored_png_response image_data media_type =
     (if image_data = [] then Inl (http_error 404 ''entity_image_not_found'')
      else (case b64decode_strict image_data of
              None \<Rightarrow> Inl (http_error 500 ''entity_image_corrupted'')
            | Some content \<Rightarrow> Inr \<lparr>img_content = content, img_media_type = media_type\<rparr>))"

definition entity_image_response :: "string \<Rightarrow> string \<Rightarrow> failure + image_response" where
  "entity_image_response image_data image_media_type =
     stored_png_response image_data (if image_media_type = [] then ''image/png'' else image_media_type)"

section \<open>Objects\<close>

text \<open>A public identifier is drawn until no object and no subject has it. The fuel is one more than
  the number of identifiers in use, which is enough when the draws differ.\<close>

fun fresh_entity_id :: "env \<Rightarrow> nat \<Rightarrow> string web" where
  "fresh_entity_id E 0 = raiseM (Crash ''no fresh entity id'')"
| "fresh_entity_id E (Suc n) =
     letM (draw (entity_ids E)) (\<lambda>e.
     letM (db_scalar OBJECTS (\<lambda>r. obj_entity_id r = e)) (\<lambda>a.
       if a \<noteq> None then fresh_entity_id E n
       else letM (db_scalar SUBJECTS (\<lambda>s. sub_entity_id s = e)) (\<lambda>b.
         if b \<noteq> None then fresh_entity_id E n else ret e)))"

definition entity_fuel :: "world \<Rightarrow> nat" where
  "entity_fuel w = Suc (length (objects (stored w)) + length (subjects (stored w)))"

definition core_audit :: "env \<Rightarrow> string \<Rightarrow> string \<Rightarrow> string \<Rightarrow> dict \<Rightarrow> dict \<Rightarrow> unit web" where
  "core_audit E action target_type target_id payload result =
     audit E ''perimetr'' ''core'' action target_type target_id payload result"

definition create_object :: "env \<Rightarrow> object_create \<Rightarrow> dict web" where
  "create_object E payload =
     letM (\<lambda>w. fresh_entity_id E (entity_fuel w) w) (\<lambda>entity_id.
     letM (new_id E) (\<lambda>i. letM (now_utc E) (\<lambda>t.
       (let x = \<lparr>obj_id = i, obj_entity_id = entity_id, obj_name = oc_name payload, obj_kind = oc_kind payload,
              obj_description = oc_description payload, obj_tags = oc_tags payload, obj_image_data = [],
              obj_image_media_type = [], obj_created_at = t\<rparr>
        in seqM (db_add OBJECTS x)
           (seqM flush
           (seqM (core_audit E ''object.created'' ''object'' entity_id (object_create_dump payload)
                   [(''name'', JStr (obj_name x))])
           (seqM commit (ret (object_read x)))))))))"

definition list_objects :: "dict list web" where
  "list_objects = letM (db_all OBJECTS (\<lambda>_. True)) (\<lambda>found. ret (map object_read (newest obj_created_at found)))"

definition read_object :: "string \<Rightarrow> dict web" where
  "read_object object_id = letM (get_object object_id) (\<lambda>x. ret (object_read x))"

definition apply_object_update :: "object_update \<Rightarrow> perimetr_object \<Rightarrow> perimetr_object" where
  "apply_object_update p x = x\<lparr>obj_name := assign (ou_name p) (obj_name x), obj_kind := assign (ou_kind p) (obj_kind x),
     obj_description := assign (ou_description p) (obj_description x), obj_tags := assign (ou_tags p) (obj_tags x)\<rparr>"

definition update_object :: "env \<Rightarrow> string \<Rightarrow> object_update \<Rightarrow> dict web" where
  "update_object E object_id payload =
     letM (get_object object_id) (\<lambda>x.
     seqM (db_set OBJECTS (obj_id x) (apply_object_update payload))
     (seqM (core_audit E ''object.updated'' ''object'' (obj_entity_id x) (object_update_dump payload)
             [(''name'', JStr (obj_name (apply_object_update payload x)))])
     (seqM commit (ret (object_read (apply_object_update payload x))))))"

definition update_object_image :: "env \<Rightarrow> string \<Rightarrow> upload \<Rightarrow> dict web" where
  "update_object_image E object_id up =
     letM (get_object object_id) (\<lambda>x.
     letM (liftM (read_entity_image up)) (\<lambda>data.
     seqM (db_set OBJECTS (obj_id x) (\<lambda>r. r\<lparr>obj_image_data := data, obj_image_media_type := ''image/png''\<rparr>))
     (seqM (core_audit E ''object.image.updated'' ''object'' (obj_entity_id x) [] [])
     (seqM commit (ret (object_read x))))))"

definition read_object_image :: "string \<Rightarrow> image_response web" where
  "read_object_image object_id =
     letM (get_object object_id) (\<lambda>x. liftM (entity_image_response (obj_image_data x) (obj_image_media_type x)))"

definition delete_object_image :: "env \<Rightarrow> string \<Rightarrow> dict web" where
  "delete_object_image E object_id =
     letM (get_object object_id) (\<lambda>x.
     seqM (db_set OBJECTS (obj_id x) (\<lambda>r. r\<lparr>obj_image_data := [], obj_image_media_type := []\<rparr>))
     (seqM (core_audit E ''object.image.deleted'' ''object'' (obj_entity_id x) [] [])
     (seqM commit (ret (object_read x)))))"

section \<open>The correlation map\<close>

definition CORRELATION_STATE_KEY :: string where
  "CORRELATION_STATE_KEY = ''perimetr.correlation_map''"

definition correlation_row :: "system_setting \<Rightarrow> bool" where
  "correlation_row r \<longleftrightarrow> ss_key r = CORRELATION_STATE_KEY"

definition block_fields :: "string list" where
  "block_fields = [''descriptions_by_block'', ''properties_by_block'']"

definition drop_block :: "string \<Rightarrow> dict \<Rightarrow> dict" where
  "drop_block k v = foldl (\<lambda>v field. set_key field (JObj (del_key k (dict_or_empty (get_or_null field v)))) v)
     v block_fields"

definition remove_correlation_block :: "string \<Rightarrow> unit web" where
  "remove_correlation_block k =
     letM (db_scalar SETTINGS correlation_row) (\<lambda>found.
       (case found of
          None \<Rightarrow> ret ()
        | Some r \<Rightarrow> db_set SETTINGS (ss_id r)
            (\<lambda>x. x\<lparr>ss_value := JObj (drop_block k (dict_or_empty (ss_value r)))\<rparr>)))"

definition delete_object :: "env \<Rightarrow> string \<Rightarrow> dict web" where
  "delete_object E object_id =
     letM (get_object object_id) (\<lambda>x.
     letM (db_all SUBJECTS (\<lambda>s. sub_object_id s = Some (obj_id x))) (\<lambda>linked.
     seqM (eachM linked (\<lambda>s. db_set SUBJECTS (sub_id s) (\<lambda>r. r\<lparr>sub_object_id := None\<rparr>)))
     (seqM (remove_correlation_block (''object_'' @ obj_entity_id x))
     (seqM (db_delete OBJECTS (obj_id x))
     (seqM (core_audit E ''object.deleted'' ''object'' (obj_entity_id x) [] [])
     (seqM commit (ret [(''deleted'', JBool True), (''id'', JStr (obj_entity_id x))])))))))"

definition default_graph_settings :: dict where
  "default_graph_settings =
     [(''property_color'', JStr []), (''entity_color'', JStr []), (''node_size'', JInt 6),
      (''link_thickness'', JInt 1), (''text_threshold'', JFloat ''0.15''), (''center_force'', JFloat ''0.006''),
      (''repel_force'', JInt 1800), (''link_force'', JFloat ''0.025''), (''link_distance'', JInt 150),
      (''animate'', JBool True)]"

definition default_correlation_state :: dict where
  "default_correlation_state = [(''descriptions_by_block'', JObj []), (''properties_by_block'', JObj []),
     (''property_library'', JArr []), (''graph_settings'', JObj default_graph_settings)]"

definition with_defaults :: "dict \<Rightarrow> dict" where
  "with_defaults v =
     (let full = merge default_correlation_state v
      in set_key ''graph_settings'' (JObj (merge default_graph_settings (dict_or_empty (get_or_null ''graph_settings'' v)))) full)"

definition get_correlation_state :: "env \<Rightarrow> dict web" where
  "get_correlation_state E =
     letM (db_scalar SETTINGS correlation_row) (\<lambda>found.
       (case found of
          None \<Rightarrow>
            letM (new_id E) (\<lambda>i. letM (now_utc E) (\<lambda>t.
              seqM (db_add SETTINGS \<lparr>ss_id = i, ss_scope = ''perimetr'', ss_key = CORRELATION_STATE_KEY,
                      ss_value = JObj default_correlation_state, ss_created_at = t\<rparr>)
                (seqM flush (ret default_correlation_state))))
        | Some r \<Rightarrow> ret (with_defaults (dict_or_empty (ss_value r)))))"

end
