(* ===== verification/Correlation.thy ===== *)
theory Correlation
  imports Entities
begin

text \<open>
  The correlation map with its percentage and the named blocks of the overview: the state functions
  of \<open>app/services.py\<close> and their endpoints. The percentage is computed over the rationals; the code
  computes it in floats and rounds it to two decimals at the end.
\<close>

section \<open>The percentage\<close>

definition FIXED_BLOCKS :: "string list" where
  "FIXED_BLOCKS = [''human_general'', ''turkey_global'', ''russia_sphere'', ''laboratory_block'', ''perimetr_block'']"

definition entity_keys :: "perimetr_object list \<Rightarrow> subject list \<Rightarrow> string list" where
  "entity_keys os ss = remdups (FIXED_BLOCKS @ map (\<lambda>x. ''object_'' @ obj_entity_id x) os
     @ map (\<lambda>s. ''subject_'' @ sub_entity_id s) ss)"

text \<open>\<open>{str(item.get("id")) for item in items if item.get("id")}\<close>, without a value when an item is no
  dictionary.\<close>

fun item_ids :: "json list \<Rightarrow> string list option" where
  "item_ids [] = Some []"
| "item_ids (JObj d # xs) =
     map_option (\<lambda>r. if truthy (get_or_null ''id'' d) then List.insert (py_str (get_or_null ''id'' d)) r else r)
       (item_ids xs)"
| "item_ids (_ # xs) = None"

definition json_list :: "json \<Rightarrow> json list option" where
  "json_list v = (case v of JArr xs \<Rightarrow> Some xs | _ \<Rightarrow> None)"

text \<open>The property identifiers of each block that belongs to an entity.\<close>

fun block_ids :: "string list \<Rightarrow> dict \<Rightarrow> string list list option" where
  "block_ids entities [] = Some []"
| "block_ids entities ((k, items) # d) =
     (if k \<notin> set entities then block_ids entities d
      else (case json_list items of
              None \<Rightarrow> None
            | Some xs \<Rightarrow>
                (case item_ids xs of
                   None \<Rightarrow> None
                 | Some ids \<Rightarrow> map_option (Cons ids) (block_ids entities d))))"

definition property_count :: "string list list \<Rightarrow> string \<Rightarrow> nat" where
  "property_count blocks p = length (filter (\<lambda>ids. p \<in> set ids) blocks)"

definition correlation_score :: "string list \<Rightarrow> string list list \<Rightarrow> nat \<Rightarrow> rat" where
  "correlation_score properties blocks entities =
     (\<Sum>p\<leftarrow>properties. of_nat (property_count blocks p - 1) / of_nat (entities - 1)) / of_nat (length properties)"

text \<open>\<open>round(x, 2)\<close> as a number of hundredths, halves to even.\<close>

definition hundredths :: "rat \<Rightarrow> int" where
  "hundredths x =
     (let y = x * 100; f = \<lfloor>y\<rfloor>; r = y - of_int f
      in if r < 1/2 then f else if 1/2 < r then f + 1 else if even f then f else f + 1)"

definition percentage_of :: "dict \<Rightarrow> string list \<Rightarrow> int option" where
  "percentage_of state entities =
     (case (case get_key ''property_library'' state of None \<Rightarrow> Some [] | Some v \<Rightarrow> json_list v) of
        None \<Rightarrow> None
      | Some library \<Rightarrow>
          (case item_ids library of
             None \<Rightarrow> None
           | Some properties \<Rightarrow>
               if properties = [] \<or> length entities < 2 then Some 0
               else map_option (\<lambda>blocks. hundredths (correlation_score properties blocks (length entities) * 100))
                 (block_ids entities (dict_or_empty (get_or_null ''properties_by_block'' state)))))"

definition percent_text :: "int \<Rightarrow> string" where
  "percent_text k =
     (let i = k div 100; f = k mod 100
      in str_int i @ ''.'' @ (if f mod 10 = 0 then str_int (f div 10) else zfill 2 f))"

definition correlation_percentage :: "dict \<Rightarrow> json web" where
  "correlation_percentage state =
     letM (db_all OBJECTS (\<lambda>_. True)) (\<lambda>os.
     letM (db_all SUBJECTS (\<lambda>_. True)) (\<lambda>ss.
       (case percentage_of state (entity_keys os ss) of
          None \<Rightarrow> raiseM (Crash ''AttributeError'')
        | Some k \<Rightarrow> ret (JFloat (percent_text k)))))"

section \<open>State and endpoints\<close>

record correlation_update =
  cu_descriptions :: "(string \<times> string) list"
  cu_properties :: "(string \<times> dict list) list"
  cu_library :: "dict list"
  cu_graph :: dict

definition correlation_update_dump :: "correlation_update \<Rightarrow> dict" where
  "correlation_update_dump p =
     [(''descriptions_by_block'', JObj (map (\<lambda>(k, v). (k, JStr v)) (cu_descriptions p))),
      (''properties_by_block'', JObj (map (\<lambda>(k, v). (k, JArr (map JObj v))) (cu_properties p))),
      (''property_library'', JArr (map JObj (cu_library p))),
      (''graph_settings'', JObj (cu_graph p))]"

definition json_len :: "json \<Rightarrow> nat" where
  "json_len v = (case v of JArr xs \<Rightarrow> length xs | JObj d \<Rightarrow> length d | JStr s \<Rightarrow> length s | _ \<Rightarrow> 0)"

definition update_correlation_state :: "env \<Rightarrow> dict \<Rightarrow> dict web" where
  "update_correlation_state E v =
     seqM (raise_if (5000 < json_len (get_or_null ''property_library'' v)
                     \<or> 10000 < json_len (get_or_null ''properties_by_block'' v))
             (http_error 400 ''correlation_state_too_large''))
     (let next_value = with_defaults v
      in letM (db_scalar SETTINGS correlation_row) (\<lambda>found.
         seqM (case found of
                 None \<Rightarrow> letM (new_id E) (\<lambda>i. letM (now_utc E) (\<lambda>t.
                   db_add SETTINGS \<lparr>ss_id = i, ss_scope = ''perimetr'', ss_key = CORRELATION_STATE_KEY,
                     ss_value = JObj next_value, ss_created_at = t\<rparr>))
               | Some r \<Rightarrow> db_set SETTINGS (ss_id r) (\<lambda>x. x\<lparr>ss_value := JObj next_value\<rparr>))
         (seqM flush
         (letM (correlation_percentage next_value) (\<lambda>percent.
           ret (set_key ''correlation_percentage'' percent next_value))))))"

definition read_correlation_state :: "env \<Rightarrow> dict web" where
  "read_correlation_state E =
     letM (get_correlation_state E) (\<lambda>v.
     letM (correlation_percentage v) (\<lambda>percent.
     seqM commit (ret (set_key ''correlation_percentage'' percent v))))"

definition write_correlation_state :: "env \<Rightarrow> correlation_update \<Rightarrow> dict web" where
  "write_correlation_state E payload =
     letM (update_correlation_state E (correlation_update_dump payload)) (\<lambda>result.
     seqM (audit E ''browser_ui'' ''operator'' ''correlation.state.updated'' ''correlation_map'' SYSTEM_ENTITY_ID []
             [(''correlation_percentage'', get_or_null ''correlation_percentage'' result)])
     (seqM commit (ret result)))"

section \<open>Overview blocks\<close>

definition OVERVIEW_BLOCKS_STATE_KEY :: string where
  "OVERVIEW_BLOCKS_STATE_KEY = ''perimetr.overview_blocks''"

definition OVERVIEW_BLOCK_DEFAULTS :: "(string \<times> string) list" where
  "OVERVIEW_BLOCK_DEFAULTS = [(''human_general'', ''I as human in general''),
     (''turkey_global'', ''Turkey / Global sphere''), (''russia_sphere'', ''Russia influence sphere''),
     (''laboratory_block'', ''Laboratory''), (''perimetr_block'', ''Perimetr'')]"

record overview_block =
  ob_name :: string
  ob_image_data :: string
  ob_updated_at :: string

definition overview_row :: "system_setting \<Rightarrow> bool" where
  "overview_row r \<longleftrightarrow> ss_key r = OVERVIEW_BLOCKS_STATE_KEY"

definition overview_blocks_setting :: "env \<Rightarrow> system_setting web" where
  "overview_blocks_setting E =
     letM (db_scalar SETTINGS overview_row) (\<lambda>found.
       (case found of
          Some r \<Rightarrow> ret r
        | None \<Rightarrow>
            letM (new_id E) (\<lambda>i. letM (now_utc E) (\<lambda>t.
              (let r = \<lparr>ss_id = i, ss_scope = ''perimetr'', ss_key = OVERVIEW_BLOCKS_STATE_KEY,
                     ss_value = JObj [(''blocks'', JObj [])], ss_created_at = t\<rparr>
               in seqM (db_add SETTINGS r) (seqM flush (ret r)))))))"

text \<open>A block from its stored item; \<open>updated\<close> is the text of the row's \<open>updated_at\<close>.\<close>

definition overview_block_of :: "string \<Rightarrow> string \<Rightarrow> dict \<Rightarrow> overview_block" where
  "overview_block_of updated default_name item =
     (let name = strip (str_or default_name (get_key ''name'' item))
      in \<lparr>ob_name = (if name = [] then default_name else name),
          ob_image_data = str_or [] (get_key ''image_data'' item),
          ob_updated_at = str_or updated (get_key ''updated_at'' item)\<rparr>)"

definition get_overview_blocks :: "env \<Rightarrow> string \<Rightarrow> (string \<times> overview_block) list web" where
  "get_overview_blocks E updated =
     letM (overview_blocks_setting E) (\<lambda>r.
       (let items = dict_or_empty (get_or_null ''blocks'' (dict_or_empty (ss_value r)))
        in ret (map (\<lambda>(block_id, default_name). (block_id,
             overview_block_of updated default_name (dict_or_empty (get_or_null block_id items))))
             OVERVIEW_BLOCK_DEFAULTS)))"

definition block_dump :: "overview_block \<Rightarrow> json" where
  "block_dump b = JObj [(''name'', JStr (ob_name b)), (''image_data'', JStr (ob_image_data b)),
     (''updated_at'', JStr (ob_updated_at b))]"

definition change_block :: "string option \<Rightarrow> string option \<Rightarrow> overview_block \<Rightarrow> failure + overview_block" where
  "change_block name image_data b =
     try_bind (case name of
                 None \<Rightarrow> Inr b
               | Some n \<Rightarrow>
                   (let normalized = strip n
                    in if normalized = [] then Inl (http_error 400 ''overview_block_name_required'')
                       else if 255 < length normalized then Inl (http_error 400 ''overview_block_name_too_long'')
                       else Inr (b\<lparr>ob_name := normalized\<rparr>)))
       (\<lambda>b. Inr (case image_data of None \<Rightarrow> b | Some d \<Rightarrow> b\<lparr>ob_image_data := d\<rparr>))"

definition update_overview_block ::
  "env \<Rightarrow> string \<Rightarrow> string \<Rightarrow> string option \<Rightarrow> string option \<Rightarrow> overview_block web" where
  "update_overview_block E updated block_id name image_data =
     seqM (raise_if (\<not> has_key block_id OVERVIEW_BLOCK_DEFAULTS) (http_error 404 ''overview_block_not_found''))
     (letM (get_overview_blocks E updated) (\<lambda>blocks.
       (case get_key block_id blocks of
          None \<Rightarrow> raiseM (Crash ''KeyError'')
        | Some b0 \<Rightarrow>
            letM (liftM (change_block name image_data b0)) (\<lambda>b1.
            letM (now_utc E) (\<lambda>t.
              (let b = b1\<lparr>ob_updated_at := isoformat t\<rparr>; blocks' = set_key block_id b blocks
               in letM (overview_blocks_setting E) (\<lambda>r.
                  seqM (db_set SETTINGS (ss_id r) (\<lambda>x. x\<lparr>ss_value := JObj [(''blocks'',
                          JObj (map (\<lambda>(k, b). (k, block_dump b)) blocks'))]\<rparr>))
                  (seqM flush (ret b)))))))))"

definition overview_block_payload :: "env \<Rightarrow> string \<Rightarrow> overview_block \<Rightarrow> dict" where
  "overview_block_payload E block_id b =
     (let version = take 12 (hexdigest (sha256_fn (crypt E) (ob_image_data b)))
      in [(''id'', JStr block_id), (''name'', JStr (ob_name b)),
          (''image_url'', if ob_image_data b = [] then JNull
             else JStr (''/v1/overview-blocks/'' @ block_id @ ''/image?v='' @ version)),
          (''updated_at'', JStr (ob_updated_at b))])"

definition list_overview_blocks :: "env \<Rightarrow> string \<Rightarrow> dict list web" where
  "list_overview_blocks E updated =
     letM (get_overview_blocks E updated) (\<lambda>blocks.
     seqM commit (ret (map (\<lambda>(k, b). overview_block_payload E k b) blocks)))"

definition rename_overview_block :: "env \<Rightarrow> string \<Rightarrow> string \<Rightarrow> string \<Rightarrow> dict web" where
  "rename_overview_block E updated block_id name =
     letM (update_overview_block E updated block_id (Some name) None) (\<lambda>b.
     seqM (audit E ''browser_ui'' ''operator'' ''overview_block.renamed'' ''overview_block'' block_id
             [(''name'', JStr (ob_name b))] [])
     (seqM commit (ret (overview_block_payload E block_id b))))"

definition read_overview_block_image :: "env \<Rightarrow> string \<Rightarrow> string \<Rightarrow> image_response web" where
  "read_overview_block_image E updated block_id =
     letM (get_overview_blocks E updated) (\<lambda>blocks.
       (case get_key block_id blocks of
          None \<Rightarrow> raiseM (http_error 404 ''overview_block_not_found'')
        | Some b \<Rightarrow> liftM (stored_png_response (ob_image_data b) ''image/png'')))"

definition upload_overview_block_image :: "env \<Rightarrow> string \<Rightarrow> string \<Rightarrow> upload \<Rightarrow> dict web" where
  "upload_overview_block_image E updated block_id up =
     letM (liftM (read_entity_image up)) (\<lambda>data.
     letM (update_overview_block E updated block_id None (Some data)) (\<lambda>b.
     seqM (audit E ''browser_ui'' ''operator'' ''overview_block.image.updated'' ''overview_block'' block_id []
             [(''bytes'', JInt (int (case b64decode data of None \<Rightarrow> 0 | Some c \<Rightarrow> length c)))])
     (seqM commit (ret (overview_block_payload E block_id b)))))"

definition delete_overview_block_image :: "env \<Rightarrow> string \<Rightarrow> string \<Rightarrow> dict web" where
  "delete_overview_block_image E updated block_id =
     letM (update_overview_block E updated block_id None (Some [])) (\<lambda>b.
     seqM (audit E ''browser_ui'' ''operator'' ''overview_block.image.removed'' ''overview_block'' block_id [] [])
     (seqM commit (ret (overview_block_payload E block_id b))))"

end
