(* ===== verification/Subjects.thy ===== *)
theory Subjects
  imports Correlation
begin

text \<open>
  Subjects, their launch authorizations and the access policies: the endpoints of
  \<open>app/api_service/app.py\<close> and \<open>revoke_subject_access\<close> of \<open>app/services.py\<close>. The endpoints that concern
  the Pods of a subject are in the theory \<open>Pods\<close>.
\<close>

section \<open>Requests and answers\<close>

record pod_spec =
  spec_host_id :: string
  spec_path :: string
  spec_launcher_path :: string
  spec_is_portable :: bool

record subject_create =
  sc_object_id :: string
  sc_runtime_type :: string
  sc_access_policy_id :: "string option"
  sc_pod_spec :: "pod_spec option"

record subject_update =
  su_name :: "string option"
  su_access_policy_id :: "string option"
  su_primary_route :: "string option"

definition pod_spec_dump :: "pod_spec \<Rightarrow> json" where
  "pod_spec_dump p = JObj [(''host_id'', JStr (spec_host_id p)), (''path'', JStr (spec_path p)),
     (''launcher_path'', JStr (spec_launcher_path p)), (''is_portable'', JBool (spec_is_portable p))]"

definition subject_create_dump :: "subject_create \<Rightarrow> dict" where
  "subject_create_dump p = [(''object_id'', JStr (sc_object_id p)), (''runtime_type'', JStr (sc_runtime_type p)),
     (''access_policy_id'', jopt JStr (sc_access_policy_id p)), (''pod_spec'', jopt pod_spec_dump (sc_pod_spec p))]"

definition subject_update_dump :: "subject_update \<Rightarrow> dict" where
  "subject_update_dump p = given ''name'' JStr (su_name p) @ given ''access_policy_id'' JStr (su_access_policy_id p)
     @ given ''primary_route'' JStr (su_primary_route p)"

definition subject_read :: "subject \<Rightarrow> dict" where
  "subject_read s =
     [(''id'', JStr (sub_entity_id s)), (''name'', JStr (sub_name s)), (''kind'', JStr (sub_kind s)),
      (''description'', JStr (sub_description s)), (''tags'', jstrs (sub_tags s)),
      (''runtime_type'', JStr (sub_runtime_type s)), (''pod_id'', jopt JStr (sub_pod_id s)),
      (''access_policy_id'', jopt JStr (sub_access_policy_id s)), (''primary_route'', jopt JStr (sub_primary_route s)),
      (''network_configured'', JBool (sub_vless_uri_encrypted s \<noteq> [])),
      (''network_profile_version'', JInt (sub_network_profile_version s)),
      (''system_tabs'', JArr (sub_system_tabs s)),
      (''system_tabs_profile_version'', JInt (sub_system_tabs_profile_version s)),
      (''update_channel'', JStr (sub_update_channel s)), (''ui_policy'', JObj (sub_ui_policy s)),
      (''security_policy'', JObj (sub_security_policy s)), (''created_at'', JTime (sub_created_at s))]"

section \<open>Turning an object into a subject\<close>

definition text_or :: "'a list \<Rightarrow> 'a list \<Rightarrow> 'a list" where
  "text_or a b = (if a = [] then b else a)"

text \<open>A subject that still refers to the object keeps its own values and inherits the missing ones.\<close>

definition unlink_legacy :: "perimetr_object \<Rightarrow> subject \<Rightarrow> subject" where
  "unlink_legacy x s = s\<lparr>sub_object_id := None, sub_name := text_or (sub_name s) (obj_name x),
     sub_kind := text_or (sub_kind s) (obj_kind x),
     sub_description := text_or (sub_description s) (obj_description x), sub_tags := text_or (sub_tags s) (obj_tags x)\<rparr>"

definition subject_of_object :: "perimetr_object \<Rightarrow> subject_create \<Rightarrow> int \<Rightarrow> subject" where
  "subject_of_object x p t =
     \<lparr>sub_id = obj_id x, sub_entity_id = obj_entity_id x, sub_object_id = None, sub_name = obj_name x,
      sub_kind = obj_kind x, sub_description = obj_description x, sub_tags = obj_tags x,
      sub_image_data = obj_image_data x, sub_image_media_type = obj_image_media_type x,
      sub_runtime_type = sc_runtime_type p, sub_pod_id = None, sub_access_policy_id = sc_access_policy_id p,
      sub_primary_route = None, sub_vless_uri_encrypted = [], sub_network_profile_version = 1,
      sub_system_tabs = [], sub_system_tabs_profile_version = 1, sub_update_channel = ''stable'',
      sub_ui_policy = [], sub_security_policy = [], sub_created_at = t\<rparr>"

definition default_pod :: "string \<Rightarrow> string \<Rightarrow> int \<Rightarrow> pod" where
  "default_pod i subject_id t =
     \<lparr>pod_id = i, pod_subject_id = subject_id, pod_provisioning_id = None, pod_name = ''Pod'', pod_login = ''pod'',
      pod_password_hash = [], pod_decoy_password_hash = [], pod_status = ''pending'', pod_host_id = [],
      pod_path = [], pod_launcher_path = [], pod_runtime_state = [], pod_is_portable = True,
      pod_last_materialized_at = None, pod_public_key_pem = [], pod_identity_certificate = [],
      pod_certificate_fingerprint = [], pod_device_binding_fingerprint = [], pod_device_binding_status = ''pending'',
      pod_version = ''0.1.0'', pod_xray_version = ''unknown'', pod_network_profile_version = 1,
      pod_system_tabs_profile_version = 1, pod_heartbeat_sequence = 0, pod_last_seen_at = None,
      pod_last_heartbeat_at = None, pod_activated_at = None, pod_revoked_at = None, pod_revoke_reason = [],
      pod_created_at = t\<rparr>"

definition move_key :: "string \<Rightarrow> string \<Rightarrow> dict \<Rightarrow> dict" where
  "move_key s t d = (case get_key s d of None \<Rightarrow> d | Some v \<Rightarrow> set_key t v (del_key s d))"

definition move_block :: "string \<Rightarrow> dict \<Rightarrow> dict" where
  "move_block entity_id v = foldl (\<lambda>v field. set_key field (JObj (move_key (''object_'' @ entity_id)
     (''subject_'' @ entity_id) (dict_or_empty (get_or_null field v)))) v) v block_fields"

definition add_spec_pod :: "env \<Rightarrow> string \<Rightarrow> pod_spec \<Rightarrow> unit web" where
  "add_spec_pod E subject_id spec =
     letM (new_id E) (\<lambda>i. letM (now_utc E) (\<lambda>t.
       seqM (db_add PODS ((default_pod i subject_id t)\<lparr>pod_host_id := spec_host_id spec, pod_path := spec_path spec,
               pod_launcher_path := spec_launcher_path spec, pod_is_portable := spec_is_portable spec,
               pod_runtime_state := [(''materialized'', JBool False)]\<rparr>))
       (seqM flush
         (db_set SUBJECTS subject_id (\<lambda>s. s\<lparr>sub_pod_id := Some i\<rparr>)))))"

definition transform_object :: "env \<Rightarrow> subject_create \<Rightarrow> perimetr_object \<Rightarrow> dict web" where
  "transform_object E payload x =
     letM (db_all SUBJECTS (\<lambda>s. sub_object_id s = Some (obj_id x))) (\<lambda>legacy.
     seqM (eachM legacy (\<lambda>s. db_set SUBJECTS (sub_id s) (unlink_legacy x)))
     (seqM flush
     (letM (now_utc E) (\<lambda>t.
     seqM (db_add SUBJECTS (subject_of_object x payload t))
     (seqM flush
     (seqM (case sc_pod_spec payload of None \<Rightarrow> ret () | Some spec \<Rightarrow> add_spec_pod E (obj_id x) spec)
     (letM (db_scalar SETTINGS correlation_row) (\<lambda>found.
     seqM (case found of
             None \<Rightarrow> ret ()
           | Some r \<Rightarrow> db_set SETTINGS (ss_id r)
               (\<lambda>v. v\<lparr>ss_value := JObj (move_block (obj_entity_id x) (dict_or_empty (ss_value r)))\<rparr>))
     (seqM (db_delete OBJECTS (obj_id x))
     (seqM (core_audit E ''object.transformed_to_subject'' ''subject'' (obj_entity_id x)
             (subject_create_dump payload) [(''name'', JStr (obj_name x))])
     (seqM commit
     (letM (db_get SUBJECTS (obj_id x)) (\<lambda>again.
       (case again of None \<Rightarrow> raiseM (Crash ''InvalidRequestError'') | Some s \<Rightarrow> ret (subject_read s)))))))))))))))"

definition create_subject :: "env \<Rightarrow> subject_create \<Rightarrow> dict web" where
  "create_subject E payload =
     letM (catch_http (letM (get_object (sc_object_id payload)) (\<lambda>x. ret (Inr x)))
        (\<lambda>exc. letM (db_get SUBJECTS (sc_object_id payload)) (\<lambda>a.
           (case a of
              Some s \<Rightarrow> ret (Inl s)
            | None \<Rightarrow> letM (db_scalar SUBJECTS (\<lambda>s. sub_entity_id s = sc_object_id payload)) (\<lambda>b.
                (case b of Some s \<Rightarrow> ret (Inl s) | None \<Rightarrow> raiseM exc))))))
       (\<lambda>found. case found of Inl s \<Rightarrow> ret (subject_read s) | Inr x \<Rightarrow> transform_object E payload x)"

section \<open>Reading and changing subjects\<close>

definition list_subjects :: "dict list web" where
  "list_subjects = letM (db_all SUBJECTS (\<lambda>_. True)) (\<lambda>found. ret (map subject_read (newest sub_created_at found)))"

definition read_subject :: "string \<Rightarrow> dict web" where
  "read_subject subject_id = letM (get_subject subject_id) (\<lambda>s. ret (subject_read s))"

definition apply_subject_update :: "subject_update \<Rightarrow> subject \<Rightarrow> subject" where
  "apply_subject_update p s = s\<lparr>sub_name := assign (su_name p) (sub_name s),
     sub_access_policy_id := (case su_access_policy_id p of None \<Rightarrow> sub_access_policy_id s | Some v \<Rightarrow> Some v),
     sub_primary_route := (case su_primary_route p of None \<Rightarrow> sub_primary_route s | Some v \<Rightarrow> Some v)\<rparr>"

definition update_subject :: "env \<Rightarrow> string \<Rightarrow> subject_update \<Rightarrow> dict web" where
  "update_subject E subject_id payload =
     letM (get_subject subject_id) (\<lambda>s.
     seqM (db_set SUBJECTS (sub_id s) (apply_subject_update payload))
     (seqM (core_audit E ''subject.updated'' ''subject'' (sub_entity_id s) (subject_update_dump payload)
             [(''name'', JStr (sub_name (apply_subject_update payload s)))])
     (seqM commit (ret (subject_read (apply_subject_update payload s))))))"

definition update_subject_image :: "env \<Rightarrow> string \<Rightarrow> upload \<Rightarrow> dict web" where
  "update_subject_image E subject_id up =
     letM (get_subject subject_id) (\<lambda>s.
     letM (liftM (read_entity_image up)) (\<lambda>data.
     seqM (db_set SUBJECTS (sub_id s) (\<lambda>r. r\<lparr>sub_image_data := data, sub_image_media_type := ''image/png''\<rparr>))
     (seqM (core_audit E ''subject.image.updated'' ''subject'' (sub_entity_id s) [] [])
     (seqM commit (ret (subject_read s))))))"

definition read_subject_image :: "string \<Rightarrow> image_response web" where
  "read_subject_image subject_id =
     letM (get_subject subject_id) (\<lambda>s. liftM (entity_image_response (sub_image_data s) (sub_image_media_type s)))"

definition delete_subject_image :: "env \<Rightarrow> string \<Rightarrow> dict web" where
  "delete_subject_image E subject_id =
     letM (get_subject subject_id) (\<lambda>s.
     seqM (db_set SUBJECTS (sub_id s) (\<lambda>r. r\<lparr>sub_image_data := [], sub_image_media_type := []\<rparr>))
     (seqM (core_audit E ''subject.image.deleted'' ''subject'' (sub_entity_id s) [] [])
     (seqM commit (ret (subject_read s)))))"

section \<open>Launching a subject\<close>

definition web_route :: "subject \<Rightarrow> string option" where
  "web_route s = (case sub_primary_route s of
     Some r \<Rightarrow> if r = [] then Some (''/subjects/'' @ sub_entity_id s @ ''/web'') else Some r
   | None \<Rightarrow> Some (''/subjects/'' @ sub_entity_id s @ ''/web''))"

text \<open>\<open>subject.pod_id\<close> when it is not empty.\<close>

definition bound_pod :: "subject \<Rightarrow> string option" where
  "bound_pod s = (case sub_pod_id s of Some i \<Rightarrow> if i = [] then None else Some i | None \<Rightarrow> None)"

definition subject_pod :: "subject \<Rightarrow> pod web" where
  "subject_pod s = (case bound_pod s of
     None \<Rightarrow> raiseM (http_error 400 ''subject does not have a pod'') | Some i \<Rightarrow> get_pod i)"

definition materialize_subject :: "env \<Rightarrow> string \<Rightarrow> dict web" where
  "materialize_subject E subject_id =
     letM (get_subject subject_id) (\<lambda>s.
     letM (subject_pod s) (\<lambda>p.
     letM (now_utc E) (\<lambda>t.
     seqM (db_set PODS (pod_id p) (\<lambda>x. x\<lparr>pod_last_materialized_at := Some t,
             pod_runtime_state := set_key ''materialized'' (JBool True) (pod_runtime_state x)\<rparr>))
     (seqM (db_set SUBJECTS (sub_id s) (\<lambda>x. x\<lparr>sub_primary_route := web_route x\<rparr>))
     (seqM (core_audit E ''subject.materialized'' ''subject'' (sub_id s) [] [(''pod_id'', JStr (pod_id p))])
     (seqM commit
       (ret [(''pod_id'', JStr (pod_id p)), (''launcher_path'', JStr (pod_launcher_path p)),
             (''state_path'', JStr (pod_path p @ ''/state'')), (''primary_route'', jopt JStr (web_route s))])))))))"

definition authorization_read :: "subject \<Rightarrow> authorization \<Rightarrow> dict" where
  "authorization_read s a =
     [(''id'', JStr (auth_id a)), (''subject_id'', JStr (sub_entity_id s)), (''pod_id'', JStr (auth_pod_id a)),
      (''decision'', JStr (auth_decision a)), (''reason'', JStr (auth_reason a)),
      (''issued_at'', jopt JTime (auth_issued_at a)), (''expires_at'', jopt JTime (auth_expires_at a)),
      (''revoked_at'', jopt JTime (auth_revoked_at a)), (''created_at'', JTime (auth_created_at a))]"

definition authorize_subject :: "env \<Rightarrow> string \<Rightarrow> dict web" where
  "authorize_subject E subject_id =
     letM (get_subject subject_id) (\<lambda>s.
     letM (subject_pod s) (\<lambda>p.
     letM (now_utc E) (\<lambda>issued.
     seqM (db_set SUBJECTS (sub_id s) (\<lambda>x. x\<lparr>sub_primary_route := web_route x\<rparr>))
     (letM (new_id E) (\<lambda>i. letM (now_utc E) (\<lambda>t.
       (let a = \<lparr>auth_id = i, auth_subject_id = sub_id s, auth_pod_id = pod_id p, auth_decision = ''approved'',
              auth_reason = ''authorized by perimetr'', auth_issued_at = Some issued, auth_expires_at = None,
              auth_revoked_at = None, auth_created_at = t\<rparr>
        in seqM (db_add AUTHORIZATIONS a)
           (seqM flush
           (seqM (core_audit E ''subject.authorized'' ''subject'' (sub_id s) [] [(''authorization_id'', JStr i)])
           (seqM commit (ret (authorization_read s a))))))))))))"

definition newest_authorization :: "(authorization \<Rightarrow> bool) \<Rightarrow> authorization option web" where
  "newest_authorization P =
     letM (db_all AUTHORIZATIONS P) (\<lambda>found.
       ret (case newest auth_created_at found of [] \<Rightarrow> None | a # _ \<Rightarrow> Some a))"

definition revoke_authorization :: "string \<Rightarrow> int \<Rightarrow> authorization \<Rightarrow> authorization" where
  "revoke_authorization reason t a =
     a\<lparr>auth_decision := ''revoked'', auth_reason := reason, auth_revoked_at := Some t\<rparr>"

text \<open>The newest authorization of the subject and all its active leases are revoked. The result is the
  authorization as revoked.\<close>

definition revoke_subject_access :: "env \<Rightarrow> subject \<Rightarrow> string \<Rightarrow> authorization option web" where
  "revoke_subject_access E s reason =
     letM (newest_authorization (\<lambda>a. auth_subject_id a = sub_id s)) (\<lambda>found.
     letM (case found of
             None \<Rightarrow> ret None
           | Some a \<Rightarrow> letM (now_utc E) (\<lambda>t.
               seqM (db_set AUTHORIZATIONS (auth_id a) (revoke_authorization reason t))
                 (ret (Some (revoke_authorization reason t a))))) (\<lambda>revoked.
     letM (db_all LEASES (\<lambda>l. lease_subject_id l = Some (sub_id s) \<and> lease_status l = ''active'')) (\<lambda>ls.
     seqM (eachM ls (\<lambda>l. letM (now_utc E) (\<lambda>t. db_set LEASES (lease_id l) (close_lease ''revoked'' t))))
       (ret revoked))))"

definition revoke_subject :: "env \<Rightarrow> string \<Rightarrow> dict web" where
  "revoke_subject E subject_id =
     letM (get_subject subject_id) (\<lambda>s.
     letM (revoke_subject_access E s ''revoked by perimetr'') (\<lambda>found.
       (case found of
          None \<Rightarrow> raiseM (http_error 404 ''authorization not found'')
        | Some a \<Rightarrow>
            seqM (core_audit E ''subject.revoked'' ''subject'' (sub_id s) [] [(''authorization_id'', JStr (auth_id a))])
            (seqM commit (ret (authorization_read s a))))))"

definition web_subject_state :: "pod \<Rightarrow> json" where
  "web_subject_state p = (case get_key ''web_subject'' (pod_runtime_state p) of None \<Rightarrow> JObj [] | Some v \<Rightarrow> v)"

definition read_subject_state :: "string \<Rightarrow> dict web" where
  "read_subject_state subject_id =
     letM (get_subject subject_id) (\<lambda>s.
       (case bound_pod s of
          None \<Rightarrow> ret [(''subject_id'', JStr (sub_id s)), (''state'', JObj [])]
        | Some i \<Rightarrow> letM (get_pod i) (\<lambda>p.
            ret [(''subject_id'', JStr (sub_id s)), (''state'', web_subject_state p)])))"

definition update_subject_state :: "env \<Rightarrow> string \<Rightarrow> dict \<Rightarrow> dict web" where
  "update_subject_state E subject_id payload =
     letM (get_subject subject_id) (\<lambda>s.
     letM (subject_pod s) (\<lambda>p.
     seqM (db_set PODS (pod_id p) (\<lambda>x. x\<lparr>pod_runtime_state :=
             set_key ''materialized'' (JBool True) (set_key ''web_subject'' (JObj payload) (pod_runtime_state x))\<rparr>))
     (seqM (core_audit E ''subject.state.updated'' ''subject'' (sub_id s) payload [])
     (seqM commit (ret [(''subject_id'', JStr (sub_id s)), (''state'', JObj payload)])))))"

definition html_escape :: "string \<Rightarrow> string" where
  "html_escape s = concat (map (\<lambda>c.
     if c = CHR 0x26 then ''&amp;'' else if c = CHR 0x3c then ''&lt;'' else if c = CHR 0x3e then ''&gt;''
     else if c = CHR 0x22 then ''&quot;'' else if c = CHR 0x27 then ''&#x27;'' else [c]) s)"

text \<open>The values that the page of a web subject inserts into its fixed text.\<close>

record subject_page =
  page_title :: string
  page_heading :: string
  page_id :: string
  page_route :: string
  page_body :: string

definition subject_web_runtime :: "string \<Rightarrow> subject_page web" where
  "subject_web_runtime subject_id =
     letM (get_subject subject_id) (\<lambda>s.
     seqM (raise_if (sub_runtime_type s \<noteq> ''web'') (http_error 400 ''subject is not web runtime''))
     (letM (newest_authorization (\<lambda>a. auth_subject_id a = sub_id s \<and> auth_decision a = ''approved''
              \<and> auth_revoked_at a = None)) (\<lambda>found.
     seqM (raise_if (found = None) (http_error 403 ''subject_not_authorized''))
     (letM (case bound_pod s of None \<Rightarrow> ret [] | Some i \<Rightarrow>
              letM (get_pod i) (\<lambda>p. ret (dict_or_empty (web_subject_state p)))) (\<lambda>state.
       ret \<lparr>page_title = html_escape (str_or (sub_name s) (get_key ''title'' state)),
            page_heading = html_escape (sub_name s), page_id = html_escape (sub_entity_id s),
            page_route = html_escape (case sub_primary_route s of None \<Rightarrow> [] | Some r \<Rightarrow> r),
            page_body = html_escape (str_or (if sub_description s = [] then ''Subject workspace is ready.''
               else sub_description s) (get_key ''body'' state))\<rparr>)))))"

section \<open>Policies\<close>

record policy_create =
  pc_scope_type :: string
  pc_scope_id :: string
  pc_rules :: dict
  pc_status :: string

record policy_update =
  pu_rules :: "dict option"
  pu_status :: "string option"

definition policy_read :: "access_policy \<Rightarrow> dict" where
  "policy_read p = [(''id'', JStr (pol_id p)), (''scope_type'', JStr (pol_scope_type p)),
     (''scope_id'', JStr (pol_scope_id p)), (''rules'', JObj (pol_rules p)), (''status'', JStr (pol_status p)),
     (''created_at'', JTime (pol_created_at p))]"

definition list_policies :: "dict list web" where
  "list_policies = letM (db_all POLICIES (\<lambda>_. True)) (\<lambda>found. ret (map policy_read (newest pol_created_at found)))"

definition create_policy :: "env \<Rightarrow> policy_create \<Rightarrow> dict web" where
  "create_policy E p =
     letM (new_id E) (\<lambda>i. letM (now_utc E) (\<lambda>t.
       (let r = \<lparr>pol_id = i, pol_scope_type = pc_scope_type p, pol_scope_id = pc_scope_id p, pol_rules = pc_rules p,
              pol_status = pc_status p, pol_created_at = t\<rparr>
        in seqM (db_add POLICIES r)
           (seqM flush
           (seqM (core_audit E ''policy.created'' ''policy'' i
                   [(''scope_type'', JStr (pc_scope_type p)), (''scope_id'', JStr (pc_scope_id p)),
                    (''rules'', JObj (pc_rules p)), (''status'', JStr (pc_status p))]
                   [(''status'', JStr (pol_status r))])
           (seqM commit (ret (policy_read r))))))))"

definition apply_policy_update :: "policy_update \<Rightarrow> access_policy \<Rightarrow> access_policy" where
  "apply_policy_update u p = p\<lparr>pol_rules := assign (pu_rules u) (pol_rules p),
     pol_status := assign (pu_status u) (pol_status p)\<rparr>"

definition update_policy :: "env \<Rightarrow> string \<Rightarrow> policy_update \<Rightarrow> dict web" where
  "update_policy E i u =
     letM (db_get POLICIES i) (\<lambda>found.
       (case found of
          None \<Rightarrow> raiseM (http_error 404 (''policy '' @ i @ '' not found''))
        | Some p \<Rightarrow>
            seqM (db_set POLICIES (pol_id p) (apply_policy_update u))
            (seqM (core_audit E ''policy.updated'' ''policy'' (pol_id p)
                    (given ''rules'' JObj (pu_rules u) @ given ''status'' JStr (pu_status u))
                    [(''status'', JStr (pol_status (apply_policy_update u p)))])
            (seqM commit (ret (policy_read (apply_policy_update u p)))))))"

end
