(* ===== verification/Entity_Safety.thy ===== *)
theory Entity_Safety
  imports Subjects
begin

text \<open>
  What the endpoints on objects and subjects guarantee: the search for a fresh public identifier ends,
  an image is served as it was uploaded, the correlation percentage is a percentage, an object becomes a
  subject with its identity, and the values of a subject page carry no markup.
\<close>

section \<open>Tables\<close>

lemma table_rows [simp]:
  "rows OBJECTS d = objects d" "pk OBJECTS = obj_id" "with_rows OBJECTS os d = d\<lparr>objects := os\<rparr>"
  "rows SUBJECTS d = subjects d" "pk SUBJECTS = sub_id" "with_rows SUBJECTS ss d = d\<lparr>subjects := ss\<rparr>"
  "rows SETTINGS d = system_settings d" "pk SETTINGS = ss_id" "with_rows SETTINGS xs d = d\<lparr>system_settings := xs\<rparr>"
  "rows PODS d = pods d" "pk PODS = pod_id" "with_rows PODS ps d = d\<lparr>pods := ps\<rparr>"
  "rows PROVISIONINGS d = provisionings d" "pk PROVISIONINGS = prov_id"
  "with_rows PROVISIONINGS rs d = d\<lparr>provisionings := rs\<rparr>"
  "rows DENYLIST d = denylist d" "pk DENYLIST = deny_id" "with_rows DENYLIST ds d = d\<lparr>denylist := ds\<rparr>"
  "rows AUTHORIZATIONS d = authorizations d" "pk AUTHORIZATIONS = auth_id"
  "with_rows AUTHORIZATIONS as d = d\<lparr>authorizations := as\<rparr>"
  "rows EVENTS d = audit_events d" "pk EVENTS = ev_id" "with_rows EVENTS es d = d\<lparr>audit_events := es\<rparr>"
  "rows POLICIES d = policies d" "pk POLICIES = pol_id" "with_rows POLICIES qs d = d\<lparr>policies := qs\<rparr>"
  by (simp_all add: table_defs)

lemma audit_Inr: "audit E a1 a2 a3 a4 a5 p r w = (Inr u, w') \<Longrightarrow> audited w w'"
proof -
  have "wp (audit E a1 a2 a3 a4 a5 p r) (\<lambda>_ w'. audited w w') (\<lambda>_ _. True) w"
    by (rule wp_auditI) simp_all
  then show "audit E a1 a2 a3 a4 a5 p r w = (Inr u, w') \<Longrightarrow> ?thesis" by (simp add: wp_def)
qed

lemma core_audit_Inr: "core_audit E a t i p r w = (Inr u, w') \<Longrightarrow> audited w w'"
  by (simp add: core_audit_def audit_Inr)

section \<open>Fresh identifiers\<close>

definition entity_in_use :: "db \<Rightarrow> string \<Rightarrow> bool" where
  "entity_in_use d e \<longleftrightarrow> e \<in> set (map obj_entity_id (objects d)) \<union> set (map sub_entity_id (subjects d))"

lemma fresh_entity_id_Suc:
  "fresh_entity_id E (Suc n) w =
     (if entity_in_use (stored w) (entity_ids E (draws w)) then fresh_entity_id E n (w\<lparr>draws := Suc (draws w)\<rparr>)
      else (Inr (entity_ids E (draws w)), w\<lparr>draws := Suc (draws w)\<rparr>))"
proof -
  let ?e = "entity_ids E (draws w)" and ?w = "w\<lparr>draws := Suc (draws w)\<rparr>"
  have o: "fst (db_scalar OBJECTS (\<lambda>r. obj_entity_id r = ?e) ?w) = Inr None \<longleftrightarrow> ?e \<notin> obj_entity_id ` set (objects (stored w))"
    by (simp add: db_scalar_def find_None_iff image_iff) metis
  have s: "fst (db_scalar SUBJECTS (\<lambda>r. sub_entity_id r = ?e) ?w) = Inr None \<longleftrightarrow> ?e \<notin> sub_entity_id ` set (subjects (stored w))"
    by (simp add: db_scalar_def find_None_iff image_iff) metis
  show ?thesis
    using o s by (auto simp: letM_def draw_def ret_def db_scalar_def entity_in_use_def split: option.splits)
qed

lemma fresh_entity_id_first:
  assumes "\<forall>j < k. entity_in_use (stored w) (entity_ids E (draws w + j))"
    and "\<not> entity_in_use (stored w) (entity_ids E (draws w + k))" and "k < n"
  shows "fresh_entity_id E n w = (Inr (entity_ids E (draws w + k)), w\<lparr>draws := draws w + Suc k\<rparr>)"
  using assms
proof (induction k arbitrary: n w)
  case 0
  then show ?case by (cases n) (simp_all add: fresh_entity_id_Suc del: fresh_entity_id.simps)
next
  case (Suc k)
  obtain m where n: "n = Suc m" "k < m" using Suc.prems(3) by (cases n) auto
  have u: "entity_in_use (stored w) (entity_ids E (draws w))" using Suc.prems(1) by fastforce
  have "\<forall>j < k. entity_in_use (stored w) (entity_ids E (Suc (draws w + j)))"
    using Suc.prems(1) by (metis Suc_less_eq add_Suc_right)
  with Suc.IH [of "w\<lparr>draws := Suc (draws w)\<rparr>" m] Suc.prems(2) n(2)
  show ?case unfolding n(1) fresh_entity_id_Suc if_P [OF u] by simp
qed


section \<open>Lookups\<close>

definition resolve :: "'r table \<Rightarrow> ('r \<Rightarrow> string) \<Rightarrow> db \<Rightarrow> string \<Rightarrow> 'r option" where
  "resolve T public d i = (case lookup T d i of Some x \<Rightarrow> Some x | None \<Rightarrow> find (\<lambda>r. public r = i) (rows T d))"

lemma get_object_run: "in_step OBJECTS w \<Longrightarrow> get_object i w =
    (case resolve OBJECTS obj_entity_id (stored w) i of
       None \<Rightarrow> (Inl (http_error 404 (''object '' @ i @ '' not found'')), w) | Some x \<Rightarrow> (Inr x, w))"
  by (simp add: get_object_def letM_def objects_table.db_get_synced objects_table.db_scalar_synced resolve_def
      ensure_exists_def raiseM_def ret_def split: option.splits)

lemma get_subject_run: "in_step SUBJECTS w \<Longrightarrow> get_subject i w =
    (case resolve SUBJECTS sub_entity_id (stored w) i of
       None \<Rightarrow> (Inl (http_error 404 (''subject '' @ i @ '' not found'')), w) | Some x \<Rightarrow> (Inr x, w))"
  by (simp add: get_subject_def letM_def subjects_table.db_get_synced subjects_table.db_scalar_synced resolve_def
      ensure_exists_def raiseM_def ret_def split: option.splits)

context table_laws begin

lemma resolve_modify:
  assumes "\<And>r. pk T (f r) = pk T r" and "\<And>r. public (f r) = public r"
  shows "resolve T public (modify_row T k f d) i = map_option (\<lambda>r. if pk T r = k then f r else r) (resolve T public d i)"
proof -
  have f: "find (\<lambda>r. public r = j) (map (\<lambda>r. if pk T r = k then f r else r) xs)
      = map_option (\<lambda>r. if pk T r = k then f r else r) (find (\<lambda>r. public r = j) xs)" for xs j
    by (induction xs) (auto simp: assms)
  show ?thesis
  proof (cases "lookup T d i")
    case None
    then show ?thesis by (auto simp: resolve_def lookup_modify assms rows_modify f)
  next
    case (Some r)
    then have "pk T r = i" using lookup_pk by blast
    with Some show ?thesis by (auto simp: resolve_def lookup_modify assms)
  qed
qed

lemma resolve_mem: "resolve T public d i = Some r \<Longrightarrow> r \<in> set (rows T d)"
  using lookup_pk find_SomeD by (fastforce simp: resolve_def split: option.splits)

end

lemma resolve_events [simp]:
  "resolve OBJECTS obj_entity_id (d\<lparr>audit_events := es\<rparr>) i = resolve OBJECTS obj_entity_id d i"
  "resolve SUBJECTS sub_entity_id (d\<lparr>audit_events := es\<rparr>) i = resolve SUBJECTS sub_entity_id d i"
  by (simp_all add: resolve_def lookup_def cong: option.case_cong)

section \<open>Images\<close>

lemma read_entity_image_Inr:
  "read_entity_image up = Inr data \<Longrightarrow> data = b64encode False (up_content up) \<and> up_content up \<noteq> []
     \<and> length (up_content up) \<le> MAX_ENTITY_IMAGE_BYTES \<and> starts_with PNG_SIGNATURE (up_content up)"
  by (auto simp: read_entity_image_def Let_def split: if_splits)

lemma b64encode_Nil: "b64encode u bs = [] \<longleftrightarrow> bs = []"
  by (cases "(u, bs)" rule: b64encode.cases) auto

text \<open>An uploaded image is a PNG within the limit, and reading it gives back the uploaded bytes.\<close>

theorem image_round_trip:
  assumes "idle w" and "constraints_ok (committed w)"
    and run: "serve (update_object_image E i up) w = (Inr out, w')"
  shows "starts_with PNG_SIGNATURE (up_content up) \<and> length (up_content up) \<le> MAX_ENTITY_IMAGE_BYTES
    \<and> fst (serve (read_object_image i) w') = Inr \<lparr>img_content = up_content up, img_media_type = ''image/png''\<rparr>"
proof -
  let ?f = "\<lambda>r. r\<lparr>obj_image_data := b64encode False (up_content up), obj_image_media_type := ''image/png''\<rparr>"
  have s: "live w = committed w" "stored w = committed w" "in_step OBJECTS w"
    using assms(1,2) synced_in_step idle_synced by (auto simp: idle_def)
  obtain w1 where r: "update_object_image E i up w = (Inr out, w1)"
    and w': "w' = w1\<lparr>stored := committed w1, live := committed w1, pending_log := []\<rparr>"
    using run by (auto simp: serve_Inr [OF assms(1)])
  obtain x where x: "resolve OBJECTS obj_entity_id (committed w) i = Some x" and g: "get_object i w = (Inr x, w)"
    using r get_object_run [OF s(3), of i] s(2)
    by (cases "resolve OBJECTS obj_entity_id (committed w) i") (simp_all add: update_object_image_def letM_def)
  obtain w2 where png: "up_content up \<noteq> []" "length (up_content up) \<le> MAX_ENTITY_IMAGE_BYTES"
      "starts_with PNG_SIGNATURE (up_content up)"
    and a: "audited (w\<lparr>live := modify_row OBJECTS (obj_id x) ?f (committed w)\<rparr>) w2"
    and c: "constraints_ok (live w2)" "committed w1 = live w2"
    using r by (auto simp: update_object_image_def letM_Inr g web_inv s(1) dest!: read_entity_image_Inr core_audit_Inr)
  have i': "idle w'" by (simp add: w' idle_def)
  have st: "in_step OBJECTS w'" "stored w' = live w2"
    using c i' synced_in_step [OF idle_synced [OF i']] by (simp_all add: w')
  obtain es where d: "live w2 = (modify_row OBJECTS (obj_id x) ?f (committed w))\<lparr>audit_events := es\<rparr>"
    using a by (auto simp: audited_def)
  have "resolve OBJECTS obj_entity_id (stored w') i = Some (?f x)"
    unfolding st(2) d resolve_events by (subst objects_table.resolve_modify) (simp_all add: x)
  then have "read_object_image i w' = (Inr \<lparr>img_content = up_content up, img_media_type = ''image/png''\<rparr>, w')"
    using png(1) by (simp add: read_object_image_def letM_def get_object_run [OF st(1)] entity_image_response_def
        stored_png_response_def b64encode_Nil b64_round_trips liftM_def ret_def)
  with png show ?thesis by (simp add: serve_idle [OF i'])
qed

section \<open>Markup\<close>

lemma html_escape_plain: "c \<in> set (html_escape s) \<Longrightarrow> c \<notin> {CHR ''<'', CHR ''>'', CHR 0x22, CHR 0x27}"
  by (auto simp: html_escape_def split: if_splits)

definition page_values :: "subject_page \<Rightarrow> string list" where
  "page_values p = [page_title p, page_heading p, page_id p, page_route p, page_body p]"

text \<open>Whatever the state, the name and the description of a subject are, none of the values its page
  inserts contains a character that could open a tag or end an attribute.\<close>

theorem subject_page_values_escaped:
  assumes "subject_web_runtime i w = (Inr page, w')"
  shows "list_all (\<lambda>v. list_all (\<lambda>c. c \<noteq> CHR ''<'' \<and> c \<noteq> CHR ''>'' \<and> c \<noteq> CHR 0x22 \<and> c \<noteq> CHR 0x27) v) (page_values page)"
  using assms html_escape_plain
  by (fastforce simp: subject_web_runtime_def web_inv page_values_def list_all_iff)

section \<open>The percentage\<close>

lemma block_ids_length:
  "block_ids es d = Some bs \<Longrightarrow> length bs = length (filter (\<lambda>k. k \<in> set es) (map fst d))"
  by (induction es d arbitrary: bs rule: block_ids.induct) (auto split: if_splits option.splits)

lemma block_ids_bound:
  assumes "block_ids es d = Some bs" and "distinct (map fst d)"
  shows "length bs \<le> length es"
proof -
  let ?ks = "filter (\<lambda>k. k \<in> set es) (map fst d)"
  have "length ?ks = card (set ?ks)" using assms(2) distinct_card [of ?ks] by (simp add: distinct_filter)
  also have "\<dots> \<le> card (set es)" by (rule card_mono) auto
  also have "\<dots> \<le> length es" by (rule card_length)
  finally show ?thesis using block_ids_length [OF assms(1)] by simp
qed

lemma score_bounds:
  assumes "length bs \<le> n" and "ps \<noteq> []" and "2 \<le> n"
  shows "0 \<le> correlation_score ps bs n \<and> correlation_score ps bs n \<le> 1"
proof -
  let ?f = "\<lambda>p. of_nat (property_count bs p - 1) / of_nat (n - 1) :: rat"
  have f: "0 \<le> ?f p \<and> ?f p \<le> 1" for p
  proof -
    have "property_count bs p \<le> length bs" by (simp add: property_count_def)
    then have "property_count bs p - 1 \<le> n - 1" using assms(1) by linarith
    then have "(of_nat (property_count bs p - 1) :: rat) \<le> of_nat (n - 1)" by (rule of_nat_mono)
    then show ?thesis using assms(3) by (simp add: divide_le_eq_1)
  qed
  have "(\<Sum>p\<leftarrow>xs. ?f p) \<le> of_nat (length xs)" for xs
  proof (induction xs)
    case (Cons p xs)
    then show ?case using f [of p] by simp
  qed simp
  moreover have "0 \<le> (\<Sum>p\<leftarrow>xs. ?f p)" for xs
  proof (induction xs)
    case (Cons p xs)
    then show ?case using f [of p] by simp
  qed simp
  ultimately show ?thesis using assms(2) by (simp add: correlation_score_def divide_le_eq_1)
qed

lemma hundredths_bounds:
  assumes "0 \<le> x" and "x \<le> 100"
  shows "0 \<le> hundredths x \<and> hundredths x \<le> 10000"
proof -
  have f: "0 \<le> \<lfloor>x * 100\<rfloor>" "\<lfloor>x * 100\<rfloor> \<le> 10000" using assms by (simp_all add: floor_le_iff)
  show ?thesis
  proof (cases "\<lfloor>x * 100\<rfloor> = 10000")
    case True
    then have "x * 100 - of_int \<lfloor>x * 100\<rfloor> = 0" using assms(2) of_int_floor_le [of "x * 100"] by simp
    with True show ?thesis by (simp add: hundredths_def)
  next
    case False
    with f have "\<lfloor>x * 100\<rfloor> + 1 \<le> 10000" by linarith
    with f show ?thesis by (simp add: hundredths_def Let_def)
  qed
qed

text \<open>The correlation percentage is between 0.00 and 100.00, for every state of the map whose blocks have
  distinct names, which a decoded JSON object has.\<close>

theorem correlation_percentage_bounds:
  assumes "correlation_percentage state w = (Inr v, w')"
    and "distinct (map fst (dict_or_empty (get_or_null ''properties_by_block'' state)))"
  shows "w' = w \<and> (\<exists>k. v = JFloat (percent_text k) \<and> 0 \<le> k \<and> k \<le> 10000)"
proof -
  obtain os ss k where q: "db_all OBJECTS (\<lambda>_. True) w = (Inr os, w)" "db_all SUBJECTS (\<lambda>_. True) w = (Inr ss, w)"
    by (simp add: db_all_def)
  let ?es = "entity_keys os ss"
  from assms(1) obtain k where k: "percentage_of state ?es = Some k" "v = JFloat (percent_text k)" "w' = w"
    by (auto simp: correlation_percentage_def letM_Inr q ret_Inr raiseM_Inr split: option.splits)
  have "0 \<le> k \<and> k \<le> 10000"
  proof (cases "k = 0")
    case False
    then obtain ps bs where p: "ps \<noteq> []" "2 \<le> length ?es"
      and b: "block_ids ?es (dict_or_empty (get_or_null ''properties_by_block'' state)) = Some bs"
      and h: "k = hundredths (correlation_score ps bs (length ?es) * 100)"
      using k(1) by (auto simp: percentage_of_def split: option.splits if_splits)
    have "0 \<le> correlation_score ps bs (length ?es) \<and> correlation_score ps bs (length ?es) \<le> 1"
      using block_ids_bound [OF b assms(2)] p by (rule score_bounds)
    then show ?thesis unfolding h by (intro hundredths_bounds) simp_all
  qed simp
  with k show ?thesis by blast
qed

section \<open>From an object to a subject\<close>

context table_laws begin

lemma each_set_Inr:
  assumes "eachM xs (\<lambda>x. db_set T (pk T x) g) w = (Inr u, w')"
    and "\<And>r. pk T (g r) = pk T r" and "\<And>r. g (g r) = g r"
  shows "w' = w\<lparr>live := with_rows T (map (\<lambda>r. if pk T r \<in> pk T ` set xs then g r else r) (rows T (live w))) (live w)\<rparr>"
proof -
  let ?w = "w\<lparr>live := with_rows T (map (\<lambda>r. if pk T r \<in> pk T ` set xs then g r else r) (rows T (live w))) (live w)\<rparr>"
  have "wp (eachM xs (\<lambda>x. whenM True (db_set T (pk T x) g))) (\<lambda>_ w'. w' = ?w) (\<lambda>_ _. True) w"
    by (subst wp_each_set [OF assms(2,3)]) simp
  then show ?thesis using assms(1) by (simp add: wp_def whenM_def)
qed

end

lemma unlink_legacy_idem: "unlink_legacy x (unlink_legacy x s) = unlink_legacy x s"
  by (simp add: unlink_legacy_def text_or_def)

lemma unlink_legacy_keeps [simp]: "sub_id (unlink_legacy x s) = sub_id s" "sub_entity_id (unlink_legacy x s) = sub_entity_id s"
  by (simp_all add: unlink_legacy_def)

text \<open>The subject keeps the identity and the contents of the object.\<close>

definition same_identity :: "perimetr_object \<Rightarrow> subject \<Rightarrow> bool" where
  "same_identity x s \<longleftrightarrow> sub_id s = obj_id x \<and> sub_entity_id s = obj_entity_id x \<and> sub_name s = obj_name x
     \<and> sub_kind s = obj_kind x \<and> sub_description s = obj_description x \<and> sub_tags s = obj_tags x
     \<and> sub_image_data s = obj_image_data x \<and> sub_image_media_type s = obj_image_media_type x"

definition spec_link :: "subject_create \<Rightarrow> string option \<Rightarrow> bool" where
  "spec_link p i \<longleftrightarrow> (sc_pod_spec p = None \<longrightarrow> i = None) \<and> (sc_pod_spec p \<noteq> None \<longrightarrow> i \<noteq> None)"

lemma remove_object [simp]: "remove_rows OBJECTS P d = d\<lparr>objects := filter (\<lambda>r. \<not> P r) (objects d)\<rparr>"
  by (simp add: remove_rows_def)

lemma modify_tables [simp]:
  "modify_row SETTINGS k f d = d\<lparr>system_settings := map (\<lambda>r. if ss_id r = k then f r else r) (system_settings d)\<rparr>"
  "modify_row SUBJECTS k g d = d\<lparr>subjects := map (\<lambda>r. if sub_id r = k then g r else r) (subjects d)\<rparr>"
  "modify_row PODS k h d = d\<lparr>pods := map (\<lambda>r. if pod_id r = k then h r else r) (pods d)\<rparr>"
  "insert_row SUBJECTS s d = d\<lparr>subjects := subjects d @ [s]\<rparr>"
  "insert_row PODS p d = d\<lparr>pods := pods d @ [p]\<rparr>"
  by (simp_all add: modify_row_def insert_row_def)

lemma add_spec_pod_Inr:
  assumes "(case spec of None \<Rightarrow> ret () | Some s \<Rightarrow> add_spec_pod E i s) w = (Inr u, w')"
  shows "\<exists>k. objects (live w') = objects (live w)
    \<and> subjects (live w') = map (\<lambda>r. if sub_id r = i \<and> spec \<noteq> None then r\<lparr>sub_pod_id := k\<rparr> else r) (subjects (live w))
    \<and> (spec \<noteq> None \<longrightarrow> k \<noteq> None)"
  using assms by (auto simp: add_spec_pod_def web_inv split: option.splits)

lemma db_delete_Inr [web_inv]: "db_delete T k w = (Inr u, w') \<longleftrightarrow> w' = w\<lparr>live := remove_rows T (\<lambda>r. pk T r = k) (live w)\<rparr>"
  by (auto simp: db_delete_def)

text \<open>The end of the transformation, after the Pod was added.\<close>

definition move_tail :: "env \<Rightarrow> subject_create \<Rightarrow> perimetr_object \<Rightarrow> dict web" where
  "move_tail E p x =
     letM (db_scalar SETTINGS correlation_row) (\<lambda>found.
     seqM (case found of
             None \<Rightarrow> ret ()
           | Some r \<Rightarrow> db_set SETTINGS (ss_id r)
               (\<lambda>v. v\<lparr>ss_value := JObj (move_block (obj_entity_id x) (dict_or_empty (ss_value r)))\<rparr>))
     (seqM (db_delete OBJECTS (obj_id x))
     (seqM (core_audit E ''object.transformed_to_subject'' ''subject'' (obj_entity_id x)
             (subject_create_dump p) [(''name'', JStr (obj_name x))])
     (seqM commit
     (letM (db_get SUBJECTS (obj_id x)) (\<lambda>again.
       (case again of None \<Rightarrow> raiseM (Crash ''InvalidRequestError'') | Some s \<Rightarrow> ret (subject_read s))))))))"

lemma move_tail_Inr:
  assumes "move_tail E p x w = (Inr out, w')"
  shows "objects (committed w') = filter (\<lambda>r. obj_id r \<noteq> obj_id x) (objects (live w))
    \<and> subjects (committed w') = subjects (live w)
    \<and> (\<exists>s. find (\<lambda>s. sub_id s = obj_id x) (subjects (live w)) = Some s \<and> out = subject_read s)"
proof -
  let ?g = "\<lambda>found. (case found of None \<Rightarrow> ret ()
           | Some r \<Rightarrow> db_set SETTINGS (ss_id r)
               (\<lambda>v. v\<lparr>ss_value := JObj (move_block (obj_entity_id x) (dict_or_empty (ss_value r)))\<rparr>))"
  obtain found where f: "db_scalar SETTINGS correlation_row w = (Inr found, w)" by (simp add: db_scalar_def)
  obtain w1 w2 again where g: "?g found w = (Inr (), w1)"
    and a: "audited (w1\<lparr>live := remove_rows OBJECTS (\<lambda>r. obj_id r = obj_id x) (live w1)\<rparr>) w2"
    and c: "constraints_ok (live w2)" "committed w' = live w2"
    and s: "db_get SUBJECTS (obj_id x) w' = (Inr (Some again), w')" "stored w' = live w2" "live w' = live w2" "out = subject_read again"
    using assms by (auto simp: move_tail_def letM_Inr f seqM_Inr db_delete_Inr commit_Inr web_inv
        db_get_def dest!: core_audit_Inr split: option.splits)
  have "objects (live w1) = objects (live w)" "subjects (live w1) = subjects (live w)"
    using g by (auto simp: web_inv split: option.splits)
  then have d: "objects (live w2) = filter (\<lambda>r. obj_id r \<noteq> obj_id x) (objects (live w))" "subjects (live w2) = subjects (live w)"
    using a by (auto simp: audited_def)
  have "in_step SUBJECTS w'" using s(2,3) c(1) by (simp add: in_step_def constraints_ok_def)
  then have "lookup SUBJECTS (live w2) (obj_id x) = Some again"
    using s(1,2) subjects_table.db_get_synced [of w' "obj_id x"] by simp
  with d c s(4) show ?thesis by (auto simp: lookup_def)
qed

lemma find_new: "(\<And>r. r \<in> set xs \<Longrightarrow> \<not> P (g r)) \<Longrightarrow> P (g y) \<Longrightarrow> find P (map g (xs @ [y])) = Some (g y)"
  by (induction xs) auto

text \<open>Turning an object into a subject moves it: the object is gone, all other objects stay, and the
  answer is a stored subject with the primary key, public identifier, name, kind, description, tags and image
  of the object, linked to a Pod exactly when a specification of one was given.\<close>

theorem create_subject_moves_object:
  assumes "idle w" and "constraints_ok (committed w)"
    and run: "serve (create_subject E p) w = (Inr out, w')"
    and x: "resolve OBJECTS obj_entity_id (committed w) (sc_object_id p) = Some x"
  shows "objects (committed w') = filter (\<lambda>r. obj_id r \<noteq> obj_id x) (objects (committed w))
    \<and> (\<exists>s \<in> set (subjects (committed w')). same_identity x s \<and> spec_link p (sub_pod_id s) \<and> out = subject_read s)"
proof -
  have s: "live w = committed w" "stored w = committed w" "in_step OBJECTS w" "in_step SUBJECTS w"
    using assms(1,2) synced_in_step idle_synced by (auto simp: idle_def)
  have g: "get_object (sc_object_id p) w = (Inr x, w)" using get_object_run [OF s(3)] x s(2) by simp
  have "create_subject E p w = transform_object E p x w"
    by (simp add: create_subject_def catch_http_def letM_def g ret_def)
  then obtain w9 where r: "transform_object E p x w = (Inr out, w9)" and w': "committed w' = committed w9"
    using run by (auto simp: serve_Inr [OF assms(1)])
  let ?L = "filter (\<lambda>s. sub_object_id s = Some (obj_id x)) (subjects (committed w))"
  have legacy: "db_all SUBJECTS (\<lambda>s. sub_object_id s = Some (obj_id x)) w = (Inr ?L, w)"
    by (simp add: subjects_table.db_all_synced [OF s(4)] s(2))
  let ?new = "\<lambda>v. subject_of_object x p (clock E (draws v))"
  let ?d = "\<lambda>v. (live v)\<lparr>subjects := subjects (live v) @ [?new v]\<rparr>"
  from r obtain w1 w3 where e: "eachM ?L (\<lambda>s. db_set SUBJECTS (pk SUBJECTS s) (unlink_legacy x)) w = (Inr (), w1)"
    and spec: "(case sc_pod_spec p of None \<Rightarrow> ret () | Some spec \<Rightarrow> add_spec_pod E (obj_id x) spec)
        (w1\<lparr>draws := Suc (draws w1), live := ?d w1, stored := ?d w1\<rparr>) = (Inr (), w3)"
    and w3: "move_tail E p x w3 = (Inr out, w9)" and c: "constraints_ok (?d w1)"
    by (auto simp: transform_object_def letM_Inr legacy seqM_Inr move_tail_def [symmetric] flush_Inr now_utc_Inr db_add_Inr)
  have o1: "objects (live w1) = objects (committed w)"
    using subjects_table.each_set_Inr [OF e] unlink_legacy_idem by (simp add: s(1))
  obtain k where k: "objects (live w3) = objects (live w1)"
    "subjects (live w3) = map (\<lambda>r. if sub_id r = obj_id x \<and> sc_pod_spec p \<noteq> None then r\<lparr>sub_pod_id := k\<rparr> else r)
       (subjects (live w1) @ [?new w1])" "sc_pod_spec p \<noteq> None \<longrightarrow> k \<noteq> None"
    using add_spec_pod_Inr [OF spec] by auto
  let ?s = "if sc_pod_spec p \<noteq> None then (?new w1)\<lparr>sub_pod_id := k\<rparr> else ?new w1"
  have i: "sub_id (?new w1) = obj_id x" by (simp add: subject_of_object_def)
  have "\<forall>r \<in> set (subjects (live w1)). sub_id r \<noteq> obj_id x"
    using c by (simp add: constraints_ok_def keys_ok_def i) (metis imageI)
  then have "find (\<lambda>s. sub_id s = obj_id x) (subjects (live w3)) = Some ((\<lambda>r. if sub_id r = obj_id x \<and> sc_pod_spec p \<noteq> None
      then r\<lparr>sub_pod_id := k\<rparr> else r) (?new w1))"
    unfolding k(2) by (intro find_new) (auto simp: i)
  then have f: "find (\<lambda>s. sub_id s = obj_id x) (subjects (live w3)) = Some ?s" by (simp add: i)
  then have m: "?s \<in> set (subjects (live w3))" using find_SomeD by fast
  have "same_identity x ?s" "spec_link p (sub_pod_id ?s)"
    using k(3) by (auto simp: same_identity_def spec_link_def subject_of_object_def)
  then show ?thesis using move_tail_Inr [OF w3] f m k(1) o1 w' by auto
qed

section \<open>Revoking a subject\<close>

lemma close_each_Inr:
  assumes "eachM ls (\<lambda>l. letM (now_utc E) (\<lambda>t. db_set LEASES (lease_id l) (close_lease s t))) w = (Inr u, w')"
  shows "\<exists>f. live w' = (live w)\<lparr>leases := map f (leases (live w))\<rparr>
    \<and> (\<forall>l. if lease_id l \<in> lease_id ` set ls then \<exists>t. f l = close_lease s t l else f l = l)"
  using assms
proof (induction ls arbitrary: w)
  case Nil
  then show ?case by (intro exI [of _ id]) (simp add: ret_Inr)
next
  case (Cons l ls)
  let ?g = "\<lambda>r. if lease_id r = lease_id l then close_lease s (clock E (draws w)) r else r"
  obtain f where f: "live w' = (live w)\<lparr>leases := map f (map ?g (leases (live w)))\<rparr>"
    "\<forall>l. if lease_id l \<in> lease_id ` set ls then \<exists>t. f l = close_lease s t l else f l = l"
    using Cons.IH Cons.prems by (fastforce simp: web_inv modify_row_def)
  have h: "if lease_id r \<in> lease_id ` set (l # ls) then \<exists>t. f (?g r) = close_lease s t r else f (?g r) = r" for r
    using f(2) [rule_format, of r] f(2) [rule_format, of "?g r"] by (auto split: if_splits)
  show ?case by (intro exI [of _ "\<lambda>r. f (?g r)"] conjI allI h) (simp add: f(1) comp_def)
qed

definition approved_for :: "string \<Rightarrow> authorization \<Rightarrow> bool" where
  "approved_for i a \<longleftrightarrow> auth_subject_id a = i \<and> auth_decision a = ''approved'' \<and> auth_revoked_at a = None"

lemma newest_head:
  assumes "newest f xs = a # r"
  shows "a \<in> set xs \<and> (\<forall>b \<in> set xs. f b \<le> f a)"
proof -
  have "sorted (map (\<lambda>r. - f r) (newest f xs))" by (simp add: newest_def)
  moreover have s: "set (newest f xs) = set xs" by (simp add: newest_def)
  ultimately show ?thesis using assms by (auto simp flip: s)
qed

text \<open>C38. A revocation closes every active session lease of the subject and revokes exactly one authorization,
  the newest. So the page of the subject stays open afterwards precisely when another approved
  authorization was left: authorizing twice and revoking once does not revoke.\<close>

theorem revoke_subject_effect:
  assumes "idle w" and "constraints_ok (committed w)"
    and run: "serve (revoke_subject E i) w = (Inr out, w')"
    and s: "resolve SUBJECTS sub_entity_id (committed w) i = Some s"
  shows "\<exists>a \<in> set (authorizations (committed w)). auth_subject_id a = sub_id s
    \<and> (\<forall>b \<in> set (authorizations (committed w)). auth_subject_id b = sub_id s \<longrightarrow> auth_created_at b \<le> auth_created_at a)
    \<and> (\<forall>l \<in> set (leases (committed w')). lease_subject_id l = Some (sub_id s) \<longrightarrow> lease_status l \<noteq> ''active'')
    \<and> ((\<exists>b \<in> set (authorizations (committed w')). approved_for (sub_id s) b) \<longleftrightarrow>
       (\<exists>b \<in> set (authorizations (committed w)). approved_for (sub_id s) b \<and> auth_id b \<noteq> auth_id a))"
proof -
  have y: "live w = committed w" "stored w = committed w" "in_step SUBJECTS w" "in_step AUTHORIZATIONS w" "in_step LEASES w"
    using assms(1,2) synced_in_step idle_synced by (auto simp: idle_def)
  let ?P = "\<lambda>a. auth_subject_id a = sub_id s"
  have g: "get_subject i w = (Inr s, w)" using get_subject_run [OF y(3)] s y(2) by simp
  have n: "newest_authorization ?P w = (Inr (case newest auth_created_at (filter ?P (authorizations (committed w))) of
      [] \<Rightarrow> None | a # _ \<Rightarrow> Some a), w)"
    by (simp add: newest_authorization_def letM_def authorizations_table.db_all_synced [OF y(4)] y(2) ret_def)
  obtain w9 where r: "revoke_subject E i w = (Inr out, w9)" and w': "committed w' = committed w9"
    using run by (auto simp: serve_Inr [OF assms(1)])
  then obtain v w8 w7 where v: "revoke_subject_access E s ''revoked by perimetr'' w = (Inr (Some v), w8)"
    and a8: "audited w8 w7" "committed w9 = live w7"
    by (auto simp: revoke_subject_def letM_Inr g seqM_Inr commit_Inr raiseM_Inr ret_Inr dest!: core_audit_Inr split: option.splits)
  obtain a rest where h: "newest auth_created_at (filter ?P (authorizations (committed w))) = a # rest"
    using v by (auto simp: revoke_subject_access_def letM_Inr n ret_Inr seqM_Inr split: list.splits)
  let ?R = "revoke_authorization ''revoked by perimetr'' (clock E (draws w))"
  let ?w1 = "w\<lparr>draws := Suc (draws w), live := modify_row AUTHORIZATIONS (auth_id a) ?R (committed w)\<rparr>"
  let ?L = "filter (\<lambda>l. lease_subject_id l = Some (sub_id s) \<and> lease_status l = ''active'') (leases (committed w))"
  have "in_step LEASES ?w1" using y(5) y(1,2) by (simp add: in_step_def modify_row_def)
  then have l: "db_all LEASES (\<lambda>l. lease_subject_id l = Some (sub_id s) \<and> lease_status l = ''active'') ?w1 = (Inr ?L, ?w1)"
    by (simp add: leases_table.db_all_synced y(2))
  from v have "eachM ?L (\<lambda>l. letM (now_utc E) (\<lambda>t. db_set LEASES (lease_id l) (close_lease ''revoked'' t))) ?w1 = (Inr (), w8)"
    by (auto simp: revoke_subject_access_def letM_Inr n h seqM_Inr ret_Inr now_utc_Inr db_set_Inr l y(1))
  from close_each_Inr [OF this] obtain f where
    f: "live w8 = (live ?w1)\<lparr>leases := map f (leases (live ?w1))\<rparr>"
      "\<forall>l. if lease_id l \<in> lease_id ` set ?L then \<exists>t. f l = close_lease ''revoked'' t l else f l = l" by blast
  have d: "leases (committed w') = map f (leases (committed w))"
    "authorizations (committed w') = map (\<lambda>b. if auth_id b = auth_id a then ?R b else b) (authorizations (committed w))"
    using a8 w' f(1) by (auto simp: audited_def modify_row_def)
  have "a \<in> set (authorizations (committed w)) \<and> ?P a \<and> (\<forall>b \<in> set (authorizations (committed w)). ?P b \<longrightarrow> auth_created_at b \<le> auth_created_at a)"
    using newest_head [OF h] by auto
  moreover have "lease_status (f l) \<noteq> ''active''" if "l \<in> set (leases (committed w))" "lease_subject_id (f l) = Some (sub_id s)" for l
  proof (cases "lease_id l \<in> lease_id ` set ?L")
    case True
    then show ?thesis using f(2) [rule_format, of l] by auto
  next
    case False
    then have "f l = l" using f(2) [rule_format, of l] by simp
    with False that show ?thesis by auto
  qed
  moreover have "\<not> approved_for (sub_id s) (?R b)" for b by (simp add: approved_for_def revoke_authorization_def)
  ultimately show ?thesis
    by (intro bexI [of _ a]) (auto simp: d)
qed

end
