(* ===== verification/Entity_Examples.thy ===== *)
theory Entity_Examples
  imports Session_Examples Entity_Safety
begin

text \<open>
  A small site with an object, a subject, its Pod, two authorizations and a running session, and the
  theorems on objects, subjects and the correlation map applied to it.
\<close>

definition site_object :: perimetr_object where
  "site_object = \<lparr>obj_id = ''o1'', obj_entity_id = ''E0'', obj_name = ''Lamp'', obj_kind = ''material'', obj_description = [],
     obj_tags = [], obj_image_data = [], obj_image_media_type = [], obj_created_at = 0\<rparr>"

definition site_subject :: subject where
  "site_subject = \<lparr>sub_id = ''u1'', sub_entity_id = ''E9'', sub_object_id = None, sub_name = ''<Ada>'', sub_kind = ''person'',
     sub_description = [], sub_tags = [], sub_image_data = [], sub_image_media_type = [], sub_runtime_type = ''web'',
     sub_pod_id = None, sub_access_policy_id = None, sub_primary_route = None, sub_vless_uri_encrypted = [],
     sub_network_profile_version = 1, sub_system_tabs = [], sub_system_tabs_profile_version = 1,
     sub_update_channel = ''stable'', sub_ui_policy = [], sub_security_policy = [], sub_created_at = 0\<rparr>"

definition site_pod :: pod where
  "site_pod = (default_pod ''p1'' ''u1'' 0)\<lparr>pod_login := ''ada'', pod_password_hash := ''h'', pod_status := ''offline'',
     pod_public_key_pem := ''-----BEGIN PUBLIC KEY-----'', pod_certificate_fingerprint := ''fp'',
     pod_device_binding_fingerprint := ''dev''\<rparr>"

definition site_authorization :: "string \<Rightarrow> int \<Rightarrow> authorization" where
  "site_authorization i t = \<lparr>auth_id = i, auth_subject_id = ''u1'', auth_pod_id = ''p1'', auth_decision = ''approved'',
     auth_reason = [], auth_issued_at = Some t, auth_expires_at = None, auth_revoked_at = None, auth_created_at = t\<rparr>"

definition site_lease :: lease where
  "site_lease = demo_lease\<lparr>lease_id := ''l1'', lease_subject_id := Some ''u1''\<rparr>"

definition site_db :: db where
  "site_db = empty_db\<lparr>objects := [site_object], subjects := [site_subject], pods := [site_pod],
     authorizations := [site_authorization ''a1'' 1, site_authorization ''a2'' 2], leases := [site_lease]\<rparr>"

lemmas site_defs = site_db_def site_object_def site_subject_def site_pod_def site_authorization_def site_lease_def
  demo_lease_def default_pod_def empty_db_def

lemmas ok_defs = constraints_ok_def keys_ok_def foreign_ok_def refs_ok_def

lemma site_ok: "constraints_ok site_db"
  by (simp add: ok_defs site_defs)

lemma site_idle: "idle (world_of site_db)"
  by (rule idle_world_of)

lemma site_in_step: "in_step T (world_of site_db)"
  by (rule synced_in_step, rule idle_synced) (simp_all add: idle_world_of site_ok)

lemma site_tables [simp]:
  "objects site_db = [site_object]" "subjects site_db = [site_subject]" "pods site_db = [site_pod]"
  "authorizations site_db = [site_authorization ''a1'' 1, site_authorization ''a2'' 2]" "leases site_db = [site_lease]"
  "system_settings site_db = []" "audit_events site_db = []" "denylist site_db = []" "provisionings site_db = []"
  by (simp_all add: site_db_def empty_db_def)

lemma site_resolve:
  "resolve OBJECTS obj_entity_id site_db ''o1'' = Some site_object"
  "resolve SUBJECTS sub_entity_id site_db ''u1'' = Some site_subject"
  by (simp_all add: resolve_def lookup_def site_db_def site_object_def site_subject_def OBJECTS_def SUBJECTS_def)


text \<open>The smallest PNG there is: its signature.\<close>

definition site_png :: upload where
  "site_png = \<lparr>up_content = PNG_SIGNATURE, up_content_type = ''image/png''\<rparr>"

lemma site_png_ok: "read_entity_image site_png = Inr (b64encode False PNG_SIGNATURE)"
proof -
  have "starts_with PNG_SIGNATURE PNG_SIGNATURE" "PNG_SIGNATURE \<noteq> []" "length PNG_SIGNATURE \<le> MAX_ENTITY_IMAGE_BYTES"
    by (simp_all add: starts_with_def PNG_SIGNATURE_def MAX_ENTITY_IMAGE_BYTES_def)
  then show ?thesis by (simp add: read_entity_image_def site_png_def)
qed

lemma site_upload: "\<exists>out w'. serve (update_object_image demo_env ''o1'' site_png) (world_of site_db) = (Inr out, w')"
proof -
  have g: "wp (get_object ''o1'') Q X (world_of site_db) = Q site_object (world_of site_db)" for Q X
    by (simp add: wp_def get_object_run [OF site_in_step] site_resolve)
  have c: "constraints_ok (site_db\<lparr>objects := [site_object\<lparr>obj_image_data := d, obj_image_media_type := m\<rparr>]\<rparr>)" for d m
    by (simp add: ok_defs site_defs)
  have m: "modify_row OBJECTS (obj_id site_object) (\<lambda>r. r\<lparr>obj_image_data := d, obj_image_media_type := m\<rparr>) site_db
      = site_db\<lparr>objects := [site_object\<lparr>obj_image_data := d, obj_image_media_type := m\<rparr>]\<rparr>" for d m
    by (simp add: modify_row_def OBJECTS_def site_db_def)
  have "wp (update_object_image demo_env ''o1'' site_png) (\<lambda>_ _. True) (\<lambda>_ _. False) (world_of site_db)"
    by (auto simp: update_object_image_def wp_core g site_png_ok m c core_audit_def audited_def intro!: wp_first_audit)
  from wp_runs [OF this] show ?thesis by (auto simp: serve_idle site_idle)
qed

theorem image_round_trip_witness:
  "\<exists>out w'. serve (update_object_image demo_env ''o1'' site_png) (world_of site_db) = (Inr out, w')
     \<and> fst (serve (read_object_image ''o1'') w') = Inr \<lparr>img_content = PNG_SIGNATURE, img_media_type = ''image/png''\<rparr>"
proof -
  obtain out w' where r: "serve (update_object_image demo_env ''o1'' site_png) (world_of site_db) = (Inr out, w')"
    using site_upload by blast
  from image_round_trip [OF site_idle _ r] r site_ok show ?thesis by (simp add: site_png_def)
qed

theorem subject_page_values_escaped_witness:
  "\<exists>page w'. subject_web_runtime ''u1'' (world_of site_db) = (Inr page, w') \<and> page_heading page = ''&lt;Ada&gt;''
     \<and> list_all (\<lambda>v. list_all (\<lambda>c. c \<noteq> CHR ''<'' \<and> c \<noteq> CHR ''>'' \<and> c \<noteq> CHR 0x22 \<and> c \<noteq> CHR 0x27) v) (page_values page)"
proof -
  have a: "newest_authorization (\<lambda>a. auth_subject_id a = ''u1'' \<and> auth_decision a = ''approved'' \<and> auth_revoked_at a = None) (world_of site_db)
      = (Inr (Some (site_authorization ''a2'' 2)), world_of site_db)"
    by (simp add: newest_authorization_def letM_def authorizations_table.db_all_synced [OF site_in_step] ret_def
        newest_def site_authorization_def)
  have h: "html_escape ''<Ada>'' = ''&lt;Ada&gt;''" by code_simp
  obtain page where r: "subject_web_runtime ''u1'' (world_of site_db) = (Inr page, world_of site_db)"
    and p: "page_heading page = ''&lt;Ada&gt;''"
    by (simp add: subject_web_runtime_def letM_def seqM_def get_subject_run [OF site_in_step] site_resolve raise_if_def ret_def
        a site_subject_def bound_pod_def h)
  from subject_page_values_escaped [OF r] r p show ?thesis by blast
qed

text \<open>One property of a library of one, given to one of the two entities.\<close>

definition site_map :: dict where
  "site_map = [(''property_library'', JArr [JObj [(''id'', JStr ''p'')]]),
     (''properties_by_block'', JObj [(''object_E0'', JArr [JObj [(''id'', JStr ''p'')]])])]"

theorem correlation_percentage_bounds_witness:
  "\<exists>v k. correlation_percentage site_map (world_of site_db) = (Inr v, world_of site_db)
     \<and> v = JFloat (percent_text k) \<and> 0 \<le> k \<and> k \<le> 10000"
proof -
  have "percentage_of site_map (entity_keys [site_object] [site_subject]) \<noteq> None"
    by code_simp
  then obtain k where k: "percentage_of site_map (entity_keys [site_object] [site_subject]) = Some k" by blast
  have q: "db_all OBJECTS (\<lambda>_. True) (world_of site_db) = (Inr [site_object], world_of site_db)"
    "db_all SUBJECTS (\<lambda>_. True) (world_of site_db) = (Inr [site_subject], world_of site_db)"
    by (simp_all add: objects_table.db_all_synced [OF site_in_step] subjects_table.db_all_synced [OF site_in_step])
  have r: "correlation_percentage site_map (world_of site_db) = (Inr (JFloat (percent_text k)), world_of site_db)"
    by (simp add: correlation_percentage_def letM_def q k ret_def)
  have d: "distinct (map fst (dict_or_empty (get_or_null ''properties_by_block'' site_map)))"
    by (simp add: site_map_def dict_or_empty_def get_or_null_def get_key_def)
  from correlation_percentage_bounds [OF r d] r show ?thesis by blast
qed

text \<open>The authorization that was given twice is left after one revocation.\<close>

lemma site_revokes: "\<exists>out w'. serve (revoke_subject demo_env ''u1'') (world_of site_db) = (Inr out, w')"
proof -
  have g: "wp (get_subject ''u1'') Q X (world_of site_db) = Q site_subject (world_of site_db)" for Q X
    by (simp add: wp_def get_subject_run [OF site_in_step] site_resolve)
  have n: "wp (newest_authorization (\<lambda>a. auth_subject_id a = ''u1'')) Q X (world_of site_db)
      = Q (Some (site_authorization ''a2'' 2)) (world_of site_db)" for Q X
    by (simp add: wp_def newest_authorization_def letM_def authorizations_table.db_all_synced [OF site_in_step] ret_def
        newest_def site_authorization_def)
  let ?d = "\<lambda>t. modify_row AUTHORIZATIONS ''a2'' (revoke_authorization ''revoked by perimetr'' t) site_db"
  have l: "wp (db_all LEASES P) Q X (w\<lparr>live := ?d t\<rparr>) = Q (filter P [site_lease]) (w\<lparr>live := ?d t\<rparr>)"
    if "stored w = site_db" for P Q X w t
    using that by (simp add: wp_def db_all_def current_def lookup_def LEASES_def AUTHORIZATIONS_def modify_row_def)
  have c: "constraints_ok (modify_row LEASES ''l1'' (close_lease ''revoked'' u) (?d t))" for t u
    by (simp add: ok_defs modify_row_def LEASES_def AUTHORIZATIONS_def site_defs close_lease_def revoke_authorization_def)
  have e: "audit_events (modify_row LEASES k f (?d t)) = []" for k f t
    by (simp add: modify_row_def LEASES_def AUTHORIZATIONS_def)
  have i: "sub_id site_subject = ''u1''" "auth_id (site_authorization i t) = i" "lease_id site_lease = ''l1''"
    "lease_subject_id site_lease = Some ''u1''" "lease_status site_lease = ''active''" for i t
    by (simp_all add: site_defs)
  have "wp (revoke_subject demo_env ''u1'') (\<lambda>_ _. True) (\<lambda>_ _. False) (world_of site_db)"
    by (auto simp: revoke_subject_def revoke_subject_access_def wp_core g n i l c e wp_option core_audit_def audited_def
        intro!: wp_first_audit)
  from wp_runs [OF this] show ?thesis by (auto simp: serve_idle site_idle)
qed

theorem revoke_subject_effect_witness:
  "\<exists>out w'. serve (revoke_subject demo_env ''u1'') (world_of site_db) = (Inr out, w')
     \<and> (\<exists>b \<in> set (authorizations (committed w')). approved_for ''u1'' b)
     \<and> (\<forall>l \<in> set (leases (committed w')). lease_subject_id l = Some ''u1'' \<longrightarrow> lease_status l \<noteq> ''active'')"
proof -
  obtain out w' where r: "serve (revoke_subject demo_env ''u1'') (world_of site_db) = (Inr out, w')"
    using site_revokes by blast
  have i: "sub_id site_subject = ''u1''" by (simp add: site_defs)
  from revoke_subject_effect [OF site_idle _ r] r site_ok site_resolve(2) show ?thesis
    by (auto simp: i site_authorization_def approved_for_def)
qed

definition site_move :: subject_create where
  "site_move = \<lparr>sc_object_id = ''o1'', sc_runtime_type = ''web'', sc_access_policy_id = None, sc_pod_spec = None\<rparr>"

lemma site_moves: "\<exists>out w'. serve (create_subject demo_env site_move) (world_of site_db) = (Inr out, w')"
proof -
  have g: "wp (get_object ''o1'') Q X (world_of site_db) = Q site_object (world_of site_db)" for Q X
    by (simp add: wp_def get_object_run [OF site_in_step] site_resolve)
  have s: "wp (db_all SUBJECTS P) Q X (world_of site_db) = Q (filter P [site_subject]) (world_of site_db)" for P Q X
    by (simp add: wp_def subjects_table.db_all_synced [OF site_in_step])
  let ?s = "\<lambda>t. subject_of_object site_object site_move t"
  let ?d = "\<lambda>t. site_db\<lparr>subjects := [site_subject, ?s t]\<rparr>" and ?e = "\<lambda>t. site_db\<lparr>subjects := [site_subject, ?s t], objects := []\<rparr>"
  have f: "sub_object_id site_subject = None" "obj_id site_object = ''o1''" "sub_id (?s t) = ''o1''" "sub_id site_subject = ''u1''"
    "sc_object_id site_move = ''o1''" "sc_pod_spec site_move = None" for t
    by (simp_all add: site_defs subject_of_object_def site_move_def)
  have ok: "constraints_ok (?d t)" "constraints_ok (?e t)" for t
    by (simp_all add: ok_defs site_defs subject_of_object_def site_move_def)
  have q: "wp (db_scalar SETTINGS P) Q X w = Q None w" if "stored w = ?d t" for P Q X w t
    using that by (simp add: wp_def db_scalar_def SETTINGS_def)
  have a: "wp (db_get SUBJECTS ''o1'') Q X w = Q (Some (?s t)) w"
    if "stored w = (?e t)\<lparr>audit_events := es\<rparr>" "live w = (?e t)\<lparr>audit_events := es\<rparr>" for Q X w t es
    using that by (simp add: wp_def db_get_def lookup_def SUBJECTS_def current_def f)
  have "wp (create_subject demo_env site_move) (\<lambda>_ _. True) (\<lambda>_ _. False) (world_of site_db)"
    by (auto simp: create_subject_def transform_object_def wp_core g s f ok site_ok q a wp_option core_audit_def audited_def
        intro!: wp_first_audit)
  from wp_runs [OF this] show ?thesis by (auto simp: serve_idle site_idle)
qed

theorem create_subject_moves_object_witness:
  "\<exists>out w'. serve (create_subject demo_env site_move) (world_of site_db) = (Inr out, w') \<and> objects (committed w') = []
     \<and> (\<exists>s \<in> set (subjects (committed w')). same_identity site_object s \<and> sub_pod_id s = None \<and> out = subject_read s)"
proof -
  obtain out w' where r: "serve (create_subject demo_env site_move) (world_of site_db) = (Inr out, w')"
    using site_moves by blast
  have x: "resolve OBJECTS obj_entity_id (committed (world_of site_db)) (sc_object_id site_move) = Some site_object"
    by (simp add: site_resolve site_move_def)
  from create_subject_moves_object [OF site_idle _ r x] r site_ok show ?thesis
    by (auto simp: spec_link_def site_move_def site_ok)
qed

end
