(* ===== verification/Json_Round_Trip.thy ===== *)
theory Json_Round_Trip
  imports Json
begin

text \<open>
  \<open>json.loads\<close> reads back what \<open>json.dumps\<close> writes, for the default separators and for the compact
  ones with sorted keys that the signatures and grants use.
\<close>

section \<open>Numbers\<close>

definition json_stop :: "string \<Rightarrow> bool" where
  "json_stop s \<longleftrightarrow> (case s of [] \<Rightarrow> True
     | c # _ \<Rightarrow> \<not> is_digit c \<and> c \<noteq> CHR ''.'' \<and> c \<noteq> CHR ''e'' \<and> c \<noteq> CHR ''E''
         \<and> c \<noteq> CHR ''+'' \<and> c \<noteq> CHR ''-'')"

lemma takeWhile_stop: "json_stop r \<Longrightarrow> takeWhile is_digit (s @ r) = takeWhile is_digit s
    \<and> dropWhile is_digit (s @ r) = dropWhile is_digit s @ r"
  by (induction s) (auto simp: json_stop_def split: list.splits)

lemma p_int_part_stop:
  "p_int_part s = Some (d, r) \<Longrightarrow> json_stop rest \<Longrightarrow> p_int_part (s @ rest) = Some (d, r @ rest)"
  using takeWhile_stop [of rest s] by (cases s) (auto simp: p_int_part_def split: if_splits)

lemma p_frac_stop: "json_stop rest \<Longrightarrow> p_frac (s @ rest) = (fst (p_frac s), snd (p_frac s) @ rest)"
  using takeWhile_stop [of rest "tl s"]
  by (cases s) (auto simp: p_frac_def json_stop_def split: list.splits)

lemma is_digit_facts [simp]: "\<not> is_digit CHR ''.''" "\<not> is_digit CHR ''e''" "\<not> is_digit CHR ''E''"
  "\<not> is_digit CHR ''+''" "\<not> is_digit CHR ''-''" "is_digit CHR ''0''"
  by (simp_all add: is_digit_def)

lemma p_exp_stop: "json_stop rest \<Longrightarrow> p_exp (s @ rest) = (fst (p_exp s), snd (p_exp s) @ rest)"
proof (cases s)
  case Nil
  then show "json_stop rest \<Longrightarrow> ?thesis"
    by (auto simp: p_exp_def json_stop_def split: list.splits)
next
  case (Cons c t)
  assume r: "json_stop rest"
  show ?thesis
  proof (cases t)
    case Nil
    with Cons r show ?thesis
      by (cases rest) (simp_all add: p_exp_def json_stop_def)
  next
    case (Cons g u)
    with \<open>s = c # t\<close> r takeWhile_stop [OF r, of u] takeWhile_stop [OF r, of t]
    show ?thesis by (auto simp: p_exp_def)
  qed
qed

lemma p_number_stop:
  assumes "p_number s = Some (v, [])" and r: "json_stop rest"
  shows "p_number (s @ rest) = Some (v, rest)"
proof -
  define neg where "neg = (case s of c # _ \<Rightarrow> c = CHR ''-'' | [] \<Rightarrow> False)"
  define body where "body = (if neg then tl s else s)"
  from assms(1) obtain d r0 where i: "p_int_part body = Some (d, r0)"
    by (auto simp: p_number_def Let_def body_def neg_def split: option.splits)
  then have b: "body \<noteq> []" by (auto simp: p_int_part_def)
  then have ne: "s \<noteq> []" by (auto simp: body_def neg_def)
  then have n: "(case s @ rest of c # _ \<Rightarrow> c = CHR ''-'' | [] \<Rightarrow> False) = neg"
    by (cases s) (auto simp: neg_def)
  have b': "(if neg then tl (s @ rest) else s @ rest) = body @ rest"
    using ne by (cases s) (auto simp: body_def)
  from assms(1) i show ?thesis
    unfolding p_number_def Let_def n b' neg_def [symmetric] body_def [symmetric]
      p_int_part_stop [OF i r] p_frac_stop [OF r]
    by (auto simp: p_frac_stop [OF r] p_exp_stop [OF r] split: prod.splits if_splits)
qed

lemma p_number_head:
  "p_number s = Some q \<Longrightarrow> \<exists>c t. s = c # t \<and> (is_digit c \<or> c = CHR ''-'' \<and> t \<noteq> [] \<and> is_digit (hd t))"
  by (cases s; cases "tl s") (auto simp: p_number_def p_int_part_def Let_def split: if_splits option.splits)

lemma digit_heads: "is_digit c \<Longrightarrow> c \<noteq> CHR ''n'' \<and> c \<noteq> CHR ''t'' \<and> c \<noteq> CHR ''f'' \<and> c \<noteq> CHR ''N''
    \<and> c \<noteq> CHR ''I'' \<and> c \<noteq> CHR ''-'' \<and> c \<noteq> CHR 0x22 \<and> c \<noteq> CHR ''['' \<and> c \<noteq> CHR ''{'' \<and> \<not> json_space c"
  by (auto simp: is_digit_def json_space_def)

lemma p_literal_number:
  assumes "p_number s = Some q"
  shows "p_literal st (s @ rest) = p_number (s @ rest)"
proof -
  from p_number_head [OF assms] obtain c t where s: "s = c # t"
    and c: "is_digit c \<or> c = CHR ''-'' \<and> t \<noteq> [] \<and> is_digit (hd t)" by blast
  then have "\<not> starts_with ''-Infinity'' (s @ rest)"
    using digit_heads [of "hd t"] digit_heads [of c] by (cases t) (auto simp: starts_with_def)
  moreover have "c \<noteq> CHR ''n'' \<and> c \<noteq> CHR ''t'' \<and> c \<noteq> CHR ''f'' \<and> c \<noteq> CHR ''N'' \<and> c \<noteq> CHR ''I''"
    using c digit_heads [of c] by auto
  ultimately show ?thesis by (auto simp add: p_literal_def starts_with_def s)
qed

section \<open>Integers\<close>

lemma digits_val_append: "digits_val a (s @ t) = digits_val (digits_val a s) t"
  by (induction s arbitrary: a) auto

lemma digit_val_char: "n < 10 \<Longrightarrow> digit_val (digit_char n) = n \<and> is_digit (digit_char n)"
  by (simp add: digit_val_def digit_char_def is_digit_def)

lemma str_nat_digits: "list_all is_digit (str_nat n) \<and> digits_val 0 (str_nat n) = n \<and> str_nat n \<noteq> []
    \<and> (n \<noteq> 0 \<longrightarrow> hd (str_nat n) \<noteq> CHR ''0'')"
proof (induction n rule: str_nat.induct)
  case (1 n)
  show ?case
  proof (cases "n < 10")
    case True
    have "digit_char n = CHR ''0'' \<Longrightarrow> n = 0" using digit_val_char [OF True] by (simp add: digit_val_def)
    with True digit_val_char [OF True] show ?thesis by (auto simp: str_nat.simps [of n])
  next
    case False
    with 1 have "list_all is_digit (str_nat (n div 10)) \<and> digits_val 0 (str_nat (n div 10)) = n div 10
        \<and> str_nat (n div 10) \<noteq> [] \<and> hd (str_nat (n div 10)) \<noteq> CHR ''0''" by simp
    moreover have "n mod 10 < 10" by simp
    ultimately show ?thesis
      using False digit_val_char [of "n mod 10"]
      by (simp add: str_nat.simps [of n] digits_val_append)
  qed
qed

lemma p_int_part_str_nat:
  assumes "json_stop rest"
  shows "p_int_part (str_nat n @ rest) = Some (str_nat n, rest)"
proof (cases "n = 0")
  case True
  moreover have "digit_char 0 = CHR ''0''" by code_simp
  ultimately show ?thesis by (simp add: str_nat.simps p_int_part_def)
next
  case False
  obtain c t where s: "str_nat n = c # t" using str_nat_digits [of n] by (cases "str_nat n") auto
  have a: "list_all is_digit (c # t)" using str_nat_digits [of n] s by simp
  then have "takeWhile is_digit (c # t) = c # t" "dropWhile is_digit (c # t) = []"
    by (simp_all add: takeWhile_eq_all_conv list_all_iff)
  with takeWhile_stop [OF assms, of "c # t"] a False str_nat_digits [of n] s
  show ?thesis by (simp add: p_int_part_def)
qed

lemma p_number_str_int:
  assumes "json_stop rest"
  shows "p_number (str_int i @ rest) = Some (JInt i, rest)"
proof -
  have f: "p_frac rest = ([], rest)" "p_exp rest = ([], rest)"
    using p_frac_stop [OF assms, of "[]"] p_exp_stop [OF assms, of "[]"]
    by (simp_all add: p_frac_def p_exp_def)
  have h: "hd (str_nat n) \<noteq> CHR ''-''" for n
    using str_nat_digits [of n] by (cases "str_nat n") auto
  show ?thesis
  proof (cases "i < 0")
    case True
    with f p_int_part_str_nat [OF assms, of "nat (- i)"] str_nat_digits [of "nat (- i)"]
    show ?thesis by (simp add: str_int_def p_number_def)
  next
    case False
    then obtain c t where s: "str_nat (nat i) = c # t"
      using str_nat_digits [of "nat i"] by (cases "str_nat (nat i)") auto
    with f p_int_part_str_nat [OF assms, of "nat i"] str_nat_digits [of "nat i"] h [of "nat i"] False
    show ?thesis by (simp add: str_int_def p_number_def)
  qed
qed

section \<open>Strings\<close>

lemma hex_val_digit: "n < 16 \<Longrightarrow> hex_val (hex_digit n) = n \<and> is_hex (hex_digit n)"
  by (auto simp: hex_val_def hex_digit_def is_hex_def is_lower_hex_def is_digit_def)

lemma p_string_escape:
  "p_string (CHR 0x5c # CHR ''u'' # hex4 (code c) @ s) = map_option (\<lambda>r. (c # fst r, snd r)) (p_string s)"
proof -
  have l: "code c < 256" by simp
  then have "code c div 16 < 16" by (simp add: less_mult_imp_div_less)
  with l hex_val_digit [of "code c div 16"] hex_val_digit [of "code c mod 16"] hex_val_digit [of 0]
  show ?thesis
    by (simp add: hex4_def Let_def)
qed

lemma p_string_char:
  "p_string (dumps_char c @ s) = map_option (\<lambda>r. (c # fst r, snd r)) (p_string s)"
proof (cases "c \<in> {CHR 0x22, CHR 0x5c, CHR 0x0a, CHR 0x0d, CHR 0x09, CHR 0x0c, CHR 0x08}")
  case True
  then show ?thesis by (auto simp: dumps_char_def unescape_def)
next
  case False
  show ?thesis
  proof (cases "32 \<le> code c \<and> code c \<le> 126")
    case True
    with False show ?thesis by (simp add: dumps_char_def)
  next
    case f: False
    with False show ?thesis using p_string_escape [of c s] by (simp add: dumps_char_def)
  qed
qed

text \<open>A writer of string literals is given by how it writes a character; \<open>quote dumps_char\<close> is \<open>dumps_str\<close>.\<close>

definition quote :: "(char \<Rightarrow> string) \<Rightarrow> string \<Rightarrow> string" where
  "quote e s = CHR 0x22 # concat (map e s) @ [CHR 0x22]"

definition escapes :: "(char \<Rightarrow> string) \<Rightarrow> bool" where
  "escapes e \<longleftrightarrow> (\<forall>c s. p_string (e c @ s) = map_option (\<lambda>r. (c # fst r, snd r)) (p_string s))"

lemma escapes_dumps_char: "escapes dumps_char"
  by (simp add: escapes_def p_string_char)

lemma p_string_quote: "escapes e \<Longrightarrow> p_string (concat (map e s) @ CHR 0x22 # rest) = Some (s, rest)"
  by (induction s) (simp_all add: escapes_def)

fun render_by :: "(char \<Rightarrow> string) \<Rightarrow> string \<Rightarrow> string \<Rightarrow> json \<Rightarrow> string" where
  "render_by e i k JNull = ''null''"
| "render_by e i k (JBool b) = (if b then ''true'' else ''false'')"
| "render_by e i k (JInt n) = str_int n"
| "render_by e i k (JFloat f) = f"
| "render_by e i k (JStr t) = quote e t"
| "render_by e i k (JTime t) = []"
| "render_by e i k (JArr xs) = ''['' @ join i (map (render_by e i k) xs) @ '']''"
| "render_by e i k (JObj d) = ''{'' @ join i (map (\<lambda>p. quote e (fst p) @ k @ render_by e i k (snd p)) d) @ ''}''"

lemma render_by_dumps: "render i k False v = render_by dumps_char i k v"
proof (induction v)
  case (JArr xs)
  then have "map (render i k False) xs = map (render_by dumps_char i k) xs" by simp
  then show ?case by (simp only: render.simps render_by.simps)
next
  case (JObj d)
  then have "map (\<lambda>p. dumps_str (fst p) @ k @ render i k False (snd p)) d
      = map (\<lambda>p. quote dumps_char (fst p) @ k @ render_by dumps_char i k (snd p)) d"
    by (auto simp: dumps_str_def quote_def intro: snds.intros)
  then show ?case by (simp add: Let_def comp_def cong: map_cong)
qed (simp_all add: dumps_str_def quote_def)

section \<open>Values\<close>

text \<open>Values that the library reads back: distinct keys, float literals as \<open>repr\<close> writes them.\<close>

fun json_wf :: "json \<Rightarrow> bool" where
  "json_wf (JFloat f) = (p_number f = Some (JFloat f, []))"
| "json_wf (JTime t) = False"
| "json_wf (JArr xs) = (\<forall>x \<in> set xs. json_wf x)"
| "json_wf (JObj d) = (distinct (map fst d) \<and> (\<forall>p \<in> set d. json_wf (snd p)))"
| "json_wf _ = True"

fun sort_keys :: "json \<Rightarrow> json" where
  "sort_keys (JArr xs) = JArr (map sort_keys xs)"
| "sort_keys (JObj d) = JObj (sort_key fst (map (\<lambda>p. (fst p, sort_keys (snd p))) d))"
| "sort_keys v = v"

definition seps :: "string \<Rightarrow> string \<Rightarrow> bool" where
  "seps i k \<longleftrightarrow> (i = '','' \<or> i = '', '') \<and> (k = '':'' \<or> k = '': '')"

definition reads :: "bool \<Rightarrow> (char \<Rightarrow> string) \<Rightarrow> string \<Rightarrow> string \<Rightarrow> json \<Rightarrow> bool" where
  "reads st e i k v \<longleftrightarrow> (\<forall>rest n. json_stop rest \<longrightarrow> 2 * length (render_by e i k v) + 1 \<le> n \<longrightarrow>
     p_value st n (render_by e i k v @ rest) = Some (v, rest))"

definition solid :: "string \<Rightarrow> bool" where
  "solid s \<longleftrightarrow> s \<noteq> [] \<and> \<not> json_space (hd s)"

lemma skip_solid: "solid s \<Longrightarrow> skip (s @ t) = s @ t"
  by (cases s) (simp_all add: solid_def skip_def)

lemma skip_sep: "skip (CHR '' '' # s) = skip s" "skip [] = []"
  by (simp_all add: skip_def json_space_def)

lemma skip_mark: "\<not> json_space c \<Longrightarrow> skip (c # s) = c # s"
  by (simp add: skip_def)

lemma marks [simp]: "\<not> json_space CHR '',''" "\<not> json_space CHR '':''" "\<not> json_space CHR '']''"
  "\<not> json_space CHR ''}''" "\<not> json_space CHR ''[''" "\<not> json_space CHR ''{''" "\<not> json_space CHR 0x22"
  by (simp_all add: json_space_def)

lemma stops [simp]: "json_stop (CHR '','' # s)" "json_stop (CHR '']'' # s)" "json_stop (CHR ''}'' # s)"
  "json_stop []"
  by (simp_all add: json_stop_def is_digit_def)

lemma str_int_head: "\<exists>c t. str_int n = c # t \<and> (is_digit c \<or> c = CHR ''-'')"
proof -
  have "\<exists>c t. str_nat m = c # t \<and> is_digit c" for m
    using str_nat_digits [of m] by (cases "str_nat m") auto
  then show ?thesis by (cases "n < 0") (simp_all add: str_int_def, blast)
qed

lemma solid_render: "json_wf v \<Longrightarrow> solid (render_by e i k v)"
proof (cases v)
  case (JInt n)
  then show ?thesis using str_int_head [of n] digit_heads by (auto simp: solid_def json_space_def)
next
  case (JFloat f)
  assume "json_wf v"
  with JFloat p_number_head [of f] digit_heads show ?thesis by (auto simp: solid_def json_space_def)
qed (simp_all add: solid_def quote_def json_space_def Let_def)

lemma render_head_not_close: "json_wf v \<Longrightarrow> render_by e i k v \<noteq> [] \<and> hd (render_by e i k v) \<noteq> CHR '']''"
proof (cases v)
  case (JInt n)
  then show ?thesis using str_int_head [of n] by (auto simp: is_digit_def)
next
  case (JFloat f)
  assume "json_wf v"
  with JFloat p_number_head [of f] show ?thesis by (auto simp: is_digit_def)
qed (simp_all add: quote_def Let_def)

lemma p_value_number:
  assumes "p_number s = Some (v, rest)" and "0 < n"
  shows "p_value st n s = p_literal st s"
proof -
  from p_number_head [OF assms(1)] obtain c t where s: "s = c # t"
    "is_digit c \<or> c = CHR ''-''" by blast
  with assms(2) digit_heads show ?thesis by (cases n) auto
qed

lemma reads_scalar:
  assumes e: "escapes e" and "json_wf v" and "\<forall>xs. v \<noteq> JArr xs" and "\<forall>d. v \<noteq> JObj d"
  shows "reads st e i k v"
  unfolding reads_def
proof (intro allI impI)
  fix rest n
  assume r: "json_stop rest" and n: "2 * length (render_by e i k v) + 1 \<le> n"
  then obtain m where m: "n = Suc m" by (cases n) auto
  show "p_value st n (render_by e i k v @ rest) = Some (v, rest)"
  proof (cases v)
    case (JInt z)
    have "p_number (str_int z) = Some (JInt z, [])" using p_number_str_int [of "[]" z] by simp
    with JInt p_number_str_int [OF r, of z] show ?thesis
      using p_value_number [of "str_int z @ rest" "JInt z" rest n] p_literal_number [of "str_int z" _ st rest] m
      by (simp del: p_value.simps)
  next
    case (JFloat f)
    with assms(2) have f: "p_number f = Some (JFloat f, [])" by simp
    with JFloat p_number_stop [OF f r] show ?thesis
      using p_value_number [of "f @ rest" v rest n] p_literal_number [OF f, of st rest] m
      by (simp del: p_value.simps)
  qed (use assms m p_string_quote [OF e] in \<open>auto simp: quote_def p_literal_def starts_with_def\<close>)
qed

lemma p_items_render:
  assumes "seps i k" and "\<forall>x \<in> set xs. json_wf x \<and> reads st e i k x" and "xs \<noteq> []"
    and "2 * length (join i (map (render_by e i k) xs)) + 2 \<le> n"
  shows "p_items st n (join i (map (render_by e i k) xs) @ CHR '']'' # rest) = Some (xs, rest)"
  using assms
proof (induction xs arbitrary: n)
  case (Cons x xs)
  obtain m where m: "n = Suc m" using Cons.prems(4) by (cases n) auto
  show ?case
  proof (cases xs)
    case Nil
    then show ?thesis
      using Cons.prems m by (simp add: reads_def skip_mark)
  next
    case (Cons y ys)
    define tail_text where "tail_text = join i (map (render_by e i k) xs) @ CHR '']'' # rest"
    have t: "join i (map (render_by e i k) (x # xs)) @ CHR '']'' # rest
        = render_by e i k x @ i @ tail_text" by (simp add: Cons tail_text_def)
    have s: "solid (join i (map (render_by e i k) xs))"
      using Cons.prems(2) solid_render [of y e i k] Cons by (cases ys) (auto simp: solid_def)
    have stop: "json_stop (i @ tail_text)" using \<open>seps i k\<close> by (auto simp: seps_def)
    have sk: "skip (i @ tail_text) = i @ tail_text" "skip (tl (i @ tail_text)) = tail_text"
      using \<open>seps i k\<close> skip_solid [OF s] by (auto simp: seps_def skip_mark skip_sep tail_text_def)
    have h: "hd (i @ tail_text) = CHR '',''" "i @ tail_text \<noteq> []" using \<open>seps i k\<close> by (auto simp: seps_def)
    have v: "p_value st m (render_by e i k x @ i @ tail_text) = Some (x, i @ tail_text)"
      using Cons.prems m stop Cons by (auto simp: reads_def)
    have "p_items st m tail_text = Some (xs, rest)"
      unfolding tail_text_def
      using Cons.IH [of m] Cons.prems m Cons by (auto simp: seps_def)
    with v show ?thesis
      unfolding t m p_items.simps Let_def by (simp add: sk h del: append_is_Nil_conv append_eq_Cons_conv p_items.simps)
  qed
qed simp

definition member_text :: "(char \<Rightarrow> string) \<Rightarrow> string \<Rightarrow> string \<Rightarrow> string \<times> json \<Rightarrow> string" where
  "member_text e i k p = quote e (fst p) @ k @ render_by e i k (snd p)"

lemma render_JObj: "render_by e i k (JObj d) = ''{'' @ join i (map (member_text e i k) d) @ ''}''"
  by (simp add: member_text_def [abs_def])

lemma solid_member: "solid (member_text e i k p)"
  by (simp add: member_text_def quote_def solid_def json_space_def)

lemma solid_join: "xs \<noteq> [] \<Longrightarrow> \<forall>x \<in> set xs. solid x \<Longrightarrow> solid (join i xs)"
  by (cases xs; cases "tl xs") (auto simp: solid_def)

lemma p_member_head:
  assumes e: "escapes e" and "seps i k" and "json_wf v" and "reads st e i k v" and "json_stop rest"
    and "2 * length (member_text e i k (key, v)) + 1 \<le> m"
  shows "hd (member_text e i k (key, v)) = CHR 0x22"
    and "p_string (tl (member_text e i k (key, v) @ rest)) = Some (key, k @ render_by e i k v @ rest)"
    and "skip (k @ render_by e i k v @ rest) = k @ render_by e i k v @ rest"
    and "hd (k @ render_by e i k v @ rest) = CHR '':''"
    and "k @ render_by e i k v @ rest \<noteq> []"
    and "p_value st m (skip (tl (k @ render_by e i k v @ rest))) = Some (v, rest)"
proof -
  have s: "skip (render_by e i k v @ rest) = render_by e i k v @ rest"
    using skip_solid [OF solid_render [OF assms(3)]] .
  show "p_string (tl (member_text e i k (key, v) @ rest)) = Some (key, k @ render_by e i k v @ rest)"
    using p_string_quote [OF e, where s = key and rest = "k @ render_by e i k v @ rest"]
    by (simp add: member_text_def quote_def)
  have "p_value st m (render_by e i k v @ rest) = Some (v, rest)"
    using assms by (auto simp: reads_def member_text_def)
  with s assms(2) show "p_value st m (skip (tl (k @ render_by e i k v @ rest))) = Some (v, rest)"
    by (auto simp: seps_def skip_sep)
  show "skip (k @ render_by e i k v @ rest) = k @ render_by e i k v @ rest"
    and "hd (k @ render_by e i k v @ rest) = CHR '':''" and "k @ render_by e i k v @ rest \<noteq> []"
    using assms(2) by (auto simp: seps_def skip_mark)
qed (simp add: member_text_def quote_def)

lemma p_members_render:
  assumes e: "escapes e" and "seps i k" and "\<forall>p \<in> set d. json_wf (snd p) \<and> reads st e i k (snd p)" and "d \<noteq> []"
    and "2 * length (join i (map (member_text e i k) d)) + 2 \<le> n"
  shows "p_members st n (join i (map (member_text e i k) d) @ CHR ''}'' # rest) = Some (d, rest)"
  using assms(2-)
proof (induction d arbitrary: n)
  case (Cons p d)
  obtain m where m: "n = Suc m" using Cons.prems(4) by (cases n) auto
  obtain key v where p: "p = (key, v)" by (cases p)
  have ne: "member_text e i k p \<noteq> []" "member_text e i k p @ u \<noteq> []" for u
    by (simp_all add: member_text_def quote_def)
  show ?case
  proof (cases d)
    case Nil
    have "p_members st (Suc m) (member_text e i k p @ CHR ''}'' # rest) = Some ([p], rest)"
      using p_member_head [OF e, where st = st and i = i and k = k and v = v and rest = "CHR ''}'' # rest" and key = key and m = m] Cons.prems m Nil ne
      unfolding p_members.simps Let_def p by (simp add: skip_mark del: p_members.simps p_value.simps)
    with Nil m show ?thesis by (simp del: p_members.simps)
  next
    case (Cons q ds)
    define tail_text where "tail_text = join i (map (member_text e i k) d) @ CHR ''}'' # rest"
    have t: "join i (map (member_text e i k) (p # d)) @ CHR ''}'' # rest
        = member_text e i k p @ i @ tail_text" by (simp add: Cons tail_text_def)
    have s: "solid (join i (map (member_text e i k) d))"
      using Cons by (intro solid_join) (auto simp: solid_member)
    have stop: "json_stop (i @ tail_text)" using \<open>seps i k\<close> by (auto simp: seps_def)
    have sk: "skip (i @ tail_text) = i @ tail_text" "skip (tl (i @ tail_text)) = tail_text"
      using \<open>seps i k\<close> skip_solid [OF s] by (auto simp: seps_def skip_mark skip_sep tail_text_def)
    have h: "hd (i @ tail_text) = CHR '',''" "i @ tail_text \<noteq> []" using \<open>seps i k\<close> by (auto simp: seps_def)
    have len: "2 * length (member_text e i k (key, v)) + 1 \<le> m"
      using Cons.prems m Cons by (simp add: p)
    have pre: "json_wf v" "reads st e i k v" using Cons.prems(2) by (simp_all add: p)
    have rest: "p_members st m tail_text = Some (d, rest)"
      unfolding tail_text_def
      using Cons.IH [of m] Cons.prems m Cons by (auto simp: seps_def)
    show ?thesis
      unfolding t m p_members.simps Let_def
      using p_member_head [OF e \<open>seps i k\<close> pre stop len] ne rest
      by (simp add: p sk h del: append_is_Nil_conv append_eq_Cons_conv p_members.simps p_value.simps)
  qed
qed simp

lemma reads_all: "escapes e \<Longrightarrow> seps i k \<Longrightarrow> json_wf v \<Longrightarrow> reads st e i k v"
proof (induction v)
  case (JArr xs)
  show ?case
    unfolding reads_def
  proof (intro allI impI)
    fix rest n assume n: "2 * length (render_by e i k (JArr xs)) + 1 \<le> n"
    then obtain m where m: "n = Suc m" by (cases n) auto
    show "p_value st n (render_by e i k (JArr xs) @ rest) = Some (JArr xs, rest)"
    proof (cases "xs = []")
      case True
      then show ?thesis by (simp add: m skip_mark)
    next
      case False
      have s: "solid (join i (map (render_by e i k) xs))"
        using False JArr.prems by (intro solid_join) (auto simp: solid_render)
      have "p_items st m (join i (map (render_by e i k) xs) @ CHR '']'' # rest) = Some (xs, rest)"
        using JArr n m False by (intro p_items_render) auto
      moreover have "hd (join i (map (render_by e i k) xs) @ u) \<noteq> CHR '']''" for u
      proof -
        obtain x ys where x: "xs = x # ys" using False by (cases xs) auto
        have "hd (render_by e i k x) \<noteq> CHR '']''" "render_by e i k x \<noteq> []"
          using JArr.prems(3) x render_head_not_close by auto
        then show ?thesis by (cases ys) (auto simp: x)
      qed
      ultimately show ?thesis by (simp add: m skip_solid [OF s] del: p_items.simps)
    qed
  qed
next
  case (JObj d)
  show ?case
    unfolding reads_def
  proof (intro allI impI)
    fix rest n assume n: "2 * length (render_by e i k (JObj d)) + 1 \<le> n"
    then obtain m where m: "n = Suc m" by (cases n) auto
    show "p_value st n (render_by e i k (JObj d) @ rest) = Some (JObj d, rest)"
    proof (cases "d = []")
      case True
      then show ?thesis by (simp add: m skip_mark)
    next
      case False
      have s: "solid (join i (map (member_text e i k) d))"
        using False by (intro solid_join) (auto simp: solid_member)
      have "p_members st m (join i (map (member_text e i k) d) @ CHR ''}'' # rest) = Some (d, rest)"
        using JObj n m False unfolding render_JObj by (intro p_members_render) (auto intro: snds.intros)
      moreover have "hd (join i (map (member_text e i k) d) @ u) \<noteq> CHR ''}''" for u
        using False by (cases d; cases "tl d") (auto simp: member_text_def quote_def)
      moreover have "merge [] d = d" "distinct (map fst d)" using JObj.prems merge_fresh [of "[]" d] by simp_all
      ultimately show ?thesis
        unfolding render_JObj by (simp add: m skip_solid [OF s] del: p_members.simps)
    qed
  qed
qed (rule reads_scalar; simp)+

section \<open>Round trips\<close>

lemma loads_by_render_line:
  assumes "escapes e" and "seps i k" and "json_wf v" and "end_text = [] \<or> end_text = [CHR 0x0a]"
  shows "loads_by st (render_by e i k v @ end_text) = Some v"
proof -
  have "skip (render_by e i k v @ end_text) = render_by e i k v @ end_text"
    using skip_solid [OF solid_render [OF assms(3)]] .
  moreover have "json_stop end_text" "skip end_text = []"
    using assms(4) by (auto simp: json_stop_def is_digit_def skip_def json_space_def)
  moreover from this have "p_value st (2 * length (render_by e i k v @ end_text) + 1) (render_by e i k v @ end_text) = Some (v, end_text)"
    using reads_all [OF assms(1-3)] unfolding reads_def by (simp del: p_value.simps)
  ultimately show ?thesis by (simp add: loads_by_def del: p_value.simps)
qed

lemmas loads_render_line = loads_by_render_line [where st = False, folded loads_def]

lemma loads_render_by: "escapes e \<Longrightarrow> seps i k \<Longrightarrow> json_wf v \<Longrightarrow> loads (render_by e i k v) = Some v"
  using loads_render_line [of e i k v "[]"] by simp

lemma loads_render: "seps i k \<Longrightarrow> json_wf v \<Longrightarrow> loads (render i k False v) = Some v"
  by (simp add: render_by_dumps loads_render_by escapes_dumps_char)

lemma map_snd_sort_key:
  "map snd (sort_key fst (map (\<lambda>p. (fst p, f p)) d)) = map f (sort_key fst d)"
proof -
  have "sort_key fst (map (\<lambda>p. (fst p, f p)) d) = map (\<lambda>p. (fst p, f p)) (sort_key fst d)"
  proof (induction d)
    case (Cons p d)
    have "insort_key fst (fst p, f p) (map (\<lambda>p. (fst p, f p)) xs) = map (\<lambda>p. (fst p, f p)) (insort_key fst p xs)"
      for xs by (induction xs) auto
    with Cons show ?case by simp
  qed simp
  then show ?thesis by (simp add: comp_def)
qed

lemma sort_key_map_value: "sort_key fst (map (\<lambda>p. (fst p, f (snd p))) d) = map (\<lambda>p. (fst p, f (snd p))) (sort_key fst d)"
proof (induction d)
  case (Cons p d)
  have "insort_key fst (fst p, f (snd p)) (map (\<lambda>p. (fst p, f (snd p))) xs)
      = map (\<lambda>p. (fst p, f (snd p))) (insort_key fst p xs)" for xs
    by (induction xs) auto
  with Cons show ?case by simp
qed simp

lemma distinct_sort_key_fst: "distinct (map fst (sort_key fst d)) \<longleftrightarrow> distinct (map fst d)"
  by (metis distinct_map distinct_sort set_sort)

lemma render_sorted: "render i k True v = render i k False (sort_keys v)"
proof (induction v)
  case (JArr xs)
  then have "map (render i k True) xs = map (render i k False) (map sort_keys xs)" by simp
  then show ?case by (simp only: render.simps sort_keys.simps)
next
  case (JObj d)
  have e: "map (\<lambda>p. (fst p, dumps_str (fst p) @ k @ render i k True (snd p))) d
      = map (\<lambda>p. (fst p, dumps_str (fst p) @ k @ render i k False (sort_keys (snd p)))) d"
    using JObj by (auto intro: snds.intros)
  show ?case
    unfolding render.simps sort_keys.simps Let_def e if_True if_False sort_key_map_value map_snd_sort_key
    by (simp add: comp_def)
qed simp_all

lemma json_wf_sort_keys: "json_wf v \<Longrightarrow> json_wf (sort_keys v)"
proof (induction v)
  case (JObj d)
  have "distinct (map fst (map (\<lambda>p. (fst p, sort_keys (snd p))) d))"
    using JObj.prems by (simp add: comp_def)
  moreover have "distinct (map fst (sort_key fst e)) \<longleftrightarrow> distinct (map fst e)" for e :: dict
    by (metis distinct_map distinct_sort set_sort)
  ultimately have "distinct (map fst (sort_key fst (map (\<lambda>p. (fst p, sort_keys (snd p))) d)))"
    by blast
  then show ?case using JObj by (auto intro: snds.intros)
qed auto

lemma json_wf_jsonable: "json_wf v \<Longrightarrow> jsonable v"
  by (induction v) (auto intro: snds.intros)

lemma loads_dumps: "json_wf v \<Longrightarrow> \<exists>t. dumps v = Some t \<and> loads t = Some v"
  by (simp add: dumps_def json_wf_jsonable loads_render seps_def)

lemma loads_dumps_canonical: "json_wf v \<Longrightarrow> \<exists>t. dumps_canonical v = Some t \<and> loads t = Some (sort_keys v)"
  by (simp add: dumps_canonical_def json_wf_jsonable render_sorted loads_render json_wf_sort_keys seps_def)

text \<open>\<open>render\<close> is ASCII, so its encoding is itself.\<close>

lemma is_ascii_append [simp]: "is_ascii (s @ t) \<longleftrightarrow> is_ascii s \<and> is_ascii t"
  by (simp add: is_ascii_def)

lemma is_ascii_Cons: "is_ascii (c # s) \<longleftrightarrow> code c < 128 \<and> is_ascii s"
  by (simp add: is_ascii_def)

lemma is_ascii_hex_digit: "n < 16 \<Longrightarrow> code (hex_digit n) < 128"
  by (simp add: hex_digit_def)

lemma is_ascii_dumps_char: "is_ascii (dumps_char c)"
proof -
  have l: "code c < 4096" using code_less_256 [of c] by linarith
  have "code c div 4096 < 16" using div_less [OF l] by simp
  moreover have "code c div 256 mod 16 < 16" "code c div 16 mod 16 < 16" "code c mod 16 < 16"
    by simp_all
  ultimately show ?thesis by (simp add: dumps_char_def is_ascii_def hex4_def is_ascii_hex_digit)
qed

lemma is_ascii_dumps_str: "is_ascii (dumps_str s)"
proof -
  have "is_ascii (concat (map dumps_char s))"
    by (induction s) (simp_all add: is_ascii_dumps_char, simp add: is_ascii_def)
  then show ?thesis by (simp add: dumps_str_def is_ascii_Cons) (simp add: is_ascii_def)
qed

end
