(* ===== verification/Pod_Access.thy ===== *)
theory Pod_Access
  imports Subjects Json_Round_Trip
begin

text \<open>
  \<open>app/pod_service.py\<close>: the secrets of a Pod (encrypted tokens, password hashes with a decoy, signed
  access grants and identity certificates), its configuration, the VLESS address, and the bundle an
  operator downloads. Fernet, PBKDF2, HMAC, SHA-256 and ECDSA are arguments of the model.
\<close>

section \<open>Encrypted secrets\<close>

text \<open>\<open>bytes.decode("utf-8")\<close> for text that has a Latin-1 form.\<close>

fun utf8_decode :: "string \<Rightarrow> string option" where
  "utf8_decode [] = Some []"
| "utf8_decode [c] = (if code c < 128 then Some [c] else None)"
| "utf8_decode (c # d # s) =
     (if code c < 128 then map_option (Cons c) (utf8_decode (d # s))
      else if (code c = 194 \<or> code c = 195) \<and> 128 \<le> code d \<and> code d < 192
      then map_option (Cons (chr ((code c - 192) * 64 + (code d - 128)))) (utf8_decode s)
      else None)"

definition fernet_key :: "env \<Rightarrow> string" where
  "fernet_key E = urlsafe_b64encode (sha256_fn (crypt E) (utf8 (perimetr_pod_signing_secret (cfg E))))"

definition encrypt_secret :: "env \<Rightarrow> string \<Rightarrow> string web" where
  "encrypt_secret E v =
     (if v = [] then ret [] else letM (draw (token_bytes E)) (\<lambda>iv. ret (fernet_encrypt (crypt E) (fernet_key E) iv (utf8 v))))"

definition decrypt_secret :: "env \<Rightarrow> string \<Rightarrow> failure + string" where
  "decrypt_secret E v =
     (if v = [] then Inr []
      else if \<not> is_ascii v then Inl (Crash ''UnicodeEncodeError'')
      else (case fernet_decrypt (crypt E) (fernet_key E) v of
              None \<Rightarrow> Inl (http_error 500 ''pod_secret_key_mismatch'')
            | Some b \<Rightarrow> of_option (Crash ''UnicodeDecodeError'') (utf8_decode b)))"

definition hash_token :: "env \<Rightarrow> string \<Rightarrow> string" where
  "hash_token E v = hexdigest (sha256_fn (crypt E) (utf8 v))"

definition issue_enrollment_token :: "env \<Rightarrow> (string \<times> string \<times> string) web" where
  "issue_enrollment_token E =
     letM (draw (token_urlsafe E)) (\<lambda>plain.
     letM (encrypt_secret E plain) (\<lambda>encrypted. ret (plain, hash_token E plain, encrypted)))"

section \<open>Passwords\<close>

definition pod_password_text :: "env \<Rightarrow> string \<Rightarrow> string \<Rightarrow> string" where
  "pod_password_text E salt v = ''pbkdf2_sha256$310000$'' @ urlsafe_b64encode salt @ ''$''
     @ urlsafe_b64encode (pbkdf2_fn (crypt E) (utf8 v) salt 310000)"

definition hash_pod_password :: "env \<Rightarrow> string \<Rightarrow> string web" where
  "hash_pod_password E v =
     seqM (raise_if (length v < 8) (http_error 400 ''pod_password_too_short''))
       (letM (draw (token_bytes E)) (\<lambda>salt. ret (pod_password_text E salt v)))"

text \<open>A malformed verifier is refused; an iteration count above the limit of the library raises an
  OverflowError, which is not caught.\<close>

definition verify_pod_password :: "env \<Rightarrow> string \<Rightarrow> string \<Rightarrow> failure + bool" where
  "verify_pod_password E v stored_text =
     (case split_max 3 CHR ''$'' stored_text of
        [algorithm, iterations, encoded_salt, encoded_digest] \<Rightarrow>
          if algorithm \<noteq> ''pbkdf2_sha256'' then Inr False
          else (case (urlsafe_b64decode encoded_salt, urlsafe_b64decode encoded_digest, py_int iterations) of
                  (Some salt, Some expected, Some n) \<Rightarrow>
                    if n < 1 then Inr False
                    else if 2147483647 < n then Inl (Crash ''OverflowError'')
                    else Inr (pbkdf2_fn (crypt E) (utf8 v) salt (nat n) = expected)
                | _ \<Rightarrow> Inr False)
      | _ \<Rightarrow> Inr False)"

text \<open>\<open>secrets.compare_digest\<close> on texts raises TypeError outside ASCII.\<close>

definition compare_digest :: "string \<Rightarrow> string \<Rightarrow> failure + bool" where
  "compare_digest a b = (if is_ascii a \<and> is_ascii b then Inr (a = b) else Inl (Crash ''TypeError''))"

definition pod_access_mode :: "env \<Rightarrow> string \<Rightarrow> string \<Rightarrow> string \<Rightarrow> string \<Rightarrow> string \<Rightarrow> failure + string option" where
  "pod_access_mode E username password login password_hash decoy_hash =
     try_bind (compare_digest username login) (\<lambda>same.
       if \<not> same then Inr None
       else try_bind (if password_hash = [] then Inr False else verify_pod_password E password password_hash) (\<lambda>primary.
         if primary then Inr (Some ''primary'')
         else try_bind (if decoy_hash = [] then Inr False else verify_pod_password E password decoy_hash) (\<lambda>decoy.
           Inr (if decoy then Some ''decoy'' else None))))"

section \<open>Signed texts\<close>

text \<open>A JSON object with the signature over its encoded canonical form.\<close>

definition seal :: "env \<Rightarrow> string \<Rightarrow> string" where
  "seal E encoded = hexdigest (hmac_fn (crypt E) (utf8 (perimetr_pod_signing_secret (cfg E))) encoded)"

definition signed_text :: "env \<Rightarrow> dict \<Rightarrow> string" where
  "signed_text E d =
     (let encoded = urlsafe_b64encode (utf8 (case dumps_canonical (JObj d) of None \<Rightarrow> [] | Some t \<Rightarrow> t))
      in encoded @ ''.'' @ seal E encoded)"

definition ACCESS_MODES :: "string list" where
  "ACCESS_MODES = [''primary'', ''decoy'']"

definition issue_pod_access_grant :: "env \<Rightarrow> string \<Rightarrow> string \<Rightarrow> string web" where
  "issue_pod_access_grant E i mode =
     seqM (raise_if (mode \<notin> set ACCESS_MODES) (http_error 500 ''invalid_pod_access_mode''))
       (letM (draw (token_urlsafe E)) (\<lambda>nonce.
          ret (signed_text E [(''version'', JInt 1), (''pod_id'', JStr i), (''access_mode'', JStr mode),
                              (''nonce'', JStr nonce)])))"

definition refused_grant :: failure where
  "refused_grant = http_error 403 ''invalid_pod_access_grant''"

definition check_grant :: "string \<Rightarrow> json \<Rightarrow> failure + string" where
  "check_grant i grant =
     (case grant of
        JObj d \<Rightarrow>
          if \<not> jeq (JInt 1) (get_or_null ''version'' d) then Inl refused_grant
          else (case compare_digest (str_or [] (get_key ''pod_id'' d)) i of
                  Inr True \<Rightarrow>
                    (let mode = str_or [] (get_key ''access_mode'' d)
                     in if mode \<in> set ACCESS_MODES then Inr mode else Inl refused_grant)
                | _ \<Rightarrow> Inl refused_grant)
      | _ \<Rightarrow> Inl (Crash ''AttributeError''))"

definition verify_pod_access_grant :: "env \<Rightarrow> string \<Rightarrow> string \<Rightarrow> failure + string" where
  "verify_pod_access_grant E token i =
     (case split_max 1 CHR ''.'' token of
        [encoded, supplied] \<Rightarrow>
          if \<not> is_ascii encoded \<or> compare_digest supplied (seal E encoded) \<noteq> Inr True then Inl refused_grant
          else (case Option.bind (Option.bind (urlsafe_b64decode encoded) utf8_decode) loads of
                  None \<Rightarrow> Inl refused_grant
                | Some grant \<Rightarrow> check_grant i grant)
      | _ \<Rightarrow> Inl refused_grant)"

definition issue_identity_certificate :: "env \<Rightarrow> pod \<Rightarrow> string \<Rightarrow> string" where
  "issue_identity_certificate E p subject_entity_id = signed_text E
     [(''version'', JInt 1), (''pod_id'', JStr (pod_id p)), (''subject_id'', JStr subject_entity_id),
      (''fingerprint'', JStr (pod_certificate_fingerprint p)),
      (''device_binding_fingerprint'', JStr (pod_device_binding_fingerprint p)),
      (''issued_at'', JStr (case pod_activated_at p of None \<Rightarrow> [] | Some t \<Rightarrow> isoformat t))]"

text \<open>\<open>isoformat().replace("+00:00", "Z")\<close>.\<close>

definition iso_z :: "int \<Rightarrow> string" where
  "iso_z t = (let s = isoformat t in take (length s - 6) s @ ''Z'')"

definition heartbeat_signing_bytes :: "dict \<Rightarrow> string option" where
  "heartbeat_signing_bytes payload =
     map_option utf8 (dumps_canonical (JObj (map (\<lambda>(k, v). (k, case v of JTime t \<Rightarrow> JStr (iso_z t) | _ \<Rightarrow> v))
       (filter (\<lambda>p. fst p \<noteq> ''signature'') payload))))"

definition public_key_fingerprint :: "env \<Rightarrow> string \<Rightarrow> failure + string" where
  "public_key_fingerprint E pem =
     (case is_p256_pem (crypt E) pem of
        None \<Rightarrow> Inl (http_error 400 ''invalid_pod_public_key'')
      | Some False \<Rightarrow> Inl (http_error 400 ''pod_public_key_must_be_ecdsa_p256'')
      | Some True \<Rightarrow> Inr (''SHA256:'' @ upper (hexdigest (sha256_fn (crypt E) (spki_der (crypt E) pem)))))"

definition verify_heartbeat_signature :: "env \<Rightarrow> string \<Rightarrow> dict \<Rightarrow> string \<Rightarrow> failure + unit" where
  "verify_heartbeat_signature E pem payload signature =
     (if is_p256_pem (crypt E) pem = Some True
         \<and> (case (b64decode signature, heartbeat_signing_bytes payload) of
              (Some sig, Some body) \<Rightarrow> ecdsa_verify (crypt E) pem sig body
            | _ \<Rightarrow> False)
      then Inr () else Inl (http_error 403 ''invalid_pod_signature''))"

section \<open>The VLESS address\<close>

definition SUPPORTED_VLESS_SECURITY :: "string list" where
  "SUPPORTED_VLESS_SECURITY = [''none'', ''tls'', ''reality'']"

definition SUPPORTED_VLESS_TRANSPORT :: "string list" where
  "SUPPORTED_VLESS_TRANSPORT = [''tcp'', ''ws'', ''grpc'', ''http'', ''httpupgrade'', ''xhttp'']"

definition vless_identity :: "string \<Rightarrow> bool" where
  "vless_identity u \<longleftrightarrow> 32 \<le> length u \<and> length u \<le> 36 \<and> list_all (\<lambda>c. is_hex c \<or> c = CHR ''-'') u"

definition validate_vless_uri :: "string \<Rightarrow> failure + string" where
  "validate_vless_uri v =
     (let candidate = strip v
      in (case urlsplit candidate of
            None \<Rightarrow> Inl (Crash ''ValueError'')
          | Some u \<Rightarrow>
              let invalid = Inl (http_error 400 ''invalid_vless_connection'')
              in if lower (url_scheme u) \<noteq> ''vless'' \<or> empty_text (url_username u) \<or> empty_text (url_hostname u) then invalid
                 else (case url_port u of
                         None \<Rightarrow> Inl (Crash ''ValueError'')
                       | Some None \<Rightarrow> invalid
                       | Some (Some port) \<Rightarrow>
                           if port = 0 then invalid
                           else if \<not> vless_identity (case url_username u of None \<Rightarrow> [] | Some n \<Rightarrow> n)
                           then Inl (http_error 400 ''invalid_vless_identity'')
                           else (let security = lower (case query_first ''security'' (url_query u) of None \<Rightarrow> ''none'' | Some s \<Rightarrow> s);
                                     transport = lower (case query_first ''type'' (url_query u) of None \<Rightarrow> ''tcp'' | Some s \<Rightarrow> s)
                                 in if security \<notin> set SUPPORTED_VLESS_SECURITY
                                    then Inl (http_error 400 (''unsupported_vless_security:'' @ security))
                                    else if transport \<notin> set SUPPORTED_VLESS_TRANSPORT
                                    then Inl (http_error 400 (''unsupported_vless_transport:'' @ transport))
                                    else Inr candidate))))"

section \<open>The configuration of a Pod\<close>

definition validate_subject_pod_config :: "env \<Rightarrow> subject \<Rightarrow> failure + unit" where
  "validate_subject_pod_config E s =
     try_bind (decrypt_secret E (sub_vless_uri_encrypted s)) (\<lambda>v.
     try_bind (validate_vless_uri v) (\<lambda>_.
       if perimetr_public_url (cfg E) = [] then Inl (http_error 400 ''perimetr_endpoint_not_configured'')
       else if sub_update_channel s = [] then Inl (http_error 400 ''update_channel_not_configured'')
       else Inr ()))"

text \<open>The position of a system tab, an integer in what the endpoints store.\<close>

definition tab_position :: "json \<Rightarrow> int" where
  "tab_position v = (case jget ''position'' v of Some (JInt n) \<Rightarrow> n | _ \<Rightarrow> 0)"

definition pod_security_policy :: "env \<Rightarrow> subject \<Rightarrow> dict" where
  "pod_security_policy E s =
     (let c = cfg E; p0 = sub_security_policy s;
          key = (case perimetr_pod_update_public_key c of None \<Rightarrow> [] | Some k \<Rightarrow> if is_ascii k then k else []);
          p1 = (if perimetr_pod_update_manifest_url c \<noteq> [] \<and> key \<noteq> []
                then set_key ''update_public_key_pem'' (JStr key)
                       (set_key ''update_manifest_url'' (JStr (perimetr_pod_update_manifest_url c)) p0)
                else p0);
          p2 = (if perimetr_xray_dns_url c \<noteq> [] then set_default ''xray_dns_url'' (JStr (perimetr_xray_dns_url c)) p1 else p1)
      in if perimetr_proxy_verification_url c \<noteq> []
         then set_default ''proxy_verification_url'' (JStr (perimetr_proxy_verification_url c)) p2 else p2)"

definition subject_pod_config :: "env \<Rightarrow> subject \<Rightarrow> failure + dict" where
  "subject_pod_config E s =
     try_bind (decrypt_secret E (sub_vless_uri_encrypted s)) (\<lambda>vless.
       Inr [(''subject'', JObj [(''id'', JStr (sub_entity_id s)), (''name'', JStr (sub_name s))]),
            (''perimetr_endpoint'', JStr (rstrip_by (\<lambda>c. c = CHR ''/'') (perimetr_public_url (cfg E)))),
            (''vless_connection'', JStr vless),
            (''network_profile_version'', JInt (sub_network_profile_version s)),
            (''system_tabs'', JArr (sort_key tab_position (sub_system_tabs s))),
            (''system_tabs_profile_version'', JInt (sub_system_tabs_profile_version s)),
            (''update_channel'', JStr (sub_update_channel s)),
            (''ui_policy'', JObj (sub_ui_policy s)),
            (''security_policy'', JObj (pod_security_policy E s)),
            (''minimum_pod_version'', JStr (perimetr_pod_version (cfg E))),
            (''default_navigation_url'', JStr (perimetr_default_pod_url (cfg E)))])"

definition decoy_overrides :: dict where
  "decoy_overrides = [(''subject'', JObj [(''id'', JStr []), (''name'', JStr ''Pod'')]), (''system_tabs'', JArr []),
     (''system_tabs_profile_version'', JInt 0), (''ui_policy'', JObj []),
     (''default_navigation_url'', JStr ''https://www.google.com/'')]"

definition pod_config_for_access :: "env \<Rightarrow> subject \<Rightarrow> string \<Rightarrow> failure + dict" where
  "pod_config_for_access E s mode =
     try_bind (subject_pod_config E s) (\<lambda>config.
       Inr (if mode \<noteq> ''decoy'' then config else merge config decoy_overrides))"

section \<open>Answers about Pods\<close>

definition CLOSED_STATUS :: "string list" where
  "CLOSED_STATUS = [''revoked'', ''expired'', ''active'']"

definition provisioning_payload :: "provisioning \<Rightarrow> subject \<Rightarrow> dict" where
  "provisioning_payload r s =
     [(''id'', JStr (prov_id r)), (''subject_id'', JStr (sub_entity_id s)), (''name'', JStr (prov_name r)),
      (''login'', JStr (prov_login r)), (''status'', JStr (prov_status r)),
      (''bundle_version'', JStr (prov_bundle_version r)), (''artifact_sha256'', JStr (prov_artifact_sha256 r)),
      (''runtime_source'', JStr (str_or [] (get_key ''runtime_source'' (prov_metadata r)))),
      (''runtime_warning'', JStr (str_or [] (get_key ''runtime_warning'' (prov_metadata r)))),
      (''download_count'', JInt (prov_download_count r)), (''downloaded_at'', jopt JTime (prov_downloaded_at r)),
      (''expires_at'', jopt JTime (prov_expires_at r)), (''activated_at'', jopt JTime (prov_activated_at r)),
      (''download_url'', if prov_status r \<in> set CLOSED_STATUS then JNull
         else JStr (''/v1/subjects/'' @ sub_entity_id s @ ''/pods/'' @ prov_id r @ ''/download'')),
      (''created_at'', JTime (prov_created_at r))]"

definition pod_payload :: "pod \<Rightarrow> subject \<Rightarrow> dict" where
  "pod_payload p s =
     [(''id'', JStr (pod_id p)), (''subject_id'', JStr (sub_entity_id s)), (''name'', JStr (pod_name p)),
      (''login'', JStr (pod_login p)), (''status'', JStr (pod_status p)), (''last_seen'', jopt JTime (pod_last_seen_at p)),
      (''last_seen_at'', jopt JTime (pod_last_seen_at p)), (''last_heartbeat_at'', jopt JTime (pod_last_heartbeat_at p)),
      (''certificate_fingerprint'', JStr (pod_certificate_fingerprint p)),
      (''device_binding_fingerprint'', JStr (pod_device_binding_fingerprint p)),
      (''device_binding_status'', JStr (pod_device_binding_status p)), (''pod_version'', JStr (pod_version p)),
      (''xray_version'', JStr (pod_xray_version p)), (''network_profile_version'', JInt (pod_network_profile_version p)),
      (''system_tabs_profile_version'', JInt (pod_system_tabs_profile_version p)),
      (''created_at'', JTime (pod_created_at p)), (''activated_at'', jopt JTime (pod_activated_at p))]"

definition provisioning_expiry :: "env \<Rightarrow> int web" where
  "provisioning_expiry E = letM (now_utc E) (\<lambda>t. ret (t + seconds (perimetr_pod_enrollment_ttl_sec (cfg E))))"

end
