(* ===== verification/Pod_Bundle.thy ===== *)
theory Pod_Bundle
  imports Pod_Access
begin

text \<open>
  The bundle an operator downloads for a new Pod: the name of the executable, the icon and
  \<open>build_pod_bundle\<close> of \<open>app/pod_service.py\<close>. The archive is the list of its members in the order they
  are written; the compression of the ZIP file is left out. The file of the runtime is read through
  the argument \<open>files\<close>.
\<close>

section \<open>Names\<close>

text \<open>\<open>re.sub(r"[...]+", c, s)\<close>: each run of the characters becomes one \<open>c\<close>. The flag tells that the
  previous character was in a run.\<close>

fun replace_runs :: "(char \<Rightarrow> bool) \<Rightarrow> char \<Rightarrow> bool \<Rightarrow> string \<Rightarrow> string" where
  "replace_runs P c b [] = []"
| "replace_runs P c b (x # xs) =
     (if P x then (if b then replace_runs P c True xs else c # replace_runs P c True xs)
      else x # replace_runs P c False xs)"

definition WINDOWS_RESERVED_NAMES :: "string list" where
  "WINDOWS_RESERVED_NAMES = [''CON'', ''PRN'', ''AUX'', ''NUL'']
     @ map (\<lambda>i. ''COM'' @ str_nat i) [1..<10] @ map (\<lambda>i. ''LPT'' @ str_nat i) [1..<10]"

definition unsafe_file_char :: "char \<Rightarrow> bool" where
  "unsafe_file_char c \<longleftrightarrow> code c < 32 \<or> c \<in> {CHR ''<'', CHR ''>'', CHR '':'', CHR 0x22, CHR ''/'', CHR 0x5c, CHR ''|'',
     CHR ''?'', CHR ''*''}"

definition strip_dots :: "string \<Rightarrow> string" where
  "strip_dots s = strip_by (\<lambda>c. c = CHR '' '' \<or> c = CHR ''.'') s"

definition pod_file_stem :: "string \<Rightarrow> string" where
  "pod_file_stem login =
     (let candidate = strip_dots (replace_runs unsafe_file_char CHR ''-'' False (strip login));
          short = strip_dots (take 80 (replace_runs is_space CHR '' '' False candidate));
          name = (if short = [] then ''pod'' else short)
      in if upper name \<in> set WINDOWS_RESERVED_NAMES then ''pod-'' @ name else name)"

definition pod_executable_name :: "string \<Rightarrow> string" where
  "pod_executable_name login = pod_file_stem login @ ''.exe''"

text \<open>\<open>Path(name).stem\<close> of a name without directories.\<close>

definition path_stem :: "string \<Rightarrow> string" where
  "path_stem name = (case rcut CHR ''.'' name of
     None \<Rightarrow> name | Some (stem, ext) \<Rightarrow> if stem = [] \<or> ext = [] then name else stem)"

section \<open>The icon\<close>

text \<open>\<open>struct.pack\<close> of an unsigned number in little-endian order.\<close>

fun le_bytes :: "nat \<Rightarrow> nat \<Rightarrow> string" where
  "le_bytes 0 n = []"
| "le_bytes (Suc k) n = chr (n mod 256) # le_bytes k (n div 256)"

definition ico_header :: string where
  "ico_header = le_bytes 2 0 @ le_bytes 2 1 @ le_bytes 2 1"

definition ico_entry :: "nat \<Rightarrow> string" where
  "ico_entry n = le_bytes 1 0 @ le_bytes 1 0 @ le_bytes 1 0 @ le_bytes 1 0 @ le_bytes 2 1 @ le_bytes 2 32
     @ le_bytes 4 n @ le_bytes 4 22"

definition png_icon_bytes :: "string \<Rightarrow> failure + (string \<times> string) option" where
  "png_icon_bytes encoded_png =
     (if encoded_png = [] then Inr None
      else (case b64decode_strict encoded_png of
              None \<Rightarrow> Inr None
            | Some png \<Rightarrow>
                if \<not> starts_with PNG_SIGNATURE png then Inr None
                else if 2 ^ 32 \<le> length png then Inl (Crash ''struct.error'')
                else Inr (Some (png, ico_header @ ico_entry (length png) @ png))))"

section \<open>The bundle\<close>

text \<open>\<open>json.dumps(..., indent=2)\<close> at a nesting depth.\<close>

definition new_line :: "nat \<Rightarrow> string" where
  "new_line n = CHR 0x0a # replicate (2 * n) CHR '' ''"

fun pretty :: "nat \<Rightarrow> json \<Rightarrow> string" where
  "pretty n (JArr xs) = (if xs = [] then ''[]''
     else ''['' @ new_line (Suc n) @ join ('','' @ new_line (Suc n)) (map (pretty (Suc n)) xs) @ new_line n @ '']'')"
| "pretty n (JObj d) = (if d = [] then ''{}''
     else ''{'' @ new_line (Suc n)
       @ join ('','' @ new_line (Suc n)) (map (\<lambda>p. dumps_str (fst p) @ '': '' @ pretty (Suc n) (snd p)) d)
       @ new_line n @ ''}'')"
| "pretty n v = render '', '' '': '' False v"

record pod_artifact =
  art_version :: string
  art_sha256 :: string
  art_path :: string
  art_source :: string
  art_manifest :: dict
  art_refresh_error :: string

type_synonym archive = "(string \<times> string) list"

definition bundle_bootstrap :: "env \<Rightarrow> provisioning \<Rightarrow> subject \<Rightarrow> string \<Rightarrow> dict" where
  "bundle_bootstrap E r s token =
     (let exe = pod_executable_name (prov_login r)
      in [(''format_version'', JInt 1), (''provisioning_id'', JStr (prov_id r)), (''enrollment_token'', JStr token),
          (''perimetr_endpoint'', JStr (rstrip_by (\<lambda>c. c = CHR ''/'') (perimetr_public_url (cfg E)))),
          (''subject'', JObj [(''id'', JStr (sub_entity_id s)), (''name'', JStr (sub_name s))]),
          (''application_name'', JStr (prov_login r)), (''executable_name'', JStr exe),
          (''icon_path'', JStr (if sub_image_data s = [] then [] else ''state/assets/entity-icon.png'')),
          (''executable_icon_path'', JStr (if sub_image_data s = [] then [] else path_stem exe @ ''.ico'')),
          (''bundle_version'', JStr (prov_bundle_version r))])"

definition bundle_manifest :: "env \<Rightarrow> subject \<Rightarrow> pod_artifact \<Rightarrow> dict" where
  "bundle_manifest E s a =
     [(''name'', JStr ''Perimetr Pod''), (''version'', JStr (art_version a)), (''sha256'', JStr (art_sha256 a)),
      (''runtime'', JStr ''electron-chromium''), (''proxy_engine'', JStr ''xray-core''),
      (''update_channel'', JStr (sub_update_channel s)), (''perimetr_api'', JStr ''v1''),
      (''repository'', JStr (perimetr_pod_repository_url (cfg E))),
      (''update_manifest'', JStr (perimetr_pod_update_manifest_url (cfg E))),
      (''xray'', JObj [(''version'', JStr (perimetr_xray_version (cfg E))),
         (''source'', JStr (perimetr_xray_source_url (cfg E))), (''sha256'', JStr (perimetr_xray_sha256 (cfg E)))])]"

definition bundle_readme :: "string \<Rightarrow> string" where
  "bundle_readme exe = ''Perimetr Pod'' @ [CHR 0x0d, CHR 0x0a, CHR 0x0d, CHR 0x0a] @ ''Run '' @ exe
     @ ''. Keep the complete directory together. ''
     @ ''The first launch requires this Pod login and password and creates a device-bound identity.''
     @ [CHR 0x0d, CHR 0x0a]"

definition build_pod_bundle ::
  "env \<Rightarrow> (string \<Rightarrow> string option) \<Rightarrow> provisioning \<Rightarrow> subject \<Rightarrow> pod_artifact \<Rightarrow> failure + archive" where
  "build_pod_bundle E files r s a =
     try_bind (decrypt_secret E (prov_token_encrypted r)) (\<lambda>token.
     (let exe = pod_executable_name (prov_login r)
      in try_bind (png_icon_bytes (sub_image_data s)) (\<lambda>icon.
         try_bind (of_option (Crash ''FileNotFoundError'') (files (art_path a))) (\<lambda>runtime.
           Inr ([(''state/config/bootstrap.json'', pretty 0 (JObj (bundle_bootstrap E r s token))),
                 (''README.txt'', utf8 (bundle_readme exe))]
                @ (case icon of None \<Rightarrow> []
                   | Some (png, ico) \<Rightarrow> [(''state/assets/entity-icon.png'', png), (path_stem exe @ ''.ico'', ico)])
                @ [(exe, runtime), (''pod_manifest.json'', pretty 0 (JObj (bundle_manifest E s a)))])))))"

lemma pod_executable_examples:
  "pod_executable_name ''  my: pod? '' = ''my- pod-.exe''"
  "pod_executable_name ''con'' = ''pod-con.exe''"
  "pod_executable_name '' .. '' = ''pod.exe''"
  by code_simp+

end
