(* ===== verification/Pod_Access_Safety.thy ===== *)
theory Pod_Access_Safety
  imports Pod_Bundle
begin

text \<open>
  What \<open>app/pod_service.py\<close> guarantees: secrets and passwords that are read back, access grants that
  cannot be forged or moved to another Pod, the configuration a decoy login sees, the addresses and
  file names that are accepted.
\<close>

section \<open>Characters of encoded text\<close>

definition url64_char :: "char \<Rightarrow> bool" where
  "url64_char c \<longleftrightarrow> is_alnum c \<or> c = CHR ''-'' \<or> c = CHR ''_'' \<or> c = CHR ''=''"

lemma sextet_char_url64: "n < 64 \<Longrightarrow> url64_char (sextet_char True n)"
  by (auto simp: url64_char_def sextet_char_def is_alnum_def is_alpha_def is_upper_def is_lower_def is_digit_def
      code_chr sym62_def sym63_def)

lemma url64_b64encode: "c \<in> set (urlsafe_b64encode bs) \<Longrightarrow> url64_char c"
proof -
  have "list_all url64_char (b64encode True bs)"
  proof (induction True bs rule: b64encode.induct)
    case (2 a)
    have "url64_char pad" by (simp add: url64_char_def pad_def)
    then show ?case by (simp add: sextet_char_url64 sextet_facts)
  next
    case (3 a b)
    have "url64_char pad" by (simp add: url64_char_def pad_def)
    then show ?case by (simp add: sextet_char_url64 sextet_facts)
  qed (simp_all add: sextet_char_url64 sextet_facts)
  then show "c \<in> set (urlsafe_b64encode bs) \<Longrightarrow> ?thesis"
    by (simp add: urlsafe_b64encode_def list_all_iff)
qed

lemma urlsafe_no_marks [simp]: "CHR ''$'' \<notin> set (urlsafe_b64encode bs)" "CHR ''.'' \<notin> set (urlsafe_b64encode bs)"
proof -
  have "\<not> url64_char CHR ''$''" "\<not> url64_char CHR ''.''"
    by (simp_all add: url64_char_def is_alnum_def is_alpha_def is_upper_def is_lower_def is_digit_def)
  then show "CHR ''$'' \<notin> set (urlsafe_b64encode bs)" "CHR ''.'' \<notin> set (urlsafe_b64encode bs)"
    using url64_b64encode by blast+
qed

lemma is_ascii_urlsafe [simp]: "is_ascii (urlsafe_b64encode bs)"
  by (simp add: urlsafe_b64encode_def is_ascii_b64encode)

lemma is_ascii_hexdigest [simp]: "is_ascii (hexdigest b)"
  using hexdigest_lower_hex [of b]
  by (auto simp: is_ascii_def list_all_iff is_lower_hex_def is_digit_def is_lower_def)

section \<open>Decoding UTF-8\<close>

lemma utf8_decode_char: "utf8_decode (utf8_char c @ s) = map_option (Cons c) (utf8_decode s)"
proof (cases "code c < 128")
  case True
  then have u: "utf8_char c = [c]" by (simp add: utf8_char_def)
  show ?thesis using True by (cases s) (simp_all add: u)
next
  case False
  have c: "code c < 256" by simp
  have q: "code c div 64 = 2 \<or> code c div 64 = 3" using False c by linarith
  have u: "utf8_char c = [chr (192 + code c div 64), chr (128 + code c mod 64)]"
    using False by (simp add: utf8_char_def)
  have d1: "code (chr (192 + code c div 64)) = 192 + code c div 64" using q by (intro code_chr) linarith
  have m: "code c mod 64 < 64" by simp
  have d2: "code (chr (128 + code c mod 64)) = 128 + code c mod 64" using m by (intro code_chr) linarith
  have r: "code c div 64 * 64 + code c mod 64 = code c" by simp
  have k: "chr (code c) = c" by simp
  from q show ?thesis
  proof
    assume "code c div 64 = 2"
    then show ?thesis using r m k by (simp add: u d1 d2, intro impI, linarith)
  next
    assume "code c div 64 = 3"
    then show ?thesis using r m k by (simp add: u d1 d2)
  qed
qed

lemma utf8_decode_utf8 [simp]: "utf8_decode (utf8 s) = Some s"
  by (induction s) (simp_all add: utf8_Cons utf8_decode_char)

lemma utf8_decode_ascii: "is_ascii s \<Longrightarrow> utf8_decode s = Some s"
  using utf8_decode_utf8 [of s] by (simp add: utf8_ascii)

section \<open>Secrets\<close>

text \<open>Documented behaviour of Fernet: a token is ASCII text and decrypts under its key.\<close>

definition fernet_ok :: "crypto \<Rightarrow> bool" where
  "fernet_ok c \<longleftrightarrow> (\<forall>k iv b. fernet_decrypt c k (fernet_encrypt c k iv b) = Some b
     \<and> is_ascii (fernet_encrypt c k iv b) \<and> fernet_encrypt c k iv b \<noteq> [])"

lemma toy_fernet: "fernet_ok toy_crypto"
  using b64_round_trips(3) is_ascii_b64encode
  by (simp add: fernet_ok_def toy_crypto_def urlsafe_b64encode_def is_ascii_Cons)

text \<open>A stored secret is read back, for any text and any initialisation vector.\<close>

theorem secret_round_trip:
  assumes "fernet_ok (crypt E)" and "encrypt_secret E v w = (Inr c, w')"
  shows "decrypt_secret E c = Inr v"
proof (cases "v = []")
  case True
  with assms(2) show ?thesis by (simp add: encrypt_secret_def decrypt_secret_def ret_def)
next
  case False
  with assms(2) obtain iv where "c = fernet_encrypt (crypt E) (fernet_key E) iv (utf8 v)"
    by (auto simp: encrypt_secret_def letM_def draw_def ret_def)
  with assms(1) show ?thesis by (simp add: decrypt_secret_def fernet_ok_def)
qed

section \<open>Passwords\<close>

lemma split_pod_password:
  "split_max 3 CHR ''$'' (pod_password_text E salt v)
     = [''pbkdf2_sha256'', ''310000'', urlsafe_b64encode salt,
        urlsafe_b64encode (pbkdf2_fn (crypt E) (utf8 v) salt 310000)]"
proof -
  have t: "pod_password_text E salt v = ''pbkdf2_sha256'' @ CHR ''$'' # (''310000'' @ CHR ''$'' #
      (urlsafe_b64encode salt @ CHR ''$'' # urlsafe_b64encode (pbkdf2_fn (crypt E) (utf8 v) salt 310000)))"
    by (simp add: pod_password_text_def)
  show ?thesis
    unfolding t numeral_3_eq_3
    by (subst split_max_Suc_append, simp, subst split_max_Suc_append, simp, subst split_max_Suc_append) simp_all
qed

lemma iterations_text: "py_int ''310000'' = Some 310000"
  by (simp add: py_int_def strip_def strip_by_def lstrip_by_def rstrip_by_def is_space_def is_digit_def digit_val_def)

lemma verify_pod_password_text:
  "verify_pod_password E u (pod_password_text E salt v)
     = Inr (pbkdf2_fn (crypt E) (utf8 u) salt 310000 = pbkdf2_fn (crypt E) (utf8 v) salt 310000)"
  by (simp add: verify_pod_password_def split_pod_password iterations_text b64_round_trips)

lemma pod_password_text_solid [simp]: "pod_password_text E salt v \<noteq> []"
  by (simp add: pod_password_text_def)

text \<open>The hash that is stored for a password accepts it, and accepts another text only when PBKDF2 maps
  both to the same digest under the drawn salt. A password of less than eight characters is refused.\<close>

theorem pod_password_round_trip:
  "hash_pod_password E v w =
     (if length v < 8 then (Inl (http_error 400 ''pod_password_too_short''), w)
      else (Inr (pod_password_text E (token_bytes E (draws w)) v), w\<lparr>draws := Suc (draws w)\<rparr>))
   \<and> verify_pod_password E u (pod_password_text E salt v)
     = Inr (pbkdf2_fn (crypt E) (utf8 u) salt 310000 = pbkdf2_fn (crypt E) (utf8 v) salt 310000)"
  by (simp add: hash_pod_password_def seqM_def letM_def raise_if_def raiseM_def ret_def draw_def
      verify_pod_password_text)

text \<open>The mode of a login: the primary password wins over the decoy one, and another login name is no
  login at all.\<close>

lemma pod_access_mode_cases:
  assumes "pod_access_mode E username password login hash decoy_hash = Inr (Some mode)"
  shows "username = login \<and> is_ascii login \<and> mode \<in> set ACCESS_MODES
    \<and> (mode = ''primary'' \<longrightarrow> hash \<noteq> [] \<and> verify_pod_password E password hash = Inr True)
    \<and> (mode = ''decoy'' \<longrightarrow> decoy_hash \<noteq> [] \<and> verify_pod_password E password decoy_hash = Inr True)"
  using assms
  by (auto simp: pod_access_mode_def compare_digest_def try_bind_Inr_iff ACCESS_MODES_def split: if_splits)

section \<open>Access grants\<close>

lemma is_ascii_Nil [simp]: "is_ascii []"
  by (simp add: is_ascii_def)

lemma is_ascii_join: "is_ascii i \<Longrightarrow> (\<And>x. x \<in> set xs \<Longrightarrow> is_ascii x) \<Longrightarrow> is_ascii (join i xs)"
  by (induction i xs rule: join.induct) (simp_all add: is_ascii_def)

lemma is_ascii_str_int: "is_ascii (str_int n)"
proof -
  have "is_ascii (str_nat m)" for m
    using str_nat_digits [of m] by (auto simp: is_ascii_def list_all_iff is_digit_def)
  then show ?thesis by (simp add: str_int_def is_ascii_Cons)
qed

definition plain_value :: "json \<Rightarrow> bool" where
  "plain_value v \<longleftrightarrow> (case v of JInt _ \<Rightarrow> True | JStr _ \<Rightarrow> True | _ \<Rightarrow> False)"

lemma plain_dict:
  assumes "\<forall>p \<in> set d. plain_value (snd p)" and "distinct (map fst d)"
  obtains t where "dumps_canonical (JObj d) = Some t" "loads t = Some (JObj (sort_key fst d))" "is_ascii t"
proof -
  have v: "sort_keys (snd p) = snd p" "json_wf (snd p)" "is_ascii (render i k False (snd p))"
    if "p \<in> set d" for p i k
    using assms(1) [rule_format, OF that]
    by (cases "snd p"; simp add: plain_value_def is_ascii_str_int is_ascii_dumps_str)+
  have wf: "json_wf (JObj d)" using assms(2) v(2) by simp
  have "sort_keys (JObj d) = JObj (sort_key fst (map (\<lambda>p. (fst p, sort_keys (snd p))) d))" by simp
  also have "map (\<lambda>p. (fst p, sort_keys (snd p))) d = d" using v(1) by (simp add: map_idI)
  finally have s: "sort_keys (JObj d) = JObj (sort_key fst d)" .
  obtain t where t: "dumps_canonical (JObj d) = Some t" "loads t = Some (sort_keys (JObj d))"
    using loads_dumps_canonical [OF wf] by blast
  have "is_ascii (render i k False (JObj e))" if "\<forall>a b. (a, b) \<in> set e \<longrightarrow> is_ascii (render i k False b)"
    and "is_ascii i" and "is_ascii k" for i k e
    using that by (auto simp: Let_def comp_def is_ascii_Cons is_ascii_dumps_str intro!: is_ascii_join)
  moreover have "is_ascii '',''" "is_ascii '':''" by (simp_all add: is_ascii_def)
  moreover have "\<forall>a b. (a, b) \<in> set (sort_key fst d) \<longrightarrow> is_ascii (render '','' '':'' False b)"
    using v(3) by (metis set_sort snd_conv)
  ultimately have "is_ascii (render '','' '':'' False (JObj (sort_key fst d)))" by blast
  then have "is_ascii t"
    using t(1) unfolding dumps_canonical_def render_sorted s by (metis option.inject option.distinct(1))
  with t s show ?thesis using that by simp
qed

definition grant_dict :: "string \<Rightarrow> string \<Rightarrow> string \<Rightarrow> dict" where
  "grant_dict i mode nonce = [(''version'', JInt 1), (''pod_id'', JStr i), (''access_mode'', JStr mode),
     (''nonce'', JStr nonce)]"

lemma grant_lookup:
  "get_key k (sort_key fst (grant_dict i mode nonce)) = get_key k (grant_dict i mode nonce)"
  by (simp add: grant_dict_def get_key_def)

lemma issue_grant:
  assumes "issue_pod_access_grant E i mode w = (Inr token, w')"
  shows "mode \<in> set ACCESS_MODES \<and> token = signed_text E (grant_dict i mode (token_urlsafe E (draws w)))"
  using assms by (auto simp: issue_pod_access_grant_def seqM_def letM_def raise_if_def raiseM_def ret_def draw_def
      grant_dict_def split: if_splits)

lemma split_signed: "CHR ''.'' \<notin> set a \<Longrightarrow> split_max (Suc 0) CHR ''.'' (a @ CHR ''.'' # b) = [a, b]"
  using split_max_Suc_append [of "CHR ''.''" a 0 b] by simp

lemma verify_issued:
  assumes "mode \<in> set ACCESS_MODES"
  shows "verify_pod_access_grant E (signed_text E (grant_dict i mode nonce)) j
    = (if is_ascii i \<and> j = i then Inr mode else Inl refused_grant)"
proof -
  have "\<forall>p \<in> set (grant_dict i mode nonce). plain_value (snd p)" "distinct (map fst (grant_dict i mode nonce))"
    by (simp_all add: grant_dict_def plain_value_def)
  then obtain t where t: "dumps_canonical (JObj (grant_dict i mode nonce)) = Some t"
    "loads t = Some (JObj (sort_key fst (grant_dict i mode nonce)))" "is_ascii t"
    by (rule plain_dict)
  let ?e = "urlsafe_b64encode t"
  have s: "signed_text E (grant_dict i mode nonce) = ?e @ ''.'' @ seal E ?e"
    by (simp add: signed_text_def t utf8_ascii Let_def)
  have m: "mode \<noteq> []" using assms by (auto simp: ACCESS_MODES_def)
  have "check_grant j (JObj (sort_key fst (grant_dict i mode nonce)))
      = (if is_ascii i \<and> j = i then Inr mode else Inl refused_grant)"
    using assms m by (auto simp: check_grant_def get_or_null_def grant_lookup)
      (auto simp: grant_dict_def get_key_def compare_digest_def is_ascii_def)
  then show ?thesis
    unfolding s by (simp add: verify_pod_access_grant_def split_signed compare_digest_def seal_def
        b64_round_trips utf8_decode_ascii t del: split_max.simps)
qed

lemma check_grant_Inr:
  "check_grant i (JObj d) = Inr mode \<longleftrightarrow> jeq (JInt 1) (get_or_null ''version'' d)
     \<and> compare_digest (str_or [] (get_key ''pod_id'' d)) i = Inr True
     \<and> mode = str_or [] (get_key ''access_mode'' d) \<and> mode \<in> set ACCESS_MODES"
proof (cases "compare_digest (str_or [] (get_key ''pod_id'' d)) i")
  case (Inl e)
  then show ?thesis by (simp add: check_grant_def)
next
  case (Inr b)
  then show ?thesis by (cases b) (auto simp: check_grant_def Let_def)
qed

text \<open>A grant that was issued for a Pod opens that Pod, in the mode it was issued for, and no other Pod.\<close>

theorem access_grant_round_trip:
  assumes "issue_pod_access_grant E i mode w = (Inr token, w')" and "is_ascii i"
  shows "verify_pod_access_grant E token j = (if j = i then Inr mode else Inl refused_grant)"
  using issue_grant [OF assms(1)] assms(2) by (simp add: verify_issued)

text \<open>C12. A grant that passes carries the HMAC of its body under the signing secret of the server, and the
  body names the Pod and one of the two modes. So without the secret no grant can be made for a Pod,
  nor a decoy grant turned into a primary one.\<close>

theorem access_grant_authentic:
  assumes "verify_pod_access_grant E token i = Inr mode"
  shows "\<exists>body grant. token = body @ ''.'' @ hexdigest (hmac_fn (crypt E) (utf8 (perimetr_pod_signing_secret (cfg E))) body)
    \<and> Option.bind (Option.bind (urlsafe_b64decode body) utf8_decode) loads = Some (JObj grant)
    \<and> get_key ''version'' grant \<in> {Some (JInt 1), Some (JBool True)} \<and> mode \<in> {''primary'', ''decoy''}
    \<and> str_or [] (get_key ''access_mode'' grant) = mode \<and> str_or [] (get_key ''pod_id'' grant) = i"
proof -
  obtain body sig grant where t: "split_max 1 CHR ''.'' token = [body, sig]" "is_ascii body"
    "compare_digest sig (seal E body) = Inr True" "check_grant i grant = Inr mode"
    "Option.bind (Option.bind (urlsafe_b64decode body) utf8_decode) loads = Some grant"
    using assms by (auto simp: verify_pod_access_grant_def refused_grant_def split: list.splits if_splits option.splits)
  have "sig = seal E body" using t(3) by (auto simp: compare_digest_def split: if_splits)
  moreover have "token = body @ ''.'' @ sig"
  proof -
    have d: "CHR ''.'' \<in> set token" using t(1) by (cases "CHR ''.'' \<in> set token") simp_all
    then have "dropWhile (\<lambda>c. c \<noteq> CHR ''.'') token \<noteq> []" "hd (dropWhile (\<lambda>c. c \<noteq> CHR ''.'') token) = CHR ''.''"
      using hd_dropWhile [of "\<lambda>c. c \<noteq> CHR ''.''" token] by (auto simp: dropWhile_eq_Nil_conv)
    moreover have "takeWhile (\<lambda>c. c \<noteq> CHR ''.'') token = body" "tl (dropWhile (\<lambda>c. c \<noteq> CHR ''.'') token) = sig"
      using t(1) d by simp_all
    ultimately show ?thesis
      by (metis append_Cons append_Nil list.collapse takeWhile_dropWhile_id)
  qed
  moreover obtain d where "grant = JObj d" using t(4) by (cases grant) (simp_all add: check_grant_def)
  ultimately show ?thesis
    using t(4,5) by (auto simp: check_grant_Inr compare_digest_def seal_def ACCESS_MODES_def get_or_null_def
        split: if_splits option.splits)
qed

section \<open>The decoy configuration\<close>


section \<open>Addresses\<close>

lemma strip_by_idem: "strip_by P (strip_by P s) = strip_by P s"
proof -
  have d: "dropWhile P (dropWhile P x) = dropWhile P x" for x :: string
    by (induction x) simp_all
  have r: "dropWhile P (rev (dropWhile P (rev (dropWhile P x)))) = rev (dropWhile P (rev (dropWhile P x)))" for x
  proof (cases "rev (dropWhile P (rev (dropWhile P x)))")
    case (Cons a as)
    let ?y = "dropWhile P x"
    have "rev (takeWhile P (rev ?y) @ dropWhile P (rev ?y)) = ?y" by (simp only: takeWhile_dropWhile_id rev_rev_ident)
    then obtain z where z: "?y = a # z" using Cons by (simp only: rev_append append_Cons) metis
    then have "\<not> P a" using hd_dropWhile [of P x] by simp
    then show ?thesis by (simp add: Cons)
  next
    case Nil
    then show ?thesis by (simp only: dropWhile.simps)
  qed
  show ?thesis by (simp add: strip_by_def lstrip_by_def rstrip_by_def r d)
qed

text \<open>An accepted VLESS address is the input without surrounding space, with a user identity, a host and a
  port, on one of the supported transports, and it is accepted again as it is.\<close>

theorem accepted_vless_address:
  assumes "validate_vless_uri v = Inr u"
  shows "u = strip v \<and> validate_vless_uri u = Inr u
    \<and> (\<exists>p name. urlsplit u = Some p \<and> lower (url_scheme p) = ''vless''
         \<and> url_username p = Some name \<and> vless_identity name \<and> \<not> empty_text (url_hostname p)
         \<and> (\<exists>port > 0. url_port p = Some (Some port))
         \<and> lower (case query_first ''security'' (url_query p) of None \<Rightarrow> ''none'' | Some s \<Rightarrow> s) \<in> set SUPPORTED_VLESS_SECURITY
         \<and> lower (case query_first ''type'' (url_query p) of None \<Rightarrow> ''tcp'' | Some s \<Rightarrow> s) \<in> set SUPPORTED_VLESS_TRANSPORT)"
proof -
  have u: "u = strip v"
    using assms by (auto simp: validate_vless_uri_def Let_def split: option.splits if_splits)
  then have s: "strip u = strip v" by (simp add: strip_def strip_by_idem)
  have a: "validate_vless_uri u = Inr u"
    using assms by (simp only: validate_vless_uri_def s Let_def)
  obtain p where p: "urlsplit u = Some p"
    using assms unfolding u by (cases "urlsplit (strip v)") (simp_all add: validate_vless_uri_def)
  obtain port where port: "url_port p = Some (Some port)"
    using assms unfolding validate_vless_uri_def u [symmetric] Let_def p option.case
    by (cases "url_port p"; cases "the (url_port p)"; simp split: if_splits)
  let ?sec = "lower (case query_first ''security'' (url_query p) of None \<Rightarrow> ''none'' | Some s \<Rightarrow> s)"
  let ?tra = "lower (case query_first ''type'' (url_query p) of None \<Rightarrow> ''tcp'' | Some s \<Rightarrow> s)"
  have "lower (url_scheme p) = ''vless'' \<and> \<not> empty_text (url_username p) \<and> \<not> empty_text (url_hostname p) \<and> 0 < port
      \<and> vless_identity (case url_username p of None \<Rightarrow> [] | Some n \<Rightarrow> n)
      \<and> ?sec \<in> set SUPPORTED_VLESS_SECURITY \<and> ?tra \<in> set SUPPORTED_VLESS_TRANSPORT"
    using assms unfolding validate_vless_uri_def u [symmetric] Let_def p port option.case
    by (simp split: if_splits)
  then show ?thesis
    using u a p port by (auto simp: empty_text_def)
qed

section \<open>File names\<close>

lemma set_strip_by: "set (strip_by P s) \<subseteq> set s"
  by (auto simp: strip_by_def lstrip_by_def rstrip_by_def dest!: set_dropWhileD)

lemma length_strip_by: "length (strip_by P s) \<le> length s"
  unfolding strip_by_def lstrip_by_def rstrip_by_def
  by (metis (no_types, opaque_lifting) length_dropWhile_le length_rev order_trans)

lemma last_strip_by: "strip_by P s \<noteq> [] \<Longrightarrow> \<not> P (last (strip_by P s))"
  unfolding strip_by_def lstrip_by_def rstrip_by_def
  by (metis hd_dropWhile last_rev rev_is_Nil_conv)

lemma set_replace_runs: "set (replace_runs P c b s) \<subseteq> insert c {x \<in> set s. \<not> P x}"
  by (induction s arbitrary: b) auto

lemma reserved_no_pod: "\<forall>r \<in> set WINDOWS_RESERVED_NAMES. take 3 r \<noteq> ''POD''"
  by code_simp

text \<open>The executable of a Pod has a name that Windows accepts, whatever the login is: it ends with the
  extension, and what comes before is not empty, has no path separator, wildcard or control character,
  does not end with a dot or a space, is no device name and is at most 84 characters long.\<close>

theorem executable_name_valid:
  "\<exists>name. pod_executable_name login = name @ ''.exe'' \<and> name \<noteq> [] \<and> length name \<le> 84
     \<and> list_all (\<lambda>c. \<not> unsafe_file_char c) name \<and> last name \<notin> {CHR '' '', CHR ''.''}
     \<and> upper name \<notin> set WINDOWS_RESERVED_NAMES"
proof -
  define cand where "cand = strip_dots (replace_runs unsafe_file_char CHR ''-'' False (strip login))"
  define short where "short = strip_dots (take 80 (replace_runs is_space CHR '' '' False cand))"
  define name where "name = (if short = [] then ''pod'' else short)"
  have minus: "\<not> unsafe_file_char CHR ''-''" "\<not> unsafe_file_char CHR '' ''" "\<not> unsafe_file_char CHR ''p''"
    "\<not> unsafe_file_char CHR ''o''" "\<not> unsafe_file_char CHR ''d''"
    by (simp_all add: unsafe_file_char_def)
  have "\<forall>c \<in> set cand. \<not> unsafe_file_char c"
    using set_strip_by set_replace_runs minus(1) unfolding cand_def strip_dots_def by blast
  then have s: "\<forall>c \<in> set short. \<not> unsafe_file_char c"
    using set_strip_by set_replace_runs minus(2) set_take_subset unfolding short_def strip_dots_def by fast
  have l: "length short \<le> 80" unfolding short_def strip_dots_def
    by (rule order_trans [OF length_strip_by]) simp
  have e: "short \<noteq> [] \<Longrightarrow> last short \<notin> {CHR '' '', CHR ''.''}"
    using last_strip_by unfolding short_def strip_dots_def by blast
  have name: "\<forall>c \<in> set name. \<not> unsafe_file_char c" "length name \<le> 80" "last name \<notin> {CHR '' '', CHR ''.''}" "name \<noteq> []"
    using s l e minus by (auto simp: name_def)
  have "upper ''pod'' = ''POD''" by code_simp
  then have "take 3 (upper (''pod-'' @ name)) = ''POD''" by (simp add: upper_def)
  then have p: "upper (''pod-'' @ name) \<notin> set WINDOWS_RESERVED_NAMES" using reserved_no_pod by blast
  have "pod_file_stem login = (if upper name \<in> set WINDOWS_RESERVED_NAMES then ''pod-'' @ name else name)"
    by (simp add: pod_file_stem_def Let_def name_def short_def cand_def)
  then show ?thesis unfolding pod_executable_name_def using name p minus by (auto simp: list_all_iff)
qed

end
