(* ===== verification/Pod_Examples.thy ===== *)
theory Pod_Examples
  imports Session_Examples Pod_Access_Safety
begin

text \<open>Concrete instances of the theorems on Pods, on the demonstration environment of the sessions.\<close>

lemma demo_fernet: "fernet_ok (crypt demo_env)"
  by (simp add: demo_crypt toy_fernet)

theorem secret_round_trip_witness:
  "\<exists>c w'. encrypt_secret demo_env ''token'' initial_world = (Inr c, w') \<and> decrypt_secret demo_env c = Inr ''token''"
proof -
  obtain c w' where e: "encrypt_secret demo_env ''token'' initial_world = (Inr c, w')"
    by (simp add: encrypt_secret_def letM_def draw_def ret_def)
  with secret_round_trip [OF demo_fernet e] show ?thesis by blast
qed

lemma demo_grant: "\<exists>token w'. issue_pod_access_grant demo_env ''p1'' ''decoy'' initial_world = (Inr token, w')"
  by (simp add: issue_pod_access_grant_def ACCESS_MODES_def seqM_def letM_def raise_if_def draw_def ret_def)

lemma demo_pod_ids: "is_ascii ''p1''"
  by (simp add: is_ascii_def)

theorem access_grant_round_trip_witness:
  "\<exists>token w'. issue_pod_access_grant demo_env ''p1'' ''decoy'' initial_world = (Inr token, w')
     \<and> verify_pod_access_grant demo_env token ''p1'' = Inr ''decoy''
     \<and> verify_pod_access_grant demo_env token ''p2'' = Inl refused_grant"
proof -
  obtain token w' where i: "issue_pod_access_grant demo_env ''p1'' ''decoy'' initial_world = (Inr token, w')"
    using demo_grant by blast
  show ?thesis
    using i access_grant_round_trip [OF i demo_pod_ids, of "''p1''"] access_grant_round_trip [OF i demo_pod_ids, of "''p2''"]
    by auto
qed

text \<open>A grant for the authenticity of the next theorem, without the round trip.\<close>

lemma demo_grant_passes: "\<exists>token. verify_pod_access_grant demo_env token ''p1'' = Inr ''decoy''"
proof -
  have "''decoy'' \<in> set ACCESS_MODES" by (simp add: ACCESS_MODES_def)
  from verify_issued [OF this, of demo_env "''p1''" "[]" "''p1''"] demo_pod_ids show ?thesis by auto
qed

theorem access_grant_authentic_witness:
  "\<exists>token body. verify_pod_access_grant demo_env token ''p1'' = Inr ''decoy''
     \<and> token = body @ ''.'' @ hexdigest (hmac_fn toy_crypto (utf8 (perimetr_pod_signing_secret (cfg demo_env))) body)"
proof -
  obtain token where t: "verify_pod_access_grant demo_env token ''p1'' = Inr ''decoy''"
    using demo_grant_passes by blast
  from access_grant_authentic [OF t] t show ?thesis unfolding demo_crypt by blast
qed

definition demo_vless :: string where
  "demo_vless = ''vless://00000000-0000-0000-0000-000000000000@example.org:443?type=ws''"

lemma demo_vless_accepted: "validate_vless_uri demo_vless = Inr demo_vless"
  by code_simp

theorem accepted_vless_address_witness:
  "strip demo_vless = demo_vless \<and> validate_vless_uri demo_vless = Inr demo_vless"
  using accepted_vless_address [OF demo_vless_accepted] by metis

end
