(* ===== verification/Pods.thy ===== *)
theory Pods
  imports Pod_Bundle
begin

text \<open>
  The life of a Pod, from the endpoints of \<open>app/api_service/app.py\<close>: its configuration, provisioning and
  the download of its bundle, enrollment, login, heartbeats, revocation and release, and the deletion of
  a subject with its Pods. The runtime artifact a handler asks for is an argument, \<open>Inl\<close> the text of a
  \<open>PodArtifactError\<close>. The validation of a heartbeat by pydantic and the parsing of its timestamp are
  arguments too.
\<close>

section \<open>Requests\<close>

record system_tab =
  tab_id :: string
  tab_title :: string
  tab_url :: string
  tab_required :: bool
  tab_pos :: int

record pod_config_update =
  pcu_vless_connection :: "string option"
  pcu_system_tabs :: "system_tab list option"
  pcu_update_channel :: "string option"
  pcu_ui_policy :: "dict option"
  pcu_security_policy :: "dict option"

record provisioning_create =
  pvc_login :: string
  pvc_password :: string
  pvc_confirm_password :: string
  pvc_decoy_password :: "string option"
  pvc_confirm_decoy_password :: "string option"

record enroll_request =
  enr_provisioning_id :: "string option"
  enr_enrollment_token :: "string option"
  enr_clone_from_pod_id :: "string option"
  enr_username :: string
  enr_password :: string
  enr_name :: string
  enr_public_key_pem :: string
  enr_certificate_fingerprint :: string
  enr_device_binding_fingerprint :: string
  enr_host_id :: string
  enr_pod_version :: string

record pod_login_request =
  plr_username :: string
  plr_password :: string

text \<open>A parsed timestamp, in microseconds. One without an offset cannot be compared with the clock.\<close>

datatype instant = Aware int | Naive int

record signed_heartbeat =
  hb_certificate_fingerprint :: string
  hb_sequence :: int
  hb_timestamp :: instant
  hb_pod_version :: string
  hb_device_binding_fingerprint :: string
  hb_device_binding_status :: string
  hb_proxy_engine :: string
  hb_xray_version :: string
  hb_network_status :: string
  hb_access_mode :: string
  hb_access_grant :: string
  hb_temporary_tabs_count :: int
  hb_signature :: string

text \<open>With the two texts of \<open>observed_at\<close>, of \<open>isoformat()\<close> and of the JSON dump.\<close>

record legacy_heartbeat =
  lhb_status :: string
  lhb_runtime_state :: dict
  lhb_observed_at :: int
  lhb_observed_iso :: string
  lhb_observed_json :: string

record parsers =
  parse_signed :: "dict \<Rightarrow> signed_heartbeat option"
  parse_legacy :: "dict \<Rightarrow> legacy_heartbeat option"
  parse_iso :: "string \<Rightarrow> instant option"

section \<open>Answers\<close>

definition tab_dump :: "system_tab \<Rightarrow> json" where
  "tab_dump t = JObj [(''id'', JStr (tab_id t)), (''title'', JStr (tab_title t)), (''url'', JStr (tab_url t)),
     (''required'', JBool (tab_required t)), (''position'', JInt (tab_pos t))]"

definition pod_read :: "pod \<Rightarrow> dict" where
  "pod_read p =
     [(''id'', JStr (pod_id p)), (''subject_id'', JStr (pod_subject_id p)), (''host_id'', JStr (pod_host_id p)),
      (''path'', JStr (pod_path p)), (''launcher_path'', JStr (pod_launcher_path p)),
      (''runtime_state'', JObj (pod_runtime_state p)), (''is_portable'', JBool (pod_is_portable p)),
      (''last_materialized_at'', jopt JTime (pod_last_materialized_at p)), (''name'', JStr (pod_name p)),
      (''login'', JStr (pod_login p)), (''status'', JStr (pod_status p)),
      (''certificate_fingerprint'', JStr (pod_certificate_fingerprint p)),
      (''device_binding_fingerprint'', JStr (pod_device_binding_fingerprint p)),
      (''device_binding_status'', JStr (pod_device_binding_status p)), (''pod_version'', JStr (pod_version p)),
      (''xray_version'', JStr (pod_xray_version p)), (''network_profile_version'', JInt (pod_network_profile_version p)),
      (''system_tabs_profile_version'', JInt (pod_system_tabs_profile_version p)),
      (''last_seen_at'', jopt JTime (pod_last_seen_at p)), (''last_heartbeat_at'', jopt JTime (pod_last_heartbeat_at p)),
      (''activated_at'', jopt JTime (pod_activated_at p)), (''created_at'', JTime (pod_created_at p))]"

text \<open>\<open>pod.subject\<close>, which the foreign key makes exist.\<close>

definition subject_of_pod :: "pod \<Rightarrow> subject web" where
  "subject_of_pod p = letM (db_get SUBJECTS (pod_subject_id p)) (\<lambda>found.
     (case found of None \<Rightarrow> raiseM (Crash ''AttributeError'') | Some s \<Rightarrow> ret s))"

text \<open>Whether a time that may be missing has come.\<close>

definition has_passed :: "env \<Rightarrow> int option \<Rightarrow> bool web" where
  "has_passed E t = (case t of None \<Rightarrow> ret False | Some e \<Rightarrow> letM (now_utc E) (\<lambda>now. ret (e \<le> now)))"

section \<open>The configuration of the Pods of a subject\<close>

definition read_subject_pod_config :: "env \<Rightarrow> string \<Rightarrow> dict web" where
  "read_subject_pod_config E subject_id =
     letM (get_subject subject_id) (\<lambda>s. liftM (subject_pod_config E s))"

definition pod_config_dump :: "pod_config_update \<Rightarrow> dict" where
  "pod_config_dump u = given ''vless_connection'' JStr (pcu_vless_connection u)
     @ given ''system_tabs'' (\<lambda>ts. JArr (map tab_dump ts)) (pcu_system_tabs u)
     @ given ''update_channel'' JStr (pcu_update_channel u) @ given ''ui_policy'' JObj (pcu_ui_policy u)
     @ given ''security_policy'' JObj (pcu_security_policy u)"

definition set_vless :: "env \<Rightarrow> string \<Rightarrow> subject \<Rightarrow> subject web" where
  "set_vless E v s =
     letM (liftM (validate_vless_uri v)) (\<lambda>vless.
     letM (encrypt_secret E vless) (\<lambda>encrypted.
       ret (if encrypted \<noteq> sub_vless_uri_encrypted s
            then s\<lparr>sub_vless_uri_encrypted := encrypted,
                   sub_network_profile_version := sub_network_profile_version s + 1\<rparr>
            else s)))"

definition set_tabs :: "system_tab list \<Rightarrow> subject \<Rightarrow> failure + subject" where
  "set_tabs ts s =
     (if \<not> distinct (map tab_id ts) then Inl (http_error 400 ''duplicate_system_tab_id'')
      else Inr (if jeq (JArr (map tab_dump ts)) (JArr (sub_system_tabs s)) then s
                else s\<lparr>sub_system_tabs := map tab_dump ts,
                       sub_system_tabs_profile_version := sub_system_tabs_profile_version s + 1\<rparr>))"

definition set_policies :: "pod_config_update \<Rightarrow> subject \<Rightarrow> subject" where
  "set_policies u s = s\<lparr>sub_update_channel := assign (pcu_update_channel u) (sub_update_channel s),
     sub_ui_policy := assign (pcu_ui_policy u) (sub_ui_policy s),
     sub_security_policy := assign (pcu_security_policy u) (sub_security_policy s)\<rparr>"

definition update_subject_pod_config :: "env \<Rightarrow> string \<Rightarrow> pod_config_update \<Rightarrow> dict web" where
  "update_subject_pod_config E subject_id u =
     letM (get_subject subject_id) (\<lambda>s0.
     letM (case pcu_vless_connection u of None \<Rightarrow> ret s0 | Some v \<Rightarrow> set_vless E v s0) (\<lambda>s1.
     letM (case pcu_system_tabs u of None \<Rightarrow> ret s1 | Some ts \<Rightarrow> liftM (set_tabs ts s1)) (\<lambda>s2.
       (let s = set_policies u s2
        in seqM (db_set SUBJECTS (sub_id s0) (\<lambda>_. s))
           (seqM (core_audit E ''subject.pod_config.updated'' ''subject'' (sub_entity_id s)
                   (map (\<lambda>(k, v). (k, if k = ''vless_connection'' then JStr ''[redacted]'' else v)) (pod_config_dump u))
                   [(''network_profile_version'', JInt (sub_network_profile_version s)),
                    (''system_tabs_profile_version'', JInt (sub_system_tabs_profile_version s))])
           (seqM commit (liftM (subject_pod_config E s))))))))"

section \<open>Lists\<close>

definition liveness :: "env \<Rightarrow> int \<Rightarrow> pod \<Rightarrow> string" where
  "liveness E now p = (case pod_last_heartbeat_at p of
     None \<Rightarrow> ''offline''
   | Some t \<Rightarrow> if now - t \<le> seconds (perimetr_pod_offline_after_sec (cfg E)) then ''active'' else ''offline'')"

definition refresh_status :: "env \<Rightarrow> string list \<Rightarrow> int \<Rightarrow> pod \<Rightarrow> pod" where
  "refresh_status E kept now p = (if pod_status p \<in> set kept then p else p\<lparr>pod_status := liveness E now p\<rparr>)"

definition list_subject_pods :: "env \<Rightarrow> string \<Rightarrow> bool \<Rightarrow> (dict list \<times> dict list) web" where
  "list_subject_pods E subject_id include_revoked =
     letM (get_subject subject_id) (\<lambda>s.
     letM (db_all PROVISIONINGS (\<lambda>r. prov_subject_id r = sub_id s)) (\<lambda>rs.
     letM (db_all PODS (\<lambda>p. pod_subject_id p = sub_id s)) (\<lambda>ps.
     letM (now_utc E) (\<lambda>now.
       (let change = refresh_status E [''revoked'', ''suspicious''] now; instances = map change (oldest pod_created_at ps);
            records = oldest prov_created_at rs
        in seqM (eachM ps (\<lambda>p. db_set PODS (pod_id p) change))
           (seqM commit
             (ret (map (\<lambda>r. provisioning_payload r s)
                     (filter (\<lambda>r. include_revoked \<or> prov_status r \<notin> set CLOSED_STATUS) records),
                   map (\<lambda>p. pod_payload p s)
                     (filter (\<lambda>p. include_revoked \<or> pod_status p \<noteq> ''revoked'') instances)))))))))"

definition instance_item :: "subject \<Rightarrow> pod \<Rightarrow> dict" where
  "instance_item s p = (''kind'', JStr ''instance'') # pod_payload p s @ [(''subject_name'', JStr (sub_name s))]"

definition provisioning_item :: "subject \<Rightarrow> provisioning \<Rightarrow> dict" where
  "provisioning_item s r = (''kind'', JStr ''provisioning'') # provisioning_payload r s
     @ [(''subject_name'', JStr (sub_name s)), (''last_seen_at'', JNull)]"

definition owner :: "subject list \<Rightarrow> string \<Rightarrow> subject option" where
  "owner ss i = find (\<lambda>s. sub_id s = i) ss"

definition list_all_pods :: "env \<Rightarrow> dict list web" where
  "list_all_pods E =
     letM (db_all SUBJECTS (\<lambda>_. True)) (\<lambda>ss.
     letM (now_utc E) (\<lambda>now.
     letM (db_all PODS (\<lambda>p. pod_status p \<noteq> ''revoked'')) (\<lambda>ps.
       (let owned = filter (\<lambda>p. owner ss (pod_subject_id p) \<noteq> None) (oldest pod_created_at ps);
            change = refresh_status E [''suspicious''] now
        in seqM (eachM owned (\<lambda>p. db_set PODS (pod_id p) change))
           (letM (db_all PROVISIONINGS (\<lambda>r. prov_status r \<notin> set CLOSED_STATUS)) (\<lambda>rs.
            seqM commit
              (ret (List.map_filter (\<lambda>p. map_option (\<lambda>s. instance_item s (change p)) (owner ss (pod_subject_id p))) owned
                  @ List.map_filter (\<lambda>r. map_option (\<lambda>s. provisioning_item s r) (owner ss (prov_subject_id r)))
                      (oldest prov_created_at rs)))))))))"

section \<open>Provisioning\<close>

definition text_of :: "string option \<Rightarrow> string" where
  "text_of v = (case v of None \<Rightarrow> [] | Some s \<Rightarrow> s)"

text \<open>What is checked of the passwords of a new Pod.\<close>

definition check_provisioning :: "provisioning_create \<Rightarrow> failure + unit" where
  "check_provisioning p =
     (let decoy = text_of (pvc_decoy_password p); confirm = text_of (pvc_confirm_decoy_password p)
      in if strip (pvc_login p) = [] then Inl (http_error 400 ''pod_login_required'')
         else if pvc_password p \<noteq> pvc_confirm_password p
         then Inl (http_error 400 ''pod_password_confirmation_mismatch'')
         else if (decoy = []) \<noteq> (confirm = []) then Inl (http_error 400 ''pod_decoy_password_confirmation_required'')
         else if decoy \<noteq> confirm then Inl (http_error 400 ''pod_decoy_password_confirmation_mismatch'')
         else if decoy = [] then Inr ()
         else try_bind (compare_digest decoy (pvc_password p)) (\<lambda>same.
           if same then Inl (http_error 400 ''pod_decoy_password_must_differ'') else Inr ()))"

definition need_artifact :: "string + pod_artifact \<Rightarrow> failure + pod_artifact" where
  "need_artifact a = (case a of
     Inl why \<Rightarrow> Inl (http_error 503 (''pod_runtime_unavailable: '' @ why)) | Inr x \<Rightarrow> Inr x)"

definition provisioning_metadata :: "subject \<Rightarrow> string \<Rightarrow> pod_artifact \<Rightarrow> dict" where
  "provisioning_metadata s login a =
     [(''network_profile_version'', JInt (sub_network_profile_version s)),
      (''system_tabs_profile_version'', JInt (sub_system_tabs_profile_version s)),
      (''executable_name'', JStr (pod_executable_name login)),
      (''runtime_source'', JStr (art_source a)), (''runtime_warning'', JStr (art_refresh_error a)),
      (''artifact_manifest'', JObj (if truthy (get_or_null ''signature'' (art_manifest a)) then art_manifest a else []))]"

definition create_subject_pod ::
  "env \<Rightarrow> string + pod_artifact \<Rightarrow> string \<Rightarrow> provisioning_create \<Rightarrow> dict web" where
  "create_subject_pod E latest subject_id p =
     letM (get_subject subject_id) (\<lambda>s.
     seqM (liftM (validate_subject_pod_config E s))
     (seqM (liftM (check_provisioning p))
     (letM (liftM (need_artifact latest)) (\<lambda>a.
     letM (hash_pod_password E (pvc_password p)) (\<lambda>password_hash.
     letM (if text_of (pvc_decoy_password p) = [] then ret []
           else hash_pod_password E (text_of (pvc_decoy_password p))) (\<lambda>decoy_hash.
     letM (issue_enrollment_token E) (\<lambda>(_, token_hash, encrypted_token).
     letM (provisioning_expiry E) (\<lambda>expires.
     letM (new_id E) (\<lambda>i. letM (now_utc E) (\<lambda>t.
       (let login = strip (pvc_login p);
            r = \<lparr>prov_id = i, prov_subject_id = sub_id s, prov_name = login, prov_login = login,
              prov_password_hash = password_hash, prov_decoy_password_hash = decoy_hash,
              prov_status = ''ready_to_download'', prov_token_hash = token_hash,
              prov_token_encrypted = encrypted_token, prov_bundle_version = art_version a,
              prov_artifact_sha256 = art_sha256 a, prov_download_count = 0, prov_downloaded_at = None,
              prov_expires_at = Some expires, prov_activated_at = None, prov_revoked_at = None,
              prov_metadata = provisioning_metadata s login a, prov_created_at = t\<rparr>
        in seqM (db_add PROVISIONINGS r)
           (seqM flush
           (seqM (core_audit E ''pod.provisioning.created'' ''pod_provisioning'' i []
                   [(''subject_id'', JStr (sub_entity_id s)), (''bundle_version'', JStr (art_version a)),
                    (''artifact_sha256'', JStr (art_sha256 a)), (''runtime_source'', JStr (art_source a))])
           (seqM commit (ret (provisioning_payload r s))))))))))))))))"

definition subject_provisioning :: "subject \<Rightarrow> string \<Rightarrow> provisioning web" where
  "subject_provisioning s i = letM (db_get PROVISIONINGS i) (\<lambda>found.
     (case found of
        None \<Rightarrow> raiseM (http_error 404 ''pod_provisioning_not_found'')
      | Some r \<Rightarrow> if prov_subject_id r \<noteq> sub_id s then raiseM (http_error 404 ''pod_provisioning_not_found'') else ret r))"

text \<open>The record expires when its time has come. The change is committed before the refusal.\<close>

definition refuse_expired :: "env \<Rightarrow> provisioning \<Rightarrow> unit web" where
  "refuse_expired E r =
     letM (has_passed E (prov_expires_at r)) (\<lambda>expired.
       whenM expired
         (seqM (db_set PROVISIONINGS (prov_id r) (\<lambda>x. x\<lparr>prov_status := ''expired''\<rparr>))
         (seqM commit (raiseM (http_error 410 ''pod_provisioning_expired'')))))"

definition pin_artifact :: "pod_artifact \<Rightarrow> provisioning \<Rightarrow> provisioning" where
  "pin_artifact a r =
     (if prov_artifact_sha256 r \<noteq> []
      then if art_source a = ''pinned-redownload''
           then r\<lparr>prov_metadata := set_key ''runtime_warning'' (JStr [])
                     (set_key ''runtime_source'' (JStr (art_source a)) (prov_metadata r))\<rparr>
           else r
      else r\<lparr>prov_bundle_version := art_version a, prov_artifact_sha256 := art_sha256 a,
             prov_metadata := set_key ''runtime_warning'' (JStr (art_refresh_error a))
               (set_key ''runtime_source'' (JStr (art_source a)) (prov_metadata r))\<rparr>)"

definition download_name :: "string \<Rightarrow> string" where
  "download_name name =
     (let base = strip_by (\<lambda>c. c = CHR ''-'')
            (replace_runs (\<lambda>c. \<not> (is_alnum c \<or> c \<in> set ''._-'')) CHR ''-'' False name)
      in ''attachment; filename='' @ [CHR 0x22] @ (if base = [] then ''perimetr-pod'' else base) @ ''.zip'' @ [CHR 0x22])"

text \<open>The artifact of a pinned record is resolved by its digest (\<open>pinned\<close>), that of an older record is
  the latest one.\<close>

definition download_subject_pod ::
  "env \<Rightarrow> (string \<Rightarrow> string option) \<Rightarrow> (provisioning \<Rightarrow> string + pod_artifact) \<Rightarrow> string + pod_artifact
     \<Rightarrow> string \<Rightarrow> string \<Rightarrow> (archive \<times> string) web" where
  "download_subject_pod E files pinned latest subject_id provisioning_id =
     letM (get_subject subject_id) (\<lambda>s.
     letM (subject_provisioning s provisioning_id) (\<lambda>r0.
     seqM (raise_if (prov_status r0 \<in> set CLOSED_STATUS \<or> prov_token_encrypted r0 = [])
             (http_error 409 ''pod_bundle_not_downloadable''))
     (seqM (refuse_expired E r0)
     (letM (liftM (need_artifact (if prov_artifact_sha256 r0 \<noteq> [] then pinned r0 else latest))) (\<lambda>a.
     letM (liftM (build_pod_bundle E files (pin_artifact a r0) s a)) (\<lambda>content.
     letM (now_utc E) (\<lambda>t.
       (let r = (pin_artifact a r0)\<lparr>prov_status := ''downloaded'', prov_download_count := prov_download_count r0 + 1,
              prov_downloaded_at := Some t\<rparr>
        in seqM (db_set PROVISIONINGS (prov_id r0) (\<lambda>_. r))
           (seqM (core_audit E ''pod.bundle.downloaded'' ''pod_provisioning'' (prov_id r) []
                   [(''download_count'', JInt (prov_download_count r)), (''bundle_version'', JStr (prov_bundle_version r)),
                    (''artifact_sha256'', JStr (prov_artifact_sha256 r)), (''runtime_source'', JStr (art_source a))])
           (seqM commit (ret (content, download_name (prov_name r)))))))))))))"

definition delete_pending_pod :: "env \<Rightarrow> string \<Rightarrow> string \<Rightarrow> dict web" where
  "delete_pending_pod E subject_id provisioning_id =
     letM (get_subject subject_id) (\<lambda>s.
     letM (subject_provisioning s provisioning_id) (\<lambda>r.
     seqM (raise_if (prov_status r = ''active'') (http_error 409 ''active_pod_must_be_revoked''))
     (letM (now_utc E) (\<lambda>t.
     seqM (db_set PROVISIONINGS (prov_id r)
             (\<lambda>x. x\<lparr>prov_status := ''revoked'', prov_token_encrypted := [], prov_revoked_at := Some t\<rparr>))
     (letM (new_id E) (\<lambda>i.
     seqM (db_add DENYLIST \<lparr>deny_id = i, deny_pod_id = None, deny_subject_id = Some (sub_id s),
             deny_type = ''enrollment_token'', deny_value = prov_token_hash r, deny_reason = ''provisioning_removed''\<rparr>)
     (seqM (core_audit E ''pod.provisioning.removed'' ''pod_provisioning'' (prov_id r) [] [])
     (seqM commit (ret [(''deleted'', JBool True), (''id'', JStr (prov_id r))])))))))))"

section \<open>Deleting a subject\<close>

text \<open>The identifiers of a Pod that a revocation or deletion denies.\<close>

definition pod_identifiers :: "pod \<Rightarrow> (string \<times> string) list" where
  "pod_identifiers p = [(''pod_id'', pod_id p), (''certificate_fingerprint'', pod_certificate_fingerprint p),
     (''device_binding_fingerprint'', pod_device_binding_fingerprint p)]"

definition denies :: "string \<Rightarrow> string \<Rightarrow> denied \<Rightarrow> bool" where
  "denies k v r \<longleftrightarrow> deny_type r = k \<and> deny_value r = v"

definition deny_identifier :: "env \<Rightarrow> string \<Rightarrow> pod \<Rightarrow> string \<times> string \<Rightarrow> unit web" where
  "deny_identifier E reason p kv =
     whenM (snd kv \<noteq> [])
       (letM (db_scalar DENYLIST (denies (fst kv) (snd kv))) (\<lambda>found.
          whenM (found = None)
            (letM (new_id E) (\<lambda>i.
               db_add DENYLIST \<lparr>deny_id = i, deny_pod_id = Some (pod_id p), deny_subject_id = Some (pod_subject_id p),
                 deny_type = fst kv, deny_value = snd kv, deny_reason = reason\<rparr>))))"

definition deny_pod :: "env \<Rightarrow> string \<Rightarrow> pod \<Rightarrow> unit web" where
  "deny_pod E reason p = eachM (pod_identifiers p) (deny_identifier E reason p)"

definition delete_subject :: "env \<Rightarrow> string \<Rightarrow> dict web" where
  "delete_subject E subject_id =
     letM (get_subject subject_id) (\<lambda>s.
     letM (db_all PODS (\<lambda>p. pod_subject_id p = sub_id s)) (\<lambda>ps.
       (let pod_ids = map pod_id ps
        in seqM (eachM ps (deny_pod E ''subject_deleted''))
           (seqM (db_execute_delete AUTHORIZATIONS (\<lambda>a. auth_subject_id a = sub_id s))
           (seqM (db_execute_delete LEASES (\<lambda>l. lease_subject_id l = Some (sub_id s)))
           (seqM (whenM (pod_ids \<noteq> [])
                   (seqM (db_execute_delete LEASES (\<lambda>l. \<exists>i \<in> set pod_ids. lease_pod_id l = Some i))
                     (db_execute_delete PODS (\<lambda>p. pod_id p \<in> set pod_ids))))
           (seqM (db_execute_delete PROVISIONINGS (\<lambda>r. prov_subject_id r = sub_id s))
           (seqM (remove_correlation_block (''subject_'' @ sub_entity_id s))
           (seqM (db_delete SUBJECTS (sub_id s))
           (seqM (core_audit E ''subject.deleted'' ''subject'' (sub_entity_id s) [] [])
           (seqM commit (ret [(''deleted'', JBool True), (''id'', JStr (sub_entity_id s))]))))))))))))"

section \<open>Enrollment\<close>

text \<open>What the source of an enrollment gives: the provisioning record when there is one, the subject
  and the stored credentials.\<close>

record credential =
  cr_record :: "provisioning option"
  cr_subject :: "subject option"
  cr_login :: string
  cr_hash :: string
  cr_decoy_hash :: string

definition given_text :: "string option \<Rightarrow> bool" where
  "given_text v \<longleftrightarrow> text_of v \<noteq> []"

definition provisioned_source :: "env \<Rightarrow> enroll_request \<Rightarrow> credential web" where
  "provisioned_source E p =
     letM (db_get PROVISIONINGS (text_of (enr_provisioning_id p))) (\<lambda>found.
       (case found of
          None \<Rightarrow> raiseM (http_error 404 ''pod_provisioning_not_found'')
        | Some r \<Rightarrow>
            seqM (raise_if (\<not> given_text (enr_enrollment_token p)) (http_error 404 ''pod_provisioning_not_found''))
            (letM (liftM (compare_digest (hash_token E (text_of (enr_enrollment_token p))) (prov_token_hash r))) (\<lambda>same.
            seqM (raise_if (\<not> same) (http_error 403 ''invalid_enrollment_token''))
            (seqM (raise_if (prov_status r \<in> set CLOSED_STATUS \<or> prov_token_encrypted r = [])
                    (http_error 409 ''enrollment_token_consumed''))
            (seqM (refuse_expired E r)
            (letM (db_get SUBJECTS (prov_subject_id r)) (\<lambda>s.
              ret \<lparr>cr_record = Some r, cr_subject = s, cr_login = prov_login r, cr_hash = prov_password_hash r,
                   cr_decoy_hash = prov_decoy_password_hash r\<rparr>))))))))"

definition cloned_source :: "enroll_request \<Rightarrow> credential web" where
  "cloned_source p =
     letM (get_pod (text_of (enr_clone_from_pod_id p))) (\<lambda>previous.
     letM (db_get SUBJECTS (pod_subject_id previous)) (\<lambda>s.
       ret \<lparr>cr_record = None, cr_subject = s, cr_login = pod_login previous, cr_hash = pod_password_hash previous,
            cr_decoy_hash = pod_decoy_password_hash previous\<rparr>))"

definition enroll_source :: "env \<Rightarrow> enroll_request \<Rightarrow> credential web" where
  "enroll_source E p =
     (if given_text (enr_provisioning_id p) then provisioned_source E p
      else if given_text (enr_clone_from_pod_id p) then cloned_source p
      else raiseM (http_error 400 ''provisioning_or_clone_source_required''))"

text \<open>The access mode with the login and the hash that the Pod gets. Without a stored hash the operator's
  Access Key is accepted and becomes the password.\<close>

definition check_credentials ::
  "env \<Rightarrow> string \<Rightarrow> string \<Rightarrow> string \<Rightarrow> string \<Rightarrow> string \<Rightarrow> (string \<times> string \<times> string) web" where
  "check_credentials E username password login hash decoy_hash =
     (if hash \<noteq> []
      then letM (liftM (pod_access_mode E username password login hash decoy_hash)) (\<lambda>mode.
             (case mode of
                None \<Rightarrow> raiseM (http_error 403 ''invalid_credentials'')
              | Some m \<Rightarrow> ret (m, login, hash)))
      else letM (verify_direct_login E ''perimetr'' password) (\<lambda>valid.
             if \<not> valid then raiseM (http_error 403 ''invalid_credentials'')
             else letM (hash_pod_password E password) (\<lambda>h. ret (''primary'', username, h))))"

definition check_identity :: "env \<Rightarrow> enroll_request \<Rightarrow> string web" where
  "check_identity E p =
     letM (liftM (public_key_fingerprint E (enr_public_key_pem p))) (\<lambda>fingerprint.
     seqM (raise_if (upper fingerprint \<noteq> upper (enr_certificate_fingerprint p))
             (http_error 400 ''certificate_fingerprint_mismatch''))
     (letM (db_all DENYLIST (\<lambda>r. deny_value r \<in> {fingerprint, enr_device_binding_fingerprint p})) (\<lambda>blocked.
     seqM (raise_if (\<exists>r \<in> set blocked. denies ''certificate_fingerprint'' fingerprint r)
             (http_error 403 ''certificate_fingerprint_revoked''))
     (seqM (raise_if (\<exists>r \<in> set blocked. denies ''device_binding_fingerprint'' (enr_device_binding_fingerprint p) r)
             (http_error 403 ''device_binding_revoked''))
     (letM (db_scalar PODS (\<lambda>q. pod_certificate_fingerprint q = fingerprint \<and> pod_status q \<noteq> ''revoked'')) (\<lambda>dup.
     seqM (raise_if (dup \<noteq> None) (http_error 409 ''certificate_already_registered''))
       (ret fingerprint)))))))"

definition enrolled_pod ::
  "enroll_request \<Rightarrow> subject \<Rightarrow> provisioning option \<Rightarrow> string \<Rightarrow> string \<Rightarrow> string \<Rightarrow> string \<Rightarrow> int \<Rightarrow> int \<Rightarrow> string \<Rightarrow> int \<Rightarrow> pod"
where
  "enrolled_pod p s r login hash decoy_hash fingerprint activated seen i t =
     (default_pod i (sub_id s) t)\<lparr>pod_provisioning_id := map_option prov_id r, pod_name := login, pod_login := login,
        pod_password_hash := hash, pod_decoy_password_hash := decoy_hash, pod_status := ''offline'',
        pod_host_id := enr_host_id p, pod_path := ''state/profile'', pod_launcher_path := pod_executable_name login,
        pod_runtime_state := [(''network_status'', JStr ''pending''), (''temporary_tabs_count'', JInt 0)],
        pod_public_key_pem := enr_public_key_pem p, pod_certificate_fingerprint := fingerprint,
        pod_device_binding_fingerprint := enr_device_binding_fingerprint p, pod_device_binding_status := ''valid'',
        pod_version := enr_pod_version p, pod_network_profile_version := sub_network_profile_version s,
        pod_system_tabs_profile_version := sub_system_tabs_profile_version s,
        pod_activated_at := Some activated, pod_last_seen_at := Some seen\<rparr>"

text \<open>The provisioning record is used up and its token denied.\<close>

definition consume_record :: "env \<Rightarrow> subject \<Rightarrow> provisioning option \<Rightarrow> unit web" where
  "consume_record E s r = (case r of
     None \<Rightarrow> ret ()
   | Some x \<Rightarrow>
       letM (now_utc E) (\<lambda>t.
       seqM (db_set PROVISIONINGS (prov_id x)
               (\<lambda>y. y\<lparr>prov_status := ''active'', prov_activated_at := Some t, prov_token_encrypted := []\<rparr>))
       (letM (new_id E) (\<lambda>i.
         db_add DENYLIST \<lparr>deny_id = i, deny_pod_id = None, deny_subject_id = Some (sub_id s),
           deny_type = ''enrollment_token'', deny_value = prov_token_hash x, deny_reason = ''consumed''\<rparr>))))"

definition enroll_pod :: "env \<Rightarrow> enroll_request \<Rightarrow> dict web" where
  "enroll_pod E p =
     letM (enroll_source E p) (\<lambda>c.
     letM (liftM (of_option (http_error 404 ''subject_not_found'') (cr_subject c))) (\<lambda>s.
     letM (check_credentials E (enr_username p) (enr_password p) (cr_login c) (cr_hash c) (cr_decoy_hash c))
       (\<lambda>(mode, login, hash).
     seqM (liftM (validate_subject_pod_config E s))
     (letM (check_identity E p) (\<lambda>fingerprint.
     letM (now_utc E) (\<lambda>activated. letM (now_utc E) (\<lambda>seen. letM (new_id E) (\<lambda>i. letM (now_utc E) (\<lambda>t.
       (let q = enrolled_pod p s (cr_record c) login hash (cr_decoy_hash c) fingerprint activated seen i t;
            certificate = issue_identity_certificate E q (sub_entity_id s)
        in seqM (db_add PODS q)
           (seqM flush
           (seqM (db_set PODS i (\<lambda>x. x\<lparr>pod_identity_certificate := certificate\<rparr>))
           (seqM (consume_record E s (cr_record c))
           (seqM (db_set SUBJECTS (sub_id s) (\<lambda>x. x\<lparr>sub_pod_id := Some i\<rparr>))
           (seqM (audit E ''pod'' i ''pod.enrolled'' ''subject'' (sub_entity_id s) [] [(''fingerprint'', JStr fingerprint)])
           (seqM commit
           (letM (issue_pod_access_grant E i mode) (\<lambda>grant.
           letM (liftM (pod_config_for_access E s mode)) (\<lambda>config.
             ret [(''pod_id'', JStr i), (''subject_id'', JStr (sub_entity_id s)),
                  (''identity_certificate'', JStr certificate), (''status'', JStr (pod_status q)),
                  (''access_mode'', JStr mode), (''access_grant'', JStr grant),
                  (''next_heartbeat_sequence'', JInt 1), (''config'', JObj config)])))))))))))))))))))"

section \<open>Operator actions on a Pod\<close>

definition read_pod :: "string \<Rightarrow> dict web" where
  "read_pod i = letM (get_pod i) (\<lambda>p. ret (pod_read p))"

definition rename_pod :: "env \<Rightarrow> string \<Rightarrow> string \<Rightarrow> dict web" where
  "rename_pod E i name =
     letM (get_pod i) (\<lambda>p.
       (let q = p\<lparr>pod_name := text_or (strip name) (pod_name p)\<rparr>
        in seqM (db_set PODS (pod_id p) (\<lambda>x. x\<lparr>pod_name := pod_name q\<rparr>))
           (seqM (core_audit E ''pod.renamed'' ''pod'' (pod_id p) [] [(''name'', JStr (pod_name q))])
           (seqM commit (letM (subject_of_pod p) (\<lambda>s. ret (pod_payload q s)))))))"

definition change_pod_password :: "env \<Rightarrow> string \<Rightarrow> string \<Rightarrow> string \<Rightarrow> dict web" where
  "change_pod_password E i new_password confirm_password =
     letM (get_pod i) (\<lambda>p.
     seqM (raise_if (new_password \<noteq> confirm_password) (http_error 400 ''pod_password_confirmation_mismatch''))
     (letM (hash_pod_password E new_password) (\<lambda>h.
     seqM (db_set PODS (pod_id p) (\<lambda>x. x\<lparr>pod_password_hash := h\<rparr>))
     (seqM (core_audit E ''pod.password.updated'' ''pod'' (pod_id p) [] [])
     (seqM commit
       (ret [(''changed'', JBool True), (''id'', JStr (pod_id p)), (''login'', JStr (pod_login p))]))))))"

definition revoke_pod :: "env \<Rightarrow> string \<Rightarrow> dict web" where
  "revoke_pod E i =
     letM (db_scalar PODS (\<lambda>p. pod_id p = i)) (\<lambda>found.
       (case found of
          None \<Rightarrow> raiseM (http_error 404 (''pod '' @ i @ '' not found''))
        | Some p \<Rightarrow>
            seqM (whenM (pod_status p \<noteq> ''revoked'')
              (seqM (deny_pod E ''operator_deleted'' p)
              (letM (now_utc E) (\<lambda>t.
               seqM (db_set PODS (pod_id p) (\<lambda>x. x\<lparr>pod_status := ''revoked'', pod_revoked_at := Some t,
                       pod_revoke_reason := ''operator_deleted''\<rparr>))
               (letM (subject_of_pod p) (\<lambda>s.
                seqM (whenM (sub_pod_id s = Some (pod_id p))
                        (db_set SUBJECTS (sub_id s) (\<lambda>x. x\<lparr>sub_pod_id := None\<rparr>)))
                (seqM (core_audit E ''pod.revoked'' ''pod'' (pod_id p) []
                        [(''fingerprint_blacklisted'', JBool (pod_certificate_fingerprint p \<noteq> []))])
                  commit)))))))
            (ret [(''deleted'', JBool True), (''id'', JStr (pod_id p)), (''status'', JStr ''revoked'')])))"

definition release_pod :: "env \<Rightarrow> string \<Rightarrow> dict web" where
  "release_pod E i =
     letM (get_pod i) (\<lambda>p.
       (let q = p\<lparr>pod_runtime_state := set_key ''released'' (JBool True) (pod_runtime_state p)\<rparr>
        in seqM (db_set PODS (pod_id p) (\<lambda>x. x\<lparr>pod_runtime_state := pod_runtime_state q\<rparr>))
           (seqM (core_audit E ''pod.released'' ''pod'' (pod_id p) [] [(''released'', JBool True)])
           (seqM commit (ret (pod_read q))))))"

section \<open>What a Pod asks\<close>

definition pod_denied :: "string \<Rightarrow> bool web" where
  "pod_denied i = letM (db_scalar DENYLIST (denies ''pod_id'' i)) (\<lambda>found. ret (found \<noteq> None))"

text \<open>The Pod after its first login with the Access Key takes over the user name and the password.\<close>

definition adopt_credentials :: "string \<Rightarrow> string \<Rightarrow> pod \<Rightarrow> pod" where
  "adopt_credentials username hash p =
     (if pod_password_hash p \<noteq> [] then p
      else p\<lparr>pod_login := username, pod_name := username, pod_password_hash := hash\<rparr>)"

definition verify_pod_access :: "env \<Rightarrow> string \<Rightarrow> pod_login_request \<Rightarrow> dict web" where
  "verify_pod_access E i u =
     letM (get_pod i) (\<lambda>p.
     letM (if pod_status p = ''revoked'' then ret True else pod_denied (pod_id p)) (\<lambda>refused.
     seqM (raise_if refused (http_error 403 ''pod_revoked''))
     (letM (check_credentials E (plr_username u) (plr_password u) (pod_login p) (pod_password_hash p)
              (pod_decoy_password_hash p)) (\<lambda>(mode, _, hash).
     seqM (db_set PODS (pod_id p) (adopt_credentials (plr_username u) hash))
     (seqM (audit E ''pod_user'' (plr_username u) ''pod.access.verified'' ''pod'' (pod_id p) [] [])
     (seqM commit
     (letM (issue_pod_access_grant E (pod_id p) mode) (\<lambda>grant.
     letM (subject_of_pod p) (\<lambda>s.
     letM (liftM (pod_config_for_access E s mode)) (\<lambda>config.
       ret [(''allowed'', JBool True), (''status'', JStr (pod_status p)), (''access_mode'', JStr mode),
            (''access_grant'', JStr grant), (''next_heartbeat_sequence'', JInt (pod_heartbeat_sequence p + 1)),
            (''config'', JObj config)]))))))))))"

text \<open>The distance between the clock and a timestamp of the Pod is at most five minutes.\<close>

definition check_timestamp :: "env \<Rightarrow> string \<Rightarrow> instant \<Rightarrow> unit web" where
  "check_timestamp E detail observed =
     letM (now_utc E) (\<lambda>now. (case observed of
        Naive t \<Rightarrow> raiseM (Crash ''TypeError'')
      | Aware t \<Rightarrow> raise_if (seconds 300 < \<bar>now - t\<bar>) (http_error 400 detail)))"

definition zulu :: "string \<Rightarrow> string" where
  "zulu s = concat (map (\<lambda>c. if c = CHR ''Z'' then ''+00:00'' else [c]) s)"

definition read_pod_runtime_status :: "env \<Rightarrow> parsers \<Rightarrow> string \<Rightarrow> dict \<Rightarrow> dict web" where
  "read_pod_runtime_status E V i payload =
     letM (db_get PODS i) (\<lambda>found.
       (case found of
          None \<Rightarrow> letM (pod_denied i) (\<lambda>denied.
            if denied then ret [(''deleted'', JBool True), (''status'', JStr ''revoked'')]
            else raiseM (http_error 404 ''pod_not_found''))
        | Some p \<Rightarrow>
            (let fingerprint = str_or [] (get_key ''certificate_fingerprint'' payload);
                 timestamp = str_or [] (get_key ''timestamp'' payload);
                 signature = str_or [] (get_key ''signature'' payload)
             in seqM (raise_if (fingerprint = [] \<or> timestamp = [] \<or> signature = [])
                        (http_error 422 ''invalid_pod_status_request''))
                (letM (liftM (compare_digest fingerprint (pod_certificate_fingerprint p))) (\<lambda>same.
                seqM (raise_if (\<not> same) (http_error 403 ''certificate_fingerprint_mismatch''))
                (letM (liftM (of_option (http_error 422 ''invalid_pod_status_timestamp'')
                          (parse_iso V (zulu timestamp)))) (\<lambda>observed.
                seqM (check_timestamp E ''pod_status_timestamp_out_of_range'' observed)
                (seqM (liftM (verify_heartbeat_signature E (pod_public_key_pem p) payload signature))
                (letM (if pod_status p = ''revoked'' then ret True else pod_denied (pod_id p)) (\<lambda>deleted.
                  ret [(''deleted'', JBool deleted),
                       (''status'', JStr (if deleted then ''revoked'' else pod_status p))]))))))))))"

text \<open>The heartbeat of a Pod without a key, which is not signed.\<close>

definition legacy_heartbeat_pod :: "env \<Rightarrow> parsers \<Rightarrow> pod \<Rightarrow> dict \<Rightarrow> dict web" where
  "legacy_heartbeat_pod E V p payload =
     letM (liftM (of_option (Crash ''ValidationError'') (parse_legacy V payload))) (\<lambda>h.
       (let change = (\<lambda>x. x\<lparr>pod_runtime_state := [(''status'', JStr (lhb_status h)),
                (''runtime_state'', JObj (lhb_runtime_state h)), (''observed_at'', JStr (lhb_observed_iso h))],
              pod_status := lhb_status h, pod_last_seen_at := Some (lhb_observed_at h),
              pod_last_heartbeat_at := Some (lhb_observed_at h)\<rparr>)
        in seqM (db_set PODS (pod_id p) change)
           (seqM (audit E ''pod'' (pod_id p) ''pod.heartbeat'' ''pod'' (pod_id p)
                   [(''status'', JStr (lhb_status h)), (''runtime_state'', JObj (lhb_runtime_state h)),
                    (''observed_at'', JStr (lhb_observed_json h))] [(''status'', JStr (lhb_status h))])
           (seqM commit (ret (pod_read (change p)))))))"

text \<open>A device that does not match makes the Pod suspicious; that change is committed before the refusal.\<close>

definition check_device :: "env \<Rightarrow> pod \<Rightarrow> signed_heartbeat \<Rightarrow> unit web" where
  "check_device E p h =
     whenM (hb_device_binding_fingerprint h \<noteq> pod_device_binding_fingerprint p)
       (seqM (db_set PODS (pod_id p) (\<lambda>x. x\<lparr>pod_status := ''suspicious'', pod_device_binding_status := ''mismatch''\<rparr>))
       (seqM (audit E ''pod'' (pod_id p) ''pod.device_binding.mismatch'' ''pod'' (pod_id p) [] [])
       (seqM commit (raiseM (http_error 403 ''device_binding_mismatch'')))))"

definition heartbeat_mode :: "env \<Rightarrow> pod \<Rightarrow> signed_heartbeat \<Rightarrow> failure + string" where
  "heartbeat_mode E p h =
     (if hb_access_grant h \<noteq> [] then verify_pod_access_grant E (hb_access_grant h) (pod_id p)
      else if pod_decoy_password_hash p \<noteq> [] then Inl (http_error 403 ''pod_access_grant_required'')
      else Inr ''primary'')"

definition beat :: "signed_heartbeat \<Rightarrow> subject \<Rightarrow> int \<Rightarrow> int \<Rightarrow> pod \<Rightarrow> pod" where
  "beat h s seen heard p =
     p\<lparr>pod_heartbeat_sequence := hb_sequence h, pod_status := ''active'',
       pod_device_binding_status := hb_device_binding_status h, pod_version := hb_pod_version h,
       pod_xray_version := hb_xray_version h, pod_last_seen_at := Some seen, pod_last_heartbeat_at := Some heard,
       pod_runtime_state := [(''network_status'', JStr (hb_network_status h)),
         (''proxy_engine'', JStr (hb_proxy_engine h)), (''temporary_tabs_count'', JInt (hb_temporary_tabs_count h))],
       pod_network_profile_version := sub_network_profile_version s,
       pod_system_tabs_profile_version := sub_system_tabs_profile_version s\<rparr>"

definition session_opened :: "env \<Rightarrow> pod \<Rightarrow> subject \<Rightarrow> signed_heartbeat \<Rightarrow> unit web" where
  "session_opened E p s h =
     whenM (hb_network_status h = ''proxy_verified''
            \<and> get_or_null ''network_status'' (pod_runtime_state p) \<noteq> JStr ''proxy_verified'')
       (audit E ''pod'' (pod_id p) ''pod.session.opened'' ''pod'' (pod_id p) []
          [(''subject_id'', JStr (sub_entity_id s)), (''network_status'', JStr (hb_network_status h))])"

definition signed_heartbeat_pod :: "env \<Rightarrow> parsers \<Rightarrow> pod \<Rightarrow> dict \<Rightarrow> dict web" where
  "signed_heartbeat_pod E V p payload =
     letM (liftM (of_option (http_error 422 ''invalid_pod_heartbeat'') (parse_signed V payload))) (\<lambda>h.
     seqM (raise_if (pod_status p = ''revoked'') (http_error 403 ''pod_revoked''))
     (letM (db_scalar DENYLIST (denies ''certificate_fingerprint'' (hb_certificate_fingerprint h))) (\<lambda>denied.
     seqM (raise_if (denied \<noteq> None) (http_error 403 ''certificate_fingerprint_revoked''))
     (seqM (raise_if (hb_certificate_fingerprint h \<noteq> pod_certificate_fingerprint p)
             (http_error 403 ''certificate_fingerprint_mismatch''))
     (seqM (check_device E p h)
     (seqM (raise_if (hb_sequence h \<le> pod_heartbeat_sequence p) (http_error 409 ''heartbeat_replay_detected''))
     (seqM (check_timestamp E ''heartbeat_timestamp_out_of_range'' (hb_timestamp h))
     (seqM (liftM (verify_heartbeat_signature E (pod_public_key_pem p) payload (hb_signature h)))
     (letM (liftM (heartbeat_mode E p h)) (\<lambda>mode.
     letM (now_utc E) (\<lambda>seen. letM (now_utc E) (\<lambda>heard.
     letM (subject_of_pod p) (\<lambda>s.
     seqM (db_set PODS (pod_id p) (beat h s seen heard))
     (seqM (session_opened E p s h)
     (seqM (audit E ''pod'' (pod_id p) ''pod.heartbeat'' ''pod'' (pod_id p) []
             [(''status'', JStr ''active''), (''network_status'', JStr (hb_network_status h))])
     (seqM commit
     (letM (liftM (pod_config_for_access E s mode)) (\<lambda>config.
       ret [(''allowed'', JBool True), (''status'', JStr ''active''),
            (''lease_seconds'', JInt (perimetr_pod_offline_after_sec (cfg E))), (''config'', JObj config)]))))))))))))))))))"

definition heartbeat_pod :: "env \<Rightarrow> parsers \<Rightarrow> string \<Rightarrow> dict \<Rightarrow> dict web" where
  "heartbeat_pod E V i payload =
     letM (get_pod i) (\<lambda>p.
       if pod_public_key_pem p = [] then legacy_heartbeat_pod E V p payload else signed_heartbeat_pod E V p payload)"

end
