(* ===== verification/Iso_Time.thy ===== *)
theory Iso_Time
  imports Clock Json_Round_Trip
begin

text \<open>
  \<open>datetime.fromisoformat\<close>: calendar dates and week dates, with and without separators, times down to the fraction of a second
  and offsets from UTC. What \<open>isoformat()\<close> writes is read back as the same moment.
\<close>

section \<open>The calendar\<close>

text \<open>The day number of a date, with years that begin in March, as \<open>civil\<close> has them.\<close>

definition day_number :: "int \<Rightarrow> int \<Rightarrow> int \<Rightarrow> int" where
  "day_number y m d =
     (let y' = (if m \<le> 2 then y - 1 else y); era = y' div 400; yoe = y' mod 400;
          doy = (153 * ((m + 9) mod 12) + 2) div 5 + d - 1
      in era * 146097 + (yoe * 365 + yoe div 4 - yoe div 100 + doy) - 719468)"

text \<open>A date of the calendar is one that its day number leads back to.\<close>

definition real_date :: "int \<Rightarrow> int \<Rightarrow> int \<Rightarrow> bool" where
  "real_date y m d \<longleftrightarrow> 1 \<le> y \<and> y \<le> 9999 \<and> civil (day_number y m d) = (y, m, d)"

text \<open>The years of an era.\<close>

definition year_count :: "int \<Rightarrow> int" where
  "year_count n = n - n div 1460 + n div 36524 - n div 146096"

definition year_start :: "int \<Rightarrow> int" where
  "year_start y = 365 * y + y div 4 - y div 100"

lemma div_step:
  assumes "0 < (k :: int)"
  shows "(n + 1) div k = n div k + (if k dvd n + 1 then 1 else 0)"
proof (cases "k dvd n + 1")
  case True
  then obtain q where "n + 1 = k * q" by blast
  then have "n = k * (q - 1) + (k - 1)" by (simp add: algebra_simps)
  then have "n div k = q - 1" by (rule int_div_pos_eq) (use assms in simp_all)
  moreover have "(n + 1) div k = q" using assms \<open>n + 1 = k * q\<close> by simp
  ultimately show ?thesis using True by simp
next
  case False
  then have "0 < (n + 1) mod k" using pos_mod_sign [OF assms, of "n + 1"] by (simp add: dvd_eq_mod_eq_0)
  moreover have "n = k * ((n + 1) div k) + ((n + 1) mod k - 1)" by (metis add_diff_cancel_right' add_diff_eq mult_div_mod_eq)
  moreover have "(n + 1) mod k < k" using assms by simp
  ultimately have "n div k = (n + 1) div k" by (intro int_div_pos_eq [of n k "(n + 1) div k" "(n + 1) mod k - 1"]) simp_all
  with False show ?thesis by simp
qed

lemma year_count_step: "year_count n \<le> year_count (n + 1)"
proof -
  have "36524 dvd n + 1" if "146096 dvd n + 1" using that by (rule dvd_trans [rotated]) simp
  then show ?thesis by (simp add: year_count_def div_step)
qed

lemma year_count_mono: "a \<le> b \<Longrightarrow> year_count a \<le> year_count b"
proof (induction "nat (b - a)" arbitrary: b)
  case (Suc n)
  then have "year_count a \<le> year_count (b - 1)" by auto
  also have "\<dots> \<le> year_count b" using year_count_step [of "b - 1"] by simp
  finally show ?case .
qed simp

definition year_fits :: "nat \<Rightarrow> bool" where
  "year_fits n \<longleftrightarrow> year_count (year_start (int n)) div 365 = int n
     \<and> year_count (year_start (int n + 1) - (if n = 399 then 0 else 1)) div 365 = int n"

fun years_fit :: "nat \<Rightarrow> bool" where
  "years_fit 0 = True"
| "years_fit (Suc n) \<longleftrightarrow> year_fits n \<and> years_fit n"

lemma years_fit_400: "years_fit 400"
  by code_simp

lemma years_fit_iff: "years_fit k \<longleftrightarrow> (\<forall>n < k. year_fits n)"
  by (induction k) (auto simp: less_Suc_eq)

lemma year_start_step: "0 \<le> y \<Longrightarrow> year_start y + 365 \<le> year_start (y + 1) \<and> year_start (y + 1) \<le> year_start y + 366"
proof -
  have "4 dvd y + 1" if "100 dvd y + 1" using that by (rule dvd_trans [rotated]) simp
  moreover have "(y + 1) div 4 = y div 4 + (if 4 dvd y + 1 then 1 else 0)" "(y + 1) div 100 = y div 100 + (if 100 dvd y + 1 then 1 else 0)"
    by (rule div_step, simp)+
  ultimately show ?thesis unfolding year_start_def by (auto split: if_splits)
qed

text \<open>Every day of an era belongs to exactly one year.\<close>

lemma year_exists:
  assumes "0 \<le> doe" and "doe \<le> 146096"
  shows "\<exists>y. 0 \<le> y \<and> y \<le> 399 \<and> year_start y \<le> doe \<and> doe \<le> year_start (y + 1) - (if y = 399 then 0 else 1)"
proof -
  define S where "S = {n :: nat. n \<le> 399 \<and> year_start (int n) \<le> doe}"
  have S: "finite S" "0 \<in> S" using assms by (auto simp: S_def year_start_def)
  define n where "n = Max S"
  have n: "n \<in> S" using Max_in S by (auto simp: n_def)
  have "doe < year_start (int n + 1)" if "n < 399"
  proof (rule ccontr)
    assume "\<not> doe < year_start (int n + 1)"
    then have "Suc n \<in> S" using that by (simp add: S_def add.commute)
    then have "Suc n \<le> n" unfolding n_def using S by (intro Max_ge) simp_all
    then show False by simp
  qed
  moreover have "doe \<le> year_start 400" using assms by (simp add: year_start_def)
  ultimately show ?thesis using n by (intro exI [of _ "int n"]) (auto simp: S_def)
qed

lemma year_of_day:
  assumes "0 \<le> doe" and "doe \<le> 146096"
  defines "y \<equiv> year_count doe div 365"
  shows "0 \<le> y" "y \<le> 399" "0 \<le> doe - year_start y" "doe - year_start y \<le> 366"
proof -
  obtain x where x: "0 \<le> x" "x \<le> 399" "year_start x \<le> doe" "doe \<le> year_start (x + 1) - (if x = 399 then 0 else 1)"
    using year_exists [OF assms(1,2)] by blast
  obtain n where n: "x = int n" using x(1) by (metis nonneg_int_cases)
  then have "n < 400" using x(2) by simp
  from years_fit_400 \<open>n < 400\<close> have "year_fits n" by (simp add: years_fit_iff)
  then have e: "year_count (year_start x) div 365 = x"
    "year_count (year_start (x + 1) - (if x = 399 then 0 else 1)) div 365 = x" by (simp_all add: year_fits_def n)
  have "x \<le> y" unfolding y_def using zdiv_mono1 [OF year_count_mono [OF x(3)], of 365] e(1) by simp
  moreover have "y \<le> x" unfolding y_def using zdiv_mono1 [OF year_count_mono [OF x(4)], of 365] e(2) by simp
  ultimately have "y = x" by simp
  with x year_start_step [OF x(1)] show "0 \<le> y" "y \<le> 399" "0 \<le> doe - year_start y" "doe - year_start y \<le> 366"
    by (auto split: if_splits)
qed

lemma civil_facts:
  assumes c: "civil n = (y, m, d)"
  shows "day_number y m d = n" "1 \<le> m" "m \<le> 12" "1 \<le> d" "d \<le> 99"
proof -
  define era where "era = (n + 719468) div 146097"
  define doe where "doe = (n + 719468) mod 146097"
  define yoe where "yoe = year_count doe div 365"
  define doy where "doy = doe - year_start yoe"
  define mp where "mp = (5 * doy + 2) div 153"
  have doe: "0 \<le> doe" "doe \<le> 146096" by (simp_all add: doe_def)
  have b: "0 \<le> yoe" "yoe \<le> 399" "0 \<le> doy" "doy \<le> 366"
    using year_of_day [of doe, folded yoe_def doy_def] doe by blast+
  have mp: "0 \<le> mp" "mp \<le> 11" 
    using zdiv_mono1 [of 2 "5 * doy + 2" 153] zdiv_mono1 [of "5 * doy + 2" 1832 153] b(3,4) by (simp_all add: mp_def)
  define mm where "mm = (if mp < 10 then mp + 3 else mp - 9)"
  have "civil n = (yoe + era * 400 + (if mm \<le> 2 then 1 else 0), mm, doy - (153 * mp + 2) div 5 + 1)"
    unfolding civil_def Let_def mm_def mp_def doy_def yoe_def doe_def era_def year_count_def year_start_def by (rule refl)
  with c have ymd: "y = yoe + era * 400 + (if m \<le> 2 then 1 else 0)" "m = mm" "d = doy - (153 * mp + 2) div 5 + 1"
    by auto
  have "(m + 9) mod 12 = mp" using mp ymd(2) by (auto simp: mm_def)
  moreover have "(if m \<le> 2 then y - 1 else y) = yoe + 400 * era" using ymd(1) by simp
  moreover have "(yoe + 400 * era) div 400 = era" "(yoe + 400 * era) mod 400 = yoe" using b by simp_all
  ultimately have "day_number y m d = era * 146097 + (yoe * 365 + yoe div 4 - yoe div 100 + ((153 * mp + 2) div 5 + d - 1)) - 719468"
    by (simp add: day_number_def Let_def)
  also have "\<dots> = era * 146097 + doe - 719468" using ymd(3) by (simp add: doy_def year_start_def)
  also have "\<dots> = n" by (simp add: era_def doe_def)
  finally show "day_number y m d = n" .
  show "1 \<le> m" "m \<le> 12" using mp ymd(2) by (auto simp: mm_def)
  have "153 * mp \<le> 5 * doy + 2" "5 * doy + 2 < 153 * mp + 153" by (simp_all add: mp_def)
  moreover have "5 * ((153 * mp + 2) div 5) \<le> 153 * mp + 2" "153 * mp + 2 < 5 * ((153 * mp + 2) div 5) + 5" by simp_all
  ultimately show "1 \<le> d" "d \<le> 99" using ymd(3) by linarith+
qed

section \<open>Dates\<close>

text \<open>A number of exactly \<open>n\<close> digits at the start of a text.\<close>

definition take_digits :: "nat \<Rightarrow> string \<Rightarrow> (int \<times> string) option" where
  "take_digits n s = (if length (take n s) = n \<and> list_all is_digit (take n s)
     then Some (int (digits_val 0 (take n s)), drop n s) else None)"

text \<open>Where the date ends: a date or a week date, extended or basic.\<close>

definition date_end :: "string \<Rightarrow> nat option" where
  "date_end s =
     (if length s < 7 then None
      else if length s = 7 then Some 7
      else if s ! 4 = CHR ''-'' then
        (if s ! 5 \<noteq> CHR ''W'' then Some 10
         else if 8 < length s \<and> s ! 8 = CHR ''-'' then
           (if length s = 9 then None else if 10 < length s \<and> is_digit (s ! 10) then Some 8 else Some 10)
         else Some 8)
      else if s ! 4 = CHR ''W'' then
        (let idx = 7 + length (takeWhile is_digit (drop 7 s))
         in if idx < 9 then Some idx else if even idx then Some 7 else Some 8)
      else Some 8)"

definition week_one :: "int \<Rightarrow> int" where
  "week_one y = (let n = day_number y 1 4 in n - (n + 3) mod 7)"

definition week_date :: "int \<Rightarrow> int \<Rightarrow> int \<Rightarrow> int option" where
  "week_date y week day =
     (let n = week_one y + (week - 1) * 7 + day - 1; (y', m, d) = civil n
      in if 1 \<le> y \<and> y \<le> 9999 \<and> 1 \<le> week \<and> week \<le> 53 \<and> 1 \<le> day \<and> day \<le> 7
           \<and> (week = 53 \<longrightarrow> week_one y + 52 * 7 < week_one (y + 1)) \<and> 1 \<le> y' \<and> y' \<le> 9999
         then Some n else None)"

text \<open>A separator that is there in the whole date or not at all.\<close>

definition after_separator :: "char \<Rightarrow> bool \<Rightarrow> string \<Rightarrow> string option" where
  "after_separator c present s = (if present then (if s \<noteq> [] \<and> hd s = c then Some (tl s) else None) else Some s)"

definition iso_date :: "string \<Rightarrow> int option" where
  "iso_date s =
     Option.bind (take_digits 4 s) (\<lambda>(y, r).
     (let sep = (r \<noteq> [] \<and> hd r = CHR ''-''); r1 = (if sep then tl r else r)
      in if r1 \<noteq> [] \<and> hd r1 = CHR ''W'' then
           Option.bind (take_digits 2 (tl r1)) (\<lambda>(week, r2).
             if r2 = [] then week_date y week 1
             else Option.bind (after_separator CHR ''-'' sep r2) (\<lambda>r3.
                  Option.bind (take_digits 1 r3) (\<lambda>(day, r4). if r4 = [] then week_date y week day else None)))
         else
           Option.bind (take_digits 2 r1) (\<lambda>(m, r2).
           Option.bind (after_separator CHR ''-'' sep r2) (\<lambda>r3.
           Option.bind (take_digits 2 r3) (\<lambda>(d, r4).
             if r4 = [] \<and> real_date y m d then Some (day_number y m d) else None)))))"

section \<open>Times\<close>

text \<open>\<open>HH\<close>, \<open>HH:MM\<close>, \<open>HH:MM:SS\<close> with a fraction, or without the colons; the fraction is cut to microseconds.\<close>

definition fraction :: "string \<Rightarrow> int option" where
  "fraction s =
     (case s of
        [] \<Rightarrow> Some 0
      | c # f \<Rightarrow> if c \<in> {CHR ''.'', CHR '',''} \<and> f \<noteq> [] \<and> list_all is_digit f
          then Some (int (digits_val 0 (take 6 f)) * 10 ^ (6 - length (take 6 f))) else None)"

definition clock_time :: "string \<Rightarrow> (int \<times> int \<times> int \<times> int) option" where
  "clock_time s =
     Option.bind (take_digits 2 s) (\<lambda>(h, r).
       if r = [] then Some (h, 0, 0, 0)
       else (let sep = (hd r = CHR '':'')
         in Option.bind (after_separator CHR '':'' sep r) (\<lambda>r1.
            Option.bind (take_digits 2 r1) (\<lambda>(m, r2).
              if r2 = [] then Some (h, m, 0, 0)
              else Option.bind (after_separator CHR '':'' sep r2) (\<lambda>r3.
                   Option.bind (take_digits 2 r3) (\<lambda>(sec, r4).
                     map_option (\<lambda>us. (h, m, sec, us)) (fraction r4)))))))"

definition microseconds :: "int \<times> int \<times> int \<times> int \<Rightarrow> int" where
  "microseconds = (\<lambda>(h, m, sec, us). ((h * 60 + m) * 60 + sec) * SECOND + us)"

text \<open>The offset: none, \<open>Z\<close>, or a sign and a time of less than a day.\<close>

definition iso_offset :: "string \<Rightarrow> int option option" where
  "iso_offset s =
     (case s of
        [] \<Rightarrow> Some None
      | c # r \<Rightarrow>
          if c = CHR ''Z'' then (if r = [] then Some (Some 0) else None)
          else Option.bind (clock_time r) (\<lambda>t.
            if microseconds t < DAY then Some (Some (if c = CHR ''-'' then - microseconds t else microseconds t)) else None))"

definition iso_clock :: "string \<Rightarrow> (int \<times> int option) option" where
  "iso_clock s =
     (let local = takeWhile (\<lambda>c. c \<notin> {CHR ''+'', CHR ''-'', CHR ''Z''}) s
      in Option.bind (clock_time local) (\<lambda>(h, m, sec, us).
         Option.bind (iso_offset (drop (length local) s)) (\<lambda>off.
           if h < 24 \<and> m < 60 \<and> sec < 60 then Some (microseconds (h, m, sec, us), off) else None)))"

text \<open>The local time in microseconds and the offset, if it has one.\<close>

definition fromisoformat :: "string \<Rightarrow> (int \<times> int option) option" where
  "fromisoformat s =
     Option.bind (date_end s) (\<lambda>k.
     Option.bind (iso_date (take k s)) (\<lambda>day.
       if drop (k + 1) s = [] then Some (day * DAY, None)
       else map_option (\<lambda>(t, off). (day * DAY + t, off)) (iso_clock (drop (k + 1) s))))"

definition in_utc :: "int \<times> int option \<Rightarrow> int" where
  "in_utc = (\<lambda>(t, off). t - (case off of None \<Rightarrow> 0 | Some z \<Rightarrow> z))"

lemma fromisoformat_examples:
  "fromisoformat ''1970-01-02T00:00:01+01:00'' = Some (86401000000, Some 3600000000)"
  "fromisoformat ''1970-W01-5'' = Some (86400000000, None)"
  "fromisoformat ''19700102T0000'' = Some (86400000000, None)"
  "fromisoformat ''1970-02-30'' = None"
  by code_simp+

section \<open>What \<open>isoformat\<close> writes is read back\<close>

lemma length_str_nat: "n < 10 ^ Suc k \<Longrightarrow> length (str_nat n) \<le> Suc k"
proof (induction k arbitrary: n)
  case (Suc k)
  show ?case
  proof (cases "n < 10")
    case False
    have "n div 10 < 10 ^ Suc k" using Suc.prems by (simp add: less_mult_imp_div_less mult.commute)
    from Suc.IH [OF this] False show ?thesis by (simp add: str_nat.simps [of n])
  qed (simp add: str_nat.simps)
qed (simp add: str_nat.simps)

lemma digits_val_zeros: "digits_val 0 (replicate k CHR ''0'' @ s) = digits_val 0 s"
  by (induction k) (simp_all add: digit_val_def)

lemma zfill_digits:
  assumes "0 \<le> v" and "v < 10 ^ Suc k"
  shows "length (zfill (Suc k) v) = Suc k" "list_all is_digit (zfill (Suc k) v)" "int (digits_val 0 (zfill (Suc k) v)) = v"
proof -
  have "nat v < 10 ^ Suc k" using assms by (simp add: nat_less_iff)
  from length_str_nat [OF this] show "length (zfill (Suc k) v) = Suc k" by (simp add: zfill_def Let_def)
  show "list_all is_digit (zfill (Suc k) v)"
    using str_nat_digits [of "nat v"] by (auto simp: zfill_def Let_def list_all_iff is_digit_def set_replicate_conv_if)
  show "int (digits_val 0 (zfill (Suc k) v)) = v"
    using str_nat_digits [of "nat v"] assms(1) by (simp add: zfill_def Let_def digits_val_zeros)
qed

lemma take_zfill: "0 \<le> v \<Longrightarrow> v < 10 ^ Suc k \<Longrightarrow> take_digits (Suc k) (zfill (Suc k) v @ r) = Some (v, r)"
  by (simp add: take_digits_def zfill_digits)

lemma real_civil: "civil n = (y, m, d) \<Longrightarrow> 1 \<le> y \<Longrightarrow> y \<le> 9999 \<Longrightarrow> real_date y m d"
  by (simp add: real_date_def civil_facts(1))

lemma iso_date_zfill:
  assumes "civil n = (y, m, d)" and "1 \<le> y" and "y \<le> 9999"
  shows "iso_date (zfill 4 y @ ''-'' @ zfill 2 m @ ''-'' @ zfill 2 d) = Some n"
proof -
  have t: "take_digits 4 (zfill 4 y @ r) = Some (y, r)" "take_digits 2 (zfill 2 m @ r) = Some (m, r)"
    "take_digits 2 (zfill 2 d @ r) = Some (d, r)" for r
    using take_zfill [of y 3 r] take_zfill [of m 1 r] take_zfill [of d 1 r] assms(2,3) civil_facts [OF assms(1)]
    by (simp_all add: numeral_eq_Suc)
  have "hd (zfill 2 m @ r) \<noteq> CHR ''W''" for r
  proof -
    have "length (zfill 2 m) = 2" "list_all is_digit (zfill 2 m)"
      using zfill_digits [of m 1] civil_facts [OF assms(1)] by (simp_all add: numeral_2_eq_2)
    then show ?thesis by (cases "zfill 2 m") (auto simp: is_digit_def)
  qed
  then show ?thesis
    using t(3) [of "[]"] real_civil [OF assms] civil_facts(1) [OF assms(1)]
    by (simp add: iso_date_def t after_separator_def Let_def)
qed

definition stamp_fraction :: "int \<Rightarrow> string" where
  "stamp_fraction f = (if f = 0 then [] else ''.'' @ zfill 6 f)"

lemma fraction_stamp: "0 \<le> f \<Longrightarrow> f < 1000000 \<Longrightarrow> fraction (stamp_fraction f) = Some f"
  using zfill_digits [of f 5] by (auto simp: fraction_def stamp_fraction_def numeral_eq_Suc)

lemma clock_time_zfill:
  assumes "0 \<le> h" "h < 100" "0 \<le> m" "m < 100" "0 \<le> sec" "sec < 100" "0 \<le> f" "f < 1000000"
  shows "clock_time (zfill 2 h @ '':'' @ zfill 2 m @ '':'' @ zfill 2 sec @ stamp_fraction f) = Some (h, m, sec, f)"
proof -
  have t: "take_digits 2 (zfill 2 v @ r) = Some (v, r)" if "0 \<le> v" "v < 100" for v r
    using take_zfill [of v 1 r] that by (simp add: numeral_2_eq_2)
  show ?thesis by (simp add: clock_time_def t assms after_separator_def fraction_stamp)
qed

lemma drop_prefix: "drop (length x) (x @ y) = y"
  by simp

lemma iso_clock_parts:
  assumes "takeWhile (\<lambda>c. c \<notin> {CHR ''+'', CHR ''-'', CHR ''Z''}) s = p" and "clock_time p = Some (h, m, sec, us)"
    and "iso_offset (drop (length p) s) = Some off" and "h < 24" and "m < 60" and "sec < 60"
  shows "iso_clock s = Some (microseconds (h, m, sec, us), off)"
  using assms by (simp add: iso_clock_def Let_def)

lemma fromisoformat_parts:
  "date_end s = Some k \<Longrightarrow> iso_date (take k s) = Some day \<Longrightarrow> drop (k + 1) s = c \<Longrightarrow> c \<noteq> [] \<Longrightarrow> iso_clock c = Some (u, off) \<Longrightarrow>
     fromisoformat s = Some (day * DAY + u, off)"
  by (auto simp: fromisoformat_def)

lemma local_part:
  assumes "list_all is_digit a" and "list_all is_digit b" and "list_all is_digit c"
    and "f = [] \<or> (\<exists>x. f = CHR ''.'' # x \<and> list_all is_digit x)"
  shows "takeWhile (\<lambda>c. c \<notin> {CHR ''+'', CHR ''-'', CHR ''Z''}) ((a @ '':'' @ b @ '':'' @ c @ f) @ ''+00:00'') = a @ '':'' @ b @ '':'' @ c @ f"
proof -
  let ?P = "\<lambda>c. c \<notin> {CHR ''+'', CHR ''-'', CHR ''Z''}"
  have d: "\<forall>c \<in> set x. ?P c" if "list_all is_digit x" for x using that by (auto simp: list_all_iff is_digit_def)
  have "\<forall>c \<in> set f. ?P c" using assms(4)
  proof (elim disjE exE conjE)
    fix x assume "f = CHR ''.'' # x" "list_all is_digit x"
    with d [of x] show ?thesis by simp
  qed simp
  with d [OF assms(1)] d [OF assms(2)] d [OF assms(3)] have "\<forall>c \<in> set (a @ '':'' @ b @ '':'' @ c @ f). ?P c"
    unfolding set_append ball_Un by simp
  then have "takeWhile ?P ((a @ '':'' @ b @ '':'' @ c @ f) @ ''+00:00'') = (a @ '':'' @ b @ '':'' @ c @ f) @ takeWhile ?P ''+00:00''"
    by (intro takeWhile_append2) blast
  then show ?thesis by simp
qed

theorem fromisoformat_isoformat:
  assumes "civil (t div DAY) = (y, m, d)" and "1 \<le> y" and "y \<le> 9999"
  shows "fromisoformat (isoformat t) = Some (t, Some 0)"
proof -
  define us where "us = t mod DAY"
  define s where "s = us div SECOND"
  define f where "f = us mod SECOND"
  have us: "0 \<le> us" "us < DAY" by (simp_all add: us_def DAY_def)
  have f: "0 \<le> f" "f < 1000000" by (simp_all add: f_def SECOND_def)
  have s: "0 \<le> s" "s < 86400"
    using us zdiv_mono1 [of us "DAY - 1" SECOND] by (simp_all add: s_def DAY_def SECOND_def pos_imp_zdiv_nonneg_iff)
  let ?h = "s div 3600" and ?m = "s div 60 mod 60" and ?s = "s mod 60"
  have h: "0 \<le> ?h" "?h < 24"
    using s zdiv_mono1 [of s 86399 3600] by (simp_all add: pos_imp_zdiv_nonneg_iff)
  have total: "(?h * 60 + ?m) * 60 + ?s = s"
    using div_mult_mod_eq [of "s div 60" 60] div_mult_mod_eq [of s 60] by (simp add: zdiv_zmult2_eq [symmetric])
  let ?date = "zfill 4 y @ ''-'' @ zfill 2 m @ ''-'' @ zfill 2 d"
  let ?clock = "zfill 2 ?h @ '':'' @ zfill 2 ?m @ '':'' @ zfill 2 ?s @ stamp_fraction f"
  have shape: "isoformat t = ?date @ ''T'' @ ?clock @ ''+00:00''"
    by (simp add: isoformat_def time_text_def assms(1) Let_def us_def s_def f_def stamp_fraction_def)
  have z: "length (zfill 2 v) = 2 \<and> list_all is_digit (zfill 2 v)" if "0 \<le> v" "v < 100" for v
    using zfill_digits [of v 1] that by (simp add: numeral_2_eq_2)
  have y: "length (zfill 4 y) = 4" using zfill_digits(1) [of y 3] assms(2,3) by (simp add: numeral_eq_Suc)
  have md: "length (zfill 2 m) = 2 \<and> list_all is_digit (zfill 2 m)" "length (zfill 2 d) = 2"
    using z [of m] z [of d] civil_facts [OF assms(1)] by simp_all
  have len: "length ?date = 10" using y md by simp
  have "zfill 2 m ! 0 \<noteq> CHR ''W''" using md(1) by (cases "zfill 2 m") (auto simp: is_digit_def)
  then have end_at: "date_end (isoformat t) = Some 10"
    using y md by (simp add: shape date_end_def nth_append)
  have z2: "length (zfill 2 v) = 2" "list_all is_digit (zfill 2 v)" if "v \<in> {?h, ?m, ?s}" for v
    using z [of v] that h by auto
  have "list_all is_digit (zfill 6 f)" using zfill_digits(2) [of f 5] f by (simp add: numeral_eq_Suc)
  then have "stamp_fraction f = [] \<or> (\<exists>x. stamp_fraction f = CHR ''.'' # x \<and> list_all is_digit x)" by (simp add: stamp_fraction_def)
  then have stop: "takeWhile (\<lambda>c. c \<notin> {CHR ''+'', CHR ''-'', CHR ''Z''}) (?clock @ ''+00:00'') = ?clock"
    using z2(2) [of ?h] z2(2) [of ?m] z2(2) [of ?s] by (intro local_part) simp_all
  have "clock_time ''00:00'' = Some (0, 0, 0, 0)" by code_simp
  then have "iso_offset ''+00:00'' = Some (Some 0)" by (simp add: iso_offset_def microseconds_def DAY_def)
  moreover have "drop (length ?clock) (?clock @ ''+00:00'') = ''+00:00''" by (rule drop_prefix)
  moreover have "clock_time ?clock = Some (?h, ?m, ?s, f)" using h f by (intro clock_time_zfill) simp_all
  ultimately have "iso_clock (?clock @ ''+00:00'') = Some (microseconds (?h, ?m, ?s, f), Some 0)"
    using h by (intro iso_clock_parts [OF stop]) simp_all
  moreover have "microseconds (?h, ?m, ?s, f) = us" using total by (simp add: microseconds_def s_def f_def)
  ultimately have c: "iso_clock (?clock @ ''+00:00'') = Some (us, Some 0)" by simp
  have p: "take 10 (isoformat t) = ?date" "drop (10 + 1) (isoformat t) = ?clock @ ''+00:00''"
    using y md by (simp_all add: shape)
  have "fromisoformat (isoformat t) = Some (t div DAY * DAY + us, Some 0)"
    by (rule fromisoformat_parts [OF end_at _ p(2) _ c]) (simp_all add: p(1) iso_date_zfill [OF assms, simplified])
  then show ?thesis by (simp add: us_def)
qed

end
