(* ===== verification/Logs_Api.thy ===== *)
theory Logs_Api
  imports Audit_Log Pod_Access Iso_Time
begin

text \<open>
  \<open>app/logs_api.py\<close> and the files of \<open>app/logs_service/service.py\<close>: events recorded by the interface, the pages of the audit trail
  with their cursors, the diagnostic export, and the log files with their rotation and retention.
\<close>

section \<open>Events as JSON\<close>

definition serialize :: "audit_event \<Rightarrow> json" where
  "serialize e = bounded (JObj [(''id'', JStr (ev_id e)), (''created_at'', JStr (isoformat (ev_created_at e))),
     (''actor'', JStr (ev_actor_type e @ '':'' @ ev_actor_id e)), (''action'', JStr (ev_action e)),
     (''target'', JStr (ev_target_type e @ '':'' @ ev_target_id e)),
     (''payload'', ev_payload e), (''result'', ev_result e)]) 16384"

definition event_line :: "audit_event \<Rightarrow> string" where
  "event_line e = render '', '' '': '' False (serialize e) @ [CHR 0x0a]"

section \<open>Cursors\<close>

definition cursor :: "audit_event \<Rightarrow> string" where
  "cursor e = urlsafe_b64encode (render '', '' '': '' False (JArr [JStr (isoformat (ev_created_at e)), JStr (ev_id e)]))"

text \<open>\<open>stamp, identifier = value\<close>: a list of two, a text of two characters or an object with two keys.\<close>

definition unpack_two :: "json \<Rightarrow> (json \<times> json) option" where
  "unpack_two v = (case v of
     JArr [a, b] \<Rightarrow> Some (a, b)
   | JStr [a, b] \<Rightarrow> Some (JStr [a], JStr [b])
   | JObj [a, b] \<Rightarrow> Some (JStr (fst a), JStr (fst b))
   | _ \<Rightarrow> None)"

definition invalid_cursor :: failure where
  "invalid_cursor = http_error 422 ''Invalid log cursor''"

text \<open>The text of a cursor is read as UTF-8. A time without an offset is one in UTC.\<close>

definition position :: "string \<Rightarrow> failure + (int \<times> string)" where
  "position value =
     (case Option.bind (Option.bind (Option.bind (urlsafe_b64decode value) utf8_decode) loads) unpack_two of
        Some (JStr stamp, JStr identifier) \<Rightarrow>
          if length identifier \<noteq> 32 then Inl invalid_cursor
          else (case fromisoformat stamp of None \<Rightarrow> Inl invalid_cursor | Some t \<Rightarrow> Inr (in_utc t, identifier))
      | _ \<Rightarrow> Inl invalid_cursor)"

section \<open>Pages\<close>

definition event_key :: "audit_event \<Rightarrow> int \<times> string" where
  "event_key e = (ev_created_at e, ev_id e)"

definition key_less :: "int \<times> string \<Rightarrow> int \<times> string \<Rightarrow> bool" where
  "key_less a b \<longleftrightarrow> fst a < fst b \<or> fst a = fst b \<and> snd a < snd b"

text \<open>A condition on the key, if a cursor is given; the empty text is none.\<close>

definition bound :: "((int \<times> string) \<Rightarrow> (int \<times> string) \<Rightarrow> bool) \<Rightarrow> string option \<Rightarrow> failure + (audit_event \<Rightarrow> bool)" where
  "bound cmp value = (case value of
     None \<Rightarrow> Inr (\<lambda>e. True)
   | Some v \<Rightarrow> if v = [] then Inr (\<lambda>e. True)
       else (case position v of Inl x \<Rightarrow> Inl x | Inr k \<Rightarrow> Inr (\<lambda>e. cmp (event_key e) k)))"

definition some_text :: "string option \<Rightarrow> bool" where
  "some_text v \<longleftrightarrow> v \<noteq> None \<and> v \<noteq> Some []"

record log_page =
  page_events :: "audit_event list"
  page_more :: bool
  page_older :: "string option"
  page_live :: "string option"

text \<open>The page as events; the framework has checked that the limit is between 1 and 1000.\<close>

definition log_page_of :: "nat \<Rightarrow> string option \<Rightarrow> string option \<Rightarrow> log_page web" where
  "log_page_of limit before after =
     seqM (raise_if (some_text before \<and> some_text after) (http_error 422 ''Select one cursor direction''))
     (letM (liftM (bound key_less before)) (\<lambda>older.
      letM (liftM (bound (\<lambda>a b. key_less b a) after)) (\<lambda>newer.
      letM (db_all EVENTS (\<lambda>e. older e \<and> newer e)) (\<lambda>found.
      (let ordered = (if some_text after then rev (newest_first found) else newest_first found);
           events = take (limit + 1) ordered;
           shown = take limit events;
           entries = (if some_text after then rev shown else shown)
       in ret \<lparr>page_events = entries, page_more = limit < length events,
            page_older = (if entries = [] then before else Some (cursor (last entries))),
            page_live = (if entries = [] then after else Some (cursor (hd entries)))\<rparr>)))))"

definition read_logs :: "nat \<Rightarrow> string option \<Rightarrow> string option \<Rightarrow> dict web" where
  "read_logs limit before after =
     letM (log_page_of limit before after) (\<lambda>p.
       ret [(''entries'', JArr (map serialize (page_events p))), (''has_more'', JBool (page_more p)),
            (''older_cursor'', jopt JStr (page_older p)), (''live_cursor'', jopt JStr (page_live p))])"

section \<open>Events of the interface\<close>

definition record_ui :: "env \<Rightarrow> dict \<Rightarrow> dict web" where
  "record_ui E payload =
     (let part = (\<lambda>k. case get_key k payload of None \<Rightarrow> JObj [] | Some v \<Rightarrow> v);
          text = (\<lambda>k d. case get_key k payload of None \<Rightarrow> d | Some v \<Rightarrow> py_str v)
      in (case (part ''payload'', part ''result'') of
            (JObj p, JObj r) \<Rightarrow>
              seqM (audit E ''browser_ui'' ''operator'' (text ''action'' ''ui.action'') (text ''target_type'' ''ui'')
                     (text ''target_id'' ''perimetr'') p r)
                (seqM commit (ret [(''recorded'', JBool True)]))
          | _ \<Rightarrow> raiseM (http_error 422 ''Invalid audit context'')))"

section \<open>The diagnostic export\<close>

text \<open>\<open>(event.result or {}).get("outcome", ...)\<close>.\<close>

definition event_outcome :: "json \<Rightarrow> failure + json" where
  "event_outcome result =
     (case (if truthy result then result else JObj []) of
        JObj d \<Rightarrow> Inr (case get_key ''outcome'' d of Some v \<Rightarrow> v | None \<Rightarrow> get_or_null ''status'' d)
      | _ \<Rightarrow> Inl (Crash ''AttributeError''))"

text \<open>\<open>outcome not in {...}\<close>: a list or an object cannot be looked up in a set.\<close>

definition failing :: "json \<Rightarrow> failure + bool" where
  "failing v = (case v of
     JArr xs \<Rightarrow> Inl (Crash ''TypeError'')
   | JObj d \<Rightarrow> Inl (Crash ''TypeError'')
   | _ \<Rightarrow> Inr (v \<in> set (map JStr [''error'', ''failed'', ''denied'', ''rejected''])))"

fun export_lines :: "bool \<Rightarrow> audit_event list \<Rightarrow> failure + string list" where
  "export_lines errors_only [] = Inr []"
| "export_lines errors_only (e # es) =
     try_bind (event_outcome (ev_result e)) (\<lambda>outcome.
     try_bind (if errors_only then failing outcome else Inr True) (\<lambda>shown.
     try_bind (export_lines errors_only es) (\<lambda>rest. Inr (if shown then event_line e # rest else rest))))"

definition export_manifest :: "settings \<Rightarrow> int \<Rightarrow> nat \<Rightarrow> nat \<Rightarrow> json" where
  "export_manifest s now events failures =
     JObj [(''schema'', JStr ''perimetr.logs.export.v2''), (''service'', JStr ''perimetr''), (''version'', JStr (perimetr_version s)),
       (''generated_at'', JStr (isoformat now)), (''event_count'', JInt (int events)), (''error_count'', JInt (int failures)),
       (''files'', JArr (map JStr [''audit-events.jsonl'', ''errors.jsonl'', ''README.txt''])), (''redacted'', JBool True),
       (''retention'', JObj [(''max_total_bytes'', JInt (perimetr_logs_max_total_bytes s))])]"

definition export_readme :: string where
  "export_readme = ''Perimetr diagnostic export. Errors use explicit outcomes, not message keywords.'' @ [CHR 0x0a]
     @ ''Credentials are redacted. This archive cannot restore application data.'' @ [CHR 0x0a]"

text \<open>The members of the archive; its compression is not modelled.\<close>

definition download_logs :: "env \<Rightarrow> (string \<times> string) list web" where
  "download_logs E =
     letM (db_all EVENTS (\<lambda>e. True)) (\<lambda>found.
     (let ordered = rev (newest_first found)
      in letM (liftM (export_lines False ordered)) (\<lambda>events.
         letM (liftM (export_lines True ordered)) (\<lambda>errors.
         letM (now_utc E) (\<lambda>now.
           ret [(''audit-events.jsonl'', concat events), (''errors.jsonl'', concat errors),
                (''manifest.json'', render '', '' '': '' False (export_manifest (cfg E) now (length events) (length errors))),
                (''README.txt'', export_readme)])))))"

section \<open>Log files\<close>

text \<open>The lines of a file with their ends.\<close>

fun file_lines :: "string \<Rightarrow> string \<Rightarrow> string list" where
  "file_lines acc [] = (if acc = [] then [] else [rev acc])"
| "file_lines acc (c # s) = (if c = CHR 0x0a then rev (c # acc) # file_lines [] s else file_lines (c # acc) s)"

definition bytes_of :: "string list \<Rightarrow> int" where
  "bytes_of ls = (\<Sum>l \<leftarrow> ls. int (length l))"

text \<open>\<open>while len(retained) > max_lines or total > max_bytes\<close>; \<open>popleft\<close> on an empty queue raises.\<close>

fun drop_oldest :: "int \<Rightarrow> int \<Rightarrow> string list \<Rightarrow> string list option" where
  "drop_oldest max_lines max_bytes [] = (if max_lines < 0 \<or> max_bytes < 0 then None else Some [])"
| "drop_oldest max_lines max_bytes (l # ls) =
     (if max_lines < int (length (l # ls)) \<or> max_bytes < bytes_of (l # ls) then drop_oldest max_lines max_bytes ls
      else Some (l # ls))"

fun retain_lines :: "int \<Rightarrow> int \<Rightarrow> string list \<Rightarrow> string list \<Rightarrow> string list option" where
  "retain_lines max_lines max_bytes kept [] = Some kept"
| "retain_lines max_lines max_bytes kept (l # ls) =
     (if max_bytes < int (length l) then retain_lines max_lines max_bytes kept ls
      else Option.bind (drop_oldest max_lines max_bytes (kept @ [l])) (\<lambda>kept'. retain_lines max_lines max_bytes kept' ls))"

definition trim_log_file :: "int \<Rightarrow> int \<Rightarrow> string \<Rightarrow> string option" where
  "trim_log_file max_lines max_bytes content = map_option concat (retain_lines max_lines max_bytes [] (file_lines [] content))"

record log_file =
  log_name :: string
  log_mtime :: int
  log_content :: string

definition log_bytes :: "log_file list \<Rightarrow> int" where
  "log_bytes fs = (\<Sum>f \<leftarrow> fs. int (length (log_content f)))"

text \<open>The current file comes last, the others by their age.\<close>

definition by_age :: "log_file list \<Rightarrow> log_file list" where
  "by_age fs = sort_key (\<lambda>f. log_name f = ''audit.jsonl'') (sort_key log_mtime fs)"

fun unlink_logs :: "int \<Rightarrow> int \<Rightarrow> int \<Rightarrow> log_file list \<Rightarrow> log_file list" where
  "unlink_logs cutoff limit sum_bytes [] = []"
| "unlink_logs cutoff limit sum_bytes (f # fs) =
     (if log_mtime f < cutoff \<or> limit < sum_bytes
      then unlink_logs cutoff limit (sum_bytes - int (length (log_content f))) fs
      else f # unlink_logs cutoff limit sum_bytes fs)"

text \<open>\<open>trim_log_directory\<close> on the files that match \<open>*.jsonl\<close>; the others are not touched.\<close>

definition is_log :: "log_file \<Rightarrow> bool" where
  "is_log f \<longleftrightarrow> ends_with ''.jsonl'' (log_name f)"

definition trim_log_directory :: "int \<Rightarrow> int \<Rightarrow> int \<Rightarrow> log_file list \<Rightarrow> log_file list" where
  "trim_log_directory now retention_days max_total_bytes dir =
     (let files = by_age (filter is_log dir)
      in filter (\<lambda>f. \<not> is_log f) dir
         @ unlink_logs (now - days (max retention_days 1)) max_total_bytes (log_bytes files) files)"

text \<open>The name of a rotated file carries the moment.\<close>

definition stamp_name :: "int \<Rightarrow> string" where
  "stamp_name t = ''audit-'' @ filter is_digit (take 19 (time_text ''T'' (t div SECOND * SECOND))) @ zfill 6 (t mod SECOND) @ ''.jsonl''"

definition find_log :: "string \<Rightarrow> log_file list \<Rightarrow> log_file option" where
  "find_log n dir = find (\<lambda>f. log_name f = n) dir"

definition append_log :: "int \<Rightarrow> string \<Rightarrow> log_file list \<Rightarrow> log_file list" where
  "append_log now line dir =
     filter (\<lambda>f. log_name f \<noteq> ''audit.jsonl'') dir
       @ [\<lparr>log_name = ''audit.jsonl'', log_mtime = now,
           log_content = (case find_log ''audit.jsonl'' dir of None \<Rightarrow> [] | Some f \<Rightarrow> log_content f) @ line\<rparr>]"

text \<open>\<open>path.replace(target)\<close>: the target is overwritten.\<close>

definition rename_log :: "string \<Rightarrow> string \<Rightarrow> log_file list \<Rightarrow> log_file list" where
  "rename_log old new dir =
     map (\<lambda>f. if log_name f = old then f\<lparr>log_name := new\<rparr> else f) (filter (\<lambda>f. log_name f \<noteq> new) dir)"

definition write_audit_log :: "settings \<Rightarrow> int \<Rightarrow> audit_event \<Rightarrow> log_file list \<Rightarrow> log_file list" where
  "write_audit_log s now e dir =
     (let line = event_line e;
          full = (case find_log ''audit.jsonl'' dir of None \<Rightarrow> False
            | Some f \<Rightarrow> perimetr_log_max_file_bytes s < int (length (log_content f)) + int (length line));
          rotated_dir = (if full then rename_log ''audit.jsonl'' (stamp_name now) dir else dir)
      in trim_log_directory now (perimetr_audit_retention_days s) (perimetr_logs_max_total_bytes s) (append_log now line rotated_dir))"

end
