(* ===== verification/Versions.thy ===== *)
theory Versions
  imports Py_Str "HOL-Library.Char_ord" "HOL-Library.List_Lexorder" "HOL-Library.Product_Lexorder"
begin

text \<open>
  Semantic versions in \<open>app/pod_artifacts.py\<close>: the pattern, the key a version is sorted by, and
  \<open>compare_versions\<close>. The reference is the precedence of SemVer 2.0.0, with identifiers compared without regard to case.
\<close>

section \<open>Errors\<close>

text \<open>A \<open>PodArtifactError\<close> with its text, or another exception. The text of an exception of the library is
  replaced by the name of its class.\<close>

datatype artifact_error = Pod_Error string | Other_Error string

fun error_text :: "artifact_error \<Rightarrow> string" where
  "error_text (Pod_Error t) = t"
| "error_text (Other_Error t) = t"

section \<open>The pattern\<close>

definition core_number :: "string \<Rightarrow> bool" where
  "core_number s \<longleftrightarrow> s \<noteq> [] \<and> list_all is_digit s \<and> (hd s = CHR ''0'' \<longrightarrow> s = ''0'')"

definition prerelease_char :: "char \<Rightarrow> bool" where
  "prerelease_char c \<longleftrightarrow> is_digit c \<or> is_upper c \<or> is_lower c \<or> c = CHR ''.'' \<or> c = CHR ''-''"

text \<open>The three numbers and the pre-release part of a text that matches \<open>SEMVER_PATTERN\<close>. The core has no hyphen,
  so the first hyphen starts the pre-release part.\<close>

definition SEMVER_PATTERN :: "string \<Rightarrow> (string \<times> string \<times> string \<times> string option) option" where
  "SEMVER_PATTERN s =
     (let (core, pre) = (if CHR ''-'' \<in> set s
            then (takeWhile (\<lambda>c. c \<noteq> CHR ''-'') s, Some (tl (dropWhile (\<lambda>c. c \<noteq> CHR ''-'') s))) else (s, None))
      in (case split_on CHR ''.'' core of
            [a, b, c] \<Rightarrow>
              if core_number a \<and> core_number b \<and> core_number c
                 \<and> (case pre of None \<Rightarrow> True | Some p \<Rightarrow> p \<noteq> [] \<and> list_all prerelease_char p)
              then Some (a, b, c, pre) else None
          | _ \<Rightarrow> None))"

section \<open>Keys\<close>

text \<open>The tuples of the sort key: \<open>(0, number)\<close>, \<open>(1, text)\<close> and \<open>(2, "")\<close>. Python compares a tuple with the first
  component in which they differ, and a proper prefix is smaller.\<close>

datatype part = Number nat | Word string | Final

type_synonym version_key = "nat \<times> nat \<times> nat \<times> part list"

definition all_digits :: "string \<Rightarrow> bool" where
  "all_digits s \<longleftrightarrow> s \<noteq> [] \<and> list_all is_digit s"

definition part_of :: "string \<Rightarrow> part" where
  "part_of item = (if all_digits item then Number (digits_val 0 item) else Word (lower item))"

definition semver :: "string \<Rightarrow> artifact_error + version_key" where
  "semver v =
     (case SEMVER_PATTERN v of
        None \<Rightarrow> Inl (Pod_Error (''invalid semantic version: '' @ v))
      | Some (a, b, c, pre) \<Rightarrow> Inr (digits_val 0 a, digits_val 0 b, digits_val 0 c,
          (case pre of None \<Rightarrow> [Final] | Some p \<Rightarrow> map part_of (split_on CHR ''.'' p))))"

text \<open>Numbers come before words, and both before the mark of a version without pre-release part.\<close>

instantiation part :: linorder
begin

fun less_part :: "part \<Rightarrow> part \<Rightarrow> bool" where
  "less_part (Number m) (Number n) = (m < n)"
| "less_part (Word s) (Word t) = (s < t)"
| "less_part (Number m) (Word t) = True"
| "less_part (Number m) Final = True"
| "less_part (Word s) Final = True"
| "less_part _ _ = False"

definition less_eq_part :: "part \<Rightarrow> part \<Rightarrow> bool" where
  "less_eq_part p q = (p < q \<or> p = q)"

instance
proof
  fix p q r :: part
  show "p < q \<longleftrightarrow> p \<le> q \<and> \<not> q \<le> p" by (induction p q rule: less_part.induct) (auto simp: less_eq_part_def)
  show "p \<le> p" by (simp add: less_eq_part_def)
  show "p \<le> r" if "p \<le> q" "q \<le> r"
    using that by (cases p; cases q; cases r) (auto simp: less_eq_part_def)
  show "p = q" if "p \<le> q" "q \<le> p" using that by (cases p; cases q) (auto simp: less_eq_part_def)
  show "p \<le> q \<or> q \<le> p" by (cases p; cases q) (auto simp: less_eq_part_def)
qed

end

definition sign_of :: "bool \<Rightarrow> bool \<Rightarrow> int" where
  "sign_of gt lt = (if gt then 1 else 0) - (if lt then 1 else 0)"

definition compare_versions :: "string \<Rightarrow> string \<Rightarrow> artifact_error + int" where
  "compare_versions left right =
     try_bind (semver left) (\<lambda>l. try_bind (semver right) (\<lambda>r. Inr (sign_of (r < l) (l < r))))"

section \<open>The precedence of SemVer\<close>

text \<open>Rule 11 of the specification, on the parsed version: major, minor and patch are compared numerically; a
  version with a pre-release part precedes the one without; identifiers are compared from left to right, numbers
  numerically, words by their characters, numbers before words; when all are equal the shorter part precedes.\<close>

definition identifier_precedes :: "string \<Rightarrow> string \<Rightarrow> bool" where
  "identifier_precedes x y =
     (if all_digits x then (if all_digits y then digits_val 0 x < digits_val 0 y else True)
      else if all_digits y then False
      else lower x < lower y)"

definition identifier_same :: "string \<Rightarrow> string \<Rightarrow> bool" where
  "identifier_same x y \<longleftrightarrow> \<not> identifier_precedes x y \<and> \<not> identifier_precedes y x"

fun identifiers_precede :: "string list \<Rightarrow> string list \<Rightarrow> bool" where
  "identifiers_precede xs [] = False"
| "identifiers_precede [] (y # ys) = True"
| "identifiers_precede (x # xs) (y # ys) =
     (identifier_precedes x y \<or> identifier_same x y \<and> identifiers_precede xs ys)"

definition version_precedes :: "string \<Rightarrow> string \<Rightarrow> bool" where
  "version_precedes v w =
     (case (SEMVER_PATTERN v, SEMVER_PATTERN w) of
        (Some (a, b, c, p), Some (a', b', c', p')) \<Rightarrow>
          (let core = [digits_val 0 a, digits_val 0 b, digits_val 0 c]; core' = [digits_val 0 a', digits_val 0 b', digits_val 0 c']
           in (core, core') \<in> lexord {(m, n). m < n}
            \<or> core = core' \<and> (case (p, p') of
                 (Some q, None) \<Rightarrow> True
               | (Some q, Some q') \<Rightarrow> identifiers_precede (split_on CHR ''.'' q) (split_on CHR ''.'' q')
               | _ \<Rightarrow> False))
      | _ \<Rightarrow> False)"

section \<open>Equivalence\<close>

lemma part_less_of: "part_of x < part_of y \<longleftrightarrow> identifier_precedes x y"
  by (simp add: part_of_def identifier_precedes_def)

lemma part_same: "part_of x = part_of y \<longleftrightarrow> identifier_same x y"
  unfolding identifier_same_def part_less_of [symmetric] by auto

lemma suffix_less_map: "map part_of xs < map part_of ys \<longleftrightarrow> identifiers_precede xs ys"
  by (induction xs ys rule: identifiers_precede.induct) (simp_all add: part_less_of part_same)

lemma part_final [simp]: "part_of x < Final" "part_of x \<noteq> Final" "Final \<noteq> part_of x" "\<not> Final < p"
  by (simp_all add: part_of_def)

lemma suffix_less_final: "xs \<noteq> [] \<Longrightarrow> map part_of xs < [Final]" "xs \<noteq> [] \<Longrightarrow> \<not> [Final] < map part_of xs"
  by (auto simp: neq_Nil_conv)

lemma key_less_precedes:
  assumes "semver v = Inr l" and "semver w = Inr r"
  shows "l < r \<longleftrightarrow> version_precedes v w"
proof -
  obtain a b c p where v: "SEMVER_PATTERN v = Some (a, b, c, p)"
    and l: "l = (digits_val 0 a, digits_val 0 b, digits_val 0 c,
        (case p of None \<Rightarrow> [Final] | Some q \<Rightarrow> map part_of (split_on CHR ''.'' q)))"
    using assms(1) by (auto simp: semver_def split: option.splits)
  obtain a' b' c' p' where w: "SEMVER_PATTERN w = Some (a', b', c', p')"
    and r: "r = (digits_val 0 a', digits_val 0 b', digits_val 0 c',
        (case p' of None \<Rightarrow> [Final] | Some q \<Rightarrow> map part_of (split_on CHR ''.'' q)))"
    using assms(2) by (auto simp: semver_def split: option.splits)
  show ?thesis
    by (cases p; cases p')
      (auto simp: l r version_precedes_def v w Let_def suffix_less_map suffix_less_final split_on_neq_Nil)
qed

text \<open>C17. \<open>compare_versions\<close> is the precedence of SemVer: it fails exactly on a text that is no version, and otherwise
  returns -1, 0 or 1 as the first version precedes the second, neither precedes the other, or the second precedes
  the first. Exchanging the arguments changes the sign, and the order is transitive.\<close>

theorem compare_versions_is_semver:
  "compare_versions v w =
     (if SEMVER_PATTERN v = None then Inl (Pod_Error (''invalid semantic version: '' @ v))
      else if SEMVER_PATTERN w = None then Inl (Pod_Error (''invalid semantic version: '' @ w))
      else Inr (if version_precedes v w then -1 else if version_precedes w v then 1 else 0))
   \<and> \<not> (version_precedes v w \<and> version_precedes w v)
   \<and> (version_precedes v w \<and> version_precedes w x \<longrightarrow> version_precedes v x)"
proof -
  have some: "\<exists>k. semver a = Inr k" if "SEMVER_PATTERN a \<noteq> None" for a
    using that by (cases "SEMVER_PATTERN a") (auto simp: semver_def)
  have none: "\<not> version_precedes a b \<and> \<not> version_precedes b a" if "SEMVER_PATTERN a = None" for a b
    using that by (simp add: version_precedes_def split: option.splits)
  show ?thesis
  proof (cases "SEMVER_PATTERN v = None \<or> SEMVER_PATTERN w = None")
    case True
    then show ?thesis using none some [of v] by (auto simp: compare_versions_def semver_def)
  next
    case False
    then obtain l r where k: "semver v = Inr l" "semver w = Inr r" using some by blast
    have x: "version_precedes v x" if p: "version_precedes v w" "version_precedes w x"
    proof -
      obtain m where m: "semver x = Inr m" using p(2) none some by blast
      from p have "l < r" "r < m" by (simp_all add: key_less_precedes [OF k] key_less_precedes [OF k(2) m])
      then show ?thesis using key_less_precedes [OF k(1) m] less_trans by blast
    qed
    show ?thesis
      using False x k less_asym [of l r]
      by (auto simp: compare_versions_def sign_of_def key_less_precedes [OF k] key_less_precedes [OF k(2,1)])
  qed
qed

theorem compare_versions_is_semver_witness:
  "compare_versions ''1.0.0-rc.2'' ''1.0.0-rc.10'' = Inr (-1) \<and> version_precedes ''1.0.0-rc.2'' ''1.0.0''"
proof -
  have p: "SEMVER_PATTERN ''1.0.0-rc.2'' = Some (''1'', ''0'', ''0'', Some ''rc.2'')"
    "SEMVER_PATTERN ''1.0.0-rc.10'' = Some (''1'', ''0'', ''0'', Some ''rc.10'')"
    "SEMVER_PATTERN ''1.0.0'' = Some (''1'', ''0'', ''0'', None)"
    by code_simp+
  have "identifiers_precede (split_on CHR ''.'' ''rc.2'') (split_on CHR ''.'' ''rc.10'')" by code_simp
  then have "version_precedes ''1.0.0-rc.2'' ''1.0.0-rc.10''" "version_precedes ''1.0.0-rc.10'' ''1.0.0''"
    by (simp_all add: version_precedes_def p del: split_on.simps)
  with compare_versions_is_semver [of "''1.0.0-rc.2''" "''1.0.0-rc.10''" "''1.0.0''"] p show ?thesis by auto
qed

end
