(* ===== verification/Json_Raw.thy ===== *)
theory Json_Raw
  imports Json_Round_Trip Complex_Main
begin

text \<open>
  \<open>json.dumps(value, ensure_ascii=False, sort_keys=True, separators=(",", ":"))\<close> as the artifact cache, the
  register and the snapshot use it, and the numbers of a JSON text. A datetime is written through
  \<open>default\<close> as its isoformat, which is the argument \<open>fmt\<close>; the other modules have none.
\<close>

section \<open>Canonical text\<close>

definition raw_char :: "char \<Rightarrow> string" where
  "raw_char c = (if 127 \<le> code c then [c] else dumps_char c)"

definition raw_str :: "string \<Rightarrow> string" where
  "raw_str s = CHR 0x22 # concat (map raw_char s) @ [CHR 0x22]"

fun render_raw :: "(int \<Rightarrow> string) \<Rightarrow> json \<Rightarrow> string" where
  "render_raw fmt JNull = ''null''"
| "render_raw fmt (JBool b) = (if b then ''true'' else ''false'')"
| "render_raw fmt (JInt n) = str_int n"
| "render_raw fmt (JFloat f) = f"
| "render_raw fmt (JStr t) = raw_str t"
| "render_raw fmt (JTime t) = raw_str (fmt t)"
| "render_raw fmt (JArr xs) = ''['' @ join '','' (map (render_raw fmt) xs) @ '']''"
| "render_raw fmt (JObj d) =
     ''{'' @ join '','' (map snd (sort_key fst (map (\<lambda>p. (fst p, raw_str (fst p) @ '':'' @ render_raw fmt (snd p))) d))) @ ''}''"

definition canonical_text :: "json \<Rightarrow> string" where
  "canonical_text v = render_raw (\<lambda>t. []) v"

definition canonical_bytes :: "json \<Rightarrow> string" where
  "canonical_bytes v = utf8 (canonical_text v)"

section \<open>The round trip\<close>

lemma escapes_raw_char: "escapes raw_char"
  by (auto simp: escapes_def raw_char_def p_string_char)

lemma raw_str_quote: "raw_str s = quote raw_char s"
  by (simp add: raw_str_def quote_def)

lemma render_raw_by: "json_wf v \<Longrightarrow> render_raw fmt v = render_by raw_char '','' '':'' (sort_keys v)"
proof (induction v)
  case (JArr xs)
  then have "map (render_raw fmt) xs = map (render_by raw_char '','' '':'') (map sort_keys xs)" by simp
  then show ?case by (simp only: render_raw.simps sort_keys.simps render_by.simps)
next
  case (JObj d)
  have e: "map (\<lambda>p. (fst p, raw_str (fst p) @ '':'' @ render_raw fmt (snd p))) d
      = map (\<lambda>p. (fst p, quote raw_char (fst p) @ '':'' @ render_by raw_char '','' '':'' (sort_keys (snd p)))) d"
    using JObj by (auto simp: raw_str_quote intro: snds.intros)
  show ?case
    unfolding render_raw.simps render_by.simps sort_keys.simps e sort_key_map_value map_snd_sort_key
    by (simp add: comp_def)
qed (simp_all add: raw_str_quote)

lemma loads_canonical:
  "json_wf v \<Longrightarrow> end_text = [] \<or> end_text = [CHR 0x0a] \<Longrightarrow> loads (canonical_text v @ end_text) = Some (sort_keys v)"
  by (simp add: canonical_text_def render_raw_by loads_render_line escapes_raw_char seps_def json_wf_sort_keys)

lemma get_key_sort: "distinct (map fst d) \<Longrightarrow> get_key x (sort_key fst d) = get_key x d"
  using map_of_inject_set [of "sort_key fst d" d] by (simp add: get_key_def distinct_sort_key_fst)

lemma get_key_map_value: "get_key x (map (\<lambda>p. (fst p, f (snd p))) d) = map_option f (get_key x d)"
  by (induction d) (auto simp: get_key_def)

lemma get_key_sort_keys:
  "distinct (map fst d) \<Longrightarrow> sort_keys (JObj d) = JObj d' \<Longrightarrow> get_key x d' = map_option sort_keys (get_key x d)"
  using get_key_sort [of "map (\<lambda>p. (fst p, sort_keys (snd p))) d" x] by (auto simp: get_key_map_value comp_def)

lemma sort_keys_idem: "sort_keys (sort_keys v) = sort_keys v"
proof (induction v)
  case (JObj d)
  have "map (\<lambda>p. (fst p, sort_keys (snd p))) (map (\<lambda>p. (fst p, sort_keys (snd p))) (sort_key fst d))
      = map (\<lambda>p. (fst p, sort_keys (snd p))) (sort_key fst d)"
    using JObj by (auto intro: snds.intros)
  moreover have "sort_key fst (sort_key fst d) = sort_key fst d" by (simp add: sort_key_id_if_sorted)
  ultimately show ?case by (simp only: sort_keys.simps sort_key_map_value)
qed auto

text \<open>The canonical text does not depend on the order of the keys.\<close>

lemma canonical_sort_keys: "json_wf v \<Longrightarrow> canonical_text (sort_keys v) = canonical_text v"
  by (simp add: canonical_text_def render_raw_by json_wf_sort_keys sort_keys_idem)

section \<open>Numbers\<close>

text \<open>The value of the literal of a float.\<close>

definition ten_to :: "int \<Rightarrow> rat" where
  "ten_to k = (if 0 \<le> k then 10 ^ nat k else 1 / 10 ^ nat (- k))"

definition signed_digits :: "string \<Rightarrow> int" where
  "signed_digits s = (case s of
     c # t \<Rightarrow> if c = CHR ''-'' then - int (digits_val 0 t) else if c = CHR ''+'' then int (digits_val 0 t) else int (digits_val 0 s)
   | [] \<Rightarrow> 0)"

definition literal_value :: "string \<Rightarrow> rat" where
  "literal_value s =
     (let neg = starts_with ''-'' s;
          (whole, r) = span_digits (if neg then tl s else s);
          (frac, r') = (case r of c # t \<Rightarrow> if c = CHR ''.'' then span_digits t else ([], r) | [] \<Rightarrow> ([], r));
          e = (case r' of [] \<Rightarrow> 0 | _ # t \<Rightarrow> signed_digits t);
          v = of_nat (digits_val 0 (whole @ frac)) * ten_to (e - int (length frac))
      in if neg then - v else v)"

definition number_value :: "json \<Rightarrow> rat option" where
  "number_value v = (case v of
     JBool b \<Rightarrow> Some (if b then 1 else 0)
   | JInt n \<Rightarrow> Some (of_int n)
   | JFloat f \<Rightarrow> if f \<in> {''NaN'', ''Infinity'', ''-Infinity''} then None else Some (literal_value f)
   | _ \<Rightarrow> None)"

lemma literal_examples:
  "literal_value ''-12.5e1'' = -125" "literal_value ''1.0'' = 1" "literal_value ''25e-1'' = 5 / 2"
  by code_simp+

end
