(* ===== verification/Pod_Artifacts.thy ===== *)
theory Pod_Artifacts
  imports Pod_Bundle Versions Json_Raw
begin

text \<open>
  \<open>app/pod_artifacts.py\<close>: the verified cache of Pod runtimes. The discovery manifest is signed, an executable is
  addressed by its SHA-256, and a failing refresh falls back to the last known good runtime or the one from
  the factory. The cache directory is a record of its files; the network, the files outside the cache and the
  clock of one call are an argument. Writes to the cache succeed and are atomic; the artifact lock makes a call one step.
\<close>

section \<open>The outside\<close>

text \<open>What an opened URL gives: an error of the connection, an HTTP error with its code and text, or
  headers and a body, whose reading may break off with an error after the part that is given.\<close>

datatype reply =
    Unreachable string
  | Http_Error nat string
  | Page "(string \<times> string) list" string "string option"

record outside =
  open_url :: "string \<Rightarrow> (string \<times> string) list \<Rightarrow> reply"
  source_exe :: "string option"
  dist_exe :: "string option"
  update_key :: "string option"
  iso_stored :: string
  iso_checked :: string
  epoch_now :: rat
  epoch_text :: string
  text_number :: "string \<Rightarrow> rat option"

text \<open>The files \<open>state.json\<close>, \<open>artifacts/<digest>/pod.exe\<close> and \<open>artifacts/<digest>/manifest.json\<close>.\<close>

record disk =
  state_json :: "string option"
  pod_exe :: "string \<Rightarrow> string option"
  manifest_json :: "string \<Rightarrow> string option"

definition POD_CACHE_SCHEMA :: string where
  "POD_CACHE_SCHEMA = ''perimetr.pod-artifact-cache.v1''"

definition MAX_MANIFEST_BYTES :: nat where
  "MAX_MANIFEST_BYTES = 256 * 1024"

definition SHA256_PATTERN :: "string \<Rightarrow> bool" where
  "SHA256_PATTERN s \<longleftrightarrow> length s = 64 \<and> list_all is_lower_hex s"

definition header_value :: "string \<Rightarrow> (string \<times> string) list \<Rightarrow> string option" where
  "header_value name headers = map_option snd (find (\<lambda>h. lower (fst h) = lower name) headers)"

section \<open>The discovery address\<close>

definition pod_discovery_url :: "string \<Rightarrow> artifact_error + string" where
  "pod_discovery_url repository_url =
     (let candidate = rstrip_by (\<lambda>c. c = CHR ''/'') (strip repository_url)
      in try_bind (of_option (Other_Error ''ValueError'') (urlsplit candidate)) (\<lambda>parsed.
         if url_scheme parsed \<noteq> ''https'' \<or> url_hostname parsed = None \<or> url_query parsed \<noteq> [] \<or> url_fragment parsed \<noteq> []
         then Inl (Pod_Error ''repositories.pod.url must be a valid HTTPS repository URL'')
         else Inr ((if ends_with ''.git'' candidate then take (length candidate - 4) candidate else candidate)
                @ ''/releases/download/pod-current/pod-update.json'')))"

section \<open>Manifests\<close>

definition MANIFEST_FIELDS :: "string list" where
  "MANIFEST_FIELDS = [''version'', ''channel'', ''url'', ''sha256'', ''signature'']"

definition is_container :: "json \<Rightarrow> bool" where
  "is_container v = (case v of JArr _ \<Rightarrow> True | JObj _ \<Rightarrow> True | _ \<Rightarrow> False)"

text \<open>\<open>value in {None, ...}\<close>: a list or dictionary cannot be looked up in a set.\<close>

definition in_set_of :: "json \<Rightarrow> (json \<Rightarrow> bool) \<Rightarrow> artifact_error + bool" where
  "in_set_of v P = (if is_container v then Inl (Other_Error ''TypeError'') else Inr (v = JNull \<or> P v))"

definition check_fields :: "dict \<Rightarrow> artifact_error + unit" where
  "check_fields m =
     (let missing = filter (\<lambda>f. \<not> truthy (get_or_null f m)) MANIFEST_FIELDS
      in raise_when (missing \<noteq> []) (Pod_Error (''Pod update manifest is missing: '' @ join '', '' missing)))"

definition check_product :: "dict \<Rightarrow> artifact_error + unit" where
  "check_product m =
     try_bind (in_set_of (get_or_null ''schema_version'' m) (\<lambda>v. number_value v \<in> {Some 1, Some 2})) (\<lambda>ok1.
     try_bind (raise_when (\<not> ok1) (Pod_Error ''unsupported Pod update manifest schema'')) (\<lambda>_.
     try_bind (in_set_of (get_or_null ''product'' m) (\<lambda>v. v = JStr ''pod'')) (\<lambda>ok2.
     try_bind (raise_when (\<not> ok2) (Pod_Error ''Pod update manifest product mismatch'')) (\<lambda>_.
       raise_when (get_or_null ''channel'' m \<noteq> JStr ''stable'') (Pod_Error ''Pod update manifest channel must be stable'')))))"

definition check_version :: "string \<Rightarrow> dict \<Rightarrow> artifact_error + unit" where
  "check_version perimetr m =
     (let version = py_str (get_or_null ''version'' m)
      in try_bind (semver version) (\<lambda>_.
         try_bind (raise_when (CHR ''-'' \<in> set version) (Pod_Error ''stable Pod manifests cannot publish a prerelease version'')) (\<lambda>_.
         try_bind (in_set_of (get_or_null ''perimetr_api'' m) (\<lambda>v. v = JStr ''v1'')) (\<lambda>ok.
         try_bind (raise_when (\<not> ok) (Pod_Error ''Pod release is incompatible with Perimetr API v1'')) (\<lambda>_.
         (let least = strip (str_or [] (get_key ''minimum_perimetr_version'' m))
          in if least = [] then Inr ()
             else try_bind (compare_versions perimetr least) (\<lambda>c.
               raise_when (c < 0) (Pod_Error (''Pod '' @ version @ '' requires Perimetr '' @ least @ '' or newer'')))))))))"

text \<open>The address, the digest in lower case and the size.\<close>

definition check_artifact :: "dict \<Rightarrow> artifact_error + string" where
  "check_artifact m =
     try_bind (of_option (Other_Error ''ValueError'') (urlsplit (py_str (get_or_null ''url'' m)))) (\<lambda>address.
     try_bind (raise_when (url_scheme address \<noteq> ''https'' \<or> url_hostname address = None) (Pod_Error ''Pod artifact URL must use HTTPS'')) (\<lambda>_.
     (let digest = lower (py_str (get_or_null ''sha256'' m))
      in try_bind (raise_when (\<not> SHA256_PATTERN digest) (Pod_Error ''Pod artifact SHA-256 is invalid'')) (\<lambda>_.
         try_bind (raise_when (case get_or_null ''size'' m of JNull \<Rightarrow> False | JInt n \<Rightarrow> n < 2 | _ \<Rightarrow> True)
                    (Pod_Error ''Pod artifact size is invalid'')) (\<lambda>_.
           Inr digest)))))"

definition check_signature :: "crypto \<Rightarrow> string option \<Rightarrow> dict \<Rightarrow> artifact_error + unit" where
  "check_signature c key m =
     try_bind (of_option (Pod_Error ''trusted Pod update public key is unavailable or invalid'') key) (\<lambda>pem.
     try_bind (of_option (Pod_Error ''trusted Pod update public key is unavailable or invalid'') (is_p256_pem c pem)) (\<lambda>p256.
     try_bind (raise_when (\<not> p256) (Pod_Error ''trusted Pod update key must be ECDSA P-256'')) (\<lambda>_.
       raise_when (case b64decode_strict (py_str (get_or_null ''signature'' m)) of
            None \<Rightarrow> True
          | Some signature \<Rightarrow> \<not> ecdsa_verify c pem signature (canonical_bytes (JObj (del_key ''signature'' m))))
         (Pod_Error ''Pod update manifest signature is invalid''))))"

definition verify_manifest :: "crypto \<Rightarrow> string option \<Rightarrow> string \<Rightarrow> dict \<Rightarrow> artifact_error + dict" where
  "verify_manifest c key perimetr m =
     try_bind (check_fields m) (\<lambda>_.
     try_bind (check_product m) (\<lambda>_.
     try_bind (check_version perimetr m) (\<lambda>_.
     try_bind (check_artifact m) (\<lambda>digest.
     try_bind (check_signature c key m) (\<lambda>_.
       Inr (set_key ''sha256'' (JStr digest) m))))))"

section \<open>Files of the cache\<close>

text \<open>\<open>_atomic_json\<close> writes the canonical text with a line end; \<open>_load_json\<close> reads a dictionary or nothing.\<close>

definition json_file :: "dict \<Rightarrow> string" where
  "json_file d = canonical_bytes (JObj d) @ [CHR 0x0a]"

definition load_json :: "string option \<Rightarrow> dict" where
  "load_json file = (case Option.bind (Option.bind file utf8_decode) loads of Some (JObj d) \<Rightarrow> d | _ \<Rightarrow> [])"

definition hash_executable :: "crypto \<Rightarrow> string option \<Rightarrow> int \<Rightarrow> artifact_error + (string \<times> nat)" where
  "hash_executable c file maximum =
     (case file of
        None \<Rightarrow> Inl (Pod_Error ''Pod executable cannot be read: FileNotFoundError'')
      | Some body \<Rightarrow>
          if maximum < int (length body) then Inl (Pod_Error ''Pod executable exceeds the configured size limit'')
          else if take 2 body \<noteq> ''MZ'' then Inl (Pod_Error ''Pod executable does not have a Windows PE header'')
          else Inr (hexdigest (sha256_fn c body), length body))"

definition exe_path :: "string \<Rightarrow> string" where
  "exe_path digest = ''artifacts/'' @ digest @ ''/pod.exe''"

definition load_artifact :: "crypto \<Rightarrow> disk \<Rightarrow> string \<Rightarrow> int \<Rightarrow> pod_artifact option" where
  "load_artifact c D digest maximum =
     (if \<not> SHA256_PATTERN (lower digest) then None
      else (let normalized = lower digest; metadata = load_json (manifest_json D normalized)
        in (case hash_executable c (pod_exe D normalized) maximum of
              Inl _ \<Rightarrow> None
            | Inr (actual, _) \<Rightarrow>
                if actual \<noteq> normalized then None
                else (let version = str_or [] (get_key ''version'' metadata)
                  in (case semver version of
                        Inl _ \<Rightarrow> None
                      | Inr _ \<Rightarrow> Some \<lparr>art_version = version, art_sha256 = normalized, art_path = exe_path normalized,
                          art_source = str_or ''verified-cache'' (get_key ''cache_source'' metadata),
                          art_manifest = (case get_or_null ''signed_manifest'' metadata of
                              JObj d \<Rightarrow> d
                            | _ \<Rightarrow> filter (\<lambda>p. fst p \<notin> {''cache_source'', ''verified_at''}) metadata),
                          art_refresh_error = []\<rparr>)))))"

text \<open>The executable that is already in the directory is kept as it is.\<close>

definition store_local_artifact ::
  "crypto \<Rightarrow> outside \<Rightarrow> disk \<Rightarrow> string \<Rightarrow> string \<Rightarrow> int \<Rightarrow> string \<Rightarrow> (artifact_error + pod_artifact) \<times> disk" where
  "store_local_artifact c S D source version maximum cache_source =
     (case try_bind (semver version) (\<lambda>_. hash_executable c (Some source) maximum) of
        Inl e \<Rightarrow> (Inl e, D)
      | Inr (digest, n) \<Rightarrow>
          (let D1 = (if pod_exe D digest \<noteq> None then D else D\<lparr>pod_exe := (pod_exe D)(digest := Some source)\<rparr>);
               manifest = [(''schema_version'', JInt 2), (''product'', JStr ''pod''), (''version'', JStr version),
                 (''channel'', JStr ''stable''), (''sha256'', JStr digest), (''size'', JInt (int n)),
                 (''cache_source'', JStr cache_source), (''verified_at'', JStr (iso_stored S))]
           in (Inr \<lparr>art_version = version, art_sha256 = digest, art_path = exe_path digest, art_source = cache_source,
                 art_manifest = manifest, art_refresh_error = []\<rparr>,
               D1\<lparr>manifest_json := (manifest_json D1)(digest := Some (json_file manifest))\<rparr>)))"

definition factory_artifact ::
  "crypto \<Rightarrow> settings \<Rightarrow> outside \<Rightarrow> disk \<Rightarrow> (artifact_error + pod_artifact option) \<times> disk" where
  "factory_artifact c s S D =
     (case (case source_exe S of Some x \<Rightarrow> Some x | None \<Rightarrow> dist_exe S) of
        None \<Rightarrow> (Inr None, D)
      | Some source \<Rightarrow>
          (case store_local_artifact c S D source (perimetr_pod_version s) (perimetr_pod_max_artifact_bytes s) ''factory'' of
             (Inl e, D') \<Rightarrow> (Inl e, D') | (Inr a, D') \<Rightarrow> (Inr (Some a), D')))"

section \<open>Downloads\<close>

text \<open>The body of a reply under a limit, and the checks on what was received.\<close>

definition received :: "crypto \<Rightarrow> dict \<Rightarrow> string \<Rightarrow> int \<Rightarrow> reply \<Rightarrow> artifact_error + string" where
  "received c manifest digest maximum r =
     (case r of
        Unreachable t \<Rightarrow> Inl (Pod_Error (''Pod artifact download failed: '' @ t))
      | Http_Error _ t \<Rightarrow> Inl (Pod_Error (''Pod artifact download failed: '' @ t))
      | Page headers body broken \<Rightarrow>
          try_bind (case header_value ''Content-Length'' headers of
              None \<Rightarrow> Inr ()
            | Some n \<Rightarrow> if n = [] then Inr ()
                else (case py_int n of
                        None \<Rightarrow> Inl (Pod_Error ''Pod artifact download failed: ValueError'')
                      | Some k \<Rightarrow> raise_when (maximum < k) (Pod_Error ''Pod executable exceeds the configured size limit''))) (\<lambda>_.
          if maximum < int (length body) then Inl (Pod_Error ''Pod executable exceeds the configured size limit'')
          else (case broken of
                  Some t \<Rightarrow> Inl (Pod_Error (''Pod artifact download failed: '' @ t))
                | None \<Rightarrow>
                    if take 2 body \<noteq> ''MZ'' then Inl (Pod_Error ''downloaded Pod artifact is not a Windows executable'')
                    else if hexdigest (sha256_fn c body) \<noteq> digest then Inl (Pod_Error ''downloaded Pod artifact checksum mismatch'')
                    else if get_or_null ''size'' manifest \<noteq> JNull \<and> get_or_null ''size'' manifest \<noteq> JInt (int (length body))
                    then Inl (Pod_Error ''downloaded Pod artifact size mismatch'')
                    else Inr body)))"

definition download_artifact ::
  "crypto \<Rightarrow> outside \<Rightarrow> disk \<Rightarrow> dict \<Rightarrow> int \<Rightarrow> (artifact_error + pod_artifact) \<times> disk" where
  "download_artifact c S D manifest maximum =
     (let digest = py_str (get_or_null ''sha256'' manifest); version = get_or_null ''version'' manifest
      in (case load_artifact c D digest maximum of
            Some cached \<Rightarrow>
              if JStr (art_version cached) \<noteq> version
              then (Inl (Pod_Error ''cached Pod artifact version does not match its digest metadata''), D)
              else (Inr (cached\<lparr>art_source := ''verified-cache'', art_manifest := manifest\<rparr>), D)
          | None \<Rightarrow>
              (case received c manifest digest maximum
                  (open_url S (py_str (get_or_null ''url'' manifest))
                    [(''Accept'', ''application/octet-stream''), (''User-Agent'', ''Exocortex-Perimetr/1'')]) of
                 Inl e \<Rightarrow> (Inl e, D)
               | Inr body \<Rightarrow>
                   (Inr \<lparr>art_version = py_str version, art_sha256 = digest, art_path = exe_path digest, art_source = ''remote'',
                      art_manifest = manifest, art_refresh_error = []\<rparr>,
                    D\<lparr>pod_exe := (pod_exe D)(digest := Some body),
                      manifest_json := (manifest_json D)(digest := Some (json_file
                        [(''version'', version), (''sha256'', JStr digest), (''size'', JInt (int (length body))),
                         (''signed_manifest'', JObj manifest), (''cache_source'', JStr ''remote''),
                         (''verified_at'', JStr (iso_stored S))]))\<rparr>))))"

definition read_manifest_response :: "string \<Rightarrow> string option \<Rightarrow> artifact_error + dict" where
  "read_manifest_response body broken =
     (if MAX_MANIFEST_BYTES < length body then Inl (Pod_Error ''Pod update manifest is too large'')
      else (case broken of
              Some t \<Rightarrow> Inl (Other_Error t)
            | None \<Rightarrow> (case Option.bind (utf8_decode body) loads of
                None \<Rightarrow> Inl (Pod_Error ''Pod update manifest is not valid UTF-8 JSON'')
              | Some (JObj m) \<Rightarrow> Inr m
              | Some _ \<Rightarrow> Inl (Pod_Error ''Pod update manifest must be a JSON object''))))"

section \<open>The latest runtime\<close>

definition is_dict :: "json \<Rightarrow> bool" where
  "is_dict v = (case v of JObj _ \<Rightarrow> True | _ \<Rightarrow> False)"

definition state_fallback ::
  "crypto \<Rightarrow> settings \<Rightarrow> outside \<Rightarrow> disk \<Rightarrow> dict \<Rightarrow> (artifact_error + pod_artifact option) \<times> disk" where
  "state_fallback c s S D state =
     (let current = dict_or_empty (get_or_null ''current'' state)
      in (case load_artifact c D (str_or [] (get_key ''sha256'' current)) (perimetr_pod_max_artifact_bytes s) of
            Some cached \<Rightarrow> (Inr (Some (cached\<lparr>art_source := ''last-known-good''\<rparr>)), D)
          | None \<Rightarrow> factory_artifact c s S D))"

definition current_entry :: "pod_artifact \<Rightarrow> json" where
  "current_entry a = JObj [(''version'', JStr (art_version a)), (''sha256'', JStr (art_sha256 a)), (''source'', JStr (art_source a))]"

definition write_state :: "dict \<Rightarrow> disk \<Rightarrow> disk" where
  "write_state state D = D\<lparr>state_json := Some (json_file state)\<rparr>"

text \<open>\<open>float(state.get("checked_epoch") or 0)\<close> and whether that time is less than the refresh interval ago.\<close>

definition recently_checked :: "settings \<Rightarrow> outside \<Rightarrow> dict \<Rightarrow> artifact_error + bool" where
  "recently_checked s S state =
     (let v = get_or_null ''checked_epoch'' state;
          recent = (\<lambda>e. e \<noteq> 0 \<and> epoch_now S - e < of_int (perimetr_pod_refresh_sec s))
      in if \<not> truthy v then Inr False
         else (case v of
             JStr t \<Rightarrow> (case text_number S t of None \<Rightarrow> Inl (Other_Error ''ValueError'') | Some e \<Rightarrow> Inr (recent e))
           | JInt n \<Rightarrow> if 2 ^ 1024 \<le> \<bar>n\<bar> then Inl (Other_Error ''OverflowError'') else Inr (recent (of_int n))
           | JFloat f \<Rightarrow> Inr (f = ''Infinity'' \<or> f \<noteq> ''NaN'' \<and> f \<noteq> ''-Infinity'' \<and> recent (literal_value f))
           | JBool b \<Rightarrow> Inr (recent 1)
           | _ \<Rightarrow> Inl (Other_Error ''TypeError'')))"

definition manifest_headers :: "dict \<Rightarrow> string \<Rightarrow> (string \<times> string) list" where
  "manifest_headers state url =
     [(''Accept'', ''application/json''), (''User-Agent'', ''Exocortex-Perimetr/1'')]
     @ (if get_or_null ''manifest_url'' state = JStr url \<and> truthy (get_or_null ''etag'' state)
        then [(''If-None-Match'', py_str (get_or_null ''etag'' state))] else [])"

text \<open>What the discovery finds: a check that is recent enough, an unchanged manifest or a verified one with its tag.\<close>

datatype discovery = Recent | Unchanged string | Candidate string dict string

definition discover ::
  "crypto \<Rightarrow> settings \<Rightarrow> outside \<Rightarrow> dict \<Rightarrow> pod_artifact option \<Rightarrow> bool \<Rightarrow> artifact_error + discovery" where
  "discover c s S state fallback force =
     try_bind (pod_discovery_url (strip (perimetr_pod_repository_url s))) (\<lambda>url.
     try_bind (raise_when (update_key S = None) (Pod_Error ''trusted Pod update public key is unavailable'')) (\<lambda>_.
     try_bind (recently_checked s S state) (\<lambda>recent.
       if \<not> force \<and> fallback \<noteq> None \<and> recent then Inr Recent
       else (case open_url S url (manifest_headers state url) of
               Unreachable t \<Rightarrow> Inl (Other_Error t)
             | Http_Error status t \<Rightarrow> if status = 304 \<and> fallback \<noteq> None then Inr (Unchanged url) else Inl (Other_Error t)
             | Page headers body broken \<Rightarrow>
                 try_bind (read_manifest_response body broken) (\<lambda>m.
                 try_bind (verify_manifest c (update_key S) (perimetr_version s) m) (\<lambda>manifest.
                   Inr (Candidate url manifest (case header_value ''ETag'' headers of None \<Rightarrow> [] | Some t \<Rightarrow> t))))))))"

text \<open>No downgrade, and no second executable under the version of the fallback.\<close>

definition check_successor :: "dict \<Rightarrow> pod_artifact option \<Rightarrow> artifact_error + unit" where
  "check_successor manifest fallback =
     (case fallback of
        None \<Rightarrow> Inr ()
      | Some f \<Rightarrow>
          try_bind (compare_versions (py_str (get_or_null ''version'' manifest)) (art_version f)) (\<lambda>comparison.
            if comparison < 0 then Inl (Pod_Error ''Pod discovery manifest attempted a version downgrade'')
            else raise_when (comparison = 0 \<and> get_or_null ''sha256'' manifest \<noteq> JStr (art_sha256 f))
              (Pod_Error ''Pod release reused a version with a different checksum'')))"

definition refresh ::
  "crypto \<Rightarrow> settings \<Rightarrow> outside \<Rightarrow> disk \<Rightarrow> dict \<Rightarrow> pod_artifact option \<Rightarrow> bool \<Rightarrow> (artifact_error + pod_artifact) \<times> disk" where
  "refresh c s S D state fallback force =
     (case discover c s S state fallback force of
        Inl e \<Rightarrow> (Inl e, D)
      | Inr Recent \<Rightarrow> (of_option (Other_Error ''unreachable'') fallback, D)
      | Inr (Unchanged url) \<Rightarrow>
          (of_option (Other_Error ''unreachable'') fallback,
           write_state (set_key ''last_error'' (JStr []) (set_key ''checked_epoch'' (JFloat (epoch_text S))
             (set_key ''last_checked_at'' (JStr (iso_checked S)) (set_key ''manifest_url'' (JStr url)
             (set_key ''schema'' (JStr POD_CACHE_SCHEMA) state))))) D)
      | Inr (Candidate url manifest etag) \<Rightarrow>
          (case check_successor manifest fallback of
             Inl e \<Rightarrow> (Inl e, D)
           | Inr _ \<Rightarrow>
               (case download_artifact c S D manifest (perimetr_pod_max_artifact_bytes s) of
                  (Inl e, D') \<Rightarrow> (Inl e, D')
                | (Inr a, D') \<Rightarrow>
                    (Inr a, write_state [(''schema'', JStr POD_CACHE_SCHEMA), (''manifest_url'', JStr url), (''etag'', JStr etag),
                       (''last_checked_at'', JStr (iso_checked S)), (''checked_epoch'', JFloat (epoch_text S)),
                       (''last_error'', JStr []), (''current'', current_entry a)] D'))))"

definition ensure_latest_pod_artifact ::
  "crypto \<Rightarrow> settings \<Rightarrow> outside \<Rightarrow> disk \<Rightarrow> bool \<Rightarrow> (artifact_error + pod_artifact) \<times> disk" where
  "ensure_latest_pod_artifact c s S D force =
     (let state0 = load_json (state_json D)
      in (case state_fallback c s S D state0 of
            (Inl e, D1) \<Rightarrow> (Inl e, D1)
          | (Inr fallback, D1) \<Rightarrow>
              (let initialized = (fallback \<noteq> None \<and> \<not> is_dict (get_or_null ''current'' state0));
                   state = (case fallback of
                       Some f \<Rightarrow> if initialized then set_key ''current'' (current_entry f) state0 else state0 | None \<Rightarrow> state0)
               in if strip (perimetr_pod_repository_url s) = []
                  then (case fallback of
                          None \<Rightarrow> (Inl (Pod_Error ''no verified Pod runtime is available''), D1)
                        | Some f \<Rightarrow> (Inr f, if initialized
                            then write_state (set_key ''last_error'' (JStr []) (set_key ''last_checked_at'' (JStr (iso_checked S))
                              (set_key ''schema'' (JStr POD_CACHE_SCHEMA) state))) D1
                            else D1))
                  else (case refresh c s S D1 state fallback force of
                          (Inr a, D2) \<Rightarrow> (Inr a, D2)
                        | (Inl e, D2) \<Rightarrow>
                            (let D3 = write_state (set_key ''last_error'' (JStr (error_text e)) (set_key ''checked_epoch'' (JFloat (epoch_text S))
                                  (set_key ''last_checked_at'' (JStr (iso_checked S)) (set_key ''schema'' (JStr POD_CACHE_SCHEMA) state)))) D2
                             in (case fallback of
                                   Some f \<Rightarrow> (Inr (f\<lparr>art_refresh_error := error_text e\<rparr>), D3)
                                 | None \<Rightarrow> (Inl (Pod_Error (error_text e)), D3)))))))"

section \<open>A pinned runtime\<close>

text \<open>The runtime a provisioning record names by digest and version. Its stored manifest lets a lost file be downloaded again.\<close>

definition resolve_pinned_pod_artifact ::
  "crypto \<Rightarrow> settings \<Rightarrow> outside \<Rightarrow> disk \<Rightarrow> string \<Rightarrow> string \<Rightarrow> json \<Rightarrow> (artifact_error + pod_artifact) \<times> disk" where
  "resolve_pinned_pod_artifact c s S D digest version manifest =
     (let maximum = perimetr_pod_max_artifact_bytes s;
          accept = (\<lambda>source a. if art_version a \<noteq> version
             then Inl (Pod_Error ''the pinned Pod runtime version does not match its verified artifact'')
             else Inr (a\<lparr>art_source := source\<rparr>))
      in (case load_artifact c D (lower digest) maximum of
            Some a \<Rightarrow> (accept ''pinned-cache'' a, D)
          | None \<Rightarrow>
              (case manifest of
                 JObj m \<Rightarrow>
                   if m = [] then (Inl (Pod_Error ''the Pod runtime pinned to this provisioning record is unavailable''), D)
                   else (case try_bind (verify_manifest c (update_key S) (perimetr_version s) m) (\<lambda>verified.
                            try_bind (raise_when (get_or_null ''sha256'' verified \<noteq> JStr (lower digest))
                              (Pod_Error ''the stored Pod manifest does not match the pinned checksum'')) (\<lambda>_.
                            try_bind (raise_when (get_or_null ''version'' verified \<noteq> JStr version)
                              (Pod_Error ''the stored Pod manifest does not match the pinned version'')) (\<lambda>_.
                              Inr verified))) of
                           Inl e \<Rightarrow> (Inl e, D)
                         | Inr verified \<Rightarrow>
                             (case download_artifact c S D verified maximum of
                                (Inl e, D') \<Rightarrow> (Inl e, D')
                              | (Inr a, D') \<Rightarrow> (accept ''pinned-redownload'' a, D')))
               | _ \<Rightarrow> (Inl (Pod_Error ''the Pod runtime pinned to this provisioning record is unavailable''), D))))"

end
