(* ===== verification/Kernel_Register.thy ===== *)
theory Kernel_Register
  imports Pod_Artifacts
begin

text \<open>
  \<open>app/kernel_register.py\<close>: the configuration an installation receives from the Kernel. A snapshot is checked
  against its checksum and cached; its entries must be references to a vault, which a second request resolves; the resolved
  values are checked and written into the settings. The network is a function from a request to its reply, the cache is the
  content of its file, and writing it succeeds.
\<close>

section \<open>Errors\<close>

text \<open>A \<open>KernelRegisterError\<close> with its text, a \<open>PodArtifactError\<close>, or another exception by the name of its class.\<close>

datatype register_error = Register_Error string | Artifact_Error string | Raised string

definition SNAPSHOT_SCHEMA :: string where
  "SNAPSHOT_SCHEMA = ''exocortex.register.snapshot.v1''"

definition REVISION_PATTERN :: "string \<Rightarrow> bool" where
  "REVISION_PATTERN s \<longleftrightarrow> starts_with ''register-'' s \<and> drop 9 s \<noteq> [] \<and> list_all (\<lambda>c. is_alnum c \<or> c = CHR ''-'') (drop 9 s)"

definition uuid_pattern :: "string \<Rightarrow> bool" where
  "uuid_pattern s \<longleftrightarrow>
     (case split_on CHR ''-'' s of
        [a, b, c, d, e] \<Rightarrow> map length [a, b, c, d, e] = [8, 4, 4, 4, 12] \<and> list_all is_hex (a @ b @ c @ d @ e)
          \<and> hd c \<in> set ''12345678'' \<and> lower_char (hd d) \<in> set ''89ab''
      | _ \<Rightarrow> False)"

definition VOLT_REFERENCE_PATTERN :: "string \<Rightarrow> bool" where
  "VOLT_REFERENCE_PATTERN s \<longleftrightarrow> lower (take 7 s) = ''volt://''
     \<and> (case split_on CHR ''/'' (drop 7 s) of
          [entry, field] \<Rightarrow> uuid_pattern entry
            \<and> (uuid_pattern field \<or> field \<noteq> [] \<and> hd field \<noteq> CHR ''0'' \<and> list_all is_digit field)
        | _ \<Rightarrow> False)"

section \<open>Snapshots\<close>

definition snapshot_checksum :: "crypto \<Rightarrow> dict \<Rightarrow> string" where
  "snapshot_checksum c values = ''sha256:'' @ hexdigest (sha256_fn c (canonical_bytes (JObj [(''values'', JObj values)])))"

definition verify_snapshot :: "crypto \<Rightarrow> json \<Rightarrow> register_error + dict" where
  "verify_snapshot c snapshot =
     (case snapshot of
        JObj d \<Rightarrow>
          try_bind (raise_when (get_or_null ''schema'' d \<noteq> JStr SNAPSHOT_SCHEMA) (Register_Error ''unsupported Kernel Register schema'')) (\<lambda>_.
          try_bind (raise_when (case get_or_null ''revision'' d of JStr r \<Rightarrow> \<not> REVISION_PATTERN r | _ \<Rightarrow> True)
            (Register_Error ''invalid Kernel Register revision'')) (\<lambda>_.
          (case get_or_null ''values'' d of
             JObj values \<Rightarrow>
               try_bind (raise_when (get_or_null ''checksum'' d \<noteq> JStr (snapshot_checksum c values))
                 (Register_Error ''Kernel Register checksum mismatch'')) (\<lambda>_. Inr d)
           | _ \<Rightarrow> Inl (Register_Error ''Kernel Register values must be an object''))))
      | _ \<Rightarrow> Inl (Raised ''AttributeError''))"

section \<open>The cache\<close>

definition read_cache :: "crypto \<Rightarrow> string option \<Rightarrow> register_error + dict" where
  "read_cache c file =
     (case Option.bind (Option.bind file utf8_decode) loads of
        None \<Rightarrow> Inl (Register_Error ''no valid Kernel Register last-known-good cache'')
      | Some v \<Rightarrow> verify_snapshot c v)"

definition write_cache :: "crypto \<Rightarrow> dict \<Rightarrow> register_error + string" where
  "write_cache c snapshot =
     (let body = utf8 (canonical_text (JObj snapshot) @ [CHR 0x0a])
      in try_bind (read_cache c (Some body)) (\<lambda>_. Inr body))"

section \<open>Loading\<close>

definition MAX_SNAPSHOT_BYTES :: nat where
  "MAX_SNAPSHOT_BYTES = 3 * 1024 * 1024"

text \<open>\<open>json.loads(body.decode("utf-8"))\<close> under a limit.\<close>

definition limited_json :: "nat \<Rightarrow> string \<Rightarrow> string \<Rightarrow> string option \<Rightarrow> register_error + json" where
  "limited_json limit text body broken =
     (if limit < length body then Inl (Register_Error text)
      else (case broken of
              Some t \<Rightarrow> Inl (Raised t)
            | None \<Rightarrow> of_option (Raised ''ValueError'') (Option.bind (utf8_decode body) loads)))"

definition received_snapshot :: "crypto \<Rightarrow> string \<Rightarrow> string option \<Rightarrow> register_error + dict" where
  "received_snapshot c body broken =
     try_bind (limited_json MAX_SNAPSHOT_BYTES ''Kernel Register response is too large'' body broken) (verify_snapshot c)"

text \<open>An exception that the loop over the addresses does not catch.\<close>

definition uncaught :: "register_error \<Rightarrow> bool" where
  "uncaught e \<longleftrightarrow> e = Raised ''AttributeError''"

definition snapshot_headers :: "string \<Rightarrow> dict option \<Rightarrow> (string \<times> string) list" where
  "snapshot_headers token cached =
     [(''Authorization'', ''Bearer '' @ token), (''Accept'', ''application/vnd.exocortex.register+json; version=1'')]
     @ (case cached of None \<Rightarrow> [] | Some d \<Rightarrow> [(''If-None-Match'', CHR 0x22 # py_str (get_or_null ''revision'' d) @ [CHR 0x22])])"

type_synonym requests = "string \<Rightarrow> (string \<times> string) list \<Rightarrow> reply"

definition fetch_snapshot ::
  "crypto \<Rightarrow> requests \<Rightarrow> string \<Rightarrow> string \<Rightarrow> string option \<Rightarrow> dict option \<Rightarrow> bool \<Rightarrow> bool
     \<Rightarrow> (register_error + dict) \<times> string option" where
  "fetch_snapshot c net origin token cache cached require_fresh persist =
     (let give_up = (case cached of
             Some d \<Rightarrow> if require_fresh then None else Some d | None \<Rightarrow> None);
          otherwise = (case give_up of
             Some d \<Rightarrow> Inr d
           | None \<Rightarrow> Inl (Register_Error ''Kernel unavailable and no valid Register last-known-good cache exists''))
      in (case net (rstrip_by (\<lambda>x. x = CHR ''/'') origin @ ''/api/v1/register/snapshot'') (snapshot_headers token cached) of
            Unreachable t \<Rightarrow> (otherwise, cache)
          | Http_Error status t \<Rightarrow>
              ((case cached of Some d \<Rightarrow> if status = 304 then Inr d else otherwise | None \<Rightarrow> otherwise), cache)
          | Page headers body broken \<Rightarrow>
              (case try_bind (received_snapshot c body broken) (\<lambda>d.
                      if persist then try_bind (write_cache c d) (\<lambda>file. Inr (d, Some file)) else Inr (d, cache)) of
                 Inr (d, cache') \<Rightarrow> (Inr d, cache')
               | Inl e \<Rightarrow> if uncaught e then (Inl e, cache) else (otherwise, cache))))"

definition load_snapshot ::
  "crypto \<Rightarrow> requests \<Rightarrow> string \<Rightarrow> string \<Rightarrow> string option \<Rightarrow> bool \<Rightarrow> bool \<Rightarrow> (register_error + dict) \<times> string option" where
  "load_snapshot c net origin token cache require_fresh persist =
     (if origin = [] \<and> token = [] then (Inr [], cache)
      else if origin = [] \<or> token = [] then
        (Inl (Register_Error ''KERNEL_URL and KERNEL_SERVICE_TOKEN must be configured together''), cache)
      else (case read_cache c cache of
              Inr d \<Rightarrow> fetch_snapshot c net origin token cache (Some d) require_fresh persist
            | Inl e \<Rightarrow> if uncaught e then (Inl e, cache)
                else fetch_snapshot c net origin token cache None require_fresh persist))"

section \<open>Values\<close>

fun resolve_path :: "json \<Rightarrow> string list \<Rightarrow> json option" where
  "resolve_path cursor [] = Some cursor"
| "resolve_path cursor (part # parts) =
     (case cursor of JObj d \<Rightarrow> Option.bind (get_key part d) (\<lambda>v. resolve_path v parts) | _ \<Rightarrow> None)"

definition resolve_key :: "dict \<Rightarrow> string \<Rightarrow> json" where
  "resolve_key values key = (case resolve_path (JObj values) (split_on CHR ''.'' key) of None \<Rightarrow> JNull | Some v \<Rightarrow> v)"

definition required_string :: "dict \<Rightarrow> string \<Rightarrow> register_error + string" where
  "required_string values key =
     (let missing = Inl (Register_Error (''Kernel Register is missing required key '' @ key))
      in (case resolve_key values key of JStr t \<Rightarrow> if strip t = [] then missing else Inr (strip t) | _ \<Rightarrow> missing))"

definition required_url :: "dict \<Rightarrow> string \<Rightarrow> register_error + string" where
  "required_url values key =
     try_bind (required_string values key) (\<lambda>value.
     try_bind (of_option (Raised ''ValueError'') (urlsplit value)) (\<lambda>parsed.
     try_bind (raise_when (url_scheme parsed \<noteq> ''https'' \<or> url_hostname parsed = None)
       (Register_Error (''Kernel Register key '' @ key @ '' must be a valid HTTPS URL''))) (\<lambda>_. Inr value)))"

text \<open>\<open>int(value)\<close> truncates a float; an infinity, which is also what a literal beyond the largest double is read as, raises
  an exception that is not caught.\<close>

definition float_overflows :: "rat \<Rightarrow> bool" where
  "float_overflows v \<longleftrightarrow> 2 ^ 1024 - 2 ^ 970 \<le> \<bar>v\<bar>"

definition truncated :: "rat \<Rightarrow> int" where
  "truncated v = (if v < 0 then - \<lfloor>- v\<rfloor> else \<lfloor>v\<rfloor>)"

definition positive_int :: "dict \<Rightarrow> string \<Rightarrow> int \<Rightarrow> int \<Rightarrow> int \<Rightarrow> register_error + int" where
  "positive_int values key old minimum maximum =
     (let accept = (\<lambda>n. Inr (if minimum \<le> n \<and> n \<le> maximum then n else old))
      in (case resolve_key values key of
            JStr t \<Rightarrow> (case py_int t of None \<Rightarrow> Inr old | Some n \<Rightarrow> accept n)
          | JInt n \<Rightarrow> accept n
          | JBool b \<Rightarrow> accept (if b then 1 else 0)
          | JFloat f \<Rightarrow>
              if f = ''NaN'' then Inr old
              else if f \<in> {''Infinity'', ''-Infinity''} \<or> float_overflows (literal_value f) then Inl (Raised ''OverflowError'')
              else accept (truncated (literal_value f))
          | _ \<Rightarrow> Inr old))"

definition required_port :: "dict \<Rightarrow> string \<Rightarrow> register_error + int" where
  "required_port values key =
     try_bind (required_string values key) (\<lambda>value.
     try_bind (of_option (Register_Error (''Kernel Register key '' @ key @ '' must be an integer port'')) (py_int value)) (\<lambda>port.
     try_bind (raise_when (\<not> (1 \<le> port \<and> port \<le> 65535))
       (Register_Error (''Kernel Register key '' @ key @ '' must be between 1 and 65535''))) (\<lambda>_. Inr port)))"

section \<open>Resolution\<close>

definition index_json :: "json \<Rightarrow> string \<Rightarrow> json option" where
  "index_json v k = (case v of JObj d \<Rightarrow> get_key k d | _ \<Rightarrow> None)"

definition resolution_failed :: register_error where
  "resolution_failed = Register_Error ''Kernel value resolution failed''"

text \<open>\<open>payload["values"][key]["value"]\<close> for every key.\<close>

fun resolved_values :: "json \<Rightarrow> string list \<Rightarrow> register_error + (string \<times> json) list" where
  "resolved_values payload [] = Inr []"
| "resolved_values payload (key # keys) =
     try_bind (of_option resolution_failed
       (Option.bind (Option.bind (index_json payload ''values'') (\<lambda>v. index_json v key)) (\<lambda>v. index_json v ''value''))) (\<lambda>v.
     try_bind (resolved_values payload keys) (\<lambda>rest. Inr ((key, v) # rest)))"

definition json_text :: "json \<Rightarrow> string" where
  "json_text v = (case v of JStr t \<Rightarrow> t | _ \<Rightarrow> [])"

definition json_is_text :: "json \<Rightarrow> bool" where
  "json_is_text v = (case v of JStr t \<Rightarrow> True | _ \<Rightarrow> False)"

definition read_resolution :: "string list \<Rightarrow> string \<Rightarrow> string option \<Rightarrow> register_error + (string \<times> string) list" where
  "read_resolution keys body broken =
     (case limited_json (1024 * 1024) ''Kernel resolution response is too large'' body broken of
        Inl (Raised t) \<Rightarrow> Inl resolution_failed
      | Inl e \<Rightarrow> Inl e
      | Inr payload \<Rightarrow>
          (case payload of
             JObj d \<Rightarrow>
               if get_or_null ''schema'' d \<noteq> JStr ''exocortex.register.resolution.v1''
               then Inl (Register_Error ''unsupported Kernel resolution schema'')
               else try_bind (resolved_values payload keys) (\<lambda>resolved.
                      if list_all (\<lambda>p. json_is_text (snd p)) resolved then Inr (map (\<lambda>p. (fst p, json_text (snd p))) resolved)
                      else Inl (Register_Error ''unsupported Kernel resolution response''))
           | _ \<Rightarrow> Inl (Raised ''AttributeError'')))"

text \<open>The reply to the POST of the keys.\<close>

type_synonym posts = "string \<Rightarrow> (string \<times> string) list \<Rightarrow> json \<Rightarrow> reply"

definition resolve_values :: "posts \<Rightarrow> string \<Rightarrow> string \<Rightarrow> string list \<Rightarrow> register_error + (string \<times> string) list" where
  "resolve_values post origin token keys =
     (case post (rstrip_by (\<lambda>x. x = CHR ''/'') origin @ ''/api/v1/register/resolve'')
         [(''Authorization'', ''Bearer '' @ token), (''Content-Type'', ''application/json''), (''Accept'', ''application/json'')]
         (JObj [(''keys'', JArr (map JStr keys))]) of
        Unreachable t \<Rightarrow> Inl resolution_failed
      | Http_Error status t \<Rightarrow> Inl resolution_failed
      | Page headers body broken \<Rightarrow> read_resolution keys body broken)"

fun set_path :: "json \<Rightarrow> string list \<Rightarrow> string \<Rightarrow> json" where
  "set_path cursor [] value = JStr value"
| "set_path cursor (part # parts) value =
     (case cursor of
        JObj d \<Rightarrow> JObj (set_key part (set_path (get_or_null part d) parts value) d)
      | _ \<Rightarrow> cursor)"

text \<open>The keys were found in the values, so every part of the path but the last is a dictionary.\<close>

definition replace_resolved :: "dict \<Rightarrow> (string \<times> string) list \<Rightarrow> dict" where
  "replace_resolved values resolved =
     dict_or_empty (foldl (\<lambda>copied p. set_path copied (split_on CHR ''.'' (fst p)) (snd p)) (JObj values) resolved)"

section \<open>Settings\<close>

definition REGISTER_KEYS :: "string list" where
  "REGISTER_KEYS = [''repositories.perimetr.url'', ''repositories.pod.url'', ''services.perimetr.sni'',
     ''services.perimetr.port'', ''intervals.kernel.refresh_sec'']"

definition check_reference :: "dict \<Rightarrow> string \<Rightarrow> register_error + unit" where
  "check_reference values key =
     raise_when (case resolve_key values key of JStr t \<Rightarrow> \<not> VOLT_REFERENCE_PATTERN t | _ \<Rightarrow> True)
       (Register_Error (''Kernel Register key '' @ key @ '' must use volt://<entry-id>/<field-id>''))"

fun check_references :: "dict \<Rightarrow> string list \<Rightarrow> register_error + unit" where
  "check_references values [] = Inr ()"
| "check_references values (key # keys) = try_bind (check_reference values key) (\<lambda>_. check_references values keys)"

text \<open>\<open>urlparse(...).path\<close>: the parameters of the last segment are not part of it.\<close>

definition parsed_path :: "url \<Rightarrow> string" where
  "parsed_path u =
     (let p = url_path u; slash = (case rcut CHR ''/'' p of None \<Rightarrow> [] | Some (a, _) \<Rightarrow> a @ ''/'')
      in slash @ takeWhile (\<lambda>x. x \<noteq> CHR '';'') (drop (length slash) p))"

definition check_sni :: "string \<Rightarrow> register_error + unit" where
  "check_sni sni =
     try_bind (of_option (Raised ''ValueError'') (urlsplit (''http://'' @ sni))) (\<lambda>parsed.
       raise_when (url_hostname parsed = None \<or> parsed_path parsed \<notin> {[], ''/''})
         (Register_Error ''Kernel Register services.perimetr.sni is invalid''))"

definition public_url :: "string \<Rightarrow> int \<Rightarrow> string" where
  "public_url sni port =
     ''https://'' @ (if CHR '':'' \<in> set sni \<and> \<not> starts_with ''['' sni then ''['' @ sni @ '']'' else sni)
       @ (if port = 443 then [] else CHR '':'' # str_int port)"

definition lift_artifact :: "artifact_error + 'a \<Rightarrow> register_error + 'a" where
  "lift_artifact r = (case r of Inr a \<Rightarrow> Inr a | Inl (Pod_Error t) \<Rightarrow> Inl (Artifact_Error t) | Inl (Other_Error t) \<Rightarrow> Inl (Raised t))"

definition register_settings :: "dict \<Rightarrow> string \<Rightarrow> settings \<Rightarrow> register_error + settings" where
  "register_settings values revision s =
     try_bind (required_url values ''repositories.perimetr.url'') (\<lambda>perimetr.
     try_bind (required_url values ''repositories.pod.url'') (\<lambda>pod.
     try_bind (lift_artifact (pod_discovery_url pod)) (\<lambda>manifest.
     try_bind (required_string values ''services.perimetr.sni'') (\<lambda>sni.
     try_bind (required_port values ''services.perimetr.port'') (\<lambda>port.
     try_bind (check_sni sni) (\<lambda>_.
     try_bind (positive_int values ''intervals.kernel.refresh_sec'' (kernel_refresh_sec s) 5 3600) (\<lambda>refresh_sec.
       Inr (s\<lparr>perimetr_repository_url := perimetr, perimetr_pod_repository_url := pod,
              perimetr_pod_update_manifest_url := manifest, perimetr_sni := sni, perimetr_service_port := port,
              perimetr_public_url := public_url sni port,
              kernel_refresh_sec := refresh_sec,
              kernel_register_revision := revision\<rparr>))))))))"

definition apply_snapshot :: "posts \<Rightarrow> settings \<Rightarrow> dict \<Rightarrow> register_error + settings" where
  "apply_snapshot post s snapshot =
     (if snapshot = [] then Inr s
      else (let stored = dict_or_empty (get_or_null ''values'' snapshot)
        in try_bind (check_references stored REGISTER_KEYS) (\<lambda>_.
           try_bind (resolve_values post (kernel_url s) (kernel_service_token s) REGISTER_KEYS) (\<lambda>resolved.
             register_settings (replace_resolved stored resolved) (py_str (get_or_null ''revision'' snapshot)) s))))"

definition apply_register ::
  "crypto \<Rightarrow> requests \<Rightarrow> posts \<Rightarrow> settings \<Rightarrow> string option \<Rightarrow> (register_error + settings) \<times> string option" where
  "apply_register c net post s cache =
     (case load_snapshot c net (kernel_url s) (kernel_service_token s) cache False True of
        (Inl e, cache') \<Rightarrow> (Inl e, cache')
      | (Inr snapshot, cache') \<Rightarrow> (apply_snapshot post s snapshot, cache'))"

end
