(* ===== verification/Kernel_Connection.thy ===== *)
theory Kernel_Connection
  imports Kernel_Register Sessions
begin

text \<open>
  \<open>app/kernel_connection.py\<close> and \<open>get_settings\<close> of \<open>app/settings.py\<close>: which Kernel the installation listens to. The origin is a
  row of the settings table, the machine token a file; both change only after the Kernel has answered to them. The process
  keeps the settings it has resolved and, as a fallback, what the register gave last.
\<close>

section \<open>The process\<close>

record process =
  url_override :: "string option"
  token_file :: "string option"
  register_cache :: "string option"
  last_register :: "((string \<times> string) \<times> settings) option"
  settings_cache :: "settings option"

definition with_register_fields :: "settings \<Rightarrow> settings \<Rightarrow> settings" where
  "with_register_fields old s =
     s\<lparr>perimetr_repository_url := perimetr_repository_url old, perimetr_pod_repository_url := perimetr_pod_repository_url old,
       perimetr_pod_update_manifest_url := perimetr_pod_update_manifest_url old, perimetr_sni := perimetr_sni old,
       perimetr_service_port := perimetr_service_port old, perimetr_public_url := perimetr_public_url old,
       kernel_refresh_sec := kernel_refresh_sec old, kernel_register_revision := kernel_register_revision old\<rparr>"

text \<open>\<open>Settings()\<close> with the version of the installation is an argument; origin and token come on top.\<close>

definition own_settings :: "settings \<Rightarrow> process \<Rightarrow> settings" where
  "own_settings s P =
     (let s1 = (case url_override P of None \<Rightarrow> s | Some u \<Rightarrow> s\<lparr>kernel_url := u\<rparr>)
      in (case token_file P of None \<Rightarrow> s1 | Some t \<Rightarrow> s1\<lparr>kernel_service_token := t\<rparr>))"

definition get_settings ::
  "crypto \<Rightarrow> requests \<Rightarrow> posts \<Rightarrow> settings \<Rightarrow> process \<Rightarrow> (register_error + settings) \<times> process" where
  "get_settings c net post s P =
     (case settings_cache P of
        Some known \<Rightarrow> (Inr known, P)
      | None \<Rightarrow>
          (let own = own_settings s P;
               identity = (kernel_url own, kernel_service_token own);
               (r, cache') = apply_register c net post own (register_cache P);
               P' = P\<lparr>register_cache := cache'\<rparr>
           in (case r of
                 Inl (Register_Error t) \<Rightarrow>
                   (case last_register P of
                      Some (known, old) \<Rightarrow>
                        if known = identity
                        then (let kept = (with_register_fields old own)\<lparr>kernel_register_stale := True\<rparr>
                              in (Inr kept, P'\<lparr>settings_cache := Some kept\<rparr>))
                        else (Inl (Register_Error t), P')
                    | None \<Rightarrow> (Inl (Register_Error t), P'))
               | Inl e \<Rightarrow> (Inl e, P')
               | Inr resolved \<Rightarrow>
                   (Inr resolved,
                    P'\<lparr>last_register := if kernel_url own \<noteq> [] then Some (identity, resolved) else last_register P,
                       settings_cache := Some resolved\<rparr>))))"

section \<open>Checks\<close>

definition given :: "string option \<Rightarrow> bool" where
  "given x \<longleftrightarrow> x \<noteq> None \<and> x \<noteq> Some []"

definition valid_url :: "json \<Rightarrow> settings \<Rightarrow> failure + string" where
  "valid_url value s =
     (case value of
        JStr v \<Rightarrow>
          (case urlsplit v of
             None \<Rightarrow> Inl (http_error 422 ''Invalid Kernel origin'')
           | Some parsed \<Rightarrow>
               if url_port parsed = None then Inl (http_error 422 ''Invalid Kernel origin'')
               else if url_hostname parsed = None \<or> given (url_username parsed) \<or> given (url_password parsed)
                 \<or> url_query parsed \<noteq> [] \<or> url_fragment parsed \<noteq> [] \<or> url_path parsed \<notin> {[], ''/''}
                 \<or> url_scheme parsed \<noteq> ''https'' \<and> \<not> (perimetr_env s = ''development'' \<and> url_scheme parsed = ''http''
                     \<and> url_hostname parsed \<in> {Some ''localhost'', Some ''127.0.0.1''})
               then Inl (http_error 422 ''Kernel URL must be an HTTPS origin without credentials'')
               else Inr (rstrip_by (\<lambda>x. x = CHR ''/'') v))
      | _ \<Rightarrow> Inl (http_error 422 ''Supply a Kernel origin''))"

definition register_failure :: "register_error \<Rightarrow> failure" where
  "register_failure e = (case e of
     Register_Error t \<Rightarrow> Crash ''KernelRegisterError'' | Artifact_Error t \<Rightarrow> Crash ''PodArtifactError'' | Raised t \<Rightarrow> Crash t)"

definition probe_failure :: "register_error \<Rightarrow> failure" where
  "probe_failure e = (case e of
     Register_Error t \<Rightarrow>
       http_error 502 ''Kernel authentication or Register validation failed; previous configuration retained''
   | _ \<Rightarrow> register_failure e)"

definition probe ::
  "crypto \<Rightarrow> requests \<Rightarrow> posts \<Rightarrow> string option \<Rightarrow> string \<Rightarrow> string \<Rightarrow> settings \<Rightarrow> failure + json" where
  "probe c net post cache url token s =
     (if token = [] then Inl (http_error 409 ''Configure the Kernel service token first'')
      else (case fst (load_snapshot c net url token cache True False) of
              Inl e \<Rightarrow> Inl (probe_failure e)
            | Inr snapshot \<Rightarrow>
                (case apply_snapshot post (s\<lparr>kernel_url := url, kernel_service_token := token\<rparr>) snapshot of
                   Inl e \<Rightarrow> Inl (probe_failure e)
                 | Inr s' \<Rightarrow> Inr (get_or_null ''revision'' snapshot))))"

section \<open>The row\<close>

definition KERNEL_KEY :: string where
  "KERNEL_KEY = ''perimetr.kernel''"

definition kernel_row :: "system_setting \<Rightarrow> bool" where
  "kernel_row r \<longleftrightarrow> ss_key r = KERNEL_KEY"

definition add_kernel_row :: "env \<Rightarrow> dict \<Rightarrow> system_setting web" where
  "add_kernel_row E value =
     letM (new_id E) (\<lambda>i. letM (now_utc E) (\<lambda>t.
       (let r = \<lparr>ss_id = i, ss_scope = ''perimetr'', ss_key = KERNEL_KEY, ss_value = JObj value, ss_created_at = t\<rparr>
        in seqM (db_add SETTINGS r) (ret r))))"

definition row_value :: "system_setting \<Rightarrow> dict" where
  "row_value r = dict_or_empty (ss_value r)"

text \<open>A new row, or the row that was found with another value.\<close>

definition put_row :: "env \<Rightarrow> dict \<Rightarrow> (system_setting \<Rightarrow> dict) \<Rightarrow> system_setting option \<Rightarrow> unit web" where
  "put_row E fresh changed found = (case found of
     None \<Rightarrow> letM (add_kernel_row E fresh) (\<lambda>_. ret ())
   | Some r \<Rightarrow> db_set SETTINGS (ss_id r) (\<lambda>x. x\<lparr>ss_value := JObj (changed r)\<rparr>))"

text \<open>The result is the origin that later calls of \<open>get_settings\<close> use.\<close>

definition apply_connection :: "env \<Rightarrow> settings \<Rightarrow> bool \<Rightarrow> string web" where
  "apply_connection E s require_helper_sync =
     letM (db_scalar SETTINGS kernel_row) (\<lambda>found.
     letM (case found of
             Some r \<Rightarrow> ret r
           | None \<Rightarrow> letM (add_kernel_row E [(''url'', JStr (kernel_url s)), (''helper_sync_required'', JBool False)]) (\<lambda>r.
               seqM flush (ret r))) (\<lambda>r.
     seqM (whenM require_helper_sync
            (db_set SETTINGS (ss_id r) (\<lambda>x. x\<lparr>ss_value := JObj (set_key ''helper_sync_required'' (JBool True) (row_value r))\<rparr>)))
       (ret (case get_key ''url'' (row_value r) of None \<Rightarrow> [] | Some v \<Rightarrow> py_str v))))"

section \<open>Endpoints\<close>

text \<open>\<open>GET /v1/settings/kernel\<close>; a row without an origin is a KeyError.\<close>

definition kernel_read :: "settings \<Rightarrow> dict web" where
  "kernel_read s =
     letM (db_scalar SETTINGS kernel_row) (\<lambda>found.
     letM (case found of
             None \<Rightarrow> ret (JStr (kernel_url s))
           | Some r \<Rightarrow> liftM (of_option (Crash ''KeyError'') (get_key ''url'' (row_value r)))) (\<lambda>url.
       ret [(''url'', url), (''token_configured'', JBool (kernel_service_token s \<noteq> [])),
            (''register_stale'', JBool (kernel_register_stale s)),
            (''helper_sync_required'', JBool (case found of None \<Rightarrow> False
               | Some r \<Rightarrow> truthy (get_or_null ''helper_sync_required'' (row_value r))))]))"

text \<open>\<open>POST /v1/settings/kernel/check\<close>. In this and the next two, \<open>ask url token\<close> is the outcome of the probe.\<close>

type_synonym ask = "string \<Rightarrow> string \<Rightarrow> failure + json"

definition kernel_check :: "ask \<Rightarrow> settings \<Rightarrow> dict web" where
  "kernel_check ask s =
     letM (liftM (ask (kernel_url s) (kernel_service_token s))) (\<lambda>revision.
       ret [(''reachable'', JBool True), (''revision'', revision)])"

text \<open>\<open>PATCH /v1/settings/kernel\<close> up to its second commit. The result is the new origin.\<close>

definition kernel_save :: "env \<Rightarrow> ask \<Rightarrow> settings \<Rightarrow> dict \<Rightarrow> string web" where
  "kernel_save E ask s payload =
     seqM (raise_if (set (map fst payload) \<noteq> {''url''}) (http_error 422 ''Only the Kernel origin belongs to this setting''))
     (letM (liftM (valid_url (get_or_null ''url'' payload) s)) (\<lambda>url.
     letM (liftM (ask url (kernel_service_token s))) (\<lambda>_.
     letM (db_scalar SETTINGS kernel_row) (\<lambda>found.
     (let value = [(''url'', JStr url), (''helper_sync_required'', JBool True)]
      in seqM (put_row E value (\<lambda>_. value) found)
        (seqM (audit E ''operator'' ''core'' ''kernel.origin.changed'' ''settings'' ''kernel'' [] [(''outcome'', JStr ''success'')])
        (seqM commit
        (apply_connection E s False))))))))"

definition transport_char :: "char \<Rightarrow> bool" where
  "transport_char x \<longleftrightarrow> 33 \<le> code x \<and> code x \<le> 126"

text \<open>\<open>POST /v1/settings/kernel/token\<close> up to the file of the token, and from there on. The result is the token.\<close>

definition kernel_rotate :: "env \<Rightarrow> ask \<Rightarrow> settings \<Rightarrow> request \<Rightarrow> dict \<Rightarrow> string web" where
  "kernel_rotate E ask s req payload =
     seqM (raise_if (set (map fst payload) \<noteq> {''current_key'', ''token''} \<or> \<not> list_all (\<lambda>p. json_is_text (snd p)) payload)
            (http_error 422 ''Supply the current Access Key and replacement machine token''))
     (letM (ensure_preferences E) (\<lambda>record.
     (let auth = dict_or_empty (get_or_null ''auth'' (row_value record));
          identity = ''kernel-rotation:'' @ client_identity req (perimetr_trusted_proxies s);
          token = json_text (get_or_null ''token'' payload)
      in letM (limiter_check E identity) (\<lambda>decision.
         seqM (raise_if (\<not> allowed decision) (http_error 429 ''Too many unsuccessful key checks''))
         (seqM (if verify_password (crypt E) (json_text (get_or_null ''current_key'' payload)) (json_text (get_or_null ''access_key_hash'' auth))
                then ret ()
                else seqM (limiter_fail E identity) (raiseM (http_error 403 ''Current Access Key is incorrect'')))
         (seqM (limiter_success identity)
         (seqM (raise_if (token = [] \<or> \<not> list_all transport_char token) (http_error 422 ''Invalid machine token transport encoding''))
         (letM (liftM (ask (kernel_url s) token)) (\<lambda>_. ret token)))))))))"

definition record_rotation :: "env \<Rightarrow> settings \<Rightarrow> unit web" where
  "record_rotation E s =
     letM (db_scalar SETTINGS kernel_row) (\<lambda>found.
     seqM (put_row E [(''url'', JStr (kernel_url s)), (''helper_sync_required'', JBool True)]
             (\<lambda>r. set_key ''helper_sync_required'' (JBool True) (row_value r)) found)
     (seqM (audit E ''operator'' ''core'' ''kernel.credential.changed'' ''settings'' ''kernel'' [] [(''outcome'', JStr ''success'')])
       commit))"

section \<open>Requests that touch the process\<close>

text \<open>A handler on the process and the world. \<open>kernel_net\<close> and \<open>kernel_post\<close> are the replies of the Kernel to the \<open>n\<close>-th
  conversation of the request.\<close>

record kernel =
  own_config :: settings
  kernel_net :: "nat \<Rightarrow> requests"
  kernel_post :: "nat \<Rightarrow> posts"

type_synonym 'a proc = "process \<times> world \<Rightarrow> (failure + 'a) \<times> process \<times> world"

definition letP :: "'a proc \<Rightarrow> ('a \<Rightarrow> 'b proc) \<Rightarrow> 'b proc" where
  "letP m f s = (case m s of (Inl e, s') \<Rightarrow> (Inl e, s') | (Inr a, s') \<Rightarrow> f a s')"

definition webP :: "'a web \<Rightarrow> 'a proc" where
  "webP m s = (let (r, w') = m (snd s) in (r, fst s, w'))"

definition setP :: "(process \<Rightarrow> process) \<Rightarrow> unit proc" where
  "setP f s = (Inr (), f (fst s), snd s)"

definition settingsP :: "env \<Rightarrow> kernel \<Rightarrow> nat \<Rightarrow> settings proc" where
  "settingsP E K n s =
     (let (r, P') = get_settings (crypt E) (kernel_net K n) (kernel_post K n) (own_config K) (fst s)
      in ((case r of Inl e \<Rightarrow> Inl (register_failure e) | Inr a \<Rightarrow> Inr a), P', snd s))"

definition askP :: "env \<Rightarrow> kernel \<Rightarrow> nat \<Rightarrow> settings \<Rightarrow> ask proc" where
  "askP E K n t s =
     (Inr (\<lambda>url token. probe (crypt E) (kernel_net K n) (kernel_post K n) (register_cache (fst s)) url token t), s)"

definition serveP :: "'a proc \<Rightarrow> 'a proc" where
  "serveP m s =
     (let (r, P', w') = m (fst s, (snd s)\<lparr>stored := committed (snd s), live := committed (snd s), pending_log := []\<rparr>)
      in (r, P', w'\<lparr>stored := committed w', live := committed w', pending_log := []\<rparr>))"

definition with_access :: "env \<Rightarrow> request \<Rightarrow> 'a proc \<Rightarrow> 'a proc" where
  "with_access E req m = serveP (letP (webP (require_core_access E req)) (\<lambda>_. m))"

definition read_connection :: "env \<Rightarrow> kernel \<Rightarrow> request \<Rightarrow> dict proc" where
  "read_connection E K req = with_access E req (letP (settingsP E K 0) (\<lambda>s. webP (kernel_read s)))"

definition check_connection :: "env \<Rightarrow> kernel \<Rightarrow> request \<Rightarrow> dict proc" where
  "check_connection E K req =
     with_access E req (letP (settingsP E K 0) (\<lambda>s. letP (askP E K 1 s) (\<lambda>ask. webP (kernel_check ask s))))"

definition save_steps :: "env \<Rightarrow> kernel \<Rightarrow> dict \<Rightarrow> dict proc" where
  "save_steps E K payload =
     letP (settingsP E K 0) (\<lambda>s. letP (askP E K 1 s) (\<lambda>ask.
     letP (webP (kernel_save E ask s payload)) (\<lambda>override.
     letP (setP (\<lambda>P. P\<lparr>url_override := Some override, settings_cache := None\<rparr>)) (\<lambda>_.
     letP (webP commit) (\<lambda>_.
     letP (settingsP E K 2) (\<lambda>s'. webP (kernel_read s')))))))"

definition save_connection :: "env \<Rightarrow> kernel \<Rightarrow> request \<Rightarrow> dict \<Rightarrow> dict proc" where
  "save_connection E K req payload = with_access E req (save_steps E K payload)"

definition rotate_steps :: "env \<Rightarrow> kernel \<Rightarrow> request \<Rightarrow> dict \<Rightarrow> dict proc" where
  "rotate_steps E K req payload =
     letP (settingsP E K 0) (\<lambda>s. letP (askP E K 1 s) (\<lambda>ask.
     letP (webP (kernel_rotate E ask s req payload)) (\<lambda>token.
     letP (setP (\<lambda>P. P\<lparr>token_file := Some token\<rparr>)) (\<lambda>_.
     letP (webP (record_rotation E s)) (\<lambda>_.
     letP (setP (\<lambda>P. P\<lparr>settings_cache := None\<rparr>)) (\<lambda>_.
       webP (ret [(''changed'', JBool True), (''helper_sync_required'', JBool True)])))))))"

definition rotate_connection :: "env \<Rightarrow> kernel \<Rightarrow> request \<Rightarrow> dict \<Rightarrow> dict proc" where
  "rotate_connection E K req payload = with_access E req (rotate_steps E K req payload)"

section \<open>The installer\<close>

text \<open>The installer's pipe: \<open>synced\<close> and \<open>export-for-installer\<close>.\<close>

definition mark_synced :: "unit web" where
  "mark_synced =
     letM (db_scalar SETTINGS kernel_row) (\<lambda>found.
       (case found of
          None \<Rightarrow> ret ()
        | Some r \<Rightarrow> seqM (db_set SETTINGS (ss_id r)
            (\<lambda>x. x\<lparr>ss_value := JObj (set_key ''helper_sync_required'' (JBool False) (row_value r))\<rparr>)) commit))"

definition export_for_installer :: "settings \<Rightarrow> string option \<Rightarrow> dict web" where
  "export_for_installer s secret =
     letM (db_scalar SETTINGS kernel_row) (\<lambda>found.
     letM (case found of
             None \<Rightarrow> ret (JStr (kernel_url s))
           | Some r \<Rightarrow> liftM (of_option (Crash ''KeyError'') (get_key ''url'' (row_value r)))) (\<lambda>url.
       ret [(''KERNEL_URL'', url),
            (''KERNEL_SERVICE_TOKEN'', JStr (case secret of None \<Rightarrow> kernel_service_token s | Some t \<Rightarrow> t))]))"

end
