(* ===== verification/Operations_Api.thy ===== *)
theory Operations_Api
  imports Kernel_Connection
begin

text \<open>
  \<open>app/operations_api.py\<close> with the clients \<open>app/updater_client.py\<close> and \<open>app/neptune_client.py\<close>: backups that the operator
  keeps, the receipts that tie a saved backup to one update, and the protocol with the Updater on the host. The Updater is
  a function from requests to replies, and the snapshot of the database and its restoration are arguments.
\<close>

section \<open>Requests to a service on the host\<close>

datatype socket_reply =
    No_Socket
  | Socket_Error
  | Protocol_Error string
  | Answered nat string

record host_request =
  hr_method :: string
  hr_path :: string
  hr_headers :: "(string \<times> string) list"
  hr_body :: "string option"

type_synonym host_service = "host_request \<Rightarrow> socket_reply"

text \<open>Both clients: \<open>gone\<close> is what the client raises when the socket cannot be used after the connection.\<close>

definition body_text :: "json option \<Rightarrow> string option" where
  "body_text payload = map_option (render '','' '':'' False) payload"

definition read_reply :: "nat \<Rightarrow> nat \<Rightarrow> string \<Rightarrow> failure + json" where
  "read_reply limit status content =
     (if limit < length content then Inl (Crash ''RuntimeError'')
      else (case Option.bind (utf8_decode content) (\<lambda>t. loads (if t = [] then ''{}'' else t)) of
              None \<Rightarrow> Inl (Crash ''RuntimeError'')
            | Some result \<Rightarrow>
                if 200 \<le> status \<and> status < 300 then Inr result
                else (case result of JObj d \<Rightarrow> Inl (Crash ''RuntimeError'') | _ \<Rightarrow> Inl (Crash ''AttributeError''))))"

definition updater_request :: "string \<Rightarrow> string \<Rightarrow> json option \<Rightarrow> string \<Rightarrow> host_request" where
  "updater_request method path payload control_token =
     \<lparr>hr_method = method, hr_path = path,
      hr_headers = [(''Host'', ''updater.local''), (''Accept'', ''application/json'')]
        @ (if control_token = [] then [] else [(''X-Updater-Token'', control_token)])
        @ (case body_text payload of None \<Rightarrow> []
           | Some b \<Rightarrow> [(''Content-Type'', ''application/json''), (''Content-Length'', str_int (int (length b)))]),
      hr_body = body_text payload\<rparr>"

definition ask_updater :: "host_service \<Rightarrow> string \<Rightarrow> string \<Rightarrow> json option \<Rightarrow> string \<Rightarrow> failure + json" where
  "ask_updater H method path payload control_token =
     (case H (updater_request method path payload control_token) of
        No_Socket \<Rightarrow> Inl (Crash ''UpdaterUnavailable'')
      | Socket_Error \<Rightarrow> Inl (Crash ''OSError'')
      | Protocol_Error c \<Rightarrow> Inl (Crash c)
      | Answered status content \<Rightarrow> read_reply (4 * 1024 * 1024) status content)"

text \<open>\<open>except (OSError, RuntimeError)\<close>, of which \<open>UpdaterUnavailable\<close> is one.\<close>

definition unavailable :: "failure \<Rightarrow> bool" where
  "unavailable e \<longleftrightarrow> e \<in> set (map Crash [''OSError'', ''RuntimeError'', ''UpdaterUnavailable''])"

text \<open>\<open>{..., **request(...)}\<close> needs an object.\<close>

definition updater_health :: "host_service \<Rightarrow> failure + dict" where
  "updater_health H =
     (case ask_updater H ''GET'' ''/v1/health'' None [] of
        Inr (JObj d) \<Rightarrow> Inr (merge [(''installed'', JBool True), (''available'', JBool True)] d)
      | Inr _ \<Rightarrow> Inl (Crash ''TypeError'')
      | Inl e \<Rightarrow>
          if unavailable e
          then Inr [(''installed'', JNull), (''available'', JBool False), (''status'', JStr ''unavailable''),
                 (''service'', JStr ''updater''),
                 (''message'', JStr ''Updater socket is unreachable; installation state is unknown'')]
          else Inl e)"

text \<open>\<open>quote(value, safe="")\<close>.\<close>

definition quote_char :: "char \<Rightarrow> string" where
  "quote_char c =
     (if is_digit c \<or> 65 \<le> code c \<and> code c \<le> 90 \<or> 97 \<le> code c \<and> code c \<le> 122 \<or> c \<in> set ''_.-~'' then [c]
      else CHR ''%'' # map upper_char [hex_digit (code c div 16), hex_digit (code c mod 16)])"

definition quote_all :: "string \<Rightarrow> string" where
  "quote_all s = concat (map quote_char (utf8 s))"

text \<open>The client of Neptune; the token is the content of its file, if there is one.\<close>

definition ask_neptune :: "host_service \<Rightarrow> string \<Rightarrow> string option \<Rightarrow> string \<Rightarrow> string \<Rightarrow> json option \<Rightarrow> failure + json" where
  "ask_neptune H project secret_text method route payload =
     (case secret_text of
        None \<Rightarrow> Inl (Crash ''UpdaterUnavailable'')
      | Some t \<Rightarrow>
          (case H \<lparr>hr_method = method, hr_path = ''/v1/projects/'' @ quote_all project @ route,
                   hr_headers = [(''Host'', ''neptune.local''), (''Accept'', ''application/json''), (''X-Neptune-Token'', strip t)]
                     @ (case body_text payload of None \<Rightarrow> []
                        | Some b \<Rightarrow> [(''Content-Type'', ''application/json''), (''Content-Length'', str_int (int (length b)))]),
                   hr_body = body_text payload\<rparr> of
             Answered status content \<Rightarrow> read_reply (1024 * 1024) status content
           | _ \<Rightarrow> Inl (Crash ''UpdaterUnavailable'')))"

section \<open>Checks\<close>

definition require_synced_kernel :: "unit web" where
  "require_synced_kernel =
     letM (db_scalar SETTINGS kernel_row) (\<lambda>found.
       raise_if (case found of None \<Rightarrow> False | Some r \<Rightarrow> truthy (get_or_null ''helper_sync_required'' (row_value r)))
         (http_error 409 ''Synchronize the host connection with perimetr-install sync-kernel before updating''))"

definition id_char :: "char \<Rightarrow> bool" where
  "id_char c \<longleftrightarrow> is_digit c \<or> 65 \<le> code c \<and> code c \<le> 90 \<or> 97 \<le> code c \<and> code c \<le> 122 \<or> c = CHR ''_'' \<or> c = CHR ''-''"

definition require_id :: "string \<Rightarrow> failure + string" where
  "require_id v =
     (if v \<noteq> [] \<and> length v \<le> 128 \<and> list_all id_char v then Inr v
      else Inl (http_error 422 ''Invalid operation identifier''))"

definition call_helper :: "env \<Rightarrow> host_service \<Rightarrow> string \<Rightarrow> string \<Rightarrow> json option \<Rightarrow> failure + json" where
  "call_helper E H method path payload =
     (case ask_updater H method path payload (updater_control_token (cfg E)) of
        Inr v \<Rightarrow> Inr v
      | Inl e \<Rightarrow> Inl (if unavailable e
          then http_error 503 ''Updater unavailable; reconnect and look up the existing request before retrying'' else e))"

section \<open>Receipts\<close>

definition RECEIPT_SCHEMA :: string where
  "RECEIPT_SCHEMA = ''exocortex.update-backup.v2''"

definition receipt_fields :: "env \<Rightarrow> string \<Rightarrow> string \<Rightarrow> string \<Rightarrow> string \<Rightarrow> int \<Rightarrow> dict" where
  "receipt_fields E data filename request_id version t =
     [(''schema'', JStr RECEIPT_SCHEMA), (''id'', JStr request_id), (''head_id'', JStr (updater_head_id (cfg E))),
      (''service'', JStr ''perimetr''), (''version'', JStr version), (''sha256'', JStr (hexdigest (sha256_fn (crypt E) data))),
      (''size'', JInt (int (length data))), (''filename'', JStr filename), (''expires'', JInt (t div SECOND + 900))]"

definition receipt_mac :: "env \<Rightarrow> string \<Rightarrow> string" where
  "receipt_mac E encoded = url_encode (hmac_fn (crypt E) (utf8 (updater_control_token (cfg E))) encoded)"

definition receipt :: "env \<Rightarrow> string \<Rightarrow> string \<Rightarrow> string \<Rightarrow> string \<Rightarrow> string web" where
  "receipt E data filename request_id version =
     seqM (raise_if (updater_control_token (cfg E) = []) (http_error 503 ''Updater control credential is not configured''))
       (letM (now_utc E) (\<lambda>t.
          (let encoded = url_encode (render '','' '':'' False (JObj (receipt_fields E data filename request_id version t)))
           in ret (encoded @ ''.'' @ receipt_mac E encoded))))"

definition refused_receipt :: failure where
  "refused_receipt = http_error 409 ''Saved backup receipt is invalid, expired or belongs to another update''"

text \<open>Base64 of bytes: other bytes are passed over.\<close>

definition receipt_payload :: "string \<Rightarrow> json option" where
  "receipt_payload encoded =
     Option.bind (Option.bind (a2b True False 0 0 0 False (encoded @ replicate ((4 - length encoded mod 4) mod 4) pad))
       utf8_decode) loads"

text \<open>The two readings of the clock are \<open>t1\<close> and \<open>t2\<close>. A missing field or one of another type is refused like a wrong one.\<close>

definition fields_match :: "env \<Rightarrow> string \<Rightarrow> string \<Rightarrow> string \<Rightarrow> int \<Rightarrow> int \<Rightarrow> dict \<Rightarrow> bool" where
  "fields_match E data request_id version t1 t2 entries \<longleftrightarrow>
     get_key ''schema'' entries = Some (JStr RECEIPT_SCHEMA) \<and> get_key ''head_id'' entries = Some (JStr (updater_head_id (cfg E)))
     \<and> get_key ''service'' entries = Some (JStr ''perimetr'') \<and> get_key ''id'' entries = Some (JStr request_id)
     \<and> get_key ''version'' entries = Some (JStr version)
     \<and> (case Option.bind (get_key ''expires'' entries) number_value of None \<Rightarrow> False
        | Some x \<Rightarrow> of_int t1 / of_int SECOND < x \<and> x \<le> of_int t2 / of_int SECOND + 901)
     \<and> Option.bind (get_key ''size'' entries) number_value = Some (of_nat (length data))
     \<and> get_key ''sha256'' entries = Some (JStr (hexdigest (sha256_fn (crypt E) data)))"

definition verify_receipt :: "env \<Rightarrow> string \<Rightarrow> string \<Rightarrow> string \<Rightarrow> string \<Rightarrow> int \<Rightarrow> int \<Rightarrow> failure + dict" where
  "verify_receipt E token data request_id version t1 t2 =
     (case split_on CHR ''.'' (utf8 token) of
        [encoded, signed] \<Rightarrow>
          (case receipt_payload encoded of
             Some (JObj entries) \<Rightarrow>
               if updater_control_token (cfg E) \<noteq> [] \<and> signed = receipt_mac E encoded
                 \<and> fields_match E data request_id version t1 t2 entries
               then Inr entries else Inl refused_receipt
           | _ \<Rightarrow> Inl refused_receipt)
      | _ \<Rightarrow> Inl refused_receipt)"

section \<open>Uploads\<close>

fun collect_chunks :: "int \<Rightarrow> string \<Rightarrow> string list \<Rightarrow> failure + string" where
  "collect_chunks maximum content [] = Inr content"
| "collect_chunks maximum content (c # cs) =
     (if maximum < int (length content) + int (length c) then Inl (http_error 413 ''Backup exceeds upload limit'')
      else collect_chunks maximum (content @ c) cs)"

definition archive_body :: "settings \<Rightarrow> string list \<Rightarrow> failure + string" where
  "archive_body s chunks =
     try_bind (collect_chunks (perimetr_max_backup_upload_bytes s) [] chunks) (\<lambda>content.
       if starts_with ''PK'' content then Inr content else Inl (http_error 400 ''Expected the original ZIP bytes''))"

section \<open>Backups\<close>

text \<open>A response with an archive: the bytes and the headers.\<close>

record archive_response =
  ar_content :: string
  ar_headers :: "(string \<times> string) list"

definition sha_text :: "env \<Rightarrow> string \<Rightarrow> string" where
  "sha_text E data = hexdigest (sha256_fn (crypt E) data)"

definition download_backup :: "env \<Rightarrow> string web \<Rightarrow> archive_response web" where
  "download_backup E snapshot =
     letM snapshot (\<lambda>data.
       ret \<lparr>ar_content = data, ar_headers =
         [(''Content-Disposition'', ''attachment; filename='' @ [CHR 0x22] @ ''perimetr-full-backup.zip'' @ [CHR 0x22]), (''X-Backup-Sha256'', sha_text E data)]\<rparr>)"

text \<open>No archive is kept.\<close>

definition backup_history :: "json web" where
  "backup_history = ret (JArr [])"

definition inspect_backup :: "env \<Rightarrow> (string \<Rightarrow> failure + dict) \<Rightarrow> string list \<Rightarrow> dict web" where
  "inspect_backup E preflight chunks = liftM (try_bind (archive_body (cfg E) chunks) preflight)"

text \<open>After the restoration, the origin of the Kernel that the new database names is used.\<close>

definition replace_all :: "env \<Rightarrow> (string \<Rightarrow> dict web) \<Rightarrow> string \<Rightarrow> (dict \<times> string) web" where
  "replace_all E restore data =
     letM (restore data) (\<lambda>result.
     seqM commit
     (letM (apply_connection E (cfg E) True) (\<lambda>override. seqM commit (ret (result, override)))))"

definition import_backup ::
  "env \<Rightarrow> (string \<Rightarrow> dict web) \<Rightarrow> string list \<Rightarrow> string \<Rightarrow> string \<Rightarrow> (dict \<times> string) web" where
  "import_backup E restore chunks x_backup_sha256 x_confirm_replace =
     letM (liftM (archive_body (cfg E) chunks)) (\<lambda>data.
     letM (if x_confirm_replace \<noteq> ''true'' then ret False else liftM (compare_digest x_backup_sha256 (sha_text E data))) (\<lambda>same.
     seqM (raise_if (\<not> same) (http_error 409 ''Review and confirm the exact snapshot before replacing current data''))
       (replace_all E restore data)))"

text \<open>The Updater restores with its token. \<open>parse\<close> gives the parts of the multipart message, each with the parameter
  \<open>name\<close> and the decoded payload.\<close>

definition internal_restore ::
  "env \<Rightarrow> (string \<Rightarrow> dict web) \<Rightarrow> (string \<Rightarrow> (string option \<times> string) list) \<Rightarrow> string \<Rightarrow> string list
     \<Rightarrow> (dict \<times> string) web" where
  "internal_restore E restore parse x_updater_token chunks =
     (let expected = updater_control_token (cfg E)
      in letM (if expected = [] then ret False else liftM (compare_digest expected x_updater_token)) (\<lambda>same.
         seqM (raise_if (\<not> same) (http_error 403 ''Updater authentication required''))
         (letM (liftM (collect_chunks (perimetr_max_backup_upload_bytes (cfg E) + 65536) [] chunks)) (\<lambda>data.
         (case parse data of
            [(Some name, payload)] \<Rightarrow>
              if name = ''archive'' then replace_all E restore payload else raiseM (http_error 400 ''Expected one archive'')
          | _ \<Rightarrow> raiseM (http_error 400 ''Expected one archive''))))))"

section \<open>The Updater\<close>

definition field_of :: "string \<Rightarrow> json \<Rightarrow> failure + json" where
  "field_of k v = (case v of JObj d \<Rightarrow> Inr (get_or_null k d) | _ \<Rightarrow> Inl (Crash ''AttributeError''))"

definition updater_status :: "host_service \<Rightarrow> dict web" where
  "updater_status H =
     letM (liftM (updater_health H)) (\<lambda>result.
       ret (set_key ''compatible'' (JBool (number_value (get_or_null ''update_protocol'' result) = Some 2
         \<and> get_or_null ''backup_policy'' result = JStr ''operator-copy'')) result))"

definition check_update :: "env \<Rightarrow> host_service \<Rightarrow> string \<Rightarrow> json web" where
  "check_update E H part =
     seqM (raise_if (part = ''updater'') (http_error 403 ''Check Updater releases with sudo updater tui on the host''))
     (seqM require_synced_kernel
       (liftM (call_helper E H ''POST'' ''/v2/check''
          (Some (JObj [(''head_id'', JStr (updater_head_id (cfg E))), (''component'', JStr part)])))))"

definition plain_number :: "string \<Rightarrow> bool" where
  "plain_number s \<longleftrightarrow> s = ''0'' \<or> s \<noteq> [] \<and> list_all is_digit s \<and> hd s \<noteq> CHR ''0''"

definition stable_version :: "string \<Rightarrow> bool" where
  "stable_version v \<longleftrightarrow> (case split_on CHR ''.'' v of [a, b, c] \<Rightarrow> plain_number a \<and> plain_number b \<and> plain_number c | _ \<Rightarrow> False)
     \<and> v \<noteq> ''0.0.0''"

definition payload_text :: "string \<Rightarrow> dict \<Rightarrow> string" where
  "payload_text k d = (case get_key k d of None \<Rightarrow> [] | Some v \<Rightarrow> py_str v)"

definition prepare :: "env \<Rightarrow> host_service \<Rightarrow> string web \<Rightarrow> dict \<Rightarrow> archive_response web" where
  "prepare E H snapshot payload =
     letM (liftM (require_id (payload_text ''request_id'' payload))) (\<lambda>request_id.
     (let version = payload_text ''version'' payload
      in seqM (raise_if (\<not> stable_version version) (http_error 422 ''Select a stable published release''))
      (letM (check_update E H ''perimetr'') (\<lambda>candidate.
       letM (liftM (field_of ''update_available'' candidate)) (\<lambda>available.
       letM (liftM (field_of ''available_version'' candidate)) (\<lambda>offered.
       seqM (raise_if (\<not> truthy available \<or> offered \<noteq> JStr version) (http_error 409 ''Refresh the current upgrade candidate''))
       (letM snapshot (\<lambda>data.
        (let filename = ''perimetr-before-'' @ version @ ''-'' @ request_id @ ''.zip''
         in letM (receipt E data filename request_id version) (\<lambda>token.
            ret \<lparr>ar_content = data, ar_headers =
              [(''Content-Disposition'', ''attachment; filename='' @ [CHR 0x22] @ filename @ [CHR 0x22]), (''X-Backup-Receipt'', token),
               (''X-Backup-Sha256'', sha_text E data), (''X-Backup-Filename'', filename)]\<rparr>))))))))))"

text \<open>\<open>for job in value\<close>, and the jobs of a request.\<close>

definition iterate :: "json \<Rightarrow> failure + json list" where
  "iterate v = (case v of
     JArr xs \<Rightarrow> Inr xs
   | JStr s \<Rightarrow> Inr (map (\<lambda>c. JStr [c]) s)
   | JObj d \<Rightarrow> Inr (map (\<lambda>p. JStr (fst p)) d)
   | _ \<Rightarrow> Inl (Crash ''TypeError''))"

fun jobs_where :: "(json \<Rightarrow> bool) \<Rightarrow> string \<Rightarrow> json list \<Rightarrow> failure + json list" where
  "jobs_where P k [] = Inr []"
| "jobs_where P k (j # js) =
     try_bind (field_of k j) (\<lambda>v. try_bind (jobs_where P k js) (\<lambda>rest. Inr (if P v then j # rest else rest)))"

definition own_jobs :: "string \<Rightarrow> json \<Rightarrow> failure + json" where
  "own_jobs i result = (case result of
     JObj d \<Rightarrow>
       try_bind (iterate (case get_key ''jobs'' d of None \<Rightarrow> JArr [] | Some v \<Rightarrow> v)) (\<lambda>js.
       try_bind (jobs_where (\<lambda>v. v = JStr i) ''request_id'' js) (\<lambda>own. Inr (JObj (set_key ''jobs'' (JArr own) d))))
   | _ \<Rightarrow> Inl (Crash ''AttributeError''))"

definition jobs :: "env \<Rightarrow> host_service \<Rightarrow> string option \<Rightarrow> json web" where
  "jobs E H request_id =
     letM (liftM (call_helper E H ''GET'' (''/v1/jobs?head_id='' @ quote_all (updater_head_id (cfg E))) None)) (\<lambda>result.
       (case request_id of
          None \<Rightarrow> ret result
        | Some i \<Rightarrow> if i = [] then ret result else letM (liftM (require_id i)) (\<lambda>_. liftM (own_jobs i result))))"

text \<open>\<open>any(job.get("head_id") != ... or ...)\<close>.\<close>

definition foreign_job :: "env \<Rightarrow> string \<Rightarrow> json \<Rightarrow> bool" where
  "foreign_job E version job \<longleftrightarrow> (case job of
     JObj d \<Rightarrow> get_or_null ''head_id'' d \<noteq> JStr (updater_head_id (cfg E)) \<or> get_or_null ''service'' d \<noteq> JStr ''perimetr''
       \<or> get_or_null ''version'' d \<noteq> JStr version
   | _ \<Rightarrow> True)"

definition existing_jobs :: "json \<Rightarrow> json list" where
  "existing_jobs result = (case jget ''jobs'' result of Some (JArr js) \<Rightarrow> js | _ \<Rightarrow> [])"

definition update_order :: "env \<Rightarrow> string \<Rightarrow> string \<Rightarrow> string \<Rightarrow> string \<Rightarrow> dict \<Rightarrow> json" where
  "update_order E request_id version token data entries =
     JObj [(''request_id'', JStr request_id), (''head_id'', JStr (updater_head_id (cfg E))), (''service'', JStr ''perimetr''),
       (''version'', JStr version), (''operator_saved'', JBool True), (''backup_receipt'', JStr token),
       (''backup'', JObj [(''filename'', get_or_null ''filename'' entries), (''sha256'', get_or_null ''sha256'' entries),
          (''data_base64'', JStr (b64encode False data))])]"

text \<open>The response with status 202, for the jobs that the request has already. A receipt without a file name is a KeyError.\<close>

definition order_update :: "env \<Rightarrow> host_service \<Rightarrow> string \<Rightarrow> string \<Rightarrow> string \<Rightarrow> string \<Rightarrow> dict \<Rightarrow> json list \<Rightarrow> json web" where
  "order_update E H request_id version token data entries existing =
     (if existing \<noteq> [] then
        seqM (raise_if (\<exists>job \<in> set existing. foreign_job E version job)
          (http_error 409 ''Operation identifier already belongs to another update'')) (ret (hd existing))
      else if get_key ''filename'' entries = None then raiseM (Crash ''KeyError'')
      else liftM (call_helper E H ''POST'' ''/v2/updates'' (Some (update_order E request_id version token data entries))))"

definition install :: "env \<Rightarrow> host_service \<Rightarrow> string \<Rightarrow> string \<Rightarrow> string \<Rightarrow> string \<Rightarrow> string list \<Rightarrow> json web" where
  "install E H request_id version x_backup_receipt x_operator_saved chunks =
     seqM require_synced_kernel
     (letM (liftM (require_id request_id)) (\<lambda>_.
      letM (liftM (archive_body (cfg E) chunks)) (\<lambda>data.
      seqM (raise_if (x_operator_saved \<noteq> ''true'')
        (http_error 409 ''Save the ZIP and explicitly acknowledge the operator copy first''))
      (letM (now_utc E) (\<lambda>t1. letM (now_utc E) (\<lambda>t2.
       letM (liftM (verify_receipt E x_backup_receipt data request_id version t1 t2)) (\<lambda>entries.
       letM (jobs E H (Some request_id)) (\<lambda>result.
        order_update E H request_id version x_backup_receipt data entries (existing_jobs result)))))))))"

definition job_status :: "env \<Rightarrow> host_service \<Rightarrow> string \<Rightarrow> json web" where
  "job_status E H job_id =
     letM (liftM (require_id job_id)) (\<lambda>i.
     letM (liftM (call_helper E H ''GET'' (''/v1/jobs/'' @ i) None)) (\<lambda>job.
     letM (liftM (field_of ''head_id'' job)) (\<lambda>head.
     seqM (raise_if (head \<noteq> JStr (updater_head_id (cfg E))) (http_error 404 ''Job not found'')) (ret job))))"

definition update_helper :: "json web" where
  "update_helper = raiseM (http_error 403 ''Update Updater with sudo updater tui on the host'')"

definition rollback_job :: "env \<Rightarrow> host_service \<Rightarrow> string \<Rightarrow> string list \<Rightarrow> string \<Rightarrow> json web" where
  "rollback_job E H job_id chunks x_backup_filename =
     letM (job_status E H job_id) (\<lambda>job.
     letM (liftM (archive_body (cfg E) chunks)) (\<lambda>data.
     (let checksum = sha_text E data
      in seqM (raise_if (field_of ''backup_sha256'' job \<noteq> Inr (JStr checksum)
             \<or> field_of ''backup_filename'' job \<noteq> Inr (JStr x_backup_filename))
           (http_error 409 ''Select the original saved ZIP for this job''))
         (letM (liftM (require_id job_id)) (\<lambda>i.
          liftM (call_helper E H ''POST'' (''/v2/jobs/'' @ i @ ''/rollback'')
            (Some (JObj [(''filename'', JStr x_backup_filename), (''sha256'', JStr checksum),
               (''data_base64'', JStr (b64encode False data))]))))))))"

end
