(* ===== verification/Row_History.thy ===== *)
theory Row_History
  imports Pods Entity_Safety Logs_Api Operations_Api
begin

text \<open>
  Facts about Pods, sessions and the denylist that no request can undo. Predicates on the rows of Pods,
  on those of sessions and on the denylist that obey the laws of the locale \<open>history\<close> are kept by every request handler
  of the application; the theory \<open>Application\<close> interprets the locale.
\<close>

section \<open>The invariant\<close>

definition rows_good :: "(pod \<Rightarrow> bool) \<Rightarrow> (lease \<Rightarrow> bool) \<Rightarrow> (denied list \<Rightarrow> bool) \<Rightarrow> db \<Rightarrow> bool" where
  "rows_good GP GL GD d \<longleftrightarrow> (\<forall>p \<in> set (pods d). GP p) \<and> (\<forall>l \<in> set (leases d). GL l) \<and> GD (denylist d)"

definition steady :: "nat \<Rightarrow> (db \<Rightarrow> bool) \<Rightarrow> world \<Rightarrow> bool" where
  "steady N I w \<longleftrightarrow> since N I w \<and> constraints_ok (committed w)"

lemma steady_draw [keeps_intros]: "keeps (steady N I) (draw f)"
  by (simp add: keeps_wp web_simps steady_def since_def)

lemma steady_now_utc [keeps_intros]: "keeps (steady N I) (now_utc E)"
  by (simp add: keeps_wp web_simps steady_def since_def)

lemma steady_new_id [keeps_intros]: "keeps (steady N I) (new_id E)"
  by (simp add: keeps_wp web_simps steady_def since_def)

lemma steady_limiter [keeps_intros]:
  "keeps (steady N I) (limiter_check E key)" "keeps (steady N I) (limiter_fail E key)"
  "keeps (steady N I) (limiter_success key)"
  by (simp_all add: keeps_wp web_simps steady_def since_def split: option.splits)

lemma steady_db_add [keeps_intros]:
  "(\<And>d. I d \<Longrightarrow> I (insert_row T r d)) \<Longrightarrow> keeps (steady N I) (db_add T r)"
  by (simp add: keeps_wp web_simps steady_def since_def)

lemma steady_db_set [keeps_intros]:
  "(\<And>d. I d \<Longrightarrow> I (modify_row T k f d)) \<Longrightarrow> keeps (steady N I) (db_set T k f)"
  by (simp add: keeps_wp web_simps steady_def since_def)

lemma steady_db_delete [keeps_intros]:
  "(\<And>d. I d \<Longrightarrow> I (remove_rows T (\<lambda>r. pk T r = k) d)) \<Longrightarrow> keeps (steady N I) (db_delete T k)"
  by (simp add: keeps_wp web_simps steady_def since_def)

lemma steady_db_execute_delete [keeps_intros]:
  "(\<And>Q d. I d \<Longrightarrow> I (remove_rows T Q d)) \<Longrightarrow> keeps (steady N I) (db_execute_delete T P)"
  by (simp add: keeps_wp web_simps steady_def since_def)

lemma steady_flush [keeps_intros]: "keeps (steady N I) flush"
  by (simp add: keeps_wp web_simps steady_def since_def)

lemma steady_commit [keeps_intros]: "keeps (steady N I) commit"
  by (simp add: keeps_wp web_simps steady_def since_def)

lemma steady_new_id_bind:
  "(\<And>n. N \<le> n \<Longrightarrow> keeps (steady N I) (f (uuid4_hex E n))) \<Longrightarrow> keeps (steady N I) (letM (new_id E) f)"
  unfolding keeps_wp wp_letM wp_new_id by (auto simp: steady_def since_def)

lemma steady_serve: "keeps (steady N I) m \<Longrightarrow> idle w \<Longrightarrow> steady N I w \<Longrightarrow> steady N I (snd (serve m w))"
proof -
  assume k: "keeps (steady N I) m" and i: "idle w" and s: "steady N I w"
  have "steady N I (snd (m w))" using k s by (simp add: keeps_def)
  then show ?thesis by (simp add: serve_idle [OF i] Let_def case_prod_beta steady_def since_def)
qed

lemma letM_assoc: "letM (letM m f) g = letM m (\<lambda>a. letM (f a) g)"
  by (rule ext) (simp add: letM_def split: prod.splits sum.splits)

section \<open>The laws\<close>

text \<open>New rows carry identifiers that are drawn after \<open>N\<close>. A Pod that is not revoked may change in any way
  but its identifier and key; a revoked one keeps its status. A session never becomes active again, and the
  denylist only grows.\<close>

locale history =
  fixes E :: env and N :: nat and GP :: "pod \<Rightarrow> bool" and GL :: "lease \<Rightarrow> bool"
    and GD :: "denied list \<Rightarrow> bool"
  assumes pod_new: "N \<le> n \<Longrightarrow> pod_id p = uuid4_hex E n \<Longrightarrow> GP p"
    and pod_same: "GP p \<Longrightarrow> pod_id q = pod_id p \<Longrightarrow> pod_public_key_pem q = pod_public_key_pem p \<Longrightarrow>
      pod_status q = pod_status p \<or> pod_status q = ''revoked'' \<Longrightarrow> GP q"
    and pod_open: "GP p \<Longrightarrow> pod_status p \<noteq> ''revoked'' \<or> pod_public_key_pem p = [] \<Longrightarrow> pod_id q = pod_id p \<Longrightarrow> GP q"
    and lease_new: "N \<le> n \<Longrightarrow> lease_id l = uuid4_hex E n \<Longrightarrow> GL l"
    and lease_same: "GL l \<Longrightarrow> lease_id k = lease_id l \<Longrightarrow>
      lease_status k = lease_status l \<or> lease_status k \<noteq> ''active'' \<Longrightarrow> GL k"
    and deny_add [simp]: "GD ds \<Longrightarrow> GD (ds @ [r])"
begin

abbreviation J :: "world \<Rightarrow> bool" where
  "J \<equiv> steady N (rows_good GP GL GD)"

lemmas frame_simps = rows_good_def insert_row_def modify_row_def remove_rows_def

lemma keeps_add_lease: "GL l \<Longrightarrow> keeps J (db_add LEASES l)"
  by (rule steady_db_add) (simp add: frame_simps)

lemma keeps_add_pod: "GP p \<Longrightarrow> keeps J (db_add PODS p)"
  by (rule steady_db_add) (simp add: frame_simps)

lemma keeps_set_lease: "(\<And>l. GL l \<Longrightarrow> GL (f l)) \<Longrightarrow> keeps J (db_set LEASES k f)"
  by (rule steady_db_set) (auto simp: frame_simps)

lemma keeps_set_pod: "(\<And>p. GP p \<Longrightarrow> pod_id p = k \<Longrightarrow> GP (f p)) \<Longrightarrow> keeps J (db_set PODS k f)"
  by (rule steady_db_set) (auto simp: frame_simps)

lemma keeps_patch_pod [keeps_intros]:
  assumes "\<And>p. pod_id (f p) = pod_id p" and "\<And>p. pod_public_key_pem (f p) = pod_public_key_pem p"
    and "\<And>p. pod_status (f p) = pod_status p \<or> pod_status (f p) = ''revoked''"
  shows "keeps J (db_set PODS k f)"
  by (rule keeps_set_pod) (metis assms pod_same)

lemma keeps_patch_lease [keeps_intros]:
  assumes "\<And>l. lease_id (f l) = lease_id l"
    and "\<And>l. lease_status (f l) = lease_status l \<or> lease_status (f l) \<noteq> ''active''"
  shows "keeps J (db_set LEASES k f)"
  by (rule keeps_set_lease) (metis assms lease_same)

text \<open>What a query on Pods returns.\<close>

lemma current_pod:
  assumes "J w" and "r \<in> set (pods (stored w))"
  shows "GP (current PODS w r) \<and> pod_id (current PODS w r) = pod_id r \<and> GP r"
  using assms find_SomeD
  by (fastforce simp: current_def lookup_def steady_def since_def rows_good_def split: option.splits)

lemma keeps_get_pods:
  assumes "\<And>x. (\<And>p. x = Some p \<Longrightarrow> GP p \<and> pod_id p = k) \<Longrightarrow> keeps J (f x)"
  shows "keeps J (letM (db_get PODS k) f)"
proof -
  have "keeps J (f (map_option (current PODS w) (lookup PODS (stored w) k)))" if "J w" for w
    using find_SomeD current_pod [OF that] by (intro assms) (fastforce simp: lookup_def)
  then show ?thesis by (simp add: keeps_wp wp_letM wp_db_get)
qed

lemma keeps_get_pod:
  assumes "\<And>p. GP p \<Longrightarrow> pod_id p = k \<Longrightarrow> keeps J (f p)"
  shows "keeps J (letM (get_pod k) f)"
proof -
  have "keeps J (letM (ensure_exists x ''pod'' k) f)" if "\<And>p. x = Some p \<Longrightarrow> GP p \<and> pod_id p = k" for x
    using that assms by (cases x) (simp_all add: ensure_exists_def keeps_wp web_simps)
  then have "keeps J (letM (db_get PODS k) (\<lambda>x. letM (ensure_exists x ''pod'' k) f))" by (rule keeps_get_pods) blast
  then show ?thesis by (simp only: get_pod_def letM_assoc)
qed

lemma keeps_all_pods:
  assumes "\<And>ps. (\<And>p. p \<in> set ps \<Longrightarrow> GP p \<and> (\<exists>r. GP r \<and> P r \<and> pod_id r = pod_id p)) \<Longrightarrow> keeps J (f ps)"
  shows "keeps J (letM (db_all PODS P) f)"
proof -
  have "keeps J (f (map (current PODS w) (filter P (pods (stored w)))))" if "J w" for w
    using current_pod [OF that] by (intro assms) force
  then show ?thesis by (simp add: keeps_wp wp_letM wp_db_all)
qed

lemma keeps_scalar_pod:
  assumes "\<And>x. (\<And>p. x = Some p \<Longrightarrow> GP p) \<Longrightarrow> keeps J (f x)"
  shows "keeps J (letM (db_scalar PODS P) f)"
proof -
  have "keeps J (f (map_option (current PODS w) (find P (pods (stored w)))))" if "J w" for w
    using find_SomeD current_pod [OF that] by (intro assms) fastforce
  then show ?thesis by (simp add: keeps_wp wp_letM wp_db_scalar)
qed

section \<open>Shared parts\<close>

lemma keeps_recorded [keeps_intros]: "keeps J (audit E a1 a2 a3 a4 a5 p r)"
  unfolding keeps_wp wp_audit Let_def by (simp add: steady_def since_def rows_good_def)

lemma keeps_core_audit [keeps_intros]: "keeps J (core_audit E a t i p r)"
  unfolding core_audit_def by (rule keeps_recorded)

lemma keeps_ensure_exists [keeps_intros]: "keeps I (ensure_exists x e i)"
  by (cases x) (simp_all add: ensure_exists_def keeps_ret keeps_raiseM)

lemma keeps_ensure_preferences [keeps_intros]: "keeps J (ensure_preferences E)"
  unfolding ensure_preferences_def resolve_verifier_def seed_verifier_def Let_def
  by (intro keeps_intros) (simp_all add: frame_simps)

lemma keeps_get_perimetr_preferences [keeps_intros]: "keeps J (get_perimetr_preferences E)"
  unfolding get_perimetr_preferences_def by (intro keeps_intros)

lemma keeps_verify_direct_login [keeps_intros]: "keeps J (verify_direct_login E target key)"
  unfolding verify_direct_login_def by (intro keeps_intros)

lemma keeps_expire [keeps_intros]: "keeps J (expire_stale_sessions E)"
  unfolding expire_stale_sessions_def by (intro keeps_intros) simp_all

lemma keeps_get_session_lease [keeps_intros]: "keeps J (get_session_lease i)"
  unfolding get_session_lease_def by (intro keeps_intros)

lemma keeps_require_core_access [keeps_intros]: "keeps J (require_core_access E req)"
  unfolding require_core_access_def Let_def by (intro keeps_intros)

lemma keeps_protected [keeps_intros]: "(\<And>l. keeps J (h l)) \<Longrightarrow> keeps J (protected E req h)"
  unfolding protected_def by (intro keeps_intros)

end

context history begin

section \<open>Sessions and preferences\<close>

lemma keeps_preferences [keeps_intros]:
  "keeps J (read_preferences E)" "keeps J (update_preferences E v)" "keeps J (save_preferences E v)"
  unfolding read_preferences_def save_preferences_def update_preferences_def
  by (intro keeps_intros; simp add: frame_simps)+

lemma keeps_kernel_connection [keeps_intros]:
  "keeps J (put_row E d f found)" "keeps J (apply_connection E s b)" "keeps J (kernel_read s)" "keeps J (kernel_check ask s)"
  "keeps J (kernel_save E ask s v)" "keeps J (kernel_rotate E ask s req v)" "keeps J (record_rotation E s)" "keeps J mark_synced"
  unfolding put_row_def add_kernel_row_def apply_connection_def kernel_read_def kernel_check_def kernel_save_def kernel_rotate_def
    record_rotation_def mark_synced_def Let_def
  by (intro keeps_intros; simp add: frame_simps)+

lemma keeps_logs [keeps_intros]:
  "keeps J (read_logs limit before after)" "keeps J (download_logs E)"
  unfolding read_logs_def log_page_of_def download_logs_def Let_def
  by (intro keeps_intros)+

lemma keeps_record_ui [keeps_intros]: "keeps J (record_ui E payload)"
  unfolding record_ui_def Let_def prod.case
  by (auto split: json.split intro!: keeps_intros)

lemma keeps_operations [keeps_intros]:
  "keeps J require_synced_kernel" "keeps J (updater_status H)" "keeps J (check_update E H part)" "keeps J (jobs E H i)"
  "keeps J (job_status E H j)" "keeps J (rollback_job E H j chunks n)" "keeps J update_helper" "keeps J backup_history"
  "keeps J (inspect_backup E pf chunks)"
  unfolding require_synced_kernel_def updater_status_def check_update_def jobs_def job_status_def rollback_job_def update_helper_def
    backup_history_def inspect_backup_def Let_def
  by (intro keeps_intros)+

lemma keeps_install [keeps_intros]: "keeps J (install E H i v token saved chunks)"
  unfolding install_def order_update_def Let_def
  by (intro keeps_intros)

lemma keeps_create_direct_session [keeps_intros]: "keeps J (create_direct_session E target key)"
  unfolding create_direct_session_def Let_def
  by (intro steady_new_id_bind keeps_add_lease keeps_intros) (simp add: lease_new)

lemma keeps_update_access_key [keeps_intros]: "keeps J (update_access_key E a b c s)"
  unfolding update_access_key_def Let_def
  by (intro keeps_intros) (simp_all add: frame_simps)

lemma keeps_deny_login [keeps_intros]: "keeps J (deny_login E ip target why)"
  unfolding deny_login_def by (intro keeps_intros)

lemma keeps_sessions [keeps_intros]:
  "keeps J (direct_login E req p)" "keeps J (direct_logout E l)" "keeps J (change_access_key E l k)"
  "keeps J (current_session E l)" "keeps J (index E req e)" "keeps J (public_asset E req n)"
  unfolding direct_login_def direct_logout_def change_access_key_def current_session_def index_def public_asset_def Let_def
  by (intro keeps_intros; simp)+

section \<open>Objects\<close>

lemma keeps_get_object [keeps_intros]: "keeps J (get_object i)" "keeps J (get_subject i)"
  unfolding get_object_def get_subject_def by (intro keeps_intros)+

lemma keeps_fresh_entity_id: "keeps J (fresh_entity_id E n)"
  by (induction n) (simp_all, (intro keeps_intros; simp)+)

lemma keeps_fresh_entity [keeps_intros]: "keeps J (\<lambda>w. fresh_entity_id E (entity_fuel w) w)"
  using keeps_fresh_entity_id by (simp add: keeps_def)

lemma keeps_remove_correlation_block [keeps_intros]: "keeps J (remove_correlation_block k)"
  unfolding remove_correlation_block_def by (intro keeps_intros) (simp add: frame_simps)

lemma keeps_objects [keeps_intros]:
  "keeps J (create_object E p)" "keeps J list_objects" "keeps J (read_object i)" "keeps J (update_object E i u)"
  "keeps J (update_object_image E i up)" "keeps J (read_object_image i)" "keeps J (delete_object_image E i)"
  "keeps J (delete_object E i)"
  unfolding create_object_def list_objects_def read_object_def update_object_def update_object_image_def
    read_object_image_def delete_object_image_def delete_object_def Let_def
  by (intro keeps_intros; simp add: frame_simps)+

section \<open>The correlation map and the overview\<close>

lemma keeps_correlation [keeps_intros]:
  "keeps J (get_correlation_state E)" "keeps J (correlation_percentage v)" "keeps J (overview_blocks_setting E)"
  unfolding get_correlation_state_def correlation_percentage_def overview_blocks_setting_def Let_def
  by (intro keeps_intros; simp add: frame_simps)+

lemma keeps_correlation_updates [keeps_intros]:
  "keeps J (update_correlation_state E v)" "keeps J (get_overview_blocks E t)"
  unfolding update_correlation_state_def get_overview_blocks_def Let_def
  by (intro keeps_intros; simp add: frame_simps)+

lemma keeps_update_overview_block [keeps_intros]: "keeps J (update_overview_block E t b n d)"
  unfolding update_overview_block_def Let_def by (intro keeps_intros; simp add: frame_simps)

lemma keeps_correlation_endpoints [keeps_intros]:
  "keeps J (read_correlation_state E)" "keeps J (write_correlation_state E u)" "keeps J (list_overview_blocks E t)"
  "keeps J (rename_overview_block E t b n)" "keeps J (read_overview_block_image E t b)"
  "keeps J (upload_overview_block_image E t b up)" "keeps J (delete_overview_block_image E t b)"
  unfolding read_correlation_state_def write_correlation_state_def list_overview_blocks_def rename_overview_block_def
    read_overview_block_image_def upload_overview_block_image_def delete_overview_block_image_def
  by (intro keeps_intros)+

section \<open>Subjects\<close>

lemma keeps_add_spec_pod [keeps_intros]: "keeps J (add_spec_pod E i spec)"
  unfolding add_spec_pod_def
  by (intro steady_new_id_bind keeps_add_pod keeps_intros) (simp_all add: pod_new default_pod_def frame_simps)

lemma keeps_create_subject [keeps_intros]: "keeps J (transform_object E p x)" "keeps J (create_subject E p)"
proof -
  show t: "keeps J (transform_object E p x)" for x
    unfolding transform_object_def by (intro keeps_intros; simp add: frame_simps)
  show "keeps J (create_subject E p)"
    unfolding create_subject_def by (intro keeps_intros t) (simp split: sum.split, intro conjI allI impI keeps_intros t)
qed

lemma keeps_subjects [keeps_intros]:
  "keeps J list_subjects" "keeps J (read_subject i)" "keeps J (update_subject E i u)"
  "keeps J (update_subject_image E i up)" "keeps J (read_subject_image i)" "keeps J (delete_subject_image E i)"
  unfolding list_subjects_def read_subject_def update_subject_def update_subject_image_def read_subject_image_def
    delete_subject_image_def
  by (intro keeps_intros; simp add: frame_simps)+

lemma keeps_get_pod' [keeps_intros]: "keeps J (get_pod i)" "keeps J (subject_pod s)"
  unfolding get_pod_def subject_pod_def by (intro keeps_intros)+

lemma keeps_newest_authorization [keeps_intros]: "keeps J (newest_authorization P)"
  unfolding newest_authorization_def by (intro keeps_intros)

lemma keeps_revoke_subject_access [keeps_intros]: "keeps J (revoke_subject_access E s why)"
  unfolding revoke_subject_access_def by (intro keeps_intros; simp add: frame_simps)

lemma keeps_launch [keeps_intros]:
  "keeps J (materialize_subject E i)" "keeps J (authorize_subject E i)" "keeps J (revoke_subject E i)"
  "keeps J (read_subject_state i)" "keeps J (update_subject_state E i v)" "keeps J (subject_web_runtime i)"
  unfolding materialize_subject_def authorize_subject_def revoke_subject_def read_subject_state_def
    update_subject_state_def subject_web_runtime_def Let_def
  by (intro keeps_intros; simp add: frame_simps)+

lemma keeps_policies [keeps_intros]:
  "keeps J list_policies" "keeps J (create_policy E c)" "keeps J (update_policy E i u)"
  unfolding list_policies_def create_policy_def update_policy_def Let_def
  by (intro keeps_intros; simp add: frame_simps)+

end

context history begin

section \<open>Pods\<close>

lemma keeps_guarded: "(\<not> b \<Longrightarrow> keeps I n) \<Longrightarrow> keeps I (seqM (raise_if b e) n)"
  by (cases b) (simp_all add: keeps_wp web_simps)

lemma keeps_pod_parts [keeps_intros]:
  "keeps J (encrypt_secret E v)" "keeps J (hash_pod_password E v)" "keeps J (issue_enrollment_token E)"
  "keeps J (issue_pod_access_grant E i m)" "keeps J (subject_of_pod p)" "keeps J (has_passed E t)"
  "keeps J (provisioning_expiry E)" "keeps J (subject_provisioning s i)"
  unfolding encrypt_secret_def hash_pod_password_def issue_enrollment_token_def issue_pod_access_grant_def
    subject_of_pod_def has_passed_def provisioning_expiry_def subject_provisioning_def
  by (intro keeps_intros)+

lemma keeps_pod_config [keeps_intros]:
  "keeps J (read_subject_pod_config E i)" "keeps J (set_vless E v s)" "keeps J (update_subject_pod_config E i u)"
  unfolding read_subject_pod_config_def set_vless_def update_subject_pod_config_def Let_def
  by (intro keeps_intros; simp add: frame_simps)+

lemma good_refresh: "GP p \<Longrightarrow> ''revoked'' \<in> set kept \<Longrightarrow> GP (refresh_status E kept t p)"
  using pod_open [of p "p\<lparr>pod_status := liveness E t p\<rparr>"] by (cases "pod_status p = ''revoked''") (simp_all add: refresh_status_def)

lemma keeps_list_subject_pods [keeps_intros]: "keeps J (list_subject_pods E i b)"
  unfolding list_subject_pods_def Let_def
  by (intro keeps_intros keeps_set_pod) (simp add: good_refresh)

lemma keeps_list_all_pods [keeps_intros]: "keeps J (list_all_pods E)"
proof -
  have s: "keeps J (db_set PODS (pod_id p) (refresh_status E kept t))"
    if "GP r" "pod_status r \<noteq> ''revoked''" "pod_id r = pod_id p" for p r kept t
    using that by (intro keeps_set_pod) (auto intro: pod_open [of r] simp: refresh_status_def)
  show ?thesis
    unfolding list_all_pods_def Let_def
    apply (rule keeps_letM, rule keeps_db_all)
    apply (rule keeps_letM, rule steady_now_utc)
    apply (rule keeps_all_pods, rule keeps_seqM, rule keeps_eachM)
     apply (fastforce simp: oldest_def intro: s)
    apply (intro keeps_intros)
    done
qed

lemma keeps_refuse_expired [keeps_intros]: "keeps J (refuse_expired E r)"
  unfolding refuse_expired_def by (intro keeps_intros; simp add: frame_simps)

lemma keeps_provisioning [keeps_intros]:
  "keeps J (create_subject_pod E a i p)" "keeps J (download_subject_pod E files pinned latest i r)"
  "keeps J (delete_pending_pod E i r)"
  unfolding create_subject_pod_def download_subject_pod_def delete_pending_pod_def Let_def
  by (intro keeps_intros; simp add: frame_simps)+

lemma keeps_deny [keeps_intros]: "keeps J (deny_identifier E why p kv)" "keeps J (deny_pod E why p)"
  unfolding deny_identifier_def deny_pod_def by (intro keeps_intros; simp add: frame_simps)+

lemma keeps_delete_subject [keeps_intros]: "keeps J (delete_subject E i)"
  unfolding delete_subject_def Let_def by (intro keeps_intros; simp add: frame_simps)

lemma keeps_enroll_parts [keeps_intros]:
  "keeps J (provisioned_source E p)" "keeps J (cloned_source p)" "keeps J (enroll_source E p)"
  "keeps J (check_credentials E u v l h d)" "keeps J (check_identity E p)" "keeps J (consume_record E s r)"
  unfolding provisioned_source_def cloned_source_def enroll_source_def check_credentials_def check_identity_def
    consume_record_def
  by (intro keeps_intros; simp add: frame_simps)+

lemma keeps_enroll_pod [keeps_intros]: "keeps J (enroll_pod E p)"
  unfolding enroll_pod_def Let_def
  by (intro steady_new_id_bind keeps_add_pod keeps_intros) (simp_all add: pod_new enrolled_pod_def default_pod_def frame_simps)

lemma keeps_pod_actions [keeps_intros]:
  "keeps J (read_pod i)" "keeps J (rename_pod E i n)" "keeps J (change_pod_password E i a b)"
  "keeps J (revoke_pod E i)" "keeps J (release_pod E i)"
  unfolding read_pod_def rename_pod_def change_pod_password_def revoke_pod_def release_pod_def Let_def
  by (intro keeps_intros; simp add: frame_simps)+

lemma keeps_pod_denied [keeps_intros]: "keeps J (pod_denied i)" "keeps J (check_timestamp E d t)"
  unfolding pod_denied_def check_timestamp_def by (intro keeps_intros) (cases t; simp; intro keeps_intros)

lemma keeps_verify_pod_access [keeps_intros]: "keeps J (verify_pod_access E i u)"
  unfolding verify_pod_access_def by (intro keeps_intros) (simp_all add: adopt_credentials_def)

lemma keeps_runtime_status [keeps_intros]: "keeps J (read_pod_runtime_status E V i d)"
  unfolding read_pod_runtime_status_def Let_def by (intro keeps_intros)

lemma keeps_legacy_heartbeat: "GP p \<Longrightarrow> pod_public_key_pem p = [] \<Longrightarrow> keeps J (legacy_heartbeat_pod E V p d)"
  unfolding legacy_heartbeat_pod_def Let_def
  by (intro keeps_intros keeps_set_pod) (rule pod_open [of p]; simp)

lemma keeps_signed_heartbeat: "GP p \<Longrightarrow> keeps J (signed_heartbeat_pod E V p d)"
proof -
  assume g: "GP p"
  have s: "keeps J (db_set PODS (pod_id p) f)" if "pod_status p \<noteq> ''revoked''" "\<And>x. pod_id (f x) = pod_id x" for f
    using g that by (intro keeps_set_pod) (auto intro: pod_open [of p])
  show ?thesis
    unfolding signed_heartbeat_pod_def check_device_def session_opened_def
    apply (rule keeps_letM, rule keeps_liftM)
    apply (rule keeps_guarded)
    apply (intro s keeps_intros)
       apply (simp_all add: beat_def)
    done
qed

lemma keeps_heartbeat [keeps_intros]: "keeps J (heartbeat_pod E V i d)"
  unfolding heartbeat_pod_def
  by (rule keeps_get_pod) (simp add: keeps_legacy_heartbeat keeps_signed_heartbeat)

end

end
