(* ===== verification/Application.thy ===== *)
theory Application
  imports Row_History
begin

text \<open>
  The application as a state machine: a step is one request, served on a fresh session, to one of the
  endpoints of \<open>create_app\<close> in \<open>app/api_service/app.py\<close>. The invariants of the locale \<open>history\<close> hold along every
  sequence of requests, whoever sends them and whatever they carry.
\<close>

section \<open>Requests\<close>

text \<open>The arguments of an endpoint are what the framework parses from the request. The results of the
  artifact cache, the files, the settings, the answers of the Kernel and of the Updater and the text of \<open>updated_at\<close> are
  arbitrary. Restoring a backup, which replaces every row, is no step of this machine.\<close>

inductive app_step :: "env \<Rightarrow> parsers \<Rightarrow> world \<Rightarrow> world \<Rightarrow> bool" for E V where
  login: "app_step E V w (snd (serve (direct_login E req p) w))"
| start_page: "app_step E V w (snd (serve (index E req err) w))"
| asset: "app_step E V w (snd (serve (public_asset E req name) w))"
| own_session: "app_step E V w (snd (serve (protected E req (current_session E)) w))"
| logout: "app_step E V w (snd (serve (protected E req (direct_logout E)) w))"
| rotate: "app_step E V w (snd (serve (protected E req (\<lambda>l. change_access_key E l k)) w))"
| get_preferences: "app_step E V w (snd (serve (protected E req (\<lambda>_. read_preferences E)) w))"
| set_preferences: "app_step E V w (snd (serve (protected E req (\<lambda>_. save_preferences E v)) w))"
| kernel_get: "app_step E V w (snd (serve (protected E req (\<lambda>_. kernel_read ks)) w))"
| kernel_probe: "app_step E V w (snd (serve (protected E req (\<lambda>_. kernel_check ask ks)) w))"
| kernel_set: "app_step E V w (snd (serve (protected E req (\<lambda>_.
    letM (kernel_save E ask ks v) (\<lambda>_. seqM commit (kernel_read ks')))) w))"
| kernel_token: "app_step E V w (snd (serve (protected E req (\<lambda>_.
    letM (kernel_rotate E ask ks req v) (\<lambda>_. record_rotation E ks))) w))"
| log_page: "app_step E V w (snd (serve (protected E req (\<lambda>_. read_logs n b4 af)) w))"
| log_event: "app_step E V w (snd (serve (protected E req (\<lambda>_. record_ui E v)) w))"
| log_export: "app_step E V w (snd (serve (protected E req (\<lambda>_. download_logs E)) w))"
| backup_list: "app_step E V w (snd (serve (protected E req (\<lambda>_. backup_history)) w))"
| backup_check: "app_step E V w (snd (serve (protected E req (\<lambda>_. inspect_backup E pf parts)) w))"
| update_status: "app_step E V w (snd (serve (protected E req (\<lambda>_. updater_status H)) w))"
| update_check: "app_step E V w (snd (serve (protected E req (\<lambda>_. check_update E H part)) w))"
| update_jobs: "app_step E V w (snd (serve (protected E req (\<lambda>_. jobs E H r)) w))"
| update_install: "app_step E V w (snd (serve (protected E req (\<lambda>_. install E H i ver token saved parts)) w))"
| update_job: "app_step E V w (snd (serve (protected E req (\<lambda>_. job_status E H i)) w))"
| update_helper: "app_step E V w (snd (serve (protected E req (\<lambda>_. update_helper)) w))"
| update_rollback: "app_step E V w (snd (serve (protected E req (\<lambda>_. rollback_job E H i parts n)) w))"
| object_list: "app_step E V w (snd (serve (protected E req (\<lambda>_. list_objects)) w))"
| object_new: "app_step E V w (snd (serve (protected E req (\<lambda>_. create_object E oc)) w))"
| object_get: "app_step E V w (snd (serve (protected E req (\<lambda>_. read_object i)) w))"
| object_set: "app_step E V w (snd (serve (protected E req (\<lambda>_. update_object E i ou)) w))"
| object_image_set: "app_step E V w (snd (serve (protected E req (\<lambda>_. update_object_image E i up)) w))"
| object_image_get: "app_step E V w (snd (serve (protected E req (\<lambda>_. read_object_image i)) w))"
| object_image_delete: "app_step E V w (snd (serve (protected E req (\<lambda>_. delete_object_image E i)) w))"
| object_delete: "app_step E V w (snd (serve (protected E req (\<lambda>_. delete_object E i)) w))"
| correlation_get: "app_step E V w (snd (serve (protected E req (\<lambda>_. read_correlation_state E)) w))"
| correlation_set: "app_step E V w (snd (serve (protected E req (\<lambda>_. write_correlation_state E cu)) w))"
| overview_list: "app_step E V w (snd (serve (protected E req (\<lambda>_. list_overview_blocks E t)) w))"
| overview_rename: "app_step E V w (snd (serve (protected E req (\<lambda>_. rename_overview_block E t b n)) w))"
| overview_image_get: "app_step E V w (snd (serve (protected E req (\<lambda>_. read_overview_block_image E t b)) w))"
| overview_image_set: "app_step E V w (snd (serve (protected E req (\<lambda>_. upload_overview_block_image E t b up)) w))"
| overview_image_delete: "app_step E V w (snd (serve (protected E req (\<lambda>_. delete_overview_block_image E t b)) w))"
| subject_list: "app_step E V w (snd (serve (protected E req (\<lambda>_. list_subjects)) w))"
| subject_new: "app_step E V w (snd (serve (protected E req (\<lambda>_. create_subject E sc)) w))"
| subject_get: "app_step E V w (snd (serve (protected E req (\<lambda>_. read_subject i)) w))"
| subject_set: "app_step E V w (snd (serve (protected E req (\<lambda>_. update_subject E i su)) w))"
| subject_image_set: "app_step E V w (snd (serve (protected E req (\<lambda>_. update_subject_image E i up)) w))"
| subject_image_get: "app_step E V w (snd (serve (protected E req (\<lambda>_. read_subject_image i)) w))"
| subject_image_delete: "app_step E V w (snd (serve (protected E req (\<lambda>_. delete_subject_image E i)) w))"
| subject_materialize: "app_step E V w (snd (serve (protected E req (\<lambda>_. materialize_subject E i)) w))"
| subject_authorize: "app_step E V w (snd (serve (protected E req (\<lambda>_. authorize_subject E i)) w))"
| subject_revoke: "app_step E V w (snd (serve (protected E req (\<lambda>_. revoke_subject E i)) w))"
| subject_state_get: "app_step E V w (snd (serve (protected E req (\<lambda>_. read_subject_state i)) w))"
| subject_state_set: "app_step E V w (snd (serve (protected E req (\<lambda>_. update_subject_state E i v)) w))"
| subject_page: "app_step E V w (snd (serve (protected E req (\<lambda>_. subject_web_runtime i)) w))"
| subject_delete: "app_step E V w (snd (serve (protected E req (\<lambda>_. delete_subject E i)) w))"
| policy_list: "app_step E V w (snd (serve (protected E req (\<lambda>_. list_policies)) w))"
| policy_new: "app_step E V w (snd (serve (protected E req (\<lambda>_. create_policy E pc)) w))"
| policy_set: "app_step E V w (snd (serve (protected E req (\<lambda>_. update_policy E i pu)) w))"
| pod_config_get: "app_step E V w (snd (serve (protected E req (\<lambda>_. read_subject_pod_config E i)) w))"
| pod_config_set: "app_step E V w (snd (serve (protected E req (\<lambda>_. update_subject_pod_config E i pcu)) w))"
| subject_pods: "app_step E V w (snd (serve (protected E req (\<lambda>_. list_subject_pods E i b)) w))"
| provision: "app_step E V w (snd (serve (protected E req (\<lambda>_. create_subject_pod E a i pvc)) w))"
| pod_bundle: "app_step E V w (snd (serve (protected E req (\<lambda>_. download_subject_pod E files pinned a i r)) w))"
| unprovision: "app_step E V w (snd (serve (protected E req (\<lambda>_. delete_pending_pod E i r)) w))"
| pod_list: "app_step E V w (snd (serve (protected E req (\<lambda>_. list_all_pods E)) w))"
| pod_get: "app_step E V w (snd (serve (protected E req (\<lambda>_. read_pod i)) w))"
| pod_rename: "app_step E V w (snd (serve (protected E req (\<lambda>_. rename_pod E i n)) w))"
| pod_password: "app_step E V w (snd (serve (protected E req (\<lambda>_. change_pod_password E i x y)) w))"
| pod_revoke: "app_step E V w (snd (serve (protected E req (\<lambda>_. revoke_pod E i)) w))"
| pod_release: "app_step E V w (snd (serve (protected E req (\<lambda>_. release_pod E i)) w))"
| pod_enroll: "app_step E V w (snd (serve (enroll_pod E enr) w))"
| pod_verify: "app_step E V w (snd (serve (verify_pod_access E i u) w))"
| pod_status: "app_step E V w (snd (serve (read_pod_runtime_status E V i v) w))"
| pod_heartbeat: "app_step E V w (snd (serve (heartbeat_pod E V i v) w))"

definition app_run :: "env \<Rightarrow> parsers \<Rightarrow> world \<Rightarrow> world \<Rightarrow> bool" where
  "app_run E V = (app_step E V)\<^sup>*\<^sup>*"

lemma step_idle: "app_step E V w w' \<Longrightarrow> idle w'"
  by (induction rule: app_step.induct) (rule idle_serve)+

context history begin

lemma step_keeps: "app_step E V w w' \<Longrightarrow> idle w \<Longrightarrow> J w \<Longrightarrow> J w'"
  by (induction rule: app_step.induct) (rule steady_serve, intro keeps_intros, assumption, assumption)+

lemma run_keeps: "app_run E V w w' \<Longrightarrow> idle w \<Longrightarrow> J w \<Longrightarrow> idle w' \<and> J w'"
  unfolding app_run_def
proof (induction rule: rtranclp_induct)
  case (step y z)
  then show ?case using step_keeps step_idle by blast
qed simp

end

section \<open>What no request undoes\<close>

text \<open>The generator of identifiers does not produce \<open>i\<close> from the draw \<open>N\<close> on.\<close>

definition never_drawn :: "env \<Rightarrow> nat \<Rightarrow> string \<Rightarrow> bool" where
  "never_drawn E N i \<longleftrightarrow> (\<forall>n \<ge> N. uuid4_hex E n \<noteq> i)"

definition closed_pod :: "env \<Rightarrow> nat \<Rightarrow> string \<Rightarrow> pod \<Rightarrow> bool" where
  "closed_pod E N i p \<longleftrightarrow> (never_drawn E N i \<and> pod_id p = i \<longrightarrow> pod_status p = ''revoked'' \<and> pod_public_key_pem p \<noteq> [])"

definition closed_session :: "env \<Rightarrow> nat \<Rightarrow> string \<Rightarrow> lease \<Rightarrow> bool" where
  "closed_session E N s l \<longleftrightarrow> (never_drawn E N s \<and> lease_id l = s \<longrightarrow> lease_status l \<noteq> ''active'')"

lemma steady_idle: "idle w \<Longrightarrow> steady N I w \<longleftrightarrow> I (committed w) \<and> N \<le> draws w \<and> constraints_ok (committed w)"
  by (auto simp: steady_def since_def idle_def)

text \<open>A denylist with the identifier \<open>kv\<close>, if one is given.\<close>

definition denied_pair :: "(string \<times> string) option \<Rightarrow> denied list \<Rightarrow> bool" where
  "denied_pair kv ds \<longleftrightarrow> (case kv of None \<Rightarrow> True | Some (k, v) \<Rightarrow> \<exists>r \<in> set ds. denies k v r)"

interpretation closed: history E N "closed_pod E N i" "closed_session E N s" "denied_pair kv" for E N i s kv
  by unfold_locales (auto simp: closed_pod_def closed_session_def never_drawn_def denied_pair_def split: option.splits)

text \<open>What is kept of one Pod, one session and one identifier.\<close>

definition kept_rows :: "env \<Rightarrow> nat \<Rightarrow> string \<Rightarrow> string \<Rightarrow> (string \<times> string) option \<Rightarrow> db \<Rightarrow> bool" where
  "kept_rows E N i s kv = rows_good (closed_pod E N i) (closed_session E N s) (denied_pair kv)"

lemma run_keeps_rows:
  "app_run E V w w' \<Longrightarrow> idle w \<Longrightarrow> constraints_ok (committed w) \<Longrightarrow> kept_rows E (draws w) i s kv (committed w) \<Longrightarrow>
     idle w' \<and> constraints_ok (committed w') \<and> kept_rows E (draws w) i s kv (committed w')"
  using closed.run_keeps [of E V w w' "draws w" i s kv] by (auto simp: steady_idle kept_rows_def)

lemma drawn_trivial [simp]: "closed_pod E N (uuid4_hex E N) p" "closed_session E N (uuid4_hex E N) l" "denied_pair None ds"
  by (auto simp: closed_pod_def closed_session_def never_drawn_def denied_pair_def)


lemma lookup_PODS: "lookup PODS d i = Some p \<Longrightarrow> p \<in> set (pods d) \<and> pod_id p = i"
  using pods_table.lookup_pk by fastforce

lemma revoked_refused:
  assumes "idle w" and "constraints_ok (committed w)"
    and "\<forall>p \<in> set (pods (committed w)). pod_id p = i \<longrightarrow> pod_status p = ''revoked'' \<and> pod_public_key_pem p \<noteq> []"
  shows "(\<exists>s d. fst (serve (verify_pod_access E i u) w) = Inl (http_error s d))
    \<and> (\<exists>s d. fst (serve (heartbeat_pod E V i payload) w) = Inl (http_error s d))"
proof -
  have s: "in_step PODS w" "stored w = committed w" using assms(1,2) synced_in_step idle_synced by (auto simp: idle_def)
  have g: "get_pod i w = (case lookup PODS (committed w) i of
      None \<Rightarrow> (Inl (http_error 404 (''pod '' @ i @ '' not found'')), w) | Some p \<Rightarrow> (Inr p, w))"
    by (simp add: get_pod_def letM_def pods_table.db_get_synced [OF s(1)] s(2) ensure_exists_def raiseM_def ret_def
        split: option.splits)
  show ?thesis
  proof (cases "lookup PODS (committed w) i")
    case None
    then show ?thesis
      by (auto simp: serve_idle [OF assms(1)] verify_pod_access_def heartbeat_pod_def letM_def g)
  next
    case (Some p)
    with lookup_PODS assms(3) have p: "pod_status p = ''revoked''" "pod_public_key_pem p \<noteq> []" by blast+
    show ?thesis
      by (cases "parse_signed V payload")
        (auto simp: serve_idle [OF assms(1)] verify_pod_access_def heartbeat_pod_def signed_heartbeat_pod_def letM_def
          seqM_def g Some p ret_def raise_if_def raiseM_def liftM_def of_option_def)
  qed
qed


text \<open>C9. An ended session stays ended. Once a session is revoked or expired, no sequence of requests makes its
  identifier pass the access check again, with any key and at any time.\<close>

theorem ended_session_stays_ended:
  assumes "app_run E V w w'" and "idle w" and "constraints_ok (committed w)"
    and "lookup LEASES (committed w) sid = Some l" and "lease_status l \<noteq> ''active''" and "never_drawn E (draws w) sid"
    and "request_cookie req PERIMETR_SESSION_ID_COOKIE = sid"
  shows "\<not> valid_session E req t (committed w') k"
proof -
  have "distinct (map lease_id (leases (committed w)))" using assms(3) by (simp add: constraints_ok_def keys_ok_def)
  moreover have "l \<in> set (leases (committed w))" "lease_id l = sid" using leases_table.lookup_pk [OF assms(4)] by auto
  ultimately have u: "q = l" if "q \<in> set (leases (committed w))" "lease_id q = sid" for q
    using that by (auto simp: distinct_map inj_on_def)
  have "kept_rows E (draws w) (uuid4_hex E (draws w)) sid None (committed w)"
    using u assms(5) by (auto simp: kept_rows_def rows_good_def closed_session_def)
  from run_keeps_rows [OF assms(1-3) this] assms(6)
  have "\<forall>q \<in> set (leases (committed w')). lease_id q = sid \<longrightarrow> lease_status q \<noteq> ''active''"
    by (auto simp: kept_rows_def rows_good_def closed_session_def)
  then show ?thesis using leases_table.lookup_pk [of "committed w'" sid] assms(7) by (auto simp: valid_session_def)
qed

end
