(* ===== verification/Pod_Safety.thy ===== *)
theory Pod_Safety
  imports Application Pod_Access_Safety
begin

text \<open>
  What the endpoints on Pods guarantee: which heartbeats are accepted, what an enrollment needs and uses
  up, what a revocation denies for ever, and which status a listing shows.
\<close>

section \<open>Reading a Pod\<close>

definition settled_world :: "world \<Rightarrow> bool" where
  "settled_world w \<longleftrightarrow> idle w \<and> constraints_ok (committed w)"

lemma settled_facts:
  assumes "settled_world w"
  shows "idle w" "constraints_ok (committed w)" "live w = committed w" "stored w = committed w" "in_step T w"
  using assms synced_in_step idle_synced by (auto simp: settled_world_def idle_def)

lemma get_pod_run:
  assumes "in_step PODS w"
  shows "get_pod i w = (case lookup PODS (stored w) i of
      None \<Rightarrow> (Inl (http_error 404 (''pod '' @ i @ '' not found'')), w) | Some p \<Rightarrow> (Inr p, w))"
  by (simp add: get_pod_def letM_def pods_table.db_get_synced [OF assms] ensure_exists_def raiseM_def ret_def
      split: option.splits)

lemma settled_step: "app_step E V w w' \<Longrightarrow> settled_world w \<Longrightarrow> settled_world w'"
  using run_keeps_rows [of E V w w' "uuid4_hex E (draws w)" "uuid4_hex E (draws w)" None]
  by (simp add: settled_world_def kept_rows_def rows_good_def app_run_def r_into_rtranclp)

lemma lookup_events [simp]: "lookup PODS (d\<lparr>audit_events := es\<rparr>) i = lookup PODS d i"
  by (simp add: lookup_def)

section \<open>Heartbeats\<close>

lemma check_device_Inr: "check_device E p h w = (Inr u, w') \<longleftrightarrow>
    hb_device_binding_fingerprint h = pod_device_binding_fingerprint p \<and> w' = w"
  by (auto simp: check_device_def web_inv)

lemma check_timestamp_Inr: "check_timestamp E d x w = (Inr u, w') \<longleftrightarrow>
    (\<exists>t. x = Aware t \<and> \<bar>clock E (draws w) - t\<bar> \<le> seconds 300 \<and> w' = w\<lparr>draws := Suc (draws w)\<rparr>)"
  by (cases x) (auto simp: check_timestamp_def web_inv)

text \<open>What holds of a heartbeat \<open>h\<close> that is accepted for the Pod \<open>p\<close>.\<close>

definition genuine :: "env \<Rightarrow> dict \<Rightarrow> db \<Rightarrow> int \<Rightarrow> pod \<Rightarrow> signed_heartbeat \<Rightarrow> bool" where
  "genuine E payload d now p h \<longleftrightarrow>
     pod_status p \<noteq> ''revoked''
   \<and> (\<nexists>r. r \<in> set (denylist d) \<and> denies ''certificate_fingerprint'' (hb_certificate_fingerprint h) r)
   \<and> hb_certificate_fingerprint h = pod_certificate_fingerprint p
   \<and> hb_device_binding_fingerprint h = pod_device_binding_fingerprint p
   \<and> pod_heartbeat_sequence p < hb_sequence h
   \<and> (\<exists>t. hb_timestamp h = Aware t \<and> \<bar>now - t\<bar> \<le> seconds 300)
   \<and> verify_heartbeat_signature E (pod_public_key_pem p) payload (hb_signature h) = Inr ()
   \<and> (\<exists>mode. heartbeat_mode E p h = Inr mode)"

lemma session_opened_Inr: "session_opened E p s h w = (Inr u, w') \<Longrightarrow>
    \<exists>es. live w' = (live w)\<lparr>audit_events := es\<rparr>"
  by (cases "live w") (auto simp: session_opened_def web_inv audited_def dest!: audit_Inr split: if_splits)

text \<open>What follows the checks of a heartbeat.\<close>

definition heartbeat_tail :: "env \<Rightarrow> pod \<Rightarrow> signed_heartbeat \<Rightarrow> string \<Rightarrow> dict web" where
  "heartbeat_tail E p h mode =
     letM (now_utc E) (\<lambda>seen. letM (now_utc E) (\<lambda>heard.
     letM (subject_of_pod p) (\<lambda>s.
     seqM (db_set PODS (pod_id p) (beat h s seen heard))
     (seqM (session_opened E p s h)
     (seqM (audit E ''pod'' (pod_id p) ''pod.heartbeat'' ''pod'' (pod_id p) []
             [(''status'', JStr ''active''), (''network_status'', JStr (hb_network_status h))])
     (seqM commit
     (letM (liftM (pod_config_for_access E s mode)) (\<lambda>config.
       ret [(''allowed'', JBool True), (''status'', JStr ''active''),
            (''lease_seconds'', JInt (perimetr_pod_offline_after_sec (cfg E))), (''config'', JObj config)]))))))))"

lemma subject_of_pod_Inr: "subject_of_pod p w = (Inr s, w') \<Longrightarrow> w' = w"
  by (auto simp: subject_of_pod_def letM_Inr db_get_def web_inv split: option.splits)

lemma heartbeat_tail_Inr:
  assumes "heartbeat_tail E p h mode w = (Inr out, w')"
  shows "\<exists>s a b es. committed w' = (modify_row PODS (pod_id p) (beat h s a b) (live w))\<lparr>audit_events := es\<rparr>"
proof -
  obtain s a b u w2 w3 w4 where op: "session_opened E p s h w2 = (Inr u, w3)"
    and l: "live w2 = modify_row PODS (pod_id p) (beat h s a b) (live w)" and au: "audited w3 w4" and c: "committed w' = live w4"
    using assms unfolding heartbeat_tail_def
    apply (simp only: letM_Inr seqM_Inr now_utc_Inr db_set_Inr commit_Inr liftM_Inr ret_Inr)
    apply (elim exE conjE)
    apply (drule subject_of_pod_Inr, drule audit_Inr)
    apply (rule that, assumption)
      apply simp_all
    done
  obtain es where "committed w' = (live w2)\<lparr>audit_events := es\<rparr>"
    using session_opened_Inr [OF op] au c by (auto simp: audited_def)
  then show ?thesis unfolding l by blast
qed

lemma heartbeat_effect:
  assumes "settled_world w" and "lookup PODS (committed w) i = Some p" and "pod_public_key_pem p \<noteq> []"
    and run: "serve (heartbeat_pod E V i payload) w = (Inr out, w')"
  shows "\<exists>h q. parse_signed V payload = Some h \<and> genuine E payload (committed w) (clock E (draws w)) p h
    \<and> settled_world w' \<and> lookup PODS (committed w') i = Some q
    \<and> pod_heartbeat_sequence q = hb_sequence h \<and> pod_status q = ''active'' \<and> pod_public_key_pem q = pod_public_key_pem p"
proof -
  note sw = settled_facts [OF assms(1)]
  obtain w1 where r: "heartbeat_pod E V i payload w = (Inr out, w1)" and w': "w' = w1\<lparr>stored := committed w1, live := committed w1, pending_log := []\<rparr>"
    using run by (auto simp: serve_Inr [OF sw(1)])
  have g: "get_pod i w = (Inr p, w)" by (simp add: get_pod_run [OF sw(5)] sw(4) assms(2))
  have dn: "db_scalar DENYLIST P w = (Inr (find P (denylist (committed w))), w)" for P
    using denylist_table.db_scalar_synced [OF sw(5)] sw(4) by simp
  obtain h mode w2 where h: "parse_signed V payload = Some h" and ge: "genuine E payload (committed w) (clock E (draws w)) p h"
    and t: "heartbeat_tail E p h mode w2 = (Inr out, w1)" and l: "live w2 = live w"
    using r assms(3)
    by (auto simp: heartbeat_pod_def signed_heartbeat_pod_def letM_Inr g seqM_Inr liftM_Inr raise_if_Inr dn
        check_device_Inr check_timestamp_Inr heartbeat_tail_def [symmetric] genuine_def find_None_iff not_le)
  obtain s a b es where c: "committed w1 = (modify_row PODS (pod_id p) (beat h s a b) (committed w))\<lparr>audit_events := es\<rparr>"
    using heartbeat_tail_Inr [OF t] l sw(3) by auto
  have "lookup PODS (committed w') i = Some (beat h s a b p)"
    using assms(2) lookup_PODS [OF assms(2)]
    by (simp add: w' c lookup_events pods_table.lookup_modify beat_def del: modify_tables)
  moreover have "settled_world w'"
    using settled_step [OF app_step.pod_heartbeat assms(1), of E V i payload] run by simp
  ultimately show ?thesis using h ge by (auto simp: beat_def)
qed


end
