(* ===== verification/Enrollment_Safety.thy ===== *)
theory Enrollment_Safety
  imports Pod_Safety
begin

text \<open>
  What an enrollment needs and uses up, what a revocation denies for ever, how a Pod logs in, and which
  status a listing shows.
\<close>

section \<open>Denied identifiers\<close>

lemma deny_identifier_Inr:
  assumes "deny_identifier E why p kv w = (Inr u, w')" and "denylist (live w) = denylist (stored w) @ xs"
  shows "\<exists>ds n. w' = w\<lparr>live := (live w)\<lparr>denylist := denylist (live w) @ ds\<rparr>, draws := n\<rparr>
    \<and> (snd kv \<noteq> [] \<longrightarrow> (\<exists>r \<in> set (denylist (stored w) @ ds). denies (fst kv) (snd kv) r))"
proof (cases "snd kv = [] \<or> find (denies (fst kv) (snd kv)) (denylist (stored w)) \<noteq> None")
  case True
  then have "w' = w\<lparr>live := (live w)\<lparr>denylist := denylist (live w) @ []\<rparr>, draws := draws w\<rparr>"
    using assms(1) by (auto simp: deny_identifier_def web_inv db_scalar_def split: if_splits)
  with True show ?thesis by (metis append_Nil2 find_SomeD not_None_eq)
next
  case False
  then have "w' = w\<lparr>live := (live w)\<lparr>denylist := denylist (live w) @ [\<lparr>deny_id = uuid4_hex E (draws w), deny_pod_id = Some (pod_id p),
      deny_subject_id = Some (pod_subject_id p), deny_type = fst kv, deny_value = snd kv, deny_reason = why\<rparr>]\<rparr>,
      draws := Suc (draws w)\<rparr>"
    using assms(1) by (auto simp: deny_identifier_def web_inv db_scalar_def insert_row_def)
  then show ?thesis by (intro exI conjI) (auto simp: denies_def)
qed

lemma deny_pod_Inr:
  assumes "deny_pod E why p w = (Inr u, w')" and "live w = stored w"
  shows "\<exists>ds n. w' = w\<lparr>live := (live w)\<lparr>denylist := denylist (live w) @ ds\<rparr>, draws := n\<rparr>
    \<and> (\<forall>kv \<in> set (pod_identifiers p). snd kv \<noteq> [] \<longrightarrow> (\<exists>r \<in> set (denylist (live w) @ ds). denies (fst kv) (snd kv) r))"
proof -
  let ?k1 = "(''pod_id'', pod_id p)" and ?k2 = "(''certificate_fingerprint'', pod_certificate_fingerprint p)"
    and ?k3 = "(''device_binding_fingerprint'', pod_device_binding_fingerprint p)"
  obtain u1 w1 u2 w2 where r: "deny_identifier E why p ?k1 w = (Inr u1, w1)" "deny_identifier E why p ?k2 w1 = (Inr u2, w2)"
    "deny_identifier E why p ?k3 w2 = (Inr u, w')"
    using assms(1) by (auto simp: deny_pod_def pod_identifiers_def web_inv)
  obtain ds1 n1 where 1: "w1 = w\<lparr>live := (live w)\<lparr>denylist := denylist (live w) @ ds1\<rparr>, draws := n1\<rparr>"
    "pod_id p \<noteq> [] \<longrightarrow> (\<exists>r \<in> set (denylist (stored w) @ ds1). denies ''pod_id'' (pod_id p) r)"
    using deny_identifier_Inr [OF r(1), of "[]"] assms(2) by auto
  obtain ds2 n2 where 2: "w2 = w1\<lparr>live := (live w1)\<lparr>denylist := denylist (live w1) @ ds2\<rparr>, draws := n2\<rparr>"
    "pod_certificate_fingerprint p \<noteq> [] \<longrightarrow> (\<exists>r \<in> set (denylist (stored w1) @ ds2). denies (fst ?k2) (snd ?k2) r)"
    using deny_identifier_Inr [OF r(2), of ds1] 1(1) assms(2) by auto
  obtain ds3 n3 where 3: "w' = w2\<lparr>live := (live w2)\<lparr>denylist := denylist (live w2) @ ds3\<rparr>, draws := n3\<rparr>"
    "pod_device_binding_fingerprint p \<noteq> [] \<longrightarrow> (\<exists>r \<in> set (denylist (stored w2) @ ds3). denies (fst ?k3) (snd ?k3) r)"
    using deny_identifier_Inr [OF r(3), of "ds1 @ ds2"] 1(1) 2(1) assms(2) by auto
  have "w' = w\<lparr>live := (live w)\<lparr>denylist := denylist (live w) @ ds1 @ ds2 @ ds3\<rparr>, draws := n3\<rparr>"
    by (simp add: 1(1) 2(1) 3(1))
  then show ?thesis using 1 2 3 assms(2) by (intro exI [of _ "ds1 @ ds2 @ ds3"] exI [of _ n3]) (auto simp: pod_identifiers_def)
qed

text \<open>What follows the denials of a revocation.\<close>

definition revoke_tail :: "env \<Rightarrow> pod \<Rightarrow> unit web" where
  "revoke_tail E p =
     letM (now_utc E) (\<lambda>t.
     seqM (db_set PODS (pod_id p) (\<lambda>x. x\<lparr>pod_status := ''revoked'', pod_revoked_at := Some t,
             pod_revoke_reason := ''operator_deleted''\<rparr>))
     (letM (subject_of_pod p) (\<lambda>s.
      seqM (whenM (sub_pod_id s = Some (pod_id p)) (db_set SUBJECTS (sub_id s) (\<lambda>x. x\<lparr>sub_pod_id := None\<rparr>)))
      (seqM (core_audit E ''pod.revoked'' ''pod'' (pod_id p) []
              [(''fingerprint_blacklisted'', JBool (pod_certificate_fingerprint p \<noteq> []))])
        commit))))"

lemma revoke_tail_Inr:
  assumes "revoke_tail E p w = (Inr u, w')"
  shows "denylist (committed w') = denylist (live w) \<and> pods (committed w') = map (\<lambda>r. if pod_id r = pod_id p
      then r\<lparr>pod_status := ''revoked'', pod_revoked_at := Some (clock E (draws w)), pod_revoke_reason := ''operator_deleted''\<rparr>
      else r) (pods (live w))"
  using assms unfolding revoke_tail_def
  by (auto simp: web_inv audited_def dest!: subject_of_pod_Inr core_audit_Inr split: if_splits)

lemma revoke_pod_effect:
  assumes "settled_world w" and "lookup PODS (committed w) i = Some p" and "pod_status p \<noteq> ''revoked''"
    and run: "serve (revoke_pod E i) w = (Inr out, w')"
  shows "(\<exists>q. lookup PODS (committed w') i = Some q \<and> pod_status q = ''revoked'' \<and> pod_public_key_pem q = pod_public_key_pem p)
    \<and> (\<forall>kv \<in> set (pod_identifiers p). snd kv \<noteq> [] \<longrightarrow> denied_pair (Some kv) (denylist (committed w')))"
proof -
  note sw = settled_facts [OF assms(1)]
  obtain w1 where r: "revoke_pod E i w = (Inr out, w1)" and w': "w' = w1\<lparr>stored := committed w1, live := committed w1, pending_log := []\<rparr>"
    using run by (auto simp: serve_Inr [OF sw(1)])
  have f: "find (\<lambda>p. pod_id p = i) (pods (stored w)) = Some p" using assms(2) sw(4) by (simp add: lookup_def)
  have g: "db_scalar PODS (\<lambda>p. pod_id p = i) w = (Inr (Some p), w)"
    using pods_table.db_scalar_synced [OF sw(5)] f by simp
  obtain u v w2 where d: "deny_pod E ''operator_deleted'' p w = (Inr u, w2)" and t: "revoke_tail E p w2 = (Inr v, w1)"
    using r assms(3) by (auto simp: revoke_pod_def letM_Inr g revoke_tail_def [symmetric] seqM_Inr whenM_Inr ret_Inr)
  obtain ds n where w2: "w2 = w\<lparr>live := (live w)\<lparr>denylist := denylist (live w) @ ds\<rparr>, draws := n\<rparr>"
    and dn: "\<forall>kv \<in> set (pod_identifiers p). snd kv \<noteq> [] \<longrightarrow> (\<exists>r \<in> set (denylist (live w) @ ds). denies (fst kv) (snd kv) r)"
    using deny_pod_Inr [OF d] sw(3,4) by auto
  define x where "x = clock E (draws w2)"
  note ds = conjunct1 [OF revoke_tail_Inr [OF t]] and ps = conjunct2 [OF revoke_tail_Inr [OF t], folded x_def]
  have i: "pod_id p = i" using lookup_PODS [OF assms(2)] by simp
  have "pods (committed w') = pods (modify_row PODS i (\<lambda>r. r\<lparr>pod_status := ''revoked'', pod_revoked_at := Some x,
      pod_revoke_reason := ''operator_deleted''\<rparr>) (committed w))"
    by (simp add: w' ps w2 sw(3) i)
  then have "lookup PODS (committed w') i = map_option (\<lambda>r. r\<lparr>pod_status := ''revoked'', pod_revoked_at := Some x,
      pod_revoke_reason := ''operator_deleted''\<rparr>) (lookup PODS (committed w) i)"
    using pods_table.lookup_modify [of "\<lambda>r. r\<lparr>pod_status := ''revoked'', pod_revoked_at := Some x,
      pod_revoke_reason := ''operator_deleted''\<rparr>" i "committed w" i] by (simp add: lookup_def del: modify_tables)
  moreover have "denylist (committed w') = denylist (live w) @ ds" by (simp add: w' ds w2)
  ultimately show ?thesis using dn assms(2) by (fastforce simp: denied_pair_def)
qed

section \<open>Enrollments\<close>

lemma refuse_expired_Inr: "refuse_expired E r w = (Inr u, w') \<Longrightarrow> \<exists>n. w' = w\<lparr>draws := n\<rparr>"
  by (cases "prov_expires_at r") (auto simp: refuse_expired_def has_passed_def web_inv split: if_splits intro: exI [of _ "draws w"])

lemma draws_same: "w = w\<lparr>draws := draws w\<rparr>"
  by simp

lemma in_step_draws [simp]: "in_step T (w\<lparr>draws := n\<rparr>) = in_step T w"
  by (simp add: in_step_def)

lemma provisioned_source_Inr:
  assumes "provisioned_source E p w = (Inr c, w')" and "settled_world w"
  shows "\<exists>r n. w' = w\<lparr>draws := n\<rparr> \<and> lookup PROVISIONINGS (committed w) (text_of (enr_provisioning_id p)) = Some r
    \<and> compare_digest (hash_token E (text_of (enr_enrollment_token p))) (prov_token_hash r) = Inr True
    \<and> prov_status r \<notin> set CLOSED_STATUS \<and> prov_token_encrypted r \<noteq> []
    \<and> c = \<lparr>cr_record = Some r, cr_subject = lookup SUBJECTS (committed w) (prov_subject_id r), cr_login = prov_login r,
         cr_hash = prov_password_hash r, cr_decoy_hash = prov_decoy_password_hash r\<rparr>"
proof -
  note sw = settled_facts [OF assms(2)]
  have g: "db_get PROVISIONINGS i w = (Inr (lookup PROVISIONINGS (committed w) i), w)" for i
    using provisionings_table.db_get_synced [OF sw(5)] sw(4) by simp
  have s: "db_get SUBJECTS i (w\<lparr>draws := n\<rparr>) = (Inr (lookup SUBJECTS (committed w) i), w\<lparr>draws := n\<rparr>)" for i n
    using subjects_table.db_get_synced [of "w\<lparr>draws := n\<rparr>"] by (simp add: sw(4,5))
  show ?thesis using assms(1) unfolding provisioned_source_def
    by (auto simp: letM_Inr seqM_Inr raise_if_Inr liftM_Inr raiseM_Inr ret_Inr g s dest!: refuse_expired_Inr split: option.splits)
qed

lemma check_credentials_Inr:
  assumes "check_credentials E u x login hash decoy w = (Inr m, w')" and "hash \<noteq> []"
  shows "\<exists>mode. pod_access_mode E u x login hash decoy = Inr (Some mode) \<and> m = (mode, login, hash) \<and> w' = w"
  using assms by (auto simp: check_credentials_def web_inv split: option.splits)

lemma check_identity_Inr:
  assumes "check_identity E p w = (Inr fp, w')" and "in_step DENYLIST w" and "in_step PODS w"
  shows "w' = w \<and> public_key_fingerprint E (enr_public_key_pem p) = Inr fp
    \<and> (\<nexists>r. r \<in> set (denylist (stored w)) \<and> denies ''certificate_fingerprint'' fp r)
    \<and> (\<nexists>r. r \<in> set (denylist (stored w)) \<and> denies ''device_binding_fingerprint'' (enr_device_binding_fingerprint p) r)
    \<and> (\<nexists>q. q \<in> set (pods (stored w)) \<and> pod_certificate_fingerprint q = fp \<and> pod_status q \<noteq> ''revoked'')"
  using assms(1)
  by (auto simp: check_identity_def letM_Inr seqM_Inr raise_if_Inr liftM_Inr ret_Inr denies_def find_None_iff
      denylist_table.db_all_synced [OF assms(2)] pods_table.db_scalar_synced [OF assms(3)])

text \<open>What follows the checks of an enrollment, for the new Pod \<open>q\<close>.\<close>

definition admit :: "env \<Rightarrow> credential \<Rightarrow> subject \<Rightarrow> string \<Rightarrow> string \<Rightarrow> string \<Rightarrow> pod \<Rightarrow> dict web" where
  "admit E c s mode fingerprint i q =
     (let certificate = issue_identity_certificate E q (sub_entity_id s)
      in seqM (db_add PODS q)
         (seqM flush
         (seqM (db_set PODS i (\<lambda>x. x\<lparr>pod_identity_certificate := certificate\<rparr>))
         (seqM (consume_record E s (cr_record c))
         (seqM (db_set SUBJECTS (sub_id s) (\<lambda>x. x\<lparr>sub_pod_id := Some i\<rparr>))
         (seqM (audit E ''pod'' i ''pod.enrolled'' ''subject'' (sub_entity_id s) [] [(''fingerprint'', JStr fingerprint)])
         (seqM commit
         (letM (issue_pod_access_grant E i mode) (\<lambda>grant.
         letM (liftM (pod_config_for_access E s mode)) (\<lambda>config.
           ret [(''pod_id'', JStr i), (''subject_id'', JStr (sub_entity_id s)),
                (''identity_certificate'', JStr certificate), (''status'', JStr (pod_status q)),
                (''access_mode'', JStr mode), (''access_grant'', JStr grant),
                (''next_heartbeat_sequence'', JInt 1), (''config'', JObj config)]))))))))))"

definition enroll_tail :: "env \<Rightarrow> enroll_request \<Rightarrow> credential \<Rightarrow> subject \<Rightarrow> string \<Rightarrow> string \<Rightarrow> string \<Rightarrow> string \<Rightarrow> dict web" where
  "enroll_tail E p c s mode login hash fingerprint =
     letM (now_utc E) (\<lambda>activated. letM (now_utc E) (\<lambda>seen. letM (new_id E) (\<lambda>i. letM (now_utc E) (\<lambda>t.
       admit E c s mode fingerprint i
         (enrolled_pod p s (cr_record c) login hash (cr_decoy_hash c) fingerprint activated seen i t)))))"

lemma enroll_pod_split: "enroll_pod E p =
     letM (enroll_source E p) (\<lambda>c.
     letM (liftM (of_option (http_error 404 ''subject_not_found'') (cr_subject c))) (\<lambda>s.
     letM (check_credentials E (enr_username p) (enr_password p) (cr_login c) (cr_hash c) (cr_decoy_hash c))
       (\<lambda>(mode, login, hash).
     seqM (liftM (validate_subject_pod_config E s))
     (letM (check_identity E p) (enroll_tail E p c s mode login hash)))))"
  unfolding enroll_pod_def enroll_tail_def admit_def Let_def ..

lemma modify_provisionings [simp]: "modify_row PROVISIONINGS k f d =
    d\<lparr>provisionings := map (\<lambda>r. if prov_id r = k then f r else r) (provisionings d)\<rparr>"
  by (simp add: modify_row_def PROVISIONINGS_def)

lemma consume_record_Inr:
  assumes "consume_record E s r w = (Inr u, w')"
  shows "pods (live w') = pods (live w) \<and> (\<forall>x. r = Some x \<longrightarrow> (\<exists>t. provisionings (live w') =
      map (\<lambda>y. if prov_id y = prov_id x then y\<lparr>prov_status := ''active'', prov_activated_at := Some t, prov_token_encrypted := []\<rparr>
        else y) (provisionings (live w))))"
  using assms by (cases r) (auto simp: consume_record_def web_inv insert_row_def)

lemma grant_world: "issue_pod_access_grant E i mode w = (Inr token, w') \<Longrightarrow> \<exists>n. w' = w\<lparr>draws := n\<rparr>"
  by (auto simp: issue_pod_access_grant_def web_inv)

lemma admit_Inr:
  assumes "admit E c s mode fp i q w = (Inr out, w')" and "pod_id q = i"
  shows "(\<exists>k. pods (committed w') = pods (live w) @ [q\<lparr>pod_identity_certificate := k\<rparr>])
    \<and> (\<forall>x. cr_record c = Some x \<longrightarrow> (\<exists>t. provisionings (committed w') =
      map (\<lambda>y. if prov_id y = prov_id x then y\<lparr>prov_status := ''active'', prov_activated_at := Some t, prov_token_encrypted := []\<rparr>
        else y) (provisionings (live w))))"
proof -
  obtain k u w1 w2 w3 w4 where ok: "constraints_ok (insert_row PODS q (live w))"
    and w1: "live w1 = modify_row PODS i (\<lambda>x. x\<lparr>pod_identity_certificate := k\<rparr>) (insert_row PODS q (live w))"
    and cr: "consume_record E s (cr_record c) w1 = (Inr u, w2)" and w3: "live w3 = modify_row SUBJECTS (sub_id s) (\<lambda>x. x\<lparr>sub_pod_id := Some i\<rparr>) (live w2)"
    and au: "audited w3 w4" and c: "committed w' = live w4"
    using assms(1) unfolding admit_def Let_def
    apply (simp only: letM_Inr seqM_Inr db_add_Inr db_set_Inr flush_Inr commit_Inr liftM_Inr ret_Inr)
    apply (elim exE conjE)
    apply (drule audit_Inr, drule grant_world)
    apply (rule that)
         defer
         defer
         apply assumption
        defer
        apply assumption
       apply auto
    done
  have "i \<notin> pod_id ` set (pods (live w))" using ok assms(2) by (simp add: constraints_ok_def keys_ok_def)
  then have "map (\<lambda>r. if pod_id r = i then r\<lparr>pod_identity_certificate := k\<rparr> else r) (pods (live w)) = pods (live w)"
    by (intro map_idI) auto
  then have "pods (live w1) = pods (live w) @ [q\<lparr>pod_identity_certificate := k\<rparr>]" "provisionings (live w1) = provisionings (live w)"
    using w1 assms(2) by simp_all
  then show ?thesis using consume_record_Inr [OF cr] au c w3 by (auto simp: audited_def)
qed

lemma enroll_pod_Inr:
  assumes "enroll_pod E p w = (Inr out, w')" and "settled_world w" and "enr_provisioning_id p = Some i" and "i \<noteq> []"
    and "\<And>r. lookup PROVISIONINGS (committed w) i = Some r \<Longrightarrow> prov_password_hash r \<noteq> []"
  shows "\<exists>r mode fp q. lookup PROVISIONINGS (committed w) i = Some r
    \<and> compare_digest (hash_token E (text_of (enr_enrollment_token p))) (prov_token_hash r) = Inr True
    \<and> prov_status r \<notin> set CLOSED_STATUS \<and> prov_token_encrypted r \<noteq> []
    \<and> pod_access_mode E (enr_username p) (enr_password p) (prov_login r) (prov_password_hash r) (prov_decoy_password_hash r) = Inr (Some mode)
    \<and> public_key_fingerprint E (enr_public_key_pem p) = Inr fp
    \<and> (\<nexists>x. x \<in> set (denylist (committed w)) \<and> denies ''certificate_fingerprint'' fp x)
    \<and> (\<nexists>x. x \<in> set (denylist (committed w)) \<and> denies ''device_binding_fingerprint'' (enr_device_binding_fingerprint p) x)
    \<and> (\<nexists>x. x \<in> set (pods (committed w)) \<and> pod_certificate_fingerprint x = fp \<and> pod_status x \<noteq> ''revoked'')
    \<and> pods (committed w') = pods (committed w) @ [q] \<and> pod_certificate_fingerprint q = fp \<and> pod_status q = ''offline''
    \<and> pod_login q = prov_login r \<and> pod_subject_id q = prov_subject_id r
    \<and> (\<exists>t. provisionings (committed w') = provisionings (modify_row PROVISIONINGS i
          (\<lambda>y. y\<lparr>prov_status := ''active'', prov_activated_at := Some t, prov_token_encrypted := []\<rparr>) (committed w)))"
proof -
  note sw = settled_facts [OF assms(2)]
  have src: "enroll_source E p = provisioned_source E p" using assms(3,4) by (simp add: enroll_source_def given_text_def text_of_def)
  obtain c s m w1 w2 w3 fp u where ps: "provisioned_source E p w = (Inr c, w1)" and s: "cr_subject c = Some s"
    and cc: "check_credentials E (enr_username p) (enr_password p) (cr_login c) (cr_hash c) (cr_decoy_hash c) w1 = (Inr m, w2)"
    and ci: "check_identity E p w2 = (Inr fp, w3)" and t: "enroll_tail E p c s (fst m) (fst (snd m)) (snd (snd m)) fp w3 = (Inr out, w')"
    using assms(1) unfolding enroll_pod_split src
    by (auto simp: letM_Inr seqM_Inr liftM_Inr of_option_def split: option.splits prod.splits)
  have "text_of (enr_provisioning_id p) = i" by (simp add: assms(3) text_of_def)
  then obtain r n where r: "w1 = w\<lparr>draws := n\<rparr>" "lookup PROVISIONINGS (committed w) i = Some r"
    "compare_digest (hash_token E (text_of (enr_enrollment_token p))) (prov_token_hash r) = Inr True"
    "prov_status r \<notin> set CLOSED_STATUS" "prov_token_encrypted r \<noteq> []"
    and c: "c = \<lparr>cr_record = Some r, cr_subject = lookup SUBJECTS (committed w) (prov_subject_id r), cr_login = prov_login r,
         cr_hash = prov_password_hash r, cr_decoy_hash = prov_decoy_password_hash r\<rparr>"
    using provisioned_source_Inr [OF ps assms(2)] by auto
  obtain mode where mode: "pod_access_mode E (enr_username p) (enr_password p) (prov_login r) (prov_password_hash r) (prov_decoy_password_hash r) = Inr (Some mode)"
    and m: "m = (mode, prov_login r, prov_password_hash r)" and w2: "w2 = w1"
    using check_credentials_Inr [OF cc] assms(5) [OF r(2)] c by auto
  have "in_step DENYLIST w2" "in_step PODS w2" by (simp_all add: w2 r(1) sw(5))
  from check_identity_Inr [OF ci this] have id: "w3 = w2" "public_key_fingerprint E (enr_public_key_pem p) = Inr fp"
    "\<nexists>x. x \<in> set (denylist (committed w)) \<and> denies ''certificate_fingerprint'' fp x"
    "\<nexists>x. x \<in> set (denylist (committed w)) \<and> denies ''device_binding_fingerprint'' (enr_device_binding_fingerprint p) x"
    "\<nexists>x. x \<in> set (pods (committed w)) \<and> pod_certificate_fingerprint x = fp \<and> pod_status x \<noteq> ''revoked''"
    by (simp_all add: w2 r(1) sw(4))
  obtain a1 a2 i2 a3 w4 where ad: "admit E c s mode fp i2 (enrolled_pod p s (cr_record c) (prov_login r) (prov_password_hash r)
      (cr_decoy_hash c) fp a1 a2 i2 a3) w4 = (Inr out, w')" and w4: "live w4 = committed w"
    using t by (auto simp: enroll_tail_def letM_Inr now_utc_Inr new_id_Inr m id(1) w2 r(1) sw(3))
  have pr: "prov_id r = i" using provisionings_table.lookup_pk [OF r(2)] by simp
  have su: "sub_id s = prov_subject_id r" using s c subjects_table.lookup_pk by fastforce
  have e: "pod_id (enrolled_pod p s (cr_record c) (prov_login r) (prov_password_hash r) (cr_decoy_hash c) fp a1 a2 i2 a3) = i2"
    by (simp add: enrolled_pod_def default_pod_def)
  obtain k where "pods (committed w') = pods (committed w) @ [(enrolled_pod p s (cr_record c) (prov_login r) (prov_password_hash r)
      (cr_decoy_hash c) fp a1 a2 i2 a3)\<lparr>pod_identity_certificate := k\<rparr>]"
    using admit_Inr [OF ad e] w4 by auto
  moreover obtain t where "provisionings (committed w') = provisionings (modify_row PROVISIONINGS i
          (\<lambda>y. y\<lparr>prov_status := ''active'', prov_activated_at := Some t, prov_token_encrypted := []\<rparr>) (committed w))"
    using admit_Inr [OF ad e] w4 c pr by auto
  ultimately show ?thesis using r mode id su by (intro exI conjI) (auto simp: enrolled_pod_def default_pod_def)
qed


lemma settled_revoke: "settled_world w \<Longrightarrow> settled_world (snd (serve (revoke_pod E i) w))"
proof -
  let ?u = "uuid4_hex E (draws w)"
  assume s: "settled_world w"
  have "keeps (steady (draws w) (rows_good (closed_pod E (draws w) ?u) (closed_session E (draws w) ?u) (denied_pair None)))
      (revoke_pod E i)"
    by (rule closed.keeps_pod_actions)
  from steady_serve [OF this] s show ?thesis by (simp add: settled_world_def steady_idle idle_serve rows_good_def)
qed


section \<open>Listings\<close>

context table_laws begin

lemma each_set_run:
  assumes "\<And>r. pk T (g r) = pk T r" and "\<And>r. g (g r) = g r"
  shows "eachM xs (\<lambda>x. db_set T (pk T x) g) w = (Inr (), w\<lparr>live :=
      with_rows T (map (\<lambda>r. if pk T r \<in> pk T ` set xs then g r else r) (rows T (live w))) (live w)\<rparr>)"
proof -
  let ?w = "w\<lparr>live := with_rows T (map (\<lambda>r. if pk T r \<in> pk T ` set xs then g r else r) (rows T (live w))) (live w)\<rparr>"
  have "wp (eachM xs (\<lambda>x. whenM True (db_set T (pk T x) g))) (\<lambda>_ w'. w' = ?w) (\<lambda>_ _. False) w"
    by (subst wp_each_set [OF assms]) simp
  from wp_runs [OF this] show ?thesis by (auto simp: whenM_def)
qed

end

lemma constraints_map_pods:
  assumes "\<And>p. pod_id (f p) = pod_id p \<and> pod_subject_id (f p) = pod_subject_id p \<and> pod_provisioning_id (f p) = pod_provisioning_id p"
  shows "constraints_ok (d\<lparr>pods := map f (pods d)\<rparr>) = constraints_ok d"
  using assms by (simp add: constraints_ok_def keys_ok_def foreign_ok_def comp_def)

lemma refresh_same:
  "pod_id (refresh_status E ks t p) = pod_id p \<and> pod_subject_id (refresh_status E ks t p) = pod_subject_id p
    \<and> pod_provisioning_id (refresh_status E ks t p) = pod_provisioning_id p"
  by (simp add: refresh_status_def)

lemma refresh_twice: "refresh_status E ks t (refresh_status E ks t p) = refresh_status E ks t p"
  by (simp add: refresh_status_def liveness_def split: option.splits)

lemma find_same_key: "(\<And>r. key (f r) = key r) \<Longrightarrow> find (\<lambda>r. key r = k) (map f xs) = map_option f (find (\<lambda>r. key r = k) xs)"
  by (induction xs) simp_all

lemma set_oldest [simp]: "set (oldest f xs) = set xs"
  by (simp add: oldest_def)

text \<open>C31. A listing always succeeds and shows what is true at its time: a Pod of the subject whose last heartbeat
  is older than the configured delay is stored and shown as offline, one that was heard within the delay as active.\<close>

theorem listing_shows_liveness:
  assumes "idle w" and "constraints_ok (committed w)" and "resolve SUBJECTS sub_entity_id (committed w) i = Some s"
    and "lookup PODS (committed w) k = Some p" and "pod_subject_id p = sub_id s"
    and "pod_status p \<notin> {''revoked'', ''suspicious''}" and "pod_last_heartbeat_at p = Some heard"
    and "status = (if clock E (draws w) - heard \<le> seconds (perimetr_pod_offline_after_sec (cfg E)) then ''active'' else ''offline'')"
  shows "\<exists>out w'. serve (list_subject_pods E i b) w = (Inr out, w') \<and> lookup PODS (committed w') k = Some (p\<lparr>pod_status := status\<rparr>)
    \<and> pod_payload (p\<lparr>pod_status := status\<rparr>) s \<in> set (snd out)"
proof -
  have "settled_world w" using assms(1,2) by (simp add: settled_world_def)
  note sw = settled_facts [OF this]
  let ?f = "refresh_status E [''revoked'', ''suspicious''] (clock E (draws w))"
  let ?ps = "filter (\<lambda>p. pod_subject_id p = sub_id s) (pods (committed w))"
  let ?d = "with_rows PODS (map (\<lambda>r. if pod_id r \<in> pod_id ` set ?ps then ?f r else r) (pods (committed w))) (committed w)"
  have r: "refresh_status E [''revoked'', ''suspicious''] (clock E (draws w)) p = p\<lparr>pod_status := status\<rparr>"
    using assms(6-8) by (simp add: refresh_status_def liveness_def)
  have p: "p \<in> set ?ps" "pod_id p = k" using lookup_PODS [OF assms(4)] assms(5) by auto
  have q: "db_all PROVISIONINGS P w = (Inr (filter P (provisionings (committed w))), w)"
    "db_all PODS Q w = (Inr (filter Q (pods (committed w))), w)" for P Q
    using provisionings_table.db_all_synced [OF sw(5)] pods_table.db_all_synced [OF sw(5)] sw(4) by simp_all
  have e: "eachM ?ps (\<lambda>p. db_set PODS (pod_id p) ?f) w1
      = (Inr (), w1\<lparr>live := with_rows PODS (map (\<lambda>r. if pod_id r \<in> pod_id ` set ?ps then ?f r else r) (pods (live w1))) (live w1)\<rparr>)" for w1
    using pods_table.each_set_run [of ?f ?ps w1] by (simp add: refresh_same refresh_twice)
  have ok: "constraints_ok ?d"
    using assms(2) constraints_map_pods [of "\<lambda>r. if pod_id r \<in> pod_id ` set ?ps then ?f r else r" "committed w"]
    by (simp add: refresh_same)
  let ?shown = "map (\<lambda>p. pod_payload p s) (filter (\<lambda>p. b \<or> pod_status p \<noteq> ''revoked'') (map ?f (oldest pod_created_at ?ps)))"
  obtain rs where run: "serve (list_subject_pods E i b) w
      = (Inr (rs, ?shown), w\<lparr>stored := ?d, live := ?d, committed := ?d, draws := Suc (draws w)\<rparr>)"
    using sw(1) ok
    by (simp add: serve_idle [OF sw(1)] list_subject_pods_def Let_def letM_def seqM_def get_subject_run [OF sw(5)] sw(3,4)
        assms(3) q now_utc_def draw_def e commit_def flush_def ret_def idle_def)
  have "lookup PODS ?d k = map_option (\<lambda>r. if pod_id r \<in> pod_id ` set ?ps then ?f r else r) (lookup PODS (committed w) k)"
    by (simp add: lookup_def find_same_key refresh_same)
  moreover have "k \<in> pod_id ` set ?ps" using p by blast
  ultimately have "lookup PODS ?d k = Some (p\<lparr>pod_status := status\<rparr>)" using p r by (simp add: assms(4))
  moreover have "pod_payload (p\<lparr>pod_status := status\<rparr>) s \<in> set ?shown"
  proof -
    have "?f p \<in> set (map ?f (oldest pod_created_at ?ps))" using p(1) unfolding set_map set_oldest by (rule imageI)
    moreover have "pod_status (?f p) \<noteq> ''revoked''" using assms(8) by (simp add: r)
    ultimately show ?thesis unfolding r [symmetric] set_map set_filter by blast
  qed
  ultimately show ?thesis unfolding run by auto
qed

section \<open>Refused logins\<close>

text \<open>Why a login to the Pod \<open>p\<close> with a stored password is refused.\<close>

definition login_refusal :: "env \<Rightarrow> db \<Rightarrow> pod \<Rightarrow> pod_login_request \<Rightarrow> failure option" where
  "login_refusal E d p u =
     (if pod_status p = ''revoked'' \<or> find (denies ''pod_id'' (pod_id p)) (denylist d) \<noteq> None
      then Some (http_error 403 ''pod_revoked'')
      else case pod_access_mode E (plr_username u) (plr_password u) (pod_login p) (pod_password_hash p) (pod_decoy_password_hash p) of
             Inl e \<Rightarrow> Some e
           | Inr None \<Rightarrow> Some (http_error 403 ''invalid_credentials'')
           | Inr (Some m) \<Rightarrow> None)"


end
