(* ===== verification/Application_Examples.thy ===== *)
theory Application_Examples
  imports Entity_Examples Pod_Examples Enrollment_Safety
begin

text \<open>
  The theorems on whole runs of the application and on Pods, applied to the site of the examples: requests
  that change nothing, a heartbeat, an enrollment and a revocation.
\<close>

section \<open>Runs\<close>

definition quiet_parsers :: parsers where
  "quiet_parsers = \<lparr>parse_signed = (\<lambda>_. None), parse_legacy = (\<lambda>_. None), parse_iso = (\<lambda>_. None)\<rparr>"

text \<open>A request for the start page without a session.\<close>

lemma one_request: "app_run demo_env V w (snd (serve (index demo_env demo_request None) w))"
  unfolding app_run_def by (rule r_into_rtranclp, rule app_step.start_page)


definition revoked_db :: db where
  "revoked_db = site_db\<lparr>pods := [site_pod\<lparr>pod_status := ''revoked''\<rparr>],
     leases := [demo_lease\<lparr>lease_status := ''revoked''\<rparr>]\<rparr>"

lemma revoked_ok: "constraints_ok revoked_db"
  by (simp add: ok_defs revoked_db_def site_defs)

lemma demo_draws: "never_drawn demo_env n ''p1''" "never_drawn demo_env n ''s1''"
  by (simp_all add: never_drawn_def demo_env_def)


theorem ended_session_stays_ended_witness:
  "\<exists>w'. app_run demo_env quiet_parsers (world_of revoked_db) w' \<and> \<not> valid_session demo_env demo_request 0 (committed w') demo_lease"
proof -
  have l: "lookup LEASES (committed (world_of revoked_db)) ''s1'' = Some (demo_lease\<lparr>lease_status := ''revoked''\<rparr>)"
    by (simp add: lookup_def LEASES_def revoked_db_def demo_lease_def)
  have s: "lease_status (demo_lease\<lparr>lease_status := ''revoked''\<rparr>) \<noteq> ''active''" by simp
  from ended_session_stays_ended [OF one_request idle_world_of _ l s demo_draws(2) demo_cookies(1)] one_request show ?thesis
    using revoked_ok by (metis world_of_simps(1))
qed

section \<open>Listings and logins\<close>

definition heard_db :: db where
  "heard_db = site_db\<lparr>pods := [site_pod\<lparr>pod_last_heartbeat_at := Some (-100000000)\<rparr>]\<rparr>"

theorem listing_shows_liveness_witness:
  "\<exists>out w'. serve (list_subject_pods demo_env ''u1'' False) (world_of heard_db) = (Inr out, w')
     \<and> lookup PODS (committed w') ''p1'' = Some (site_pod\<lparr>pod_last_heartbeat_at := Some (-100000000), pod_status := ''offline''\<rparr>)"
proof -
  let ?p = "site_pod\<lparr>pod_last_heartbeat_at := Some (-100000000)\<rparr>"
  have ok: "constraints_ok (committed (world_of heard_db))" by (simp add: ok_defs heard_db_def site_defs)
  have l: "lookup PODS (committed (world_of heard_db)) ''p1'' = Some ?p"
    by (simp add: lookup_def PODS_def heard_db_def site_pod_def default_pod_def)
  have s: "resolve SUBJECTS sub_entity_id (committed (world_of heard_db)) ''u1'' = Some site_subject"
    by (simp add: resolve_def lookup_def heard_db_def site_subject_def SUBJECTS_def)
  have f: "pod_subject_id ?p = sub_id site_subject" "pod_status ?p \<notin> {''revoked'', ''suspicious''}"
    "pod_last_heartbeat_at ?p = Some (-100000000)"
    by (simp_all add: site_pod_def site_subject_def default_pod_def)
  have t: "''offline'' = (if clock demo_env (draws (world_of heard_db)) - (-100000000)
      \<le> seconds (perimetr_pod_offline_after_sec (cfg demo_env)) then ''active'' else ''offline'')"
    by (simp add: demo_env_def default_settings_def seconds_def SECOND_def)
  from listing_shows_liveness [OF idle_world_of ok s l f t] show ?thesis by blast
qed

definition ghost_db :: db where
  "ghost_db = site_db\<lparr>pods := [site_pod\<lparr>pod_login := [CHR 0xE9]\<rparr>]\<rparr>"

definition ghost_login :: pod_login_request where
  "ghost_login = \<lparr>plr_username = [CHR 0xE9], plr_password = ''password''\<rparr>"


section \<open>A heartbeat\<close>

definition site_payload :: dict where
  "site_payload = [(''sequence'', JInt 1)]"

definition site_beat :: signed_heartbeat where
  "site_beat = \<lparr>hb_certificate_fingerprint = ''fp'', hb_sequence = 1, hb_timestamp = Aware 0, hb_pod_version = ''1.0.0'',
     hb_device_binding_fingerprint = ''dev'', hb_device_binding_status = ''valid'', hb_proxy_engine = ''xray'',
     hb_xray_version = ''1'', hb_network_status = ''idle'', hb_access_mode = ''primary'', hb_access_grant = [],
     hb_temporary_tabs_count = 0, hb_signature = b64encode False (the (heartbeat_signing_bytes site_payload))\<rparr>"

definition site_parsers :: parsers where
  "site_parsers = \<lparr>parse_signed = (\<lambda>_. Some site_beat), parse_legacy = (\<lambda>_. None), parse_iso = (\<lambda>_. None)\<rparr>"

lemma site_signed: "verify_heartbeat_signature demo_env (pod_public_key_pem site_pod) site_payload (hb_signature site_beat) = Inr ()"
proof -
  have "heartbeat_signing_bytes site_payload \<noteq> None" by code_simp
  moreover have "is_p256_pem toy_crypto (pod_public_key_pem site_pod) = Some True"
    by (simp add: toy_crypto_def site_pod_def starts_with_def)
  ultimately show ?thesis
    by (auto simp: verify_heartbeat_signature_def site_beat_def b64_round_trips demo_crypt toy_crypto_def)
qed

text \<open>Reads of a session that has written nothing.\<close>

lemma wp_reads:
  assumes "live w = d" and "stored w = d" and "constraints_ok d"
  shows "wp (db_get PODS k) Q1 X w = Q1 (lookup PODS d k) w" "wp (db_get SUBJECTS k) Q2 X w = Q2 (lookup SUBJECTS d k) w"
    "wp (db_get PROVISIONINGS k) Q3 X w = Q3 (lookup PROVISIONINGS d k) w"
    "wp (db_scalar DENYLIST P4) Q4 X w = Q4 (find P4 (denylist d)) w" "wp (db_scalar PODS P5) Q5 X w = Q5 (find P5 (pods d)) w"
    "wp (db_all DENYLIST P6) Q6 X w = Q6 (filter P6 (denylist d)) w"
proof -
  have "in_step PODS w" "in_step SUBJECTS w" "in_step PROVISIONINGS w" "in_step DENYLIST w"
    using assms by (simp_all add: in_step_def constraints_ok_def)
  then show "wp (db_get PODS k) Q1 X w = Q1 (lookup PODS d k) w" "wp (db_get SUBJECTS k) Q2 X w = Q2 (lookup SUBJECTS d k) w"
    "wp (db_get PROVISIONINGS k) Q3 X w = Q3 (lookup PROVISIONINGS d k) w"
    "wp (db_scalar DENYLIST P4) Q4 X w = Q4 (find P4 (denylist d)) w" "wp (db_scalar PODS P5) Q5 X w = Q5 (find P5 (pods d)) w"
    "wp (db_all DENYLIST P6) Q6 X w = Q6 (filter P6 (denylist d)) w"
    using assms(2)
    by (simp_all add: pods_table.wp_db_get_synced subjects_table.wp_db_get_synced provisionings_table.wp_db_get_synced
        denylist_table.wp_db_scalar_synced pods_table.wp_db_scalar_synced denylist_table.wp_db_all_synced)
qed

lemma site_lookups:
  "lookup PODS site_db ''p1'' = Some site_pod" "lookup SUBJECTS site_db ''u1'' = Some site_subject"
  by (simp_all add: lookup_def PODS_def SUBJECTS_def site_pod_def default_pod_def site_subject_def)

lemma site_config: "\<exists>c. pod_config_for_access demo_env site_subject ''primary'' = Inr c"
  by (simp add: pod_config_for_access_def subject_pod_config_def decrypt_secret_def site_subject_def try_bind_def)

lemma site_heard: "\<exists>out w'. serve (heartbeat_pod demo_env site_parsers ''p1'' site_payload) (world_of site_db) = (Inr out, w')"
proof -
  obtain c where c: "pod_config_for_access demo_env site_subject ''primary'' = Inr c" using site_config by blast
  have p: "pod_public_key_pem site_pod \<noteq> []" "pod_status site_pod = ''offline''" "pod_certificate_fingerprint site_pod = ''fp''"
    "pod_device_binding_fingerprint site_pod = ''dev''" "pod_heartbeat_sequence site_pod = 0" "pod_decoy_password_hash site_pod = []"
    "pod_id site_pod = ''p1''" "pod_subject_id site_pod = ''u1''"
    by (simp_all add: site_pod_def default_pod_def)
  have h: "hb_certificate_fingerprint site_beat = ''fp''" "hb_device_binding_fingerprint site_beat = ''dev''" "hb_sequence site_beat = 1"
    "hb_timestamp site_beat = Aware 0" "hb_access_grant site_beat = []" "hb_network_status site_beat = ''idle''"
    by (simp_all add: site_beat_def)
  have k: "clock demo_env 0 = 0" "\<not> seconds 300 < 0" by (simp_all add: demo_env_def seconds_def SECOND_def)
  have m: "modify_row PODS ''p1'' (beat site_beat site_subject a b) site_db = site_db\<lparr>pods := [beat site_beat site_subject a b site_pod]\<rparr>" for a b
    by (simp add: p)
  have ok: "constraints_ok (site_db\<lparr>pods := [beat site_beat site_subject a b site_pod]\<rparr>)" for a b
    by (simp add: ok_defs site_defs beat_def)
  have "wp (heartbeat_pod demo_env site_parsers ''p1'' site_payload) (\<lambda>_ _. True) (\<lambda>_ _. False) (world_of site_db)"
    by (auto simp: heartbeat_pod_def signed_heartbeat_pod_def get_pod_def ensure_exists_def wp_core wp_option wp_reads site_ok site_lookups
        p h site_parsers_def of_option_def check_device_def check_timestamp_def site_signed heartbeat_mode_def
        subject_of_pod_def session_opened_def m ok c audited_def k
        simp del: modify_tables intro!: wp_first_audit)
  from wp_runs [OF this] show ?thesis by (auto simp: serve_idle site_idle)
qed


section \<open>An enrollment and a revocation\<close>

definition fleet_subject :: subject where
  "fleet_subject = site_subject\<lparr>sub_vless_uri_encrypted := fernet_encrypt toy_crypto (fernet_key demo_env) [] (utf8 demo_vless)\<rparr>"

definition fleet_record :: provisioning where
  "fleet_record = \<lparr>prov_id = ''r1'', prov_subject_id = ''u1'', prov_name = ''Pod'', prov_login = ''ada'',
     prov_password_hash = pod_password_text demo_env [] ''password'', prov_decoy_password_hash = [], prov_status = ''downloaded'',
     prov_token_hash = hash_token demo_env ''token'', prov_token_encrypted = ''x'', prov_bundle_version = [], prov_artifact_sha256 = [],
     prov_download_count = 1, prov_downloaded_at = None, prov_expires_at = None, prov_activated_at = None, prov_revoked_at = None,
     prov_metadata = [], prov_created_at = 0\<rparr>"

definition fleet_db :: db where
  "fleet_db = empty_db\<lparr>subjects := [fleet_subject], provisionings := [fleet_record]\<rparr>"

definition fleet_request :: enroll_request where
  "fleet_request = \<lparr>enr_provisioning_id = Some ''r1'', enr_enrollment_token = Some ''token'', enr_clone_from_pod_id = None,
     enr_username = ''ada'', enr_password = ''password'', enr_name = ''Pod'', enr_public_key_pem = ''-----BEGIN PUBLIC KEY-----'',
     enr_certificate_fingerprint = ''SHA256:'' @ upper (hexdigest (sha256_fn toy_crypto ''-----BEGIN PUBLIC KEY-----'')),
     enr_device_binding_fingerprint = ''dev'', enr_host_id = ''host'', enr_pod_version = ''1.0.0''\<rparr>"

lemma fleet_fields [simp]:
  "prov_id fleet_record = ''r1''" "prov_subject_id fleet_record = ''u1''" "prov_login fleet_record = ''ada''"
  "prov_password_hash fleet_record = pod_password_text demo_env [] ''password''" "prov_decoy_password_hash fleet_record = []"
  "prov_status fleet_record = ''downloaded''" "prov_token_hash fleet_record = hash_token demo_env ''token''"
  "prov_token_encrypted fleet_record = ''x''" "prov_expires_at fleet_record = None" "sub_id fleet_subject = ''u1''"
  "enr_provisioning_id fleet_request = Some ''r1''" "enr_enrollment_token fleet_request = Some ''token''"
  "enr_username fleet_request = ''ada''" "enr_password fleet_request = ''password''"
  "enr_public_key_pem fleet_request = ''-----BEGIN PUBLIC KEY-----''" "enr_device_binding_fingerprint fleet_request = ''dev''"
  "enr_certificate_fingerprint fleet_request = ''SHA256:'' @ upper (hexdigest (sha256_fn toy_crypto ''-----BEGIN PUBLIC KEY-----''))"
  by (simp_all add: fleet_record_def fleet_subject_def site_subject_def fleet_request_def)

lemma fleet_ok: "constraints_ok fleet_db"
  by (simp add: ok_defs fleet_db_def empty_db_def fleet_subject_def site_subject_def)

lemma fleet_lookups: "lookup PROVISIONINGS fleet_db ''r1'' = Some fleet_record" "lookup SUBJECTS fleet_db ''u1'' = Some fleet_subject"
  by (simp_all add: lookup_def PROVISIONINGS_def SUBJECTS_def fleet_db_def)

lemma fleet_secret: "decrypt_secret demo_env (sub_vless_uri_encrypted fleet_subject) = Inr demo_vless"
  using toy_fernet by (simp add: decrypt_secret_def fleet_subject_def fernet_ok_def demo_crypt)

lemma fleet_config: "validate_subject_pod_config demo_env fleet_subject = Inr ()"
  "\<exists>c. pod_config_for_access demo_env fleet_subject mode = Inr c"
proof -
  have "perimetr_public_url (cfg demo_env) \<noteq> []" by (simp add: demo_env_def default_settings_def)
  moreover have "sub_update_channel fleet_subject \<noteq> []" by (simp add: fleet_subject_def site_subject_def)
  ultimately show "validate_subject_pod_config demo_env fleet_subject = Inr ()"
    by (simp add: validate_subject_pod_config_def fleet_secret try_bind_def demo_vless_accepted)
  show "\<exists>c. pod_config_for_access demo_env fleet_subject mode = Inr c"
    by (simp add: pod_config_for_access_def subject_pod_config_def fleet_secret try_bind_def)
qed

lemma fleet_mode: "pod_access_mode demo_env ''ada'' ''password'' ''ada'' (pod_password_text demo_env [] ''password'') [] = Inr (Some ''primary'')"
  by (simp add: pod_access_mode_def compare_digest_def is_ascii_def try_bind_def verify_pod_password_text)

lemma fleet_token: "compare_digest (hash_token demo_env ''token'') (hash_token demo_env ''token'') = Inr True"
  by (simp add: compare_digest_def hash_token_def)

lemma fleet_key: "public_key_fingerprint demo_env ''-----BEGIN PUBLIC KEY-----''
    = Inr (''SHA256:'' @ upper (hexdigest (sha256_fn toy_crypto ''-----BEGIN PUBLIC KEY-----'')))"
proof -
  have "is_p256_pem toy_crypto ''-----BEGIN PUBLIC KEY-----'' = Some True" "spki_der toy_crypto p = p" for p
    by (simp_all add: toy_crypto_def starts_with_def)
  then show ?thesis by (simp only: public_key_fingerprint_def demo_crypt option.case bool.case)
qed

lemma fleet_enrolls: "\<exists>out w'. serve (enroll_pod demo_env fleet_request) (world_of fleet_db) = (Inr out, w')"
proof -
  let ?fp = "''SHA256:'' @ upper (hexdigest (sha256_fn toy_crypto ''-----BEGIN PUBLIC KEY-----''))"
  obtain c where c: "pod_config_for_access demo_env fleet_subject ''primary'' = Inr c" using fleet_config(2) by blast
  have u: "uuid4_hex demo_env n = ''id'' @ str_nat n" for n by (simp add: demo_env_def)
  have ids: "pod_id (enrolled_pod p s r l h dh fp a b i t) = i" "pod_subject_id (enrolled_pod p s r l h dh fp a b i t) = sub_id s"
    "pod_provisioning_id (enrolled_pod p s r l h dh fp a b i t) = map_option prov_id r" for p s r l h dh fp a b i t
    by (simp_all add: enrolled_pod_def default_pod_def)
  have f: "subjects fleet_db = [fleet_subject]" "provisionings fleet_db = [fleet_record]" "pods fleet_db = []" "denylist fleet_db = []"
    "audit_events fleet_db = []" "objects fleet_db = []" "policies fleet_db = []" "system_settings fleet_db = []"
    "authorizations fleet_db = []" "leases fleet_db = []"
    by (simp_all add: fleet_db_def empty_db_def)
  have s: "sub_object_id fleet_subject = None" "sub_access_policy_id fleet_subject = None"
    by (simp_all add: fleet_subject_def site_subject_def)
  have d: "insert_row DENYLIST r d = d\<lparr>denylist := denylist d @ [r]\<rparr>" for r d by (simp add: insert_row_def)
  have src: "wp (enroll_source demo_env fleet_request) Q X w
      = Q \<lparr>cr_record = Some fleet_record, cr_subject = Some fleet_subject, cr_login = ''ada'',
          cr_hash = pod_password_text demo_env [] ''password'', cr_decoy_hash = []\<rparr> w"
    if "live w = fleet_db" "stored w = fleet_db" for Q X w
    by (simp add: enroll_source_def given_text_def text_of_def provisioned_source_def wp_core wp_option wp_reads [OF that fleet_ok]
        fleet_lookups fleet_token refuse_expired_def has_passed_def CLOSED_STATUS_def)
  have cred: "wp (check_credentials demo_env ''ada'' ''password'' ''ada'' (pod_password_text demo_env [] ''password'') []) Q X w
      = Q (''primary'', ''ada'', pod_password_text demo_env [] ''password'') w" for Q X w
    by (simp add: check_credentials_def wp_core fleet_mode)
  have idn: "wp (check_identity demo_env fleet_request) Q X w = Q ?fp w" if "live w = fleet_db" "stored w = fleet_db" for Q X w
    by (simp add: check_identity_def wp_core fleet_key wp_reads [OF that fleet_ok] f)
  have "wp (enroll_pod demo_env fleet_request) (\<lambda>_ _. True) (\<lambda>_ _. False) (world_of fleet_db)"
    unfolding enroll_pod_split
    by (auto simp: wp_core src cred idn of_option_def fleet_config c enroll_tail_def admit_def Let_def consume_record_def
        wp_option wp_prod d ids ok_defs f s u issue_pod_access_grant_def ACCESS_MODES_def audited_def intro!: wp_first_audit)
  from wp_runs [OF this] show ?thesis by (auto simp: serve_idle idle_world_of)
qed


text \<open>The same certificate, registered before for a Pod that is then revoked.\<close>

definition lost_pod :: pod where
  "lost_pod = site_pod\<lparr>pod_certificate_fingerprint := ''SHA256:'' @ upper (hexdigest (sha256_fn toy_crypto ''-----BEGIN PUBLIC KEY-----''))\<rparr>"

definition lost_db :: db where
  "lost_db = fleet_db\<lparr>pods := [lost_pod]\<rparr>"

lemma lost_ok: "constraints_ok lost_db"
  by (simp add: ok_defs lost_db_def lost_pod_def fleet_db_def empty_db_def fleet_subject_def site_subject_def site_pod_def default_pod_def)

lemma lost_revoked: "\<exists>out w1. serve (revoke_pod demo_env ''p1'') (world_of lost_db) = (Inr out, w1)
    \<and> provisionings (committed w1) = [fleet_record]"
proof -
  have f: "subjects lost_db = [fleet_subject]" "provisionings lost_db = [fleet_record]" "pods lost_db = [lost_pod]" "denylist lost_db = []"
    "audit_events lost_db = []" "objects lost_db = []" "policies lost_db = []" "system_settings lost_db = []"
    "authorizations lost_db = []" "leases lost_db = []"
    by (simp_all add: lost_db_def fleet_db_def empty_db_def)
  have p: "pod_id lost_pod = ''p1''" "pod_status lost_pod = ''offline''" "pod_subject_id lost_pod = ''u1''" "pod_provisioning_id lost_pod = None"
    "pod_device_binding_fingerprint lost_pod = ''dev''"
    by (simp_all add: lost_pod_def site_pod_def default_pod_def)
  have s: "sub_object_id fleet_subject = None" "sub_access_policy_id fleet_subject = None" "sub_pod_id fleet_subject = None"
    by (simp_all add: fleet_subject_def site_subject_def)
  have q: "wp (db_scalar DENYLIST P) Q X w = Q None w" if "stored w = lost_db" for P Q X w
    using that by (simp add: wp_def db_scalar_def f)
  have g: "wp (db_get SUBJECTS ''u1'') Q X w = Q (Some fleet_subject) w" if "stored w = lost_db" "subjects (live w) = [fleet_subject]" for Q X w
    using that by (simp add: wp_def db_get_def lookup_def f current_def)
  have l: "wp (db_scalar PODS P) Q X (world_of lost_db) = Q (find P [lost_pod]) (world_of lost_db)" for P Q X
    using wp_reads(5) [of "world_of lost_db" lost_db] by (simp add: lost_ok f)
  have d: "insert_row DENYLIST r d = d\<lparr>denylist := denylist d @ [r]\<rparr>" for r d by (simp add: insert_row_def)
  have u: "uuid4_hex demo_env n = ''id'' @ str_nat n" for n by (simp add: demo_env_def)
  have n: "str_nat 0 = ''0''" "str_nat (Suc 0) = ''1''" "str_nat (Suc (Suc 0)) = ''2''" by code_simp+
  have "wp (revoke_pod demo_env ''p1'') (\<lambda>_ w. provisionings (committed w) = [fleet_record]) (\<lambda>_ _. False) (world_of lost_db)"
    by (auto simp: revoke_pod_def deny_pod_def pod_identifiers_def deny_identifier_def wp_core wp_option l q g p s d u n f Let_def
        subject_of_pod_def ok_defs core_audit_def audited_def intro!: wp_first_audit)
  from wp_runs [OF this] show ?thesis by (auto simp: serve_idle idle_world_of)
qed


end
