(* ===== verification/Artifact_Safety.thy ===== *)
theory Artifact_Safety
  imports Pod_Artifacts Pod_Access_Safety
begin

text \<open>
  What the artifact cache promises: an executable it hands out as verified hashes to the digest it is named by, a
  refresh neither downgrades nor exchanges the bytes of a version, and a runtime on disk outlives every failure of the network.
\<close>

section \<open>Verified executables\<close>

definition verified_file :: "crypto \<Rightarrow> int \<Rightarrow> disk \<Rightarrow> string \<Rightarrow> bool" where
  "verified_file c maximum D digest =
     (case pod_exe D digest of
        None \<Rightarrow> False
      | Some body \<Rightarrow> take 2 body = ''MZ'' \<and> int (length body) \<le> maximum \<and> hexdigest (sha256_fn c body) = digest)"

lemma verified_file_metadata [simp]:
  "verified_file c m (manifest_json_update g D) d = verified_file c m D d"
  "verified_file c m (write_state st D) d = verified_file c m D d"
  "pod_exe (write_state st D) = pod_exe D" "manifest_json (write_state st D) = manifest_json D"
  by (simp_all add: verified_file_def write_state_def)

lemma hash_executable_Inr:
  "hash_executable c file maximum = Inr (digest, n) \<longleftrightarrow>
     (\<exists>body. file = Some body \<and> int (length body) \<le> maximum \<and> take 2 body = ''MZ''
        \<and> digest = hexdigest (sha256_fn c body) \<and> n = length body)"
  by (auto simp: hash_executable_def split: option.splits if_splits)

lemma load_artifact_SomeD:
  assumes "load_artifact c D digest maximum = Some a"
  shows "art_sha256 a = lower digest" "art_path a = exe_path (lower digest)" "verified_file c maximum D (lower digest)"
    "\<exists>k. semver (art_version a) = Inr k" "SHA256_PATTERN (lower digest)"
proof -
  from assms obtain n where pat: "SHA256_PATTERN (lower digest)"
    and h: "hash_executable c (pod_exe D (lower digest)) maximum = Inr (lower digest, n)"
    by (auto simp: load_artifact_def Let_def split: if_splits sum.splits)
  with assms obtain k where v: "semver (art_version a) = Inr k" and a: "art_sha256 a = lower digest" "art_path a = exe_path (lower digest)"
    by (auto simp: load_artifact_def Let_def split: if_splits sum.splits)
  from h show "verified_file c maximum D (lower digest)"
    by (auto simp: hash_executable_Inr verified_file_def)
  from a show "art_sha256 a = lower digest" "art_path a = exe_path (lower digest)" .
  from v show "\<exists>k. semver (art_version a) = Inr k" by blast
  from pat show "SHA256_PATTERN (lower digest)" .
qed

text \<open>A digest in lower case is its own lower case.\<close>

lemma lower_hex_lower: "is_lower_hex ch \<Longrightarrow> lower_char ch = ch"
  by (auto simp: is_lower_hex_def lower_char_def is_upper_def is_digit_def)

lemma lower_pattern: "SHA256_PATTERN d \<Longrightarrow> lower d = d"
  by (induction d rule: rev_induct) (auto simp: SHA256_PATTERN_def lower_def list_all_iff intro!: map_idI lower_hex_lower)

lemma lower_lower: "lower (lower d) = lower d"
proof -
  have "lower_char (lower_char ch) = lower_char ch" for ch
    by (auto simp: lower_char_def is_upper_def code_chr)
  then show ?thesis by (simp add: lower_def)
qed

lemma verify_manifest_Inr:
  assumes "verify_manifest c key perimetr m = Inr v"
  shows "\<exists>digest. v = set_key ''sha256'' (JStr digest) m \<and> SHA256_PATTERN digest"
  using assms by (auto simp: verify_manifest_def check_artifact_def try_inv Let_def)

lemma received_InrD:
  assumes "received c manifest digest maximum r = Inr body"
  shows "take 2 body = ''MZ''" "int (length body) \<le> maximum" "hexdigest (sha256_fn c body) = digest"
  using assms by (auto simp: received_def try_inv split: reply.splits option.splits if_splits)

lemma download_artifact_InrD:
  assumes "download_artifact c S D manifest maximum = (Inr a, D')"
    and "get_or_null ''sha256'' manifest = JStr digest" and "SHA256_PATTERN digest"
  shows "verified_file c maximum D' digest" "art_sha256 a = digest" "art_path a = exe_path digest"
    "art_version a = py_str (get_or_null ''version'' manifest)" "art_manifest a = manifest"
    "art_source a \<in> {''verified-cache'', ''remote''}"
proof -
  have d: "py_str (get_or_null ''sha256'' manifest) = digest" by (simp add: assms(2) py_str_def)
  have "verified_file c maximum D' digest \<and> art_sha256 a = digest \<and> art_path a = exe_path digest
    \<and> art_version a = py_str (get_or_null ''version'' manifest) \<and> art_manifest a = manifest
    \<and> art_source a \<in> {''verified-cache'', ''remote''}"
  proof (cases "load_artifact c D digest maximum")
    case None
    with assms(1) d obtain body where r: "received c manifest digest maximum (open_url S (py_str (get_or_null ''url'' manifest))
        [(''Accept'', ''application/octet-stream''), (''User-Agent'', ''Exocortex-Perimetr/1'')]) = Inr body"
      by (auto simp: download_artifact_def Let_def split: sum.splits)
    from received_InrD[OF r] assms(1) d None r show ?thesis
      by (auto simp: download_artifact_def Let_def verified_file_def)
  next
    case (Some cached)
    with assms(1) d have v: "get_or_null ''version'' manifest = JStr (art_version cached)"
      and a: "a = cached\<lparr>art_source := ''verified-cache'', art_manifest := manifest\<rparr>" and D: "D' = D"
      by (simp_all add: download_artifact_def Let_def split: if_splits)
    show ?thesis
      using load_artifact_SomeD[OF Some] lower_pattern[OF assms(3)] by (simp add: a D v py_str_JStr)
  qed
  then show "verified_file c maximum D' digest" "art_sha256 a = digest" "art_path a = exe_path digest"
    "art_version a = py_str (get_or_null ''version'' manifest)" "art_manifest a = manifest"
    "art_source a \<in> {''verified-cache'', ''remote''}" by blast+
qed

lemma download_artifact_Inl: "download_artifact c S D manifest maximum = (Inl e, D') \<Longrightarrow> D' = D"
  by (auto simp: download_artifact_def Let_def split: option.splits sum.splits if_splits)

section \<open>The fallback\<close>

text \<open>An executable that is not verified comes only from the directory the factory runtime was already cached in.\<close>

definition unchecked_factory :: "crypto \<Rightarrow> int \<Rightarrow> disk \<Rightarrow> pod_artifact \<Rightarrow> bool" where
  "unchecked_factory c maximum D a \<longleftrightarrow> art_source a = ''factory'' \<and> pod_exe D (art_sha256 a) \<noteq> None
     \<and> \<not> verified_file c maximum D (art_sha256 a)"

lemma store_local_artifact_InrD:
  assumes "store_local_artifact c S D source version maximum cache_source = (Inr a, D')"
  shows "art_source a = cache_source" "\<exists>k. semver (art_version a) = Inr k"
    "verified_file c maximum D' (art_sha256 a) \<or> pod_exe D (art_sha256 a) \<noteq> None \<and> \<not> verified_file c maximum D (art_sha256 a)"
    "pod_exe D (art_sha256 a) \<noteq> None \<Longrightarrow> pod_exe D' = pod_exe D"
  using assms
  by (auto simp: store_local_artifact_def Let_def try_inv hash_executable_Inr verified_file_def
      split: sum.splits if_splits option.splits)

lemma factory_artifact_SomeD:
  assumes "factory_artifact c s S D = (Inr (Some a), D')"
  shows "verified_file c (perimetr_pod_max_artifact_bytes s) D' (art_sha256 a)
    \<or> unchecked_factory c (perimetr_pod_max_artifact_bytes s) D a" "\<exists>k. semver (art_version a) = Inr k"
proof -
  obtain src where st: "store_local_artifact c S D src (perimetr_pod_version s) (perimetr_pod_max_artifact_bytes s) ''factory'' = (Inr a, D')"
    using assms by (auto simp: factory_artifact_def split: option.splits prod.splits sum.splits)
  show "verified_file c (perimetr_pod_max_artifact_bytes s) D' (art_sha256 a)
    \<or> unchecked_factory c (perimetr_pod_max_artifact_bytes s) D a"
    using store_local_artifact_InrD(1,3)[OF st] by (auto simp: unchecked_factory_def)
  show "\<exists>k. semver (art_version a) = Inr k" by (rule store_local_artifact_InrD(2)[OF st])
qed

lemma state_fallback_SomeD:
  assumes "state_fallback c s S D state = (Inr (Some a), D')"
  shows "verified_file c (perimetr_pod_max_artifact_bytes s) D' (art_sha256 a)
    \<or> unchecked_factory c (perimetr_pod_max_artifact_bytes s) D a" "\<exists>k. semver (art_version a) = Inr k"
proof -
  define d where "d = str_or [] (get_key ''sha256'' (dict_or_empty (get_or_null ''current'' state)))"
  have "(verified_file c (perimetr_pod_max_artifact_bytes s) D' (art_sha256 a)
    \<or> unchecked_factory c (perimetr_pod_max_artifact_bytes s) D a) \<and> (\<exists>k. semver (art_version a) = Inr k)"
  proof (cases "load_artifact c D d (perimetr_pod_max_artifact_bytes s)")
    case None
    with assms have "factory_artifact c s S D = (Inr (Some a), D')" by (simp add: state_fallback_def d_def[symmetric] Let_def)
    from factory_artifact_SomeD[OF this] show ?thesis by simp
  next
    case (Some cached)
    with assms have "a = cached\<lparr>art_source := ''last-known-good''\<rparr>" "D' = D" by (simp_all add: state_fallback_def d_def[symmetric] Let_def)
    with load_artifact_SomeD[OF Some] show ?thesis by simp
  qed
  then show "verified_file c (perimetr_pod_max_artifact_bytes s) D' (art_sha256 a)
    \<or> unchecked_factory c (perimetr_pod_max_artifact_bytes s) D a" "\<exists>k. semver (art_version a) = Inr k" by blast+
qed

section \<open>A refresh\<close>

definition signed_manifest :: "crypto \<Rightarrow> settings \<Rightarrow> outside \<Rightarrow> pod_artifact \<Rightarrow> bool" where
  "signed_manifest c s S a \<longleftrightarrow>
     (\<exists>m. verify_manifest c (update_key S) (perimetr_version s) m = Inr (art_manifest a)
        \<and> get_or_null ''sha256'' (art_manifest a) = JStr (art_sha256 a)
        \<and> art_version a = py_str (get_or_null ''version'' (art_manifest a)))"

definition succeeds :: "pod_artifact \<Rightarrow> pod_artifact \<Rightarrow> bool" where
  "succeeds a f \<longleftrightarrow> (\<exists>n. compare_versions (art_version a) (art_version f) = Inr n \<and> 0 \<le> n \<and> (n = 0 \<longrightarrow> art_sha256 a = art_sha256 f))"

lemma get_or_null_set_key: "get_or_null k (set_key k v d) = v"
  by (simp add: get_or_null_def get_set_key)

lemma discover_Candidate:
  assumes "discover c s S state fallback force = Inr (Candidate url manifest etag)"
  shows "\<exists>m. verify_manifest c (update_key S) (perimetr_version s) m = Inr manifest"
  using assms by (auto simp: discover_def try_inv split: if_splits reply.splits)

lemma discover_fallback:
  assumes "discover c s S state fallback force = Inr r" "r = Recent \<or> r = Unchanged url"
  shows "fallback \<noteq> None"
  using assms by (auto simp: discover_def try_inv split: if_splits reply.splits)

lemma check_successor_Inr:
  assumes "check_successor manifest (Some f) = Inr u" "get_or_null ''sha256'' manifest = JStr (art_sha256 a)"
    "art_version a = py_str (get_or_null ''version'' manifest)"
  shows "succeeds a f"
  using assms by (auto simp: check_successor_def succeeds_def try_inv split: if_splits)

lemma refresh_Inl: "refresh c s S D state fallback force = (Inl e, D') \<Longrightarrow> D' = D"
  by (auto simp: refresh_def dest: discover_fallback download_artifact_Inl split: sum.splits discovery.splits prod.splits)

lemma refresh_Inr:
  assumes "refresh c s S D state fallback force = (Inr a, D')"
  shows "fallback = Some a \<and> pod_exe D' = pod_exe D \<or>
    verified_file c (perimetr_pod_max_artifact_bytes s) D' (art_sha256 a) \<and> signed_manifest c s S a
    \<and> (\<forall>f. fallback = Some f \<longrightarrow> succeeds a f)"
proof (cases "\<exists>url manifest etag. discover c s S state fallback force = Inr (Candidate url manifest etag)")
  case False
  then show ?thesis
    using assms by (auto simp: refresh_def write_state_def split: sum.splits discovery.splits)
next
  case True
  then obtain url manifest etag where disc: "discover c s S state fallback force = Inr (Candidate url manifest etag)" by blast
  obtain m where m: "verify_manifest c (update_key S) (perimetr_version s) m = Inr manifest" using discover_Candidate[OF disc] by blast
  obtain digest where d: "get_or_null ''sha256'' manifest = JStr digest" "SHA256_PATTERN digest"
    using verify_manifest_Inr[OF m] by (auto simp: get_or_null_set_key)
  obtain D0 where dl: "download_artifact c S D manifest (perimetr_pod_max_artifact_bytes s) = (Inr a, D0)"
    and ch: "check_successor manifest fallback = Inr ()" and D': "\<exists>st. D' = write_state st D0"
    using assms disc by (auto simp: refresh_def split: sum.splits prod.splits)
  note a = download_artifact_InrD[OF dl d]
  have "signed_manifest c s S a" using m d a by (auto simp: signed_manifest_def)
  moreover have "succeeds a f" if "fallback = Some f" for f
    by (rule check_successor_Inr[of manifest]) (use ch that d a in auto)
  moreover have "verified_file c (perimetr_pod_max_artifact_bytes s) D' (art_sha256 a)" using a D' by auto
  ultimately show ?thesis by blast
qed

section \<open>The latest runtime\<close>

text \<open>The call without its bookkeeping: the fallback, or what the refresh found.\<close>

lemma ensure_latest_cases:
  assumes "ensure_latest_pod_artifact c s S D force = (Inr a, D')"
  obtains fallback D1 where "state_fallback c s S D (load_json (state_json D)) = (Inr fallback, D1)"
    and "(\<exists>f t. fallback = Some f \<and> a = f\<lparr>art_refresh_error := t\<rparr> \<and> pod_exe D' = pod_exe D1)
      \<or> (\<exists>st. refresh c s S D1 st fallback force = (Inr a, D'))"
proof -
  have same: "\<exists>t. f = f\<lparr>art_refresh_error := t\<rparr>" for f :: pod_artifact
    by (rule exI [of _ "art_refresh_error f"]) simp
  obtain fallback D1 where fb: "state_fallback c s S D (load_json (state_json D)) = (Inr fallback, D1)"
    using assms by (auto simp: ensure_latest_pod_artifact_def Let_def split: prod.splits sum.splits)
  have "(\<exists>f t. fallback = Some f \<and> a = f\<lparr>art_refresh_error := t\<rparr> \<and> pod_exe D' = pod_exe D1)
      \<or> (\<exists>st. refresh c s S D1 st fallback force = (Inr a, D'))"
    using assms
    by (auto simp: same ensure_latest_pod_artifact_def Let_def fb split: prod.splits sum.splits option.splits if_splits
        dest!: refresh_Inl)
  with fb show ?thesis by (rule that)
qed

text \<open>C2. No runtime is handed out as verified whose file is not: after the call the file of the artifact starts with
  the Windows header, is within the size limit and hashes to the digest of the artifact, unless it is the factory's and a
  file under its digest was already in the cache and did not verify.\<close>

theorem latest_artifact_verified:
  assumes "ensure_latest_pod_artifact c s S D force = (Inr a, D')"
  shows "verified_file c (perimetr_pod_max_artifact_bytes s) D' (art_sha256 a)
    \<or> unchecked_factory c (perimetr_pod_max_artifact_bytes s) D a"
proof -
  let ?max = "perimetr_pod_max_artifact_bytes s"
  obtain fallback D1 where fb: "state_fallback c s S D (load_json (state_json D)) = (Inr fallback, D1)"
    and r: "(\<exists>f t. fallback = Some f \<and> a = f\<lparr>art_refresh_error := t\<rparr> \<and> pod_exe D' = pod_exe D1)
      \<or> (\<exists>st. refresh c s S D1 st fallback force = (Inr a, D'))"
    using ensure_latest_cases[OF assms] by metis
  have kept: "verified_file c ?max D' (art_sha256 a) \<or> unchecked_factory c ?max D a"
    if "fallback = Some f" "art_sha256 a = art_sha256 f" "art_source a = art_source f" "pod_exe D' = pod_exe D1" for f
    using state_fallback_SomeD(1)[OF fb[unfolded that(1)]] that(2-) by (simp add: verified_file_def unchecked_factory_def)
  from r show ?thesis
  proof
    assume "\<exists>f t. fallback = Some f \<and> a = f\<lparr>art_refresh_error := t\<rparr> \<and> pod_exe D' = pod_exe D1"
    then show ?thesis using kept by fastforce
  next
    assume "\<exists>st. refresh c s S D1 st fallback force = (Inr a, D')"
    then show ?thesis using refresh_Inr kept by blast
  qed
qed

lemma ensure_latest_successor:
  assumes "ensure_latest_pod_artifact c s S D force = (Inr a, D')"
    and "state_fallback c s S D (load_json (state_json D)) = (Inr (Some f), D1)"
  shows "(\<exists>t. a = f\<lparr>art_refresh_error := t\<rparr>) \<or> signed_manifest c s S a \<and> succeeds a f"
proof -
  have "a = a\<lparr>art_refresh_error := art_refresh_error a\<rparr>" by simp
  moreover obtain fallback D0 where fb: "state_fallback c s S D (load_json (state_json D)) = (Inr fallback, D0)"
    and r: "(\<exists>f t. fallback = Some f \<and> a = f\<lparr>art_refresh_error := t\<rparr> \<and> pod_exe D' = pod_exe D0)
      \<or> (\<exists>st. refresh c s S D0 st fallback force = (Inr a, D'))"
    using ensure_latest_cases[OF assms(1)] by metis
  ultimately show ?thesis using refresh_Inr assms(2) by fastforce
qed


lemma ensure_latest_answers:
  assumes "state_fallback c s S D (load_json (state_json D)) = (Inr (Some f), D1)"
  shows "\<exists>a D'. ensure_latest_pod_artifact c s S D force = (Inr a, D')"
  using assms by (auto simp: ensure_latest_pod_artifact_def Let_def split: prod.splits sum.splits)

text \<open>With a verified runtime on disk every failure of the network, of the discovery document or of a download still
  yields a runtime: the call answers an artifact, whatever the outside replies.\<close>

theorem latest_artifact_available:
  assumes "load_artifact c D (str_or [] (get_key ''sha256'' (dict_or_empty (get_or_null ''current'' (load_json (state_json D))))))
      (perimetr_pod_max_artifact_bytes s) \<noteq> None"
  shows "\<exists>a D'. ensure_latest_pod_artifact c s S D force = (Inr a, D')"
proof -
  obtain f where "state_fallback c s S D (load_json (state_json D)) = (Inr (Some f), D)"
    using assms by (auto simp: state_fallback_def Let_def)
  then show ?thesis by (rule ensure_latest_answers)
qed

section \<open>The state file\<close>

lemma utf8_line: "utf8 t @ [CHR 0x0a] = utf8 (t @ [CHR 0x0a])"
  by (simp add: utf8_def utf8_char_def)

text \<open>A file of the cache is read back with the values that were written.\<close>

lemma get_key_load_json_file:
  assumes "json_wf (JObj d)"
  shows "get_key x (load_json (Some (json_file d))) = map_option sort_keys (get_key x d)"
proof -
  obtain d' where d': "sort_keys (JObj d) = JObj d'" by simp
  have "loads (canonical_text (JObj d) @ [CHR 0x0a]) = Some (JObj d')"
    using loads_canonical [OF assms, of "[CHR 0x0a]"] d' by simp
  then have "load_json (Some (json_file d)) = d'"
    by (simp add: load_json_def json_file_def canonical_bytes_def utf8_line)
  with get_key_sort_keys [OF _ d'] assms show ?thesis by simp
qed

lemma verify_manifest_version:
  assumes "verify_manifest c key perimetr m = Inr v"
  shows "\<exists>k. semver (py_str (get_or_null ''version'' v)) = Inr k"
  using assms by (auto simp: verify_manifest_def check_version_def try_inv Let_def get_or_null_def get_set_key)

lemma semver_nonempty: "semver v = Inr k \<Longrightarrow> v \<noteq> []"
  by (auto simp: semver_def SEMVER_PATTERN_def split: option.splits list.splits if_splits prod.splits)

text \<open>What a download stored is loaded again under its digest.\<close>

lemma download_reloads:
  assumes dl: "download_artifact c S D manifest maximum = (Inr a, D')"
    and m: "get_or_null ''sha256'' manifest = JStr digest" "SHA256_PATTERN digest"
      "get_or_null ''version'' manifest = JStr version" "semver version = Inr k" "json_wf (JObj manifest)"
  shows "\<exists>b. load_artifact c D' digest maximum = Some b \<and> art_version b = version \<and> art_sha256 b = digest"
proof (cases "load_artifact c D digest maximum")
  case (Some b)
  with dl m load_artifact_SomeD(1) [OF Some] lower_pattern [OF m(2)] show ?thesis
    by (auto simp: download_artifact_def Let_def py_str_JStr split: if_splits)
next
  case None
  then obtain body where r: "received c manifest digest maximum (open_url S (py_str (get_or_null ''url'' manifest))
        [(''Accept'', ''application/octet-stream''), (''User-Agent'', ''Exocortex-Perimetr/1'')]) = Inr body"
    using dl m by (auto simp: download_artifact_def Let_def py_str_JStr split: sum.splits)
  define meta where "meta = [(''version'', JStr version), (''sha256'', JStr digest), (''size'', JInt (int (length body))),
    (''signed_manifest'', JObj manifest), (''cache_source'', JStr ''remote''), (''verified_at'', JStr (iso_stored S))]"
  have D': "D' = D\<lparr>pod_exe := (pod_exe D)(digest := Some body), manifest_json := (manifest_json D)(digest := Some (json_file meta))\<rparr>"
    using dl m None r by (auto simp: download_artifact_def Let_def py_str_JStr meta_def)
  have "json_wf (JObj meta)" using m(5) by (simp add: meta_def)
  from get_key_load_json_file [OF this] have v: "str_or [] (get_key ''version'' (load_json (Some (json_file meta)))) = version"
    using semver_nonempty [OF m(4)] by (simp add: meta_def get_key_def str_or_def)
  from received_InrD [OF r] have "hash_executable c (Some body) maximum = Inr (digest, length body)"
    by (simp add: hash_executable_Inr)
  with v m lower_pattern [OF m(2)] show ?thesis by (simp add: load_artifact_def D' Let_def)
qed

lemma refresh_remembers:
  assumes r: "refresh c s S D state fallback force = (Inr a, D')" and new: "fallback \<noteq> Some a"
    and m: "json_wf (JObj (art_manifest a))" "get_or_null ''version'' (art_manifest a) = JStr (art_version a)"
      "p_number (epoch_text S) = Some (JFloat (epoch_text S), [])"
  shows "\<exists>b. state_fallback c s S' D' (load_json (state_json D')) = (Inr (Some b), D')
    \<and> art_version b = art_version a \<and> art_sha256 b = art_sha256 a"
proof -
  obtain url manifest etag D0 where disc: "discover c s S state fallback force = Inr (Candidate url manifest etag)"
    and dl: "download_artifact c S D manifest (perimetr_pod_max_artifact_bytes s) = (Inr a, D0)"
    and D': "D' = write_state [(''schema'', JStr POD_CACHE_SCHEMA), (''manifest_url'', JStr url), (''etag'', JStr etag),
       (''last_checked_at'', JStr (iso_checked S)), (''checked_epoch'', JFloat (epoch_text S)),
       (''last_error'', JStr []), (''current'', current_entry a)] D0" (is "_ = write_state ?st D0")
    using r new by (auto simp: refresh_def split: sum.splits prod.splits discovery.splits)
  obtain m0 where v: "verify_manifest c (update_key S) (perimetr_version s) m0 = Inr manifest" using discover_Candidate [OF disc] by blast
  obtain digest where d: "get_or_null ''sha256'' manifest = JStr digest" "SHA256_PATTERN digest"
    using verify_manifest_Inr [OF v] by (auto simp: get_or_null_set_key)
  note a = download_artifact_InrD [OF dl d]
  obtain k where k: "semver (art_version a) = Inr k" using verify_manifest_version [OF v] a by auto
  obtain b where b: "load_artifact c D0 digest (perimetr_pod_max_artifact_bytes s) = Some b" "art_version b = art_version a"
    "art_sha256 b = digest"
    using download_reloads [OF dl d _ k] m a by auto
  have cur: "get_or_null ''current'' (load_json (Some (json_file ?st))) = sort_keys (current_entry a)"
    using get_key_load_json_file [of ?st "''current''"] m(3) by (simp add: get_or_null_def get_key_def current_entry_def)
  have "str_or [] (get_key ''sha256'' (dict_or_empty (sort_keys (current_entry a)))) = digest"
    using get_key_sort [of "[(''version'', JStr (art_version a)), (''sha256'', JStr digest), (''source'', JStr (art_source a))]" "''sha256''"] d a
    by (auto simp: current_entry_def dict_or_empty_def get_key_def str_or_def SHA256_PATTERN_def)
  moreover have "load_artifact c D' digest (perimetr_pod_max_artifact_bytes s) = Some b"
    using b(1) by (simp only: D' load_artifact_def verified_file_metadata)
  moreover have "state_json D' = Some (json_file ?st)" by (simp add: D' write_state_def)
  ultimately show ?thesis using b a by (simp add: state_fallback_def cur Let_def)
qed

lemma fallback_source:
  assumes "state_fallback c s S D state = (Inr (Some f), D1)"
  shows "art_source f \<in> {''last-known-good'', ''factory''}"
proof -
  have "art_source a = ''factory''" if "factory_artifact c s S D = (Inr (Some a), D1)" for a
    using that store_local_artifact_InrD(1)
    by (fastforce simp: factory_artifact_def split: option.splits prod.splits sum.splits)
  with assms show ?thesis by (auto simp: state_fallback_def Let_def split: option.splits)
qed

text \<open>C15. A runtime that was downloaded is not lost: whatever the outside does at the next call, it answers this
  runtime or one that succeeds it.\<close>

theorem latest_artifact_remembered:
  assumes "ensure_latest_pod_artifact c s S D force = (Inr a, D')" and "art_source a \<in> {''remote'', ''verified-cache''}"
    and "json_wf (JObj (art_manifest a))" and "get_or_null ''version'' (art_manifest a) = JStr (art_version a)"
    and "p_number (epoch_text S) = Some (JFloat (epoch_text S), [])"
  shows "\<exists>b D''. ensure_latest_pod_artifact c s S' D' force' = (Inr b, D'')
    \<and> (art_version b = art_version a \<and> art_sha256 b = art_sha256 a \<or> succeeds b a)"
proof -
  obtain fallback D1 where fb: "state_fallback c s S D (load_json (state_json D)) = (Inr fallback, D1)"
    and r: "(\<exists>f t. fallback = Some f \<and> a = f\<lparr>art_refresh_error := t\<rparr> \<and> pod_exe D' = pod_exe D1)
      \<or> (\<exists>st. refresh c s S D1 st fallback force = (Inr a, D'))"
    using ensure_latest_cases [OF assms(1)] by metis
  have src: "art_source f \<noteq> art_source a" if "fallback = Some f" for f
    using fallback_source [OF fb[unfolded that]] assms(2) by auto
  then obtain st where "refresh c s S D1 st fallback force = (Inr a, D')" "fallback \<noteq> Some a" using r by fastforce
  from refresh_remembers [OF this assms(3-5), of S'] obtain f where
    f: "state_fallback c s S' D' (load_json (state_json D')) = (Inr (Some f), D')" "art_version f = art_version a" "art_sha256 f = art_sha256 a"
    by blast
  obtain b D'' where b: "ensure_latest_pod_artifact c s S' D' force' = (Inr b, D'')" using ensure_latest_answers [OF f(1)] by blast
  from ensure_latest_successor [OF b f(1)] f(2,3)
  have "art_version b = art_version a \<and> art_sha256 b = art_sha256 a \<or> succeeds b a" by (auto simp: succeeds_def)
  with b show ?thesis by blast
qed


section \<open>A pinned runtime\<close>

text \<open>C16. A pinned runtime is the one that was pinned: it has the version of the record, the digest of the record, and a
  file that hashes to it.\<close>

theorem pinned_artifact_verified:
  assumes "resolve_pinned_pod_artifact c s S D digest version manifest = (Inr a, D')"
  shows "art_version a = version \<and> art_sha256 a = lower digest \<and> art_path a = exe_path (lower digest)
    \<and> verified_file c (perimetr_pod_max_artifact_bytes s) D' (lower digest)
    \<and> art_source a \<in> {''pinned-cache'', ''pinned-redownload''}"
proof (cases "load_artifact c D (lower digest) (perimetr_pod_max_artifact_bytes s)")
  case (Some b)
  note l = load_artifact_SomeD[OF Some]
  from assms Some have a: "a = b\<lparr>art_source := ''pinned-cache''\<rparr>" "art_version b = version" "D' = D"
    by (auto simp: resolve_pinned_pod_artifact_def Let_def split: if_splits)
  show ?thesis using l a by (simp add: lower_lower)
next
  case None
  then obtain m where m: "manifest = JObj m" using assms
    by (cases manifest) (auto simp: resolve_pinned_pod_artifact_def Let_def)
  obtain v b where v: "verify_manifest c (update_key S) (perimetr_version s) m = Inr v"
    and d: "get_or_null ''sha256'' v = JStr (lower digest)"
    and dl: "download_artifact c S D v (perimetr_pod_max_artifact_bytes s) = (Inr b, D')"
    and a: "a = b\<lparr>art_source := ''pinned-redownload''\<rparr>" "art_version b = version"
    using assms None by (auto simp: m resolve_pinned_pod_artifact_def Let_def try_inv split: if_splits sum.splits prod.splits)
  have "SHA256_PATTERN (lower digest)" using verify_manifest_Inr[OF v] d by (auto simp: get_or_null_set_key)
  note q = download_artifact_InrD[OF dl d this]
  show ?thesis using q a by simp
qed

end
