(* ===== verification/Register_Safety.thy ===== *)
theory Register_Safety
  imports Kernel_Register Artifact_Safety
begin

text \<open>
  What the register promises: no snapshot is used whose checksum does not match, a snapshot that was accepted once is
  there when the Kernel is not, and the settings it leaves are within their bounds.
\<close>

section \<open>Snapshots\<close>

lemma verify_snapshot_Inr:
  assumes "verify_snapshot c v = Inr d"
  shows "v = JObj d" "get_or_null ''schema'' d = JStr SNAPSHOT_SCHEMA"
    "\<exists>r. get_or_null ''revision'' d = JStr r \<and> REVISION_PATTERN r"
    "\<exists>vals. get_or_null ''values'' d = JObj vals \<and> get_or_null ''checksum'' d = JStr (snapshot_checksum c vals)"
  using assms by (auto simp: verify_snapshot_def try_bind_Inr_iff split: json.splits)

lemma get_or_null_sorted:
  assumes "json_wf (JObj d)" and "sort_keys (JObj d) = JObj d'"
  shows "get_or_null x d' = sort_keys (get_or_null x d)"
  using get_key_sort_keys [OF _ assms(2), of x] assms(1) by (auto simp: get_or_null_def split: option.splits)

lemma json_wf_value: "json_wf (JObj d) \<Longrightarrow> get_or_null x d = v \<Longrightarrow> v \<noteq> JNull \<Longrightarrow> json_wf v"
  by (auto simp: get_or_null_def get_key_def split: option.splits dest!: map_of_SomeD)

text \<open>A snapshot with its keys in another order is as good.\<close>

lemma verify_sorted:
  assumes "verify_snapshot c (JObj d) = Inr d" and "json_wf (JObj d)" and "sort_keys (JObj d) = JObj d'"
  shows "verify_snapshot c (JObj d') = Inr d'"
proof -
  note g = get_or_null_sorted [OF assms(2,3)]
  obtain r vals where r: "get_or_null ''revision'' d = JStr r" "REVISION_PATTERN r"
    and v: "get_or_null ''values'' d = JObj vals" "get_or_null ''checksum'' d = JStr (snapshot_checksum c vals)"
    and s: "get_or_null ''schema'' d = JStr SNAPSHOT_SCHEMA"
    using verify_snapshot_Inr [OF assms(1)] by blast
  obtain vals' where vals': "sort_keys (JObj vals) = JObj vals'" by simp
  have "json_wf (JObj vals)" using json_wf_value [OF assms(2) v(1)] by simp
  then have w: "json_wf (JObj [(''values'', JObj vals)])" by simp
  have "snapshot_checksum c vals' = snapshot_checksum c vals"
    using canonical_sort_keys [OF w] vals' by (simp add: snapshot_checksum_def canonical_bytes_def)
  then show ?thesis
    using r v s g [of "''revision''"] g [of "''values''"] g [of "''checksum''"] g [of "''schema''"] vals'
    by (simp add: verify_snapshot_def)
qed

lemma cache_round_trip:
  assumes "verify_snapshot c (JObj d) = Inr d" and "json_wf (JObj d)" and "sort_keys (JObj d) = JObj d'"
  shows "read_cache c (Some (utf8 (canonical_text (JObj d) @ [CHR 0x0a]))) = Inr d'"
proof -
  have "loads (canonical_text (JObj d) @ [CHR 0x0a]) = Some (JObj d')"
    using loads_canonical [OF assms(2), of "[CHR 0x0a]"] assms(3) by simp
  then show ?thesis using verify_sorted [OF assms] by (simp add: read_cache_def)
qed

lemma write_cache_Inr:
  assumes "verify_snapshot c (JObj d) = Inr d" and "json_wf (JObj d)"
  shows "\<exists>kept_text d'. write_cache c d = Inr kept_text \<and> read_cache c (Some kept_text) = Inr d' \<and> sort_keys (JObj d) = JObj d'"
proof -
  obtain d' where d': "sort_keys (JObj d) = JObj d'" by simp
  from cache_round_trip [OF assms d'] d' show ?thesis by (simp add: write_cache_def)
qed

section \<open>Loading\<close>

lemma read_cache_Inr: "read_cache c kept_text = Inr d \<Longrightarrow> verify_snapshot c (JObj d) = Inr d"
  using verify_snapshot_Inr(1) by (fastforce simp: read_cache_def split: option.splits)

lemma received_snapshot_Inr: "received_snapshot c body broken = Inr d \<Longrightarrow> verify_snapshot c (JObj d) = Inr d"
  using verify_snapshot_Inr(1) by (fastforce simp: received_snapshot_def try_bind_Inr_iff)

lemma fetch_snapshot_Inr:
  assumes "fetch_snapshot c net origin token cache cached fresh persist = (Inr d, cache')"
    and "\<And>x. cached = Some x \<Longrightarrow> verify_snapshot c (JObj x) = Inr x"
  shows "verify_snapshot c (JObj d) = Inr d"
  using assms
  by (auto simp: fetch_snapshot_def Let_def try_bind_Inr_iff dest: received_snapshot_Inr
      split: reply.splits option.splits if_splits sum.splits prod.splits)

lemma load_snapshot_verified:
  assumes "load_snapshot c net origin token cache fresh persist = (Inr d, cache')" and "d \<noteq> []"
  shows "verify_snapshot c (JObj d) = Inr d"
proof (cases "read_cache c cache")
  case (Inl e)
  with assms have "fetch_snapshot c net origin token cache None fresh persist = (Inr d, cache')"
    by (auto simp: load_snapshot_def split: if_splits)
  from fetch_snapshot_Inr [OF this] show ?thesis by simp
next
  case (Inr x)
  with assms have "fetch_snapshot c net origin token cache (Some x) fresh persist = (Inr d, cache')"
    by (auto simp: load_snapshot_def split: if_splits)
  from fetch_snapshot_Inr [OF this] read_cache_Inr [OF Inr] show ?thesis by simp
qed

definition offline :: "string \<Rightarrow> requests" where
  "offline t = (\<lambda>_ _. Unreachable t)"

text \<open>C19. A snapshot that the Kernel sent and that verified is kept: the call answers it and caches it, and the next call answers
  the same snapshot, up to the order of its keys, when the Kernel cannot be reached.\<close>

theorem register_survives_outage:
  assumes "origin \<noteq> []" and "token \<noteq> []" and "\<And>e. read_cache c cache = Inl e \<Longrightarrow> \<not> uncaught e"
    and "received_snapshot c body None = Inr d" and "json_wf (JObj d)"
  shows "\<exists>kept_text d'. load_snapshot c (\<lambda>_ _. Page headers body None) origin token cache False True = (Inr d, Some kept_text)
    \<and> load_snapshot c (offline t) origin token (Some kept_text) False True = (Inr d', Some kept_text)
    \<and> sort_keys (JObj d) = JObj d'"
proof -
  obtain kept_text d' where w: "write_cache c d = Inr kept_text" "read_cache c (Some kept_text) = Inr d'" "sort_keys (JObj d) = JObj d'"
    using write_cache_Inr [OF received_snapshot_Inr [OF assms(4)] assms(5)] by blast
  have "fetch_snapshot c (\<lambda>_ _. Page headers body None) origin token cache cached False True = (Inr d, Some kept_text)" for cached
    using assms(4) w(1) by (simp add: fetch_snapshot_def)
  moreover have "fetch_snapshot c (offline t) origin token (Some kept_text) (Some d') False True = (Inr d', Some kept_text)"
    by (simp add: fetch_snapshot_def offline_def)
  ultimately show ?thesis using assms(1-3) w by (auto simp: load_snapshot_def split: sum.splits)
qed

section \<open>Settings\<close>

lemma check_references_Inr: "check_references vals ks = Inr u \<longleftrightarrow>
    list_all (\<lambda>k. case resolve_key vals k of JStr t \<Rightarrow> VOLT_REFERENCE_PATTERN t | _ \<Rightarrow> False) ks"
  by (induction ks) (auto simp: try_bind_Inr_iff check_reference_def split: json.splits)

lemma required_url_Inr: "required_url vals k = Inr v \<Longrightarrow> \<exists>u. urlsplit v = Some u \<and> url_scheme u = ''https'' \<and> url_hostname u \<noteq> None"
  by (auto simp: required_url_def try_bind_Inr_iff)

lemma required_port_Inr: "required_port vals k = Inr n \<Longrightarrow> 1 \<le> n \<and> n \<le> 65535"
  by (auto simp: required_port_def try_bind_Inr_iff)

lemma positive_int_Inr:
  "positive_int vals k old least most = Inr n \<Longrightarrow> n = old \<or> least \<le> n \<and> n \<le> most"
  by (auto simp: positive_int_def Let_def split: json.splits option.splits if_splits)

lemma lift_artifact_Inr: "lift_artifact r = Inr a \<Longrightarrow> r = Inr a"
  by (auto simp: lift_artifact_def split: sum.splits artifact_error.splits)

lemma pod_discovery_url_Inr:
  assumes "pod_discovery_url v = Inr m"
  shows "\<exists>u. urlsplit (rstrip_by (\<lambda>c. c = CHR ''/'') (strip v)) = Some u \<and> url_query u = [] \<and> url_fragment u = []"
  using assms by (auto simp: pod_discovery_url_def Let_def try_bind_Inr_iff split: if_splits)

definition https_origin :: "string \<Rightarrow> bool" where
  "https_origin v = (case urlsplit v of None \<Rightarrow> False | Some u \<Rightarrow> url_scheme u = ''https'' \<and> url_hostname u \<noteq> None)"


end
