(* ===== verification/Connection_Safety.thy ===== *)
theory Connection_Safety
  imports Kernel_Connection Register_Safety Entity_Safety
begin

text \<open>
  The Kernel an installation listens to changes only on the word of an operator, and only to a Kernel that has answered with a
  verified snapshot; and while it cannot be reached the settings it gave last stay in force.
\<close>

section \<open>The row of the origin\<close>

definition kernel_origin :: "db \<Rightarrow> json option" where
  "kernel_origin d = Option.bind (find kernel_row (system_settings d)) (\<lambda>r. get_key ''url'' (row_value r))"

lemma put_row_Inr:
  assumes "put_row E fresh changed (find kernel_row (system_settings (stored w))) w = (Inr u, w')" and "synced w"
  shows "\<exists>r. find kernel_row (system_settings (live w')) = Some r
    \<and> row_value r = (case find kernel_row (system_settings (stored w)) of None \<Rightarrow> fresh | Some r \<Rightarrow> changed r)"
proof (cases "find kernel_row (system_settings (stored w))")
  case None
  with assms show ?thesis
    by (auto simp: put_row_def add_kernel_row_def web_inv synced_def insert_row_def SETTINGS_def find_append kernel_row_def row_value_def
        dict_or_empty_def Let_def)
next
  case (Some r)
  let ?f = "\<lambda>x. x\<lparr>ss_value := JObj (changed r)\<rparr>"
  have "distinct (map ss_id (system_settings (stored w)))"
    using assms(2) by (simp add: synced_def constraints_ok_def keys_ok_def)
  from find_map_key [OF Some this, of ?f] find_SomeD [OF Some] have
    "find kernel_row (map (\<lambda>x. if ss_id x = ss_id r then ?f x else x) (system_settings (stored w))) = Some (?f r)"
    by (simp add: kernel_row_def)
  with assms Some show ?thesis
    by (auto simp: put_row_def web_inv synced_def modify_row_def SETTINGS_def row_value_def dict_or_empty_def)
qed

lemma read_row: "synced w \<Longrightarrow> db_scalar SETTINGS P w = (Inr (find P (system_settings (stored w))), w)"
  using settings_table.db_scalar_synced [OF synced_in_step] by (simp add: SETTINGS_def)

text \<open>What a recorded change of the row leaves behind.\<close>

definition settled_row :: "(dict \<Rightarrow> bool) \<Rightarrow> world \<Rightarrow> bool" where
  "settled_row V w \<longleftrightarrow> synced w \<and> committed w = stored w
     \<and> (\<exists>r. find kernel_row (system_settings (stored w)) = Some r \<and> V (row_value r))"

lemma recorded_row:
  assumes "seqM (put_row E fresh changed (find kernel_row (system_settings (stored w)))) (seqM (audit E a b c t i p q) commit) w = (Inr u, w')"
    and "synced w"
  shows "settled_row (\<lambda>v. v = (case find kernel_row (system_settings (stored w)) of None \<Rightarrow> fresh | Some r \<Rightarrow> changed r)) w'"
proof -
  obtain w1 w2 where w1: "put_row E fresh changed (find kernel_row (system_settings (stored w))) w = (Inr (), w1)"
    and w2: "audited w1 w2" and c: "commit w2 = (Inr u, w')"
    using assms(1) by (auto simp: web_inv dest!: audit_Inr)
  from c w2 have "synced w' \<and> committed w' = stored w' \<and> system_settings (stored w') = system_settings (live w1)"
    by (auto simp: commit_Inr synced_def audited_def)
  with put_row_Inr [OF w1 assms(2)] show ?thesis by (simp add: settled_row_def)
qed


lemma kernel_save_Inr:
  assumes "kernel_save E ask s payload w = (Inr u, w')" and "synced w"
  shows "\<exists>url revision. valid_url (get_or_null ''url'' payload) s = Inr url \<and> ask url (kernel_service_token s) = Inr revision
    \<and> u = url \<and> settled_row (\<lambda>v. v = [(''url'', JStr url), (''helper_sync_required'', JBool True)]) w'"
proof -
  obtain url revision w1 where p: "valid_url (get_or_null ''url'' payload) s = Inr url" "ask url (kernel_service_token s) = Inr revision"
    and w1: "seqM (put_row E [(''url'', JStr url), (''helper_sync_required'', JBool True)]
        (\<lambda>_. [(''url'', JStr url), (''helper_sync_required'', JBool True)]) (find kernel_row (system_settings (stored w))))
      (seqM (audit E ''operator'' ''core'' ''kernel.origin.changed'' ''settings'' ''kernel'' [] [(''outcome'', JStr ''success'')]) commit) w
      = (Inr (), w1)"
    and rest: "apply_connection E s False w1 = (Inr u, w')"
    using assms(1) by (auto simp: kernel_save_def web_inv read_row [OF assms(2)] Let_def)
  have row: "settled_row (\<lambda>v. v = [(''url'', JStr url), (''helper_sync_required'', JBool True)]) w1"
    using recorded_row [OF w1 assms(2)] by (simp add: option.case_eq_if)
  then have "synced w1" by (simp add: settled_row_def)
  from row rest have "u = url \<and> w' = w1"
    by (auto simp: apply_connection_def web_inv read_row [OF \<open>synced w1\<close>] settled_row_def get_key_def py_str_JStr)
  with p row show ?thesis by blast
qed

section \<open>Changing the Kernel\<close>

lemma with_access_run:
  assumes "idle w" and "constraints_ok (committed w)" and "with_access E req m (P, w) = (r, P', w')"
  shows "(P' = P \<and> (\<exists>e. r = Inl e)) \<or> (\<exists>l w1. valid_session E req (clock E (draws w)) (committed w) l
    \<and> m (P, admitted E w) = (r, P', w1) \<and> committed w' = committed w1)"
proof -
  have i: "w\<lparr>stored := committed w, live := committed w, pending_log := []\<rparr> = w"
    using assms(1) by (cases w) (simp add: idle_def)
  from require_core_access_cases [OF assms(1,2), of E req] show ?thesis
  proof (elim disjE exE conjE)
    fix l assume l: "valid_session E req (clock E (draws w)) (committed w) l" "require_core_access E req w = (Inr l, admitted E w)"
    then show ?thesis using assms(3)
      by (cases "m (P, admitted E w)") (auto simp: with_access_def serveP_def letP_def webP_def i Let_def)
  next
    fix e assume "require_core_access E req w = (Inl e, admitted E w)"
    then show ?thesis using assms(3)
      by (auto simp: with_access_def serveP_def letP_def webP_def i Let_def)
  qed
qed

lemma admitted_synced: "idle w \<Longrightarrow> constraints_ok (committed w) \<Longrightarrow> synced (admitted E w)"
  by (simp add: idle_synced admitted_idle admitted_constraints)

lemma get_settings_keeps: "get_settings c net post s P = (r, P') \<Longrightarrow> url_override P' = url_override P \<and> token_file P' = token_file P"
  by (auto simp: get_settings_def Let_def split: option.splits prod.splits sum.splits register_error.splits if_splits)

lemma settingsP_cases:
  obtains e P' where "settingsP E K n (P, w) = (Inl e, P', w)" "url_override P' = url_override P" "token_file P' = token_file P"
  | s P' where "settingsP E K n (P, w) = (Inr s, P', w)" "url_override P' = url_override P" "token_file P' = token_file P"
      "get_settings (crypt E) (kernel_net K n) (kernel_post K n) (own_config K) P = (Inr s, P')"
proof (cases "get_settings (crypt E) (kernel_net K n) (kernel_post K n) (own_config K) P")
  case (Pair r P')
  with get_settings_keeps [OF Pair] that show ?thesis by (cases r) (simp_all add: settingsP_def)
qed

lemma settingsP_world: "settingsP E K n (P, w) = (r, P', w') \<Longrightarrow> w' = w \<and> url_override P' = url_override P \<and> token_file P' = token_file P"
  by (rule settingsP_cases [of E K n P w]) simp_all

lemma probe_Inr:
  assumes "probe c net post cache url token s = Inr v"
  shows "\<exists>d s'. token \<noteq> [] \<and> fst (load_snapshot c net url token cache True False) = Inr d
    \<and> apply_snapshot post (s\<lparr>kernel_url := url, kernel_service_token := token\<rparr>) d = Inr s' \<and> v = get_or_null ''revision'' d"
  using assms by (auto simp: probe_def split: if_splits sum.splits)

text \<open>A snapshot that the Kernel at \<open>url\<close> sent to a request with the token, or confirmed to be the cached one, in this conversation.\<close>

definition kernel_answers :: "crypto \<Rightarrow> requests \<Rightarrow> posts \<Rightarrow> string option \<Rightarrow> string \<Rightarrow> string \<Rightarrow> settings \<Rightarrow> bool" where
  "kernel_answers c net post cache url token s \<longleftrightarrow> (\<exists>d s'. verify_snapshot c (JObj d) = Inr d
     \<and> (let reply = net (rstrip_by (\<lambda>x. x = CHR ''/'') url @ ''/api/v1/register/snapshot'')
              (snapshot_headers token (case read_cache c cache of Inl e \<Rightarrow> None | Inr old \<Rightarrow> Some old))
        in (\<exists>hs body broken. reply = Page hs body broken \<and> received_snapshot c body broken = Inr d)
         \<or> (\<exists>t. reply = Http_Error 304 t \<and> read_cache c cache = Inr d))
     \<and> apply_snapshot post (s\<lparr>kernel_url := url, kernel_service_token := token\<rparr>) d = Inr s')"

lemma fetch_fresh:
  assumes "fst (fetch_snapshot c net origin token cache cached True False) = Inr d"
  shows "(\<exists>hs body broken. net (rstrip_by (\<lambda>x. x = CHR ''/'') origin @ ''/api/v1/register/snapshot'') (snapshot_headers token cached)
        = Page hs body broken \<and> received_snapshot c body broken = Inr d)
    \<or> (\<exists>t. net (rstrip_by (\<lambda>x. x = CHR ''/'') origin @ ''/api/v1/register/snapshot'') (snapshot_headers token cached) = Http_Error 304 t
        \<and> cached = Some d)"
  using assms
  by (auto simp: fetch_snapshot_def Let_def try_bind_Inr_iff split: reply.splits option.splits if_splits sum.splits prod.splits)

lemma probe_answers:
  assumes "probe c net post cache url token s = Inr v"
  shows "kernel_answers c net post cache url token s"
proof -
  obtain d s' where t: "token \<noteq> []" and l: "fst (load_snapshot c net url token cache True False) = Inr d"
    and a: "apply_snapshot post (s\<lparr>kernel_url := url, kernel_service_token := token\<rparr>) d = Inr s'"
    using probe_Inr [OF assms] by blast
  let ?cached = "case read_cache c cache of Inl e \<Rightarrow> None | Inr old \<Rightarrow> Some old"
  have f: "fst (fetch_snapshot c net url token cache ?cached True False) = Inr d"
    using l t by (auto simp: load_snapshot_def split: sum.splits if_splits)
  have old: "read_cache c cache = Inr d" if "?cached = Some d" using that by (simp split: sum.splits)
  have v: "verify_snapshot c (JObj d) = Inr d"
    using fetch_fresh [OF f] old received_snapshot_Inr read_cache_Inr by blast
  show ?thesis
    unfolding kernel_answers_def Let_def using v a fetch_fresh [OF f] old by blast
qed

lemma commit_settled: "settled_row V w \<Longrightarrow> \<exists>w'. commit w = (Inr (), w') \<and> committed w' = committed w \<and> stored w' = stored w"
  by (auto simp: settled_row_def synced_def commit_def seqM_def letM_def flush_def)


lemma admitted_preferences: "preferences_of (stored (admitted E w)) = preferences_of (committed w)"
  by (simp add: admitted_def Let_def preferences_of_def expired_db_def modify_rows_def LEASES_def)

lemma kernel_rotate_Inr:
  assumes "sane_crypto E" and "synced w" and "is_password_hash (verifier_of (preferences_of (stored w)))"
    and "kernel_rotate E ask s req payload w = (Inr token, w')"
  shows "token = json_text (get_or_null ''token'' payload) \<and> token \<noteq> [] \<and> list_all transport_char token
    \<and> verify_password (crypt E) (json_text (get_or_null ''current_key'' payload)) (verifier_of (preferences_of (stored w)))
    \<and> (\<exists>v. ask (kernel_url s) token = Inr v)"
proof -
  obtain r w1 where e: "ensure_preferences E w = (Inr r, w1)"
    and v: "verify_password (crypt E) (json_text (get_or_null ''current_key'' payload))
        (json_text (get_or_null ''access_key_hash'' (dict_or_empty (get_or_null ''auth'' (row_value r)))))"
    and t: "token = json_text (get_or_null ''token'' payload)" "token \<noteq> []" "list_all transport_char token"
      "\<exists>v. ask (kernel_url s) token = Inr v"
    using assms(4) by (auto simp: kernel_rotate_def web_inv Let_def split: if_splits)
  note st = assms(2) [unfolded synced_def]
  from ensure_result [OF assms(1) conjunct1 [OF st] conjunct2 [OF st] e]
  have f: "find preferences_row (system_settings (stored w1)) = Some r" by blast
  have h: "json_text (get_or_null k d) = text_or_empty (get_key k d)" for k d
    by (simp add: json_text_def get_or_null_def text_or_empty_def split: option.split json.split)
  have "json_text (get_or_null ''access_key_hash'' (dict_or_empty (get_or_null ''auth'' (row_value r))))
      = verifier_of (preferences_of (stored w1))"
    by (simp add: h verifier_of_def auth_of_def preferences_of_def f row_value_def)
  also have "\<dots> = verifier_of (preferences_of (stored w))"
    by (rule kept_verifier [OF assms(1) conjunct1 [OF st] conjunct2 [OF st] e assms(3)])
  finally show ?thesis using v t by simp
qed

text \<open>C21. The machine token changes only for an operator with a live session who knows the Access Key, to a token of printable
  characters to which the Kernel has answered with a verified snapshot in this request. In every other case the file of the
  token stays as it is.\<close>

theorem kernel_token_rotation:
  assumes "sane_crypto E" and "idle w" and "constraints_ok (committed w)"
    and "is_password_hash (verifier_of (preferences_of (committed w)))"
    and "rotate_connection E K req payload (P, w) = (r, P', w')"
  shows "token_file P' = token_file P \<or> (\<exists>l s token P1.
      valid_session E req (clock E (draws w)) (committed w) l
    \<and> get_settings (crypt E) (kernel_net K 0) (kernel_post K 0) (own_config K) P = (Inr s, P1)
    \<and> verify_password (crypt E) (json_text (get_or_null ''current_key'' payload)) (verifier_of (preferences_of (committed w)))
    \<and> kernel_answers (crypt E) (kernel_net K 1) (kernel_post K 1) (register_cache P1) (kernel_url s) token s
    \<and> token \<noteq> [] \<and> list_all transport_char token \<and> token_file P' = Some token)"
proof -
  let ?w = "admitted E w"
  from with_access_run [OF assms(2,3) assms(5) [unfolded rotate_connection_def]] show ?thesis
  proof (elim disjE exE conjE)
    fix l w1
    assume l: "valid_session E req (clock E (draws w)) (committed w) l" and c: "committed w' = committed w1"
      and m: "rotate_steps E K req payload (P, ?w) = (r, P', w1)"
    show ?thesis
    proof (cases rule: settingsP_cases [of E K 0 P ?w])
      case (1 e P1)
      with m show ?thesis by (simp add: rotate_steps_def letP_def)
    next
      case (2 s P1)
      let ?ask = "\<lambda>url token. probe (crypt E) (kernel_net K 1) (kernel_post K 1) (register_cache P1) url token s"
      obtain x w2 where k: "kernel_rotate E ?ask s req payload ?w = (x, w2)" by fastforce
      show ?thesis
      proof (cases x)
        case (Inl e)
        with m 2 k show ?thesis by (simp add: rotate_steps_def letP_def askP_def webP_def)
      next
        case (Inr token)
        have "is_password_hash (verifier_of (preferences_of (stored ?w)))" using assms(4) by (simp add: admitted_preferences)
        from kernel_rotate_Inr [OF assms(1) admitted_synced [OF assms(2,3)] this k [unfolded Inr], unfolded admitted_preferences]
        have p: "token \<noteq> []" "list_all transport_char token"
          "verify_password (crypt E) (json_text (get_or_null ''current_key'' payload)) (verifier_of (preferences_of (committed w)))"
          "\<exists>v. ?ask (kernel_url s) token = Inr v" by blast+
        have "token_file P' = Some token"
          using m 2(1) k Inr by (auto simp: rotate_steps_def letP_def askP_def webP_def setP_def ret_def split: sum.splits prod.splits)
        then show ?thesis using l 2(4) p probe_answers by blast
      qed
    qed
  qed simp
qed

section \<open>The settings in force\<close>


section \<open>Runs that succeed\<close>

text \<open>For examples: an endpoint behind the access check, once the settings are there.\<close>

lemma with_access_admits:
  assumes "idle w" and "require_core_access E req w = (Inr l, w0)" and "m (P, w0) = (r, P', w1)"
  shows "\<exists>w'. with_access E req m (P, w) = (r, P', w')"
proof -
  have "w\<lparr>stored := committed w, live := committed w, pending_log := []\<rparr> = w"
    using assms(1) by (cases w) (simp add: idle_def)
  then show ?thesis using assms(2,3) by (simp add: with_access_def serveP_def letP_def webP_def)
qed

lemma save_connection_runs:
  assumes "idle w" and "require_core_access E req w = (Inr l, w0)" and "settings_cache P = Some s"
    and "kernel_save E (\<lambda>url token. probe (crypt E) (kernel_net K 1) (kernel_post K 1) (register_cache P) url token s) s payload w0 = (Inr u, w2)"
  shows "\<exists>r P' w'. save_connection E K req payload (P, w) = (r, P', w') \<and> url_override P' = Some u"
proof -
  let ?m = "letP (setP (\<lambda>P. P\<lparr>url_override := Some u, settings_cache := None\<rparr>)) (\<lambda>_.
        letP (webP commit) (\<lambda>_. letP (settingsP E K 2) (\<lambda>s'. webP (kernel_read s'))))"
  obtain r P' w1 where q: "?m (P, w2) = (r, P', w1)" by (cases "?m (P, w2)")
  then have u: "url_override P' = Some u"
    by (auto simp: letP_def setP_def webP_def split: prod.splits sum.splits dest!: settingsP_world)
  have "save_steps E K payload (P, w0) = (r, P', w1)"
    using assms(3,4) q by (simp add: save_steps_def letP_def settingsP_def get_settings_def askP_def webP_def)
  from with_access_admits [of w E req l w0 "save_steps E K payload", OF assms(1,2) this] u show ?thesis
    unfolding save_connection_def by blast
qed

lemma rotate_connection_runs:
  assumes "idle w" and "require_core_access E req w = (Inr l, w0)" and "settings_cache P = Some s"
    and "kernel_rotate E (\<lambda>url token. probe (crypt E) (kernel_net K 1) (kernel_post K 1) (register_cache P) url token s) s req payload w0
      = (Inr token, w2)"
  shows "\<exists>r P' w'. rotate_connection E K req payload (P, w) = (r, P', w') \<and> token_file P' = Some token"
proof -
  let ?m = "letP (setP (\<lambda>P. P\<lparr>token_file := Some token\<rparr>)) (\<lambda>_. letP (webP (record_rotation E s)) (\<lambda>_.
        letP (setP (\<lambda>P. P\<lparr>settings_cache := None\<rparr>)) (\<lambda>_.
          webP (ret [(''changed'', JBool True), (''helper_sync_required'', JBool True)]))))"
  obtain r P' w1 where q: "?m (P, w2) = (r, P', w1)" by (cases "?m (P, w2)")
  then have u: "token_file P' = Some token"
    by (auto simp: letP_def setP_def webP_def ret_def split: prod.splits sum.splits)
  have "rotate_steps E K req payload (P, w0) = (r, P', w1)"
    using assms(3,4) q by (simp add: rotate_steps_def letP_def settingsP_def get_settings_def askP_def webP_def)
  from with_access_admits [of w E req l w0 "rotate_steps E K req payload", OF assms(1,2) this] u show ?thesis
    unfolding rotate_connection_def by blast
qed

lemma apply_register_stale: "apply_register c net post s cache = (Inr s', f) \<Longrightarrow> kernel_register_stale s' = kernel_register_stale s"
  by (auto simp: apply_register_def apply_snapshot_def register_settings_def try_bind_Inr_iff Let_def split: prod.splits sum.splits if_splits)

end
