(* ===== verification/Artifact_Examples.thy ===== *)
theory Artifact_Examples
  imports Artifact_Safety
begin

text \<open>
  The theorems of the artifact cache at concrete inputs: a cache with the runtime of the factory, a signed release of
  the next version, and an executable in the cache that has been overwritten.
\<close>

section \<open>A release\<close>

definition new_exe :: string where "new_exe = ''MZ2''"
definition old_exe :: string where "old_exe = ''MZ1''"

text \<open>A signature scheme for the examples: the signature of a text is its beginning.\<close>

definition release_crypto :: crypto where
  "release_crypto = toy_crypto\<lparr>ecdsa_verify := (\<lambda>k s b. s = take 3 b)\<rparr>"

definition new_digest :: string where
  "new_digest = ''4d5a32'' @ replicate 58 CHR ''0''"

definition old_digest :: string where
  "old_digest = ''4d5a31'' @ replicate 58 CHR ''0''"

text \<open>The keys are in order, so the canonical text has them as they stand.\<close>

definition release :: dict where
  "release = [(''channel'', JStr ''stable''), (''sha256'', JStr new_digest), (''signature'', JStr ''eyJj''),
     (''url'', JStr ''https://h/p''), (''version'', JStr ''0.2.0'')]"

definition release_page :: "string \<Rightarrow> (string \<times> string) list \<Rightarrow> reply" where
  "release_page url headers =
     (if url = ''https://h/p'' then Page [] new_exe None else Page [] (canonical_bytes (JObj release)) None)"

definition release_net :: outside where
  "release_net = \<lparr>open_url = release_page, source_exe = Some old_exe, dist_exe = None,
     update_key = Some ''-----BEGIN PUBLIC KEY-----'', iso_stored = ''t'', iso_checked = ''t'',
     epoch_now = 1, epoch_text = ''1.0'', text_number = (\<lambda>_. None)\<rparr>"

definition release_settings :: settings where
  "release_settings = default_settings\<lparr>perimetr_pod_repository_url := ''https://h/r''\<rparr>"

definition empty_disk :: disk where
  "empty_disk = \<lparr>state_json = None, pod_exe = (\<lambda>_. None), manifest_json = (\<lambda>_. None)\<rparr>"

lemmas release_defs = release_net_def release_settings_def default_settings_def

lemma release_digest: "hexdigest (sha256_fn release_crypto new_exe) = new_digest" "take 2 new_exe = ''MZ''" "length new_exe = 3"
  "hexdigest (sha256_fn release_crypto old_exe) = old_digest" "take 2 old_exe = ''MZ''" "length old_exe = 3"
  by code_simp+

lemma release_fields: "check_fields release = Inr ()"
  by code_simp

lemma release_product: "check_product release = Inr ()"
  by code_simp

lemma release_version: "check_version ''2.0.0'' release = Inr ()"
  by code_simp

lemma release_artifact: "check_artifact release = Inr new_digest"
  by code_simp

lemma release_text: "b64decode_strict (py_str (get_or_null ''signature'' release)) = Some (take 3 (canonical_bytes (JObj (del_key ''signature'' release))))"
  by code_simp

lemma release_key: "is_p256_pem release_crypto ''-----BEGIN PUBLIC KEY-----'' = Some True"
  by code_simp

lemma release_signature: "check_signature release_crypto (Some ''-----BEGIN PUBLIC KEY-----'') release = Inr ()"
  by (simp add: check_signature_def release_text release_key) (simp add: release_crypto_def)

lemma release_stamp: "set_key ''sha256'' (JStr new_digest) release = release"
  by code_simp

lemma release_verified:
  "verify_manifest release_crypto (Some ''-----BEGIN PUBLIC KEY-----'') ''2.0.0'' release = Inr release"
  by (simp add: verify_manifest_def release_fields release_product release_version release_artifact release_signature release_stamp)

lemma release_wf: "json_wf (JObj release)"
  by code_simp

lemma release_sorted: "sort_keys (JObj release) = JObj release"
  by code_simp

lemma release_length: "length (canonical_bytes (JObj release)) = 153"
  by code_simp

lemma release_read: "read_manifest_response (canonical_bytes (JObj release)) None = Inr release"
  using loads_canonical [OF release_wf, of "[]"] release_length release_sorted
  by (simp add: read_manifest_response_def canonical_bytes_def MAX_MANIFEST_BYTES_def)

section \<open>The refresh\<close>

definition factory_runtime :: pod_artifact where
  "factory_runtime = \<lparr>art_version = ''0.1.3'', art_sha256 = old_digest, art_path = exe_path old_digest, art_source = ''factory'',
     art_manifest = [(''schema_version'', JInt 2), (''product'', JStr ''pod''), (''version'', JStr ''0.1.3''),
       (''channel'', JStr ''stable''), (''sha256'', JStr old_digest), (''size'', JInt 3), (''cache_source'', JStr ''factory''),
       (''verified_at'', JStr ''t'')], art_refresh_error = []\<rparr>"

definition factory_disk :: disk where
  "factory_disk = \<lparr>state_json = None, pod_exe = (\<lambda>_. None)(old_digest := Some old_exe),
     manifest_json = (\<lambda>_. None)(old_digest := Some (json_file (art_manifest factory_runtime)))\<rparr>"

lemma release_fallback:
  "state_fallback release_crypto release_settings release_net empty_disk [] = (Inr (Some factory_runtime), factory_disk)"
proof -
  have v: "semver ''0.1.3'' = Inr (0, 1, 3, [Final])" by code_simp
  have p: "\<not> SHA256_PATTERN []" by code_simp
  show ?thesis
    using v p
    by (auto simp: state_fallback_def load_artifact_def factory_artifact_def store_local_artifact_def release_defs empty_disk_def
        Let_def hash_executable_def release_digest factory_runtime_def factory_disk_def dict_or_empty_def get_or_null_def
        get_key_def str_or_def lower_def)
qed

lemma release_recent: "recently_checked s S [] = Inr False"
  by (simp add: recently_checked_def get_or_null_def get_key_def)

lemma release_url: "pod_discovery_url ''https://h/r'' = Inr ''https://h/r/releases/download/pod-current/pod-update.json''"
  "strip ''https://h/r'' = ''https://h/r''"
  by code_simp+

lemma release_newer: "compare_versions ''0.2.0'' ''0.1.3'' = Inr 1" "semver ''0.2.0'' = Inr (0, 2, 0, [Final])"
  by code_simp+

lemma release_entries: "get_or_null ''version'' release = JStr ''0.2.0''" "get_or_null ''sha256'' release = JStr new_digest"
  "get_or_null ''url'' release = JStr ''https://h/p''" "get_or_null ''size'' release = JNull" "lower new_digest = new_digest"
  "old_digest \<noteq> new_digest"
  by code_simp+

definition new_runtime :: pod_artifact where
  "new_runtime = \<lparr>art_version = ''0.2.0'', art_sha256 = new_digest, art_path = exe_path new_digest, art_source = ''remote'',
     art_manifest = release, art_refresh_error = []\<rparr>"

lemma release_discovered:
  "discover release_crypto release_settings release_net state (Some factory_runtime) True =
     Inr (Candidate ''https://h/r/releases/download/pod-current/pod-update.json'' release [])"
  if "recently_checked release_settings release_net state = Inr False"
  using that release_url release_read release_verified
  by (simp add: discover_def release_settings_def default_settings_def release_net_def release_page_def header_value_def)

lemma release_downloaded: "\<exists>D. download_artifact release_crypto release_net factory_disk release (320 * 1024 * 1024) = (Inr new_runtime, D)"
  using release_entries
  by (simp add: download_artifact_def py_str_JStr load_artifact_def factory_disk_def hash_executable_def received_def release_net_def
      release_page_def header_value_def release_digest new_runtime_def Let_def)

lemma release_latest: "\<exists>D. ensure_latest_pod_artifact release_crypto release_settings release_net empty_disk True = (Inr new_runtime, D)"
proof -
  define state where "state = set_key ''current'' (current_entry factory_runtime) []"
  have st: "recently_checked release_settings release_net state = Inr False"
    by (simp add: recently_checked_def state_def get_or_null_def get_key_def)
  have ch: "check_successor release (Some factory_runtime) = Inr ()"
    using release_entries release_newer by (simp add: check_successor_def py_str_JStr factory_runtime_def)
  obtain D where d: "download_artifact release_crypto release_net factory_disk release (perimetr_pod_max_artifact_bytes release_settings) = (Inr new_runtime, D)"
    using release_downloaded by (auto simp: release_settings_def default_settings_def)
  have "\<exists>D. refresh release_crypto release_settings release_net factory_disk state (Some factory_runtime) True = (Inr new_runtime, D)"
    by (simp add: refresh_def release_discovered [OF st] ch d)
  moreover have "load_json (state_json empty_disk) = []" by (simp add: load_json_def empty_disk_def)
  moreover have "strip (perimetr_pod_repository_url release_settings) \<noteq> []"
    using release_url by (simp add: release_settings_def)
  moreover have "\<not> is_dict (get_or_null ''current'' [])" by (simp add: get_or_null_def get_key_def is_dict_def)
  ultimately show ?thesis
    by (auto simp: ensure_latest_pod_artifact_def release_fallback state_def Let_def)
qed

theorem latest_artifact_verified_witness:
  "\<exists>D'. ensure_latest_pod_artifact release_crypto release_settings release_net empty_disk True = (Inr new_runtime, D')
     \<and> verified_file release_crypto (320 * 1024 * 1024) D' new_digest"
proof -
  obtain D' where l: "ensure_latest_pod_artifact release_crypto release_settings release_net empty_disk True = (Inr new_runtime, D')"
    using release_latest by blast
  from latest_artifact_verified [OF l] have "verified_file release_crypto (320 * 1024 * 1024) D' new_digest"
    by (simp add: unchecked_factory_def new_runtime_def release_settings_def default_settings_def)
  with l show ?thesis by blast
qed


text \<open>The network is gone at the second call.\<close>

definition no_net :: outside where
  "no_net = release_net\<lparr>open_url := (\<lambda>_ _. Unreachable ''URLError'')\<rparr>"

lemma release_epoch: "p_number (epoch_text release_net) = Some (JFloat (epoch_text release_net), [])"
proof -
  have "p_number ''1.0'' = Some (JFloat ''1.0'', [])" by code_simp
  then show ?thesis by (simp add: release_net_def)
qed

theorem latest_artifact_remembered_witness:
  "\<exists>D' b D''. ensure_latest_pod_artifact release_crypto release_settings release_net empty_disk True = (Inr new_runtime, D')
     \<and> ensure_latest_pod_artifact release_crypto release_settings no_net D' False = (Inr b, D'')
     \<and> (art_version b = ''0.2.0'' \<and> art_sha256 b = new_digest \<or> succeeds b new_runtime)"
proof -
  obtain D' where l: "ensure_latest_pod_artifact release_crypto release_settings release_net empty_disk True = (Inr new_runtime, D')"
    using release_latest by blast
  have "art_source new_runtime \<in> {''remote'', ''verified-cache''}" "json_wf (JObj (art_manifest new_runtime))"
    "get_or_null ''version'' (art_manifest new_runtime) = JStr (art_version new_runtime)"
    using release_wf release_entries by (simp_all add: new_runtime_def)
  from latest_artifact_remembered [OF l this release_epoch, of no_net False] l show ?thesis
    by (auto simp: new_runtime_def)
qed

section \<open>Pinned and remembered runtimes\<close>

lemma new_pattern: "SHA256_PATTERN new_digest" "lower new_digest = new_digest" "\<not> SHA256_PATTERN []"
  by code_simp+

lemma pinned_latest:
  "\<exists>D'. resolve_pinned_pod_artifact release_crypto release_settings release_net empty_disk new_digest ''0.2.0'' (JObj release)
     = (Inr (new_runtime\<lparr>art_source := ''pinned-redownload''\<rparr>), D')"
proof -
  have ne: "release \<noteq> []" by (simp add: release_def)
  have load: "load_artifact release_crypto empty_disk new_digest m = None" for m
    using new_pattern by (simp add: load_artifact_def empty_disk_def hash_executable_def Let_def)
  have dl: "\<exists>D. download_artifact release_crypto release_net empty_disk release (320 * 1024 * 1024) = (Inr new_runtime, D)"
    using release_entries load
    by (simp add: download_artifact_def py_str_JStr received_def release_net_def
        release_page_def header_value_def release_digest new_runtime_def Let_def)
  have v: "verify_manifest release_crypto (update_key release_net) (perimetr_version release_settings) release = Inr release"
    using release_verified by (simp add: release_net_def release_settings_def default_settings_def)
  have vs: "art_version new_runtime = ''0.2.0''" by (simp add: new_runtime_def)
  have mx: "perimetr_pod_max_artifact_bytes release_settings = 320 * 1024 * 1024" by (simp add: release_settings_def default_settings_def)
  show ?thesis
    using dl new_pattern(2) ne release_entries(1,2)
    by (auto simp: resolve_pinned_pod_artifact_def load v vs mx Let_def)
qed

theorem pinned_artifact_verified_witness:
  "\<exists>a D'. resolve_pinned_pod_artifact release_crypto release_settings release_net empty_disk new_digest ''0.2.0'' (JObj release)
       = (Inr a, D')
     \<and> art_sha256 a = new_digest \<and> verified_file release_crypto (perimetr_pod_max_artifact_bytes release_settings) D' new_digest"
proof -
  obtain a D' where p: "resolve_pinned_pod_artifact release_crypto release_settings release_net empty_disk new_digest ''0.2.0''
      (JObj release) = (Inr a, D')" using pinned_latest by blast
  from pinned_artifact_verified [OF p] p new_pattern(2) show ?thesis by auto
qed

text \<open>A cache that names a verified runtime, and an outside where nothing can be reached.\<close>

definition cached_disk :: disk where
  "cached_disk = \<lparr>state_json = Some (json_file [(''current'', JObj [(''sha256'', JStr new_digest)])]),
     pod_exe = (\<lambda>_. None)(new_digest := Some new_exe),
     manifest_json = (\<lambda>_. None)(new_digest := Some (json_file [(''version'', JStr ''0.2.0'')]))\<rparr>"

lemma cached_loads:
  "load_artifact release_crypto cached_disk
     (str_or [] (get_key ''sha256'' (dict_or_empty (get_or_null ''current'' (load_json (state_json cached_disk))))))
     (perimetr_pod_max_artifact_bytes release_settings) \<noteq> None"
proof -
  have "get_key ''current'' (load_json (state_json cached_disk)) = Some (JObj [(''sha256'', JStr new_digest)])"
    using get_key_load_json_file [of "[(''current'', JObj [(''sha256'', JStr new_digest)])]" "''current''"]
    by (simp add: cached_disk_def get_key_def)
  moreover have "get_key ''version'' (load_json (manifest_json cached_disk new_digest)) = Some (JStr ''0.2.0'')"
    using get_key_load_json_file [of "[(''version'', JStr ''0.2.0'')]" "''version''"] by (simp add: cached_disk_def get_key_def)
  moreover have "new_digest \<noteq> []" by code_simp
  moreover have "hash_executable release_crypto (pod_exe cached_disk new_digest) (perimetr_pod_max_artifact_bytes release_settings)
      = Inr (new_digest, 3)"
    by (simp add: hash_executable_Inr cached_disk_def release_digest release_settings_def default_settings_def)
  ultimately show ?thesis
    using new_pattern release_newer(2)
    by (simp add: load_artifact_def get_or_null_def dict_or_empty_def str_or_def Let_def get_key_def)
qed

theorem latest_artifact_available_witness:
  "\<exists>a D'. ensure_latest_pod_artifact release_crypto release_settings no_net cached_disk True = (Inr a, D')"
  by (rule latest_artifact_available [OF cached_loads])

section \<open>An overwritten executable\<close>

text \<open>The executable of the factory runtime was cached and has been overwritten. The state names no verified runtime any
  more, so the factory runtime is stored again, which keeps the file that is there: the artifact names the digest of the
  factory's executable and the path of another one.\<close>

definition overwritten_disk :: disk where
  "overwritten_disk = factory_disk\<lparr>pod_exe := (\<lambda>_. None)(old_digest := Some ''bad'')\<rparr>"

theorem overwritten_factory_runtime_served:
  "\<exists>a D'. ensure_latest_pod_artifact release_crypto default_settings release_net overwritten_disk True = (Inr a, D')
     \<and> art_sha256 a = old_digest \<and> art_path a = exe_path old_digest \<and> pod_exe D' old_digest = Some ''bad''"
proof -
  have v: "semver ''0.1.3'' = Inr (0, 1, 3, [Final])" by code_simp
  have s: "strip [] = []" by code_simp
  have l: "load_json (state_json overwritten_disk) = []" by (simp add: load_json_def overwritten_disk_def factory_disk_def)
  show ?thesis
    using v new_pattern(3) s
    by (simp add: ensure_latest_pod_artifact_def l state_fallback_def load_artifact_def factory_artifact_def
        store_local_artifact_def release_net_def default_settings_def Let_def hash_executable_def release_digest dict_or_empty_def
        get_or_null_def get_key_def str_or_def lower_def overwritten_disk_def factory_disk_def is_dict_def write_state_def)
qed

end
