(* ===== verification/Register_Examples.thy ===== *)
theory Register_Examples
  imports Register_Safety Artifact_Examples
begin

text \<open>
  The theorems of the register at a concrete snapshot, and what the code does with a cache that is no snapshot and with a name
  that is no host.
\<close>

section \<open>A snapshot\<close>

definition sample_ref :: json where
  "sample_ref = JStr ''volt://00000000-0000-4000-8000-000000000000/1''"

definition sample_values :: dict where
  "sample_values = [(''intervals'', JObj [(''kernel'', JObj [(''refresh_sec'', sample_ref)])]),
     (''repositories'', JObj [(''perimetr'', JObj [(''url'', sample_ref)]), (''pod'', JObj [(''url'', sample_ref)])]),
     (''services'', JObj [(''perimetr'', JObj [(''port'', sample_ref), (''sni'', sample_ref)])])]"

definition sample_snapshot :: dict where
  "sample_snapshot = [(''checksum'', JStr (snapshot_checksum release_crypto sample_values)), (''revision'', JStr ''register-1''),
     (''schema'', JStr SNAPSHOT_SCHEMA), (''values'', JObj sample_values)]"

lemma sample_entries: "get_or_null ''schema'' sample_snapshot = JStr SNAPSHOT_SCHEMA"
  "get_or_null ''revision'' sample_snapshot = JStr ''register-1''" "get_or_null ''values'' sample_snapshot = JObj sample_values"
  "get_or_null ''checksum'' sample_snapshot = JStr (snapshot_checksum release_crypto sample_values)" "sample_snapshot \<noteq> []"
  by (simp_all add: sample_snapshot_def get_or_null_def get_key_def)

lemma sample_verified: "verify_snapshot release_crypto (JObj sample_snapshot) = Inr sample_snapshot"
proof -
  have "REVISION_PATTERN ''register-1''" by code_simp
  then show ?thesis by (simp add: verify_snapshot_def sample_entries)
qed

lemma sample_wf: "json_wf (JObj sample_snapshot)"
proof -
  have "json_wf (JObj sample_values)" by (simp add: sample_values_def sample_ref_def)
  then show ?thesis by (simp add: sample_snapshot_def)
qed

lemma sample_sorted: "sort_keys (JObj sample_snapshot) = JObj sample_snapshot"
  by code_simp

lemma sample_length: "length (canonical_bytes (JObj sample_snapshot)) = 531"
  by code_simp

lemma sample_received: "received_snapshot release_crypto (canonical_bytes (JObj sample_snapshot)) None = Inr sample_snapshot"
  using loads_canonical [OF sample_wf, of "[]"] sample_length sample_sorted sample_verified
  by (simp add: received_snapshot_def limited_json_def canonical_bytes_def MAX_SNAPSHOT_BYTES_def)

lemma no_cache: "read_cache c None = Inl (Register_Error ''no valid Kernel Register last-known-good cache'')"
  by (simp add: read_cache_def)

lemma register_survives_outage_witness:
  "\<exists>kept_text d'. load_snapshot release_crypto (\<lambda>_ _. Page [] (canonical_bytes (JObj sample_snapshot)) None) ''https://k'' ''t'' None False True
      = (Inr sample_snapshot, Some kept_text)
    \<and> load_snapshot release_crypto (offline ''e'') ''https://k'' ''t'' (Some kept_text) False True = (Inr d', Some kept_text)
    \<and> sort_keys (JObj sample_snapshot) = JObj d'"
  by (rule register_survives_outage) (simp_all add: no_cache uncaught_def sample_received sample_wf del: json_wf.simps)

section \<open>Its settings\<close>

definition sample_answer :: "string \<Rightarrow> json" where
  "sample_answer v = JObj [(''value'', JStr v)]"

definition sample_resolution :: dict where
  "sample_resolution = [(''schema'', JStr ''exocortex.register.resolution.v1''),
     (''values'', JObj [(''intervals.kernel.refresh_sec'', sample_answer ''60''), (''repositories.perimetr.url'', sample_answer ''https://h/p''),
       (''repositories.pod.url'', sample_answer ''https://h/r''), (''services.perimetr.port'', sample_answer ''8443''),
       (''services.perimetr.sni'', sample_answer ''h'')])]"

definition sample_post :: posts where
  "sample_post = (\<lambda>_ _ _. Page [] (canonical_bytes (JObj sample_resolution)) None)"

definition sample_resolved :: "(string \<times> string) list" where
  "sample_resolved = zip REGISTER_KEYS [''https://h/p'', ''https://h/r'', ''h'', ''8443'', ''60'']"

lemma sample_reply_wf: "json_wf (JObj sample_resolution)"
  by (simp add: sample_resolution_def sample_answer_def)

lemma sample_reply:
  "sort_keys (JObj sample_resolution) = JObj sample_resolution"
  "length (canonical_bytes (JObj sample_resolution)) = 281"
  by code_simp+

lemma sample_lookups: "get_or_null ''schema'' sample_resolution = JStr ''exocortex.register.resolution.v1''"
  "resolved_values (JObj sample_resolution) REGISTER_KEYS = Inr (map (\<lambda>p. (fst p, JStr (snd p))) sample_resolved)"
  by code_simp+

lemma sample_resolves: "resolve_values sample_post url token REGISTER_KEYS = Inr sample_resolved"
  using loads_canonical [OF sample_reply_wf, of "[]"] sample_reply sample_lookups
  by (simp add: resolve_values_def sample_post_def read_resolution_def limited_json_def canonical_bytes_def list_all_iff json_is_text_def
      json_text_def comp_def)

lemma sample_references: "check_references sample_values REGISTER_KEYS = Inr ()"
  by code_simp

definition sample_settings :: settings where
  "sample_settings = default_settings\<lparr>kernel_url := ''https://k'', kernel_service_token := ''t''\<rparr>"

lemma sample_configured: "\<exists>s'. register_settings (replace_resolved sample_values sample_resolved) r s = Inr s'"
proof -
  let ?v = "replace_resolved sample_values sample_resolved"
  have "required_url ?v ''repositories.perimetr.url'' = Inr ''https://h/p''" "required_url ?v ''repositories.pod.url'' = Inr ''https://h/r''"
    "required_string ?v ''services.perimetr.sni'' = Inr ''h''" "required_port ?v ''services.perimetr.port'' = Inr 8443"
    "check_sni ''h'' = Inr ()"
    by code_simp+
  moreover have "resolve_key ?v ''intervals.kernel.refresh_sec'' = JStr ''60''" "py_int ''60'' = Some 60" by code_simp+
  then have "positive_int ?v ''intervals.kernel.refresh_sec'' old 5 3600 = Inr 60" for old by (simp add: positive_int_def)
  ultimately show ?thesis using release_url by (simp add: register_settings_def lift_artifact_def)
qed

lemma sample_applies: "\<exists>s'. apply_snapshot sample_post s sample_snapshot = Inr s'"
  using sample_configured sample_references sample_resolves
  by (simp add: apply_snapshot_def sample_entries dict_or_empty_def)

lemma sample_applied:
  "\<exists>s f. apply_register release_crypto (\<lambda>_ _. Page [] (canonical_bytes (JObj sample_snapshot)) None) sample_post sample_settings None = (Inr s, f)"
proof -
  obtain kept_text d' where k: "write_cache release_crypto sample_snapshot = Inr kept_text"
    using write_cache_Inr [OF sample_verified sample_wf] by blast
  have s: "kernel_url sample_settings = ''https://k''" "kernel_service_token sample_settings = ''t''"
    by (simp_all add: sample_settings_def default_settings_def)
  have "load_snapshot release_crypto (\<lambda>_ _. Page [] (canonical_bytes (JObj sample_snapshot)) None) ''https://k'' ''t'' None False True
      = (Inr sample_snapshot, Some kept_text)"
    using k by (simp add: load_snapshot_def no_cache uncaught_def fetch_snapshot_def sample_received)
  moreover have "\<exists>s. apply_snapshot sample_post sample_settings sample_snapshot = Inr s" by (rule sample_applies)
  ultimately show ?thesis by (auto simp: apply_register_def s)
qed


section \<open>Behaviours to know\<close>

text \<open>A cache whose JSON is no object is not passed over: the exception leaves the call, and the network is not asked.\<close>

lemma cache_of_another_shape:
  "load_snapshot c net ''https://k'' ''t'' (Some ''[]'') fresh persist = (Inl (Raised ''AttributeError''), Some ''[]'')"
proof -
  have "utf8_decode ''[]'' = Some ''[]''" "loads ''[]'' = Some (JArr [])" by code_simp+
  then show ?thesis by (simp add: load_snapshot_def read_cache_def verify_snapshot_def uncaught_def)
qed

text \<open>A name with a query or a port passes, and the public address is then no origin.\<close>

lemma sni_is_no_host: "check_sni ''h?x'' = Inr ()" "public_url ''h?x'' 443 = ''https://h?x''"
  "check_sni ''h:80'' = Inr ()" "public_url ''h:80'' 443 = ''https://[h:80]''"
  by code_simp+

text \<open>A discovery address that is refused is another exception than the errors of the register.\<close>

lemma discovery_error: "\<exists>t. lift_artifact (pod_discovery_url ''https://h/r?x'') = Inl (Artifact_Error t)"
proof -
  have "pod_discovery_url ''https://h/r?x'' = Inl (Pod_Error ''repositories.pod.url must be a valid HTTPS repository URL'')" by code_simp
  then show ?thesis by (auto simp: lift_artifact_def)
qed

end
