(* ===== verification/Connection_Examples.thy ===== *)
theory Connection_Examples
  imports Connection_Safety Register_Examples Session_Examples
begin

text \<open>The operator of the demonstration points the installation to a Kernel and gives it a token.\<close>

definition demo_process :: process where
  "demo_process = \<lparr>url_override = None, token_file = None, register_cache = None, last_register = None,
     settings_cache = Some sample_settings\<rparr>"

definition demo_kernel :: kernel where
  "demo_kernel = \<lparr>own_config = sample_settings,
     kernel_net = (\<lambda>_ _ _. Page [] (canonical_bytes (JObj sample_snapshot)) None), kernel_post = (\<lambda>_. sample_post)\<rparr>"

lemma demo_register: "verify_snapshot toy_crypto = verify_snapshot release_crypto" "read_cache toy_crypto = read_cache release_crypto"
    "received_snapshot toy_crypto = received_snapshot release_crypto"
proof -
  have c: "snapshot_checksum toy_crypto = snapshot_checksum release_crypto"
    by (rule ext) (simp add: snapshot_checksum_def release_crypto_def)
  show v: "verify_snapshot toy_crypto = verify_snapshot release_crypto"
    unfolding verify_snapshot_def [abs_def] c by (rule refl)
  show "read_cache toy_crypto = read_cache release_crypto" unfolding read_cache_def [abs_def] v by (rule refl)
  show "received_snapshot toy_crypto = received_snapshot release_crypto" unfolding received_snapshot_def [abs_def] v by (rule refl)
qed

lemma demo_load: "load_snapshot toy_crypto = load_snapshot release_crypto"
  unfolding load_snapshot_def [abs_def] fetch_snapshot_def [abs_def] write_cache_def [abs_def] demo_register by (rule refl)

lemma demo_apply: "apply_register toy_crypto = apply_register release_crypto"
  unfolding apply_register_def [abs_def] demo_load by (rule refl)

lemma demo_probe:
  assumes "url \<noteq> []" and "token \<noteq> []"
  shows "\<exists>v. probe toy_crypto (kernel_net demo_kernel n) (kernel_post demo_kernel n) None url token s = Inr v"
proof -
  have "fst (load_snapshot toy_crypto (kernel_net demo_kernel n) url token None True False) = Inr sample_snapshot"
    using assms sample_received
    by (simp add: load_snapshot_def demo_register no_cache uncaught_def fetch_snapshot_def demo_kernel_def)
  then show ?thesis
    using assms(2) sample_applies [of "s\<lparr>kernel_url := url, kernel_service_token := token\<rparr>"]
    by (auto simp: probe_def demo_kernel_def split: sum.splits)
qed

lemma demo_url: "valid_url (JStr ''https://k2/'') s = Inr ''https://k2''"
proof -
  have u: "map_option (\<lambda>u. (url_port u, url_hostname u, url_username u, url_password u, url_query u, url_fragment u, url_path u, url_scheme u))
      (urlsplit ''https://k2/'') = Some (Some None, Some ''k2'', None, None, [], [], ''/'', ''https'')"
    by code_simp
  have "rstrip_by (\<lambda>x. x = CHR ''/'') ''https://k2/'' = ''https://k2''" by code_simp
  with u show ?thesis by (auto simp: valid_url_def given_def split: option.splits)
qed

lemma demo_in_step: "live w = stored w \<Longrightarrow> constraints_ok (stored w) \<Longrightarrow> in_step SETTINGS w"
  by (simp add: in_step_def constraints_ok_def)

lemma demo_kernel_row: "find kernel_row (system_settings demo_db) = None"
  by (simp add: demo_db_def kernel_row_def demo_preferences_def PREFERENCES_KEY_def KERNEL_KEY_def)

lemma demo_with_row: "constraints_ok (insert_row SETTINGS \<lparr>ss_id = CHR ''i'' # CHR ''d'' # n, ss_scope = a, ss_key = KERNEL_KEY, ss_value = v, ss_created_at = t\<rparr> demo_db)"
    "audit_events (insert_row SETTINGS r demo_db) = []"
  using demo_constraints
  by (simp_all add: constraints_ok_def keys_ok_def foreign_ok_def refs_ok_def insert_row_def demo_db_def empty_db_def SETTINGS_def
      demo_preferences_def PREFERENCES_KEY_def KERNEL_KEY_def)

lemma demo_saves:
  assumes "ask ''https://k2'' ''t'' = Inr v"
  shows "\<exists>u w'. kernel_save demo_env ask sample_settings [(''url'', JStr ''https://k2/'')] ((world_of demo_db)\<lparr>draws := 1\<rparr>) = (Inr u, w')"
proof -
  have i: "uuid4_hex demo_env n = ''id'' @ str_nat n" for n by (simp add: demo_env_def)
  have t: "kernel_service_token sample_settings = ''t''" by (simp add: sample_settings_def)
  have p: "get_or_null ''url'' [(''url'', JStr ''https://k2/'')] = JStr ''https://k2/''" by (simp add: get_or_null_def get_key_def)
  have f: "wp (db_scalar SETTINGS kernel_row) Q X w = Q None w" if "live w = demo_db" "stored w = demo_db" for Q X w
    using that demo_constraints settings_table.wp_db_scalar_synced [OF demo_in_step, of w kernel_row Q X] demo_kernel_row
    by (simp add: SETTINGS_def)
  have a: "wp (apply_connection demo_env sample_settings False) (\<lambda>_ _. True) (\<lambda>_ _. False) w"
    if "find kernel_row (system_settings (stored w)) \<noteq> None" for w
    using that by (auto simp: apply_connection_def wp_core wp_def db_scalar_def letM_def seqM_def SETTINGS_def whenM_def ret_def)
  have g: "find kernel_row (system_settings (insert_row SETTINGS \<lparr>ss_id = n, ss_scope = b, ss_key = KERNEL_KEY, ss_value = x, ss_created_at = c\<rparr> demo_db)) \<noteq> None"
    for n b x c by (simp add: insert_row_def SETTINGS_def find_append demo_kernel_row kernel_row_def)
  have "wp (kernel_save demo_env ask sample_settings [(''url'', JStr ''https://k2/'')]) (\<lambda>_ _. True) (\<lambda>_ _. False) ((world_of demo_db)\<lparr>draws := 1\<rparr>)"
    by (auto simp: kernel_save_def wp_core p demo_url t assms f put_row_def add_kernel_row_def i demo_with_row audited_def Let_def
        intro!: wp_first_audit a) (use g in auto)
  from wp_runs [OF this] show ?thesis by auto
qed



section \<open>The token\<close>

definition demo_token :: dict where
  "demo_token = [(''current_key'', JStr ''key''), (''token'', JStr ''new'')]"

lemma demo_rotates_token:
  assumes "ask ''https://k'' ''new'' = Inr v"
  shows "\<exists>w'. kernel_rotate demo_env ask sample_settings demo_request demo_token ((world_of demo_db)\<lparr>draws := 1\<rparr>) = (Inr ''new'', w')"
proof -
  have s: "set (map fst demo_token) = {''current_key'', ''token''}" "fst ` set demo_token = {''current_key'', ''token''}"
    by (auto simp: demo_token_def)
  have p: "get_or_null ''current_key'' demo_token = JStr ''key''" "get_or_null ''token'' demo_token = JStr ''new''"
    "list_all (\<lambda>p. json_is_text (snd p)) demo_token"
    by (simp_all add: demo_token_def get_or_null_def get_key_def json_is_text_def)
  have c: "transport_char CHR ''n''" "transport_char CHR ''e''" "transport_char CHR ''w''" "json_text (JStr x) = x" for x
    by (simp_all add: transport_char_def json_text_def)
  have e: "wp (ensure_preferences demo_env) Q X w = Q demo_preferences w" if "live w = demo_db" "stored w = demo_db" for Q X w
    using demo_ensure [OF that] by (simp add: wp_def)
  have h: "json_text (get_or_null ''access_key_hash'' (dict_or_empty (get_or_null ''auth'' (row_value demo_preferences)))) = demo_verifier"
    by (simp add: demo_preferences_def row_value_def dict_or_empty_def get_or_null_def normal_auth json_text_def json_simps)
  have k: "kernel_url sample_settings = ''https://k''" by (simp add: sample_settings_def)
  have "wp (kernel_rotate demo_env ask sample_settings demo_request demo_token) (\<lambda>t _. t = ''new'') (\<lambda>_ _. False) ((world_of demo_db)\<lparr>draws := 1\<rparr>)"
    by (simp add: kernel_rotate_def s p c wp_core e h k assms Let_def wp_limiter_check wp_limiter_success fresh_check demo_crypt demo_hash)
  from wp_runs [OF this] show ?thesis by auto
qed

theorem kernel_token_rotation_witness:
  "\<exists>r P' w' s. \<exists>P1 :: process. rotate_connection demo_env demo_kernel demo_request demo_token (demo_process, world_of demo_db) = (r, P', w')
    \<and> token_file P' = Some ''new'' \<and> verify_password toy_crypto ''key'' demo_verifier
    \<and> kernel_answers toy_crypto (kernel_net demo_kernel 1) (kernel_post demo_kernel 1) (register_cache P1) (kernel_url s) ''new'' s"
proof -
  let ?w = "world_of demo_db"
  obtain v where v: "probe toy_crypto (kernel_net demo_kernel 1) (kernel_post demo_kernel 1) None ''https://k'' ''new'' sample_settings = Inr v"
    using demo_probe [of "''https://k''" "''new''"] by auto
  obtain w2 where "kernel_rotate demo_env (\<lambda>url token. probe (crypt demo_env) (kernel_net demo_kernel 1) (kernel_post demo_kernel 1)
      (register_cache demo_process) url token sample_settings) sample_settings demo_request demo_token (?w\<lparr>draws := 1\<rparr>) = (Inr ''new'', w2)"
    using demo_rotates_token [of "\<lambda>url token. probe (crypt demo_env) (kernel_net demo_kernel 1) (kernel_post demo_kernel 1)
      (register_cache demo_process) url token sample_settings"] v by (auto simp: demo_crypt demo_process_def)
  from rotate_connection_runs [OF idle_world_of demo_require _ this] obtain r P' w' where
    run: "rotate_connection demo_env demo_kernel demo_request demo_token (demo_process, ?w) = (r, P', w')"
    and u: "token_file P' = Some ''new''" by (auto simp: demo_process_def)
  have d: "token_file P' \<noteq> token_file demo_process" using u by (simp add: demo_process_def)
  have c: "constraints_ok (committed ?w)" "is_password_hash (verifier_of (preferences_of (committed ?w)))"
    by (simp_all add: demo_constraints demo_preferences_of demo_verifier_of demo_hash)
  from kernel_token_rotation [OF sane_demo idle_world_of c run] d obtain s token and P1 :: process where
    "verify_password (crypt demo_env) (json_text (get_or_null ''current_key'' demo_token)) (verifier_of (preferences_of (committed ?w)))"
    and k: "kernel_answers (crypt demo_env) (kernel_net demo_kernel 1) (kernel_post demo_kernel 1) (register_cache P1) (kernel_url s) token s"
    and t: "token_file P' = Some token" by blast
  then have "verify_password toy_crypto ''key'' demo_verifier"
    by (simp add: demo_crypt demo_token_def get_or_null_def get_key_def json_text_def demo_preferences_of demo_verifier_of)
  with run k t u show ?thesis unfolding demo_crypt by auto
qed

section \<open>An outage\<close>

definition quiet_process :: process where
  "quiet_process = demo_process\<lparr>settings_cache := None\<rparr>"


end
