(* ===== verification/Logs_Safety.thy ===== *)
theory Logs_Safety
  imports Logs_Api Pod_Access_Safety
begin

text \<open>
  The pages of the audit trail, followed by their cursors, are the whole trail; a trimmed log file is the longest end of it
  that fits; and the one thing that makes the export fail.
\<close>

section \<open>Cursors\<close>

text \<open>Events with identifiers and times as the program makes them.\<close>

definition event_ok :: "audit_event \<Rightarrow> bool" where
  "event_ok e \<longleftrightarrow> length (ev_id e) = 32
     \<and> (let (y, m, d) = civil (ev_created_at e div DAY) in 1 \<le> y \<and> y \<le> 9999)"

lemma position_cursor:
  assumes "event_ok e"
  shows "position (cursor e) = Inr (event_key e)"
proof -
  let ?v = "JArr [JStr (isoformat (ev_created_at e)), JStr (ev_id e)]"
  have l: "loads (render '', '' '': '' False ?v) = Some ?v" by (rule loads_render) (simp_all add: seps_def)
  have a: "is_ascii (render '', '' '': '' False ?v)" by (simp add: is_ascii_append is_ascii_Cons is_ascii_dumps_str)
  obtain y m d where c: "civil (ev_created_at e div DAY) = (y, m, d)" by (metis prod_cases3)
  then have "fromisoformat (isoformat (ev_created_at e)) = Some (ev_created_at e, Some 0)"
    using assms by (intro fromisoformat_isoformat [OF c]) (simp_all add: event_ok_def)
  moreover have "length (ev_id e) = 32" using assms by (simp add: event_ok_def)
  ultimately show ?thesis
    unfolding cursor_def position_def by (simp only: b64_round_trips utf8_decode_ascii [OF a] bind.simps l)
      (simp add: unpack_two_def event_key_def in_utc_def)
qed

lemma position_empty: "position [] = Inl invalid_cursor"
  by code_simp

section \<open>The order of the trail\<close>

lemma insort_lex:
  assumes "sorted_wrt (\<lambda>a b. f a < f b \<or> f a = f b \<and> g a \<le> g b) zs" and "\<forall>z \<in> set zs. g y \<le> g z"
  shows "sorted_wrt (\<lambda>a b. f a < f b \<or> f a = f b \<and> g a \<le> g b) (insort_key (f :: _ \<Rightarrow> 'a :: linorder) y zs)"
  using assms by (induction zs) (auto simp: set_insort_key dest: le_neq_trans)

lemma sort_lex:
  assumes "sorted (map (g :: _ \<Rightarrow> 'b :: linorder) ys)"
  shows "sorted_wrt (\<lambda>a b. f a < f b \<or> f a = f b \<and> g a \<le> g b) (sort_key (f :: _ \<Rightarrow> 'a :: linorder) ys)"
  using assms by (induction ys) (auto intro!: insort_lex)

definition later :: "audit_event \<Rightarrow> audit_event \<Rightarrow> bool" where
  "later a b \<longleftrightarrow> key_less (event_key b) (event_key a)"

lemma newest_first_strict:
  assumes "distinct (map ev_id es)"
  shows "sorted_wrt later (newest_first es)"
proof -
  let ?xs = "sort_key ev_created_at (sort_key ev_id es)"
  have d: "distinct (map ev_id ?xs)" using assms by (simp add: distinct_map)
  have "sorted_wrt (\<lambda>a b. ev_created_at a < ev_created_at b \<or> ev_created_at a = ev_created_at b \<and> ev_id a \<le> ev_id b) ?xs"
    by (rule sort_lex) simp
  then have "sorted_wrt (\<lambda>a b. later b a) ?xs"
    using d unfolding sorted_wrt_iff_nth_less
    by (auto simp: later_def key_less_def event_key_def distinct_conv_nth le_less)
  then show ?thesis by (simp add: newest_first_def sorted_wrt_rev)
qed

lemma newest_first_filter: "newest_first (filter P es) = filter P (newest_first es)"
  by (simp add: newest_first_def filter_sort rev_filter [symmetric])

lemma key_less_asym: "key_less a b \<Longrightarrow> \<not> key_less b a"
  by (auto simp: key_less_def)

lemma after_cursor:
  assumes "newest_first es = xs @ x # ys" and "distinct (map ev_id es)"
  shows "newest_first (filter (\<lambda>e. key_less (event_key e) (event_key x)) es) = ys"
proof -
  have s: "sorted_wrt later (xs @ x # ys)" using newest_first_strict [OF assms(2)] assms(1) by simp
  have "\<forall>a \<in> set xs. later a x" "\<forall>a \<in> set ys. later x a" using s by (simp_all add: sorted_wrt_append)
  then have "\<forall>a \<in> set xs. \<not> key_less (event_key a) (event_key x)" "\<forall>a \<in> set ys. key_less (event_key a) (event_key x)"
    using key_less_asym unfolding later_def by blast+
  then have "filter (\<lambda>e. key_less (event_key e) (event_key x)) xs = []" "filter (\<lambda>e. key_less (event_key e) (event_key x)) ys = ys"
    by (simp_all add: filter_empty_conv filter_id_conv)
  moreover have "\<not> key_less (event_key x) (event_key x)" by (simp add: key_less_def)
  ultimately show ?thesis by (simp add: newest_first_filter assms(1))
qed

section \<open>Walking back\<close>

text \<open>The pages from the newest one on, each asked for with the cursor of the one before.\<close>

fun walk_back :: "nat \<Rightarrow> nat \<Rightarrow> string option \<Rightarrow> world \<Rightarrow> audit_event list option" where
  "walk_back 0 limit before w = None"
| "walk_back (Suc n) limit before w =
     (case log_page_of limit before None w of
        (Inr p, w') \<Rightarrow> if page_more p then map_option (\<lambda>rest. page_events p @ rest) (walk_back n limit (page_older p) w')
          else Some (page_events p)
      | _ \<Rightarrow> None)"

lemma page_back:
  assumes "synced w" and "bound key_less before = Inr P" and "newest_first (filter P (audit_events (stored w))) = rest"
  shows "log_page_of limit before None w = (Inr \<lparr>page_events = take limit rest, page_more = limit < length rest,
    page_older = (if take limit rest = [] then before else Some (cursor (last (take limit rest)))),
    page_live = (if take limit rest = [] then None else Some (cursor (hd (take limit rest))))\<rparr>, w)"
proof -
  have q: "db_all EVENTS (\<lambda>e. P e \<and> True) w = (Inr (filter P (audit_events (stored w))), w)"
    using events_table.db_all_synced [OF synced_in_step [OF assms(1)], of P] by (simp add: EVENTS_def)
  have "bound (\<lambda>a b. key_less b a) None = Inr (\<lambda>e. True)" by (simp add: bound_def)
  then show ?thesis
    using assms(2) q
    by (simp add: log_page_of_def some_text_def letM_def seqM_def raise_if_def ret_def liftM_def Let_def assms(3) min_def del: simp_thms(21))
      (auto simp: min_def)
qed

lemma walk_back_from:
  assumes "synced w" and ok: "\<forall>e \<in> set (audit_events (stored w)). event_ok e" and "0 < limit" and "length rest < n"
    and "newest_first (audit_events (stored w)) = shown @ rest"
    and "before = (if shown = [] then None else Some (cursor (last shown)))"
  shows "walk_back n limit before w = Some rest"
  using assms(4-6)
proof (induction n arbitrary: shown rest before)
  case (Suc n)
  let ?es = "audit_events (stored w)"
  have d: "distinct (map ev_id ?es)" using assms(1) by (simp add: synced_def constraints_ok_def keys_ok_def)
  have "\<exists>P. bound key_less before = Inr P \<and> newest_first (filter P ?es) = rest"
  proof (cases "shown = []")
    case True
    with Suc.prems show ?thesis by (simp add: bound_def)
  next
    case False
    then have split: "newest_first ?es = butlast shown @ last shown # rest" using Suc.prems by simp
    then have "last shown \<in> set (newest_first ?es)" by simp
    then have "last shown \<in> set ?es" using mset_newest_first [of ?es] by (metis set_mset_mset)
    then have "position (cursor (last shown)) = Inr (event_key (last shown))" using ok position_cursor by blast
    moreover from this have "cursor (last shown) \<noteq> []" by (auto simp: position_empty)
    ultimately show ?thesis
      using False Suc.prems after_cursor [OF split d] by (simp add: bound_def)
  qed
  then obtain P where P: "bound key_less before = Inr P" "newest_first (filter P ?es) = rest" by blast
  note page = page_back [OF assms(1) P, of limit]
  show ?case
  proof (cases "limit < length rest")
    case True
    then have ne: "take limit rest \<noteq> []" using assms(3) by auto
    have "walk_back n limit (Some (cursor (last (take limit rest)))) w = Some (drop limit rest)"
      by (rule Suc.IH [of _ "shown @ take limit rest"]) (use True Suc.prems assms(3) ne in auto)
    then show ?thesis using True ne page by simp
  next
    case False
    then show ?thesis using page by simp
  qed
qed simp

text \<open>C33. Following the cursor for older entries from the newest page, with any limit, gives every event of the trail exactly once, the
  newest first, and comes to an end.\<close>

theorem pages_cover_the_trail:
  assumes "synced w" and "\<forall>e \<in> set (audit_events (stored w)). event_ok e" and "0 < limit"
  shows "walk_back (Suc (length (audit_events (stored w)))) limit None w = Some (newest_first (audit_events (stored w)))"
  using mset_newest_first [of "audit_events (stored w)"] assms
  by (intro walk_back_from [where shown = "[]"]) (auto dest: mset_eq_length)

section \<open>Trimmed files\<close>

definition fits :: "int \<Rightarrow> int \<Rightarrow> string list \<Rightarrow> bool" where
  "fits max_lines max_bytes ls \<longleftrightarrow> int (length ls) \<le> max_lines \<and> bytes_of ls \<le> max_bytes"

lemma bytes_of_append: "bytes_of (a @ b) = bytes_of a + bytes_of b"
  by (simp add: bytes_of_def)

lemma bytes_of_nonneg: "0 \<le> bytes_of ls"
  by (induction ls) (simp_all add: bytes_of_def)

lemma fits_suffix: "fits m b (xs @ ys) \<Longrightarrow> fits m b ys"
  using bytes_of_nonneg [of xs] by (auto simp: fits_def bytes_of_append)

text \<open>The longest end of a list that fits.\<close>

fun longest_fit :: "int \<Rightarrow> int \<Rightarrow> string list \<Rightarrow> string list" where
  "longest_fit m b [] = []"
| "longest_fit m b (l # ls) = (if fits m b (l # ls) then l # ls else longest_fit m b ls)"

lemma longest_fit_spec:
  assumes "0 \<le> m" and "0 \<le> b"
  shows "\<exists>ds. ls = ds @ longest_fit m b ls" "fits m b (longest_fit m b ls)"
    "ls = xs @ ys \<Longrightarrow> fits m b ys \<Longrightarrow> length ys \<le> length (longest_fit m b ls)"
proof -
  show "\<exists>ds. ls = ds @ longest_fit m b ls" by (induction ls) (auto intro: exI [of _ "_ # _"])
  show "fits m b (longest_fit m b ls)" using assms by (induction ls) (auto simp: fits_def bytes_of_def)
  show "ls = xs @ ys \<Longrightarrow> fits m b ys \<Longrightarrow> length ys \<le> length (longest_fit m b ls)"
    by (induction ls arbitrary: xs) (auto simp: Cons_eq_append_conv)
qed

lemma drop_oldest_fit: "0 \<le> m \<Longrightarrow> 0 \<le> b \<Longrightarrow> drop_oldest m b ls = Some (longest_fit m b ls)"
  by (induction ls) (auto simp: fits_def not_le)

lemma longest_fit_append: "longest_fit m b (longest_fit m b ls @ [l]) = longest_fit m b (ls @ [l])"
proof (induction ls)
  case (Cons x ls)
  have "\<not> fits m b (x # ls @ [l])" if "\<not> fits m b (x # ls)"
    using that by (auto simp: fits_def bytes_of_def)
  with Cons show ?case by auto
qed simp

lemma retain_lines_fit:
  assumes "0 \<le> m" and "0 \<le> b"
  shows "retain_lines m b (longest_fit m b ds) ls = Some (longest_fit m b (ds @ filter (\<lambda>l. int (length l) \<le> b) ls))"
proof (induction ls arbitrary: ds)
  case (Cons l ls)
  show ?case
    using Cons.IH [of ds] Cons.IH [of "ds @ [l]"] by (simp add: drop_oldest_fit [OF assms] longest_fit_append)
qed simp

lemma file_lines_concat: "concat (file_lines acc s) = rev acc @ s"
  by (induction acc s rule: file_lines.induct) simp_all


lemma unlink_logs_bound:
  assumes "0 \<le> limit"
  shows "log_bytes (unlink_logs cutoff limit (log_bytes fs + k) fs) + k \<le> limit \<or> unlink_logs cutoff limit (log_bytes fs + k) fs = []"
  using assms
proof (induction fs arbitrary: k)
  case (Cons f fs)
  let ?n = "int (length (log_content f))"
  show ?case
  proof (cases "log_mtime f < cutoff \<or> limit < log_bytes (f # fs) + k")
    case True
    then show ?thesis using Cons.IH [OF Cons.prems, of k] by (simp add: log_bytes_def)
  next
    case False
    have "log_bytes (unlink_logs c limit t gs) \<le> log_bytes gs" for c t gs
      by (induction c limit t gs rule: unlink_logs.induct) (auto simp: log_bytes_def)
    from this [of cutoff "log_bytes (f # fs) + k" fs] False show ?thesis by (auto simp: log_bytes_def)
  qed
qed simp

section \<open>The export\<close>

lemma export_all: "\<forall>e \<in> set es. \<exists>d. ev_result e = JObj d \<Longrightarrow> export_lines False es = Inr (map event_line es)"
  by (induction es) (auto simp: event_outcome_def)

definition odd_outcome :: "audit_event \<Rightarrow> bool" where
  "odd_outcome e \<longleftrightarrow> (case event_outcome (ev_result e) of Inr (JArr xs) \<Rightarrow> True | Inr (JObj d) \<Rightarrow> True | _ \<Rightarrow> False)"

lemma failing_odd:
  assumes "ev_result e = JObj d"
  shows "\<exists>v. event_outcome (ev_result e) = Inr v \<and> (if odd_outcome e then failing v = Inl (Crash ''TypeError'') else \<exists>b. failing v = Inr b)"
proof -
  obtain v where "event_outcome (ev_result e) = Inr v" using assms by (cases "d = []") (auto simp: event_outcome_def)
  then show ?thesis by (cases v) (auto simp: odd_outcome_def failing_def)
qed

lemma export_errors:
  assumes "\<forall>e \<in> set es. \<exists>d. ev_result e = JObj d"
  shows "if \<exists>e \<in> set es. odd_outcome e then export_lines True es = Inl (Crash ''TypeError'') else \<exists>ls. export_lines True es = Inr ls"
  using assms
proof (induction es)
  case (Cons e es)
  then obtain d where "ev_result e = JObj d" by auto
  from failing_odd [OF this] obtain v where v: "event_outcome (ev_result e) = Inr v"
    "if odd_outcome e then failing v = Inl (Crash ''TypeError'') else \<exists>b. failing v = Inr b" by blast
  have "if \<exists>e \<in> set es. odd_outcome e then export_lines True es = Inl (Crash ''TypeError'') else \<exists>ls. export_lines True es = Inr ls"
    using Cons by simp
  with v show ?case by (auto simp: try_bind_def split: if_splits)
qed simp

text \<open>C35. The export of the logs fails exactly when the trail has an event whose outcome is a list or an object, which is what the
  endpoint for events of the interface accepts; otherwise it has a line for every event.\<close>

theorem export_fails_on_containers:
  assumes "synced w" and "\<forall>e \<in> set (audit_events (stored w)). \<exists>d. ev_result e = JObj d"
  shows "if \<exists>e \<in> set (audit_events (stored w)). odd_outcome e
    then fst (download_logs E w) = Inl (Crash ''TypeError'')
    else \<exists>members. fst (download_logs E w) = Inr members
      \<and> hd members = (''audit-events.jsonl'', concat (map event_line (rev (newest_first (audit_events (stored w))))))"
proof -
  let ?es = "audit_events (stored w)"
  have q: "db_all EVENTS (\<lambda>e. True) w = (Inr ?es, w)"
    using events_table.db_all_synced [OF synced_in_step [OF assms(1)], of "\<lambda>e. True"] by (simp add: EVENTS_def)
  have m: "set (newest_first ?es) = set ?es" using mset_newest_first [of ?es] by (metis set_mset_mset)
  have d: "\<forall>e \<in> set (rev (newest_first ?es)). \<exists>d. ev_result e = JObj d" using assms(2) m by simp
  note run = download_logs_def letM_def q liftM_def ret_def raiseM_def Let_def now_utc_def draw_def export_all [OF d]
  show ?thesis
  proof (cases "\<exists>e \<in> set ?es. odd_outcome e")
    case True
    then have "export_lines True (rev (newest_first ?es)) = Inl (Crash ''TypeError'')"
      using export_errors [OF d] by (simp add: m)
    with True show ?thesis by (simp add: run)
  next
    case False
    then obtain ls where "export_lines True (rev (newest_first ?es)) = Inr ls"
      using export_errors [OF d] by (auto simp: m)
    with False show ?thesis by (simp add: run)
  qed
qed

section \<open>The directory\<close>

text \<open>After an event was written the log files together are within their limit.\<close>

lemma log_directory_bounded:
  assumes "0 \<le> perimetr_logs_max_total_bytes s"
  shows "log_bytes (filter is_log (write_audit_log s now e dir)) \<le> perimetr_logs_max_total_bytes s"
proof -
  have sub: "filter is_log (unlink_logs c l t (by_age (filter is_log d))) = unlink_logs c l t (by_age (filter is_log d))" for c l t d
  proof -
    have "set (unlink_logs c l t gs) \<subseteq> set gs" for gs by (induction c l t gs rule: unlink_logs.induct) auto
    from this [of "by_age (filter is_log d)"] show ?thesis by (auto simp: filter_id_conv by_age_def)
  qed
  have "log_bytes (filter is_log (trim_log_directory now r (perimetr_logs_max_total_bytes s) d)) \<le> perimetr_logs_max_total_bytes s" for r d
  proof -
    let ?gs = "by_age (filter is_log d)"
    let ?kept = "unlink_logs (now - days (max r 1)) (perimetr_logs_max_total_bytes s) (log_bytes ?gs) ?gs"
    have "log_bytes ?kept \<le> perimetr_logs_max_total_bytes s \<or> ?kept = []"
      using unlink_logs_bound [OF assms, of "now - days (max r 1)" ?gs 0] by simp
    then have "log_bytes ?kept \<le> perimetr_logs_max_total_bytes s" using assms by (auto simp: log_bytes_def)
    then show ?thesis by (simp add: trim_log_directory_def Let_def sub)
  qed
  then show ?thesis by (simp add: write_audit_log_def Let_def)
qed

end
