(* ===== verification/Logs_Examples.thy ===== *)
theory Logs_Examples
  imports Logs_Safety Session_Examples
begin

text \<open>A trail of two events, one of them with an outcome that breaks the export.\<close>

definition sample_event :: "char \<Rightarrow> int \<Rightarrow> json \<Rightarrow> audit_event" where
  "sample_event c t outcome = \<lparr>ev_id = replicate 32 c, ev_actor_type = ''operator'', ev_actor_id = ''core'', ev_action = ''a'',
     ev_target_type = ''ui'', ev_target_id = ''perimetr'', ev_payload = JObj [], ev_result = JObj [(''outcome'', outcome)],
     ev_created_at = t\<rparr>"

definition first_event :: audit_event where "first_event = sample_event CHR ''a'' 1000000 (JStr ''success'')"
definition second_event :: audit_event where "second_event = sample_event CHR ''b'' 2000000 (JArr [])"

definition trail_db :: db where
  "trail_db = empty_db\<lparr>audit_events := [first_event, second_event]\<rparr>"

lemma trail_synced: "synced (world_of trail_db)"
  by (simp add: synced_def constraints_ok_def keys_ok_def foreign_ok_def refs_ok_def trail_db_def empty_db_def first_event_def
      second_event_def sample_event_def)

lemma trail_events: "audit_events (stored (world_of trail_db)) = [first_event, second_event]"
  by (simp add: trail_db_def)

lemma trail_ok: "event_ok first_event" "event_ok second_event"
  by code_simp+

lemma trail_order: "newest_first [first_event, second_event] = [second_event, first_event]"
  by (simp add: newest_first_def first_event_def second_event_def sample_event_def)

theorem pages_cover_the_trail_witness:
  "walk_back 3 1 None (world_of trail_db) = Some [second_event, first_event]"
  using pages_cover_the_trail [OF trail_synced, of 1]
  unfolding trail_events trail_order by (simp add: trail_ok numeral_3_eq_3)

text \<open>Of three lines two are small enough, and one may be kept.\<close>

definition sample_log :: string where
  "sample_log = [CHR ''a'', CHR 0x0a] @ [CHR ''b'', CHR 0x0a] @ [CHR ''c'', CHR ''c'', CHR ''c'', CHR 0x0a]"

lemma sample_log_lines: "longest_fit 1 3 (filter (\<lambda>l. length l \<le> 3) (file_lines [] sample_log)) = [[CHR ''b'', CHR 0x0a]]"
  by (simp add: sample_log_def fits_def bytes_of_def)


lemma odd_second: "odd_outcome second_event"
  by code_simp

theorem export_fails_on_containers_witness:
  "fst (download_logs demo_env (world_of trail_db)) = Inl (Crash ''TypeError'')"
proof -
  have "\<forall>e \<in> set (audit_events (stored (world_of trail_db))). \<exists>d. ev_result e = JObj d"
    unfolding trail_events by (simp add: first_event_def second_event_def sample_event_def)
  note export = export_fails_on_containers [OF trail_synced this, of demo_env]
  have "\<exists>e \<in> set (audit_events (stored (world_of trail_db))). odd_outcome e"
    unfolding trail_events by (simp add: odd_second)
  with export show ?thesis by (simp only: if_True)
qed

text \<open>The endpoint for events of the interface records such an event.\<close>

lemma records_odd_outcome: "\<exists>out w'. serve (record_ui demo_env [(''result'', JObj [(''outcome'', JArr [])])]) (world_of empty_db) = (Inr out, w')"
proof -
  have "constraints_ok empty_db" by (simp add: constraints_ok_def keys_ok_def foreign_ok_def refs_ok_def empty_db_def)
  then have "wp (record_ui demo_env [(''result'', JObj [(''outcome'', JArr [])])]) (\<lambda>_ _. True) (\<lambda>_ _. False) (world_of empty_db)"
    by (auto simp: record_ui_def wp_core get_key_def Let_def audited_def empty_db_def intro!: wp_first_audit)
  from wp_runs [OF this] show ?thesis by (auto simp: serve_idle idle_world_of)
qed

end
