(* ===== verification/Operations_Safety.thy ===== *)
theory Operations_Safety
  imports Operations_Api Pod_Access_Safety
begin

text \<open>
  What a receipt is good for: the one that was issued with a backup is accepted with it until it expires, and an update is
  ordered from the Updater only with a backup that the operator has returned under such a receipt.
\<close>

section \<open>The text of a receipt\<close>

lemma url_encode_chars: "c \<in> set (url_encode b) \<Longrightarrow> url64_char c"
proof -
  have "set (rstrip_by p s) \<subseteq> set s" for p and s :: string
    by (auto simp: rstrip_by_def dest: set_dropWhileD)
  then have "set (url_encode b) \<subseteq> set (urlsafe_b64encode b)"
    by (simp add: url_encode_def rstrip_pad_def [abs_def] rstrip_by_def)
  then show "c \<in> set (url_encode b) \<Longrightarrow> ?thesis" using url64_b64encode by blast
qed

lemma url_encode_text [simp]: "CHR ''.'' \<notin> set (url_encode b)" "is_ascii (url_encode b)"
proof -
  have "\<not> url64_char CHR ''.''"
    by (simp add: url64_char_def is_alnum_def is_alpha_def is_upper_def is_lower_def is_digit_def)
  then show "CHR ''.'' \<notin> set (url_encode b)" using url_encode_chars by blast
  have "code c < 128" if "url64_char c" for c
    using that by (auto simp: url64_char_def is_alnum_def is_alpha_def is_upper_def is_lower_def is_digit_def)
  then show "is_ascii (url_encode b)" using url_encode_chars unfolding is_ascii_def list_all_iff by blast
qed

lemma split_receipt: "split_on CHR ''.'' (utf8 (url_encode a @ ''.'' @ url_encode b)) = [url_encode a, url_encode b]"
proof -
  have "is_ascii (url_encode a @ ''.'' @ url_encode b)" by (simp add: is_ascii_Cons)
  then have "utf8 (url_encode a @ ''.'' @ url_encode b) = join ''.'' [url_encode a, url_encode b]" by (simp add: utf8_ascii)
  then show ?thesis using split_on_join [of "[url_encode a, url_encode b]" "CHR ''.''"] by simp
qed

lemma is_ascii_plain_render:
  assumes "\<forall>p \<in> set d. plain_value (snd p)"
  shows "is_ascii (render '','' '':'' False (JObj d))"
proof -
  have "is_ascii (render '','' '':'' False v)" if "plain_value v" for v
    using that by (cases v) (simp_all add: plain_value_def is_ascii_str_int is_ascii_dumps_str)
  then have "is_ascii (render '','' '':'' False (snd p))" if "p \<in> set d" for p using assms that by blast
  then show ?thesis
    by (force simp: Let_def comp_def is_ascii_Cons is_ascii_dumps_str intro!: is_ascii_join)
qed

lemma receipt_payload_text:
  assumes "\<forall>p \<in> set d. plain_value (snd p)" and "distinct (map fst d)"
  shows "receipt_payload (url_encode (render '','' '':'' False (JObj d))) = Some (JObj d)"
proof -
  let ?t = "render '','' '':'' False (JObj d)"
  let ?padded = "url_encode ?t @ replicate ((4 - length (url_encode ?t) mod 4) mod 4) pad"
  have "json_wf (snd p)" if "p \<in> set d" for p
    using assms(1) that by (cases "snd p") (auto simp: plain_value_def)
  then have "json_wf (JObj d)" using assms(2) by simp
  then have l: "loads ?t = Some (JObj d)" by (intro loads_render) (simp_all add: seps_def)
  have "is_ascii (replicate n pad)" for n by (induction n) (simp_all add: is_ascii_Cons pad_def)
  then have "is_ascii ?padded" by simp
  with url_decode_encode [of ?t] have "a2b True False 0 0 0 False ?padded = Some ?t"
    by (simp add: url_decode_def urlsafe_b64decode_def del: render.simps)
  with l show ?thesis
    by (simp add: receipt_payload_def utf8_decode_ascii is_ascii_plain_render [OF assms(1)] del: render.simps)
qed

lemma receipt_fields_plain:
  "\<forall>p \<in> set (receipt_fields E data filename i v t). plain_value (snd p)" "distinct (map fst (receipt_fields E data filename i v t))"
  by (simp_all add: receipt_fields_def plain_value_def)

lemma receipt_Inr:
  assumes "receipt E data filename i v w = (Inr token, w')"
  shows "updater_control_token (cfg E) \<noteq> []
    \<and> (let encoded = url_encode (render '','' '':'' False (JObj (receipt_fields E data filename i v (clock E (draws w)))))
       in token = encoded @ ''.'' @ receipt_mac E encoded)"
  using assms by (auto simp: receipt_def seqM_def letM_def raise_if_def raiseM_def ret_def now_utc_def draw_def Let_def split: if_splits)

lemma fields_match_own:
  assumes "t1 < (t div SECOND + 900) * SECOND" and "t \<le> t2"
  shows "fields_match E data i v t1 t2 (receipt_fields E data filename i v t)"
proof -
  have s: "(0::rat) < of_int SECOND" by (simp add: SECOND_def)
  have "(of_int t1 :: rat) < of_int ((t div SECOND + 900) * SECOND)" using assms(1) by (simp only: of_int_less_iff)
  then have l: "of_int t1 / of_int SECOND < (of_int (t div SECOND + 900) :: rat)"
    using s by (simp only: pos_divide_less_eq of_int_mult)
  have "t div SECOND * SECOND \<le> t" by (simp add: SECOND_def)
  then have "(of_int (t div SECOND * SECOND) :: rat) \<le> of_int t2" using assms(2) by (simp only: of_int_le_iff)
  then have "(of_int (t div SECOND) :: rat) \<le> of_int t2 / of_int SECOND"
    using s by (simp only: pos_le_divide_eq of_int_mult)
  then have "(of_int (t div SECOND + 900) :: rat) \<le> of_int t2 / of_int SECOND + 901" by simp
  with l show ?thesis
    by (simp add: fields_match_def receipt_fields_def get_key_def number_value_def)
qed

lemma receipt_verifies:
  assumes "receipt E data filename request_id version w = (Inr token, w')"
    and "t1 < (clock E (draws w) div SECOND + 900) * SECOND" and "clock E (draws w) \<le> t2"
  shows "verify_receipt E token data request_id version t1 t2
    = Inr (receipt_fields E data filename request_id version (clock E (draws w)))"
  using receipt_Inr [OF assms(1)] fields_match_own [OF assms(2,3)]
  by (auto simp: verify_receipt_def Let_def receipt_mac_def split_receipt receipt_payload_text receipt_fields_plain
      simp del: render.simps append_Cons)

text \<open>C24. The receipt that was issued with a backup is accepted with the same bytes, request and version until it expires, at most 900
  seconds after it was issued.\<close>

theorem receipt_accepted_with_its_backup:
  assumes "receipt E data filename request_id version w = (Inr token, w')"
    and "t1 < (clock E (draws w) div SECOND + 900) * SECOND" and "clock E (draws w) \<le> t2"
  shows "verify_receipt E token data request_id version t1 t2
    = Inr (receipt_fields E data filename request_id version (clock E (draws w)))"
  by (rule receipt_verifies [OF assms])

section \<open>What an accepted receipt says\<close>

lemma verify_receipt_Inr:
  assumes "verify_receipt E token data i v t1 t2 = Inr d"
  shows "updater_control_token (cfg E) \<noteq> [] \<and> fields_match E data i v t1 t2 d
    \<and> (\<exists>encoded. utf8 token = encoded @ ''.'' @ receipt_mac E encoded \<and> receipt_payload encoded = Some (JObj d))"
proof -
  obtain encoded signed where s: "split_on CHR ''.'' (utf8 token) = [encoded, signed]"
    and "receipt_payload encoded = Some (JObj d)" "signed = receipt_mac E encoded"
    and "updater_control_token (cfg E) \<noteq> []" "fields_match E data i v t1 t2 d"
    using assms unfolding verify_receipt_def by (auto split: list.splits option.splits json.splits if_splits)
  moreover have "utf8 token = encoded @ ''.'' @ signed" using join_split_on [of "CHR ''.''" "utf8 token"] s by simp
  ultimately show ?thesis by blast
qed

section \<open>Installing\<close>

lemma require_id_Inr: "require_id v = Inr x \<Longrightarrow> x = v \<and> v \<noteq> [] \<and> length v \<le> 128 \<and> list_all id_char v"
  by (auto simp: require_id_def split: if_splits)

lemma require_synced_kernel_Inr:
  assumes "require_synced_kernel w = (Inr u, w')"
  shows "w' = w \<and> (\<forall>r. find kernel_row (system_settings (stored w)) = Some r
    \<longrightarrow> \<not> truthy (get_or_null ''helper_sync_required'' (row_value (current SETTINGS w r))))"
  using assms by (auto simp: require_synced_kernel_def letM_def db_scalar_def raise_if_def raiseM_def ret_def SETTINGS_def split: option.splits if_splits)

lemma jobs_where_own: "jobs_where (\<lambda>v. v = JStr i) k js = Inr own \<Longrightarrow> j \<in> set own \<Longrightarrow> field_of k j = Inr (JStr i)"
  by (induction js arbitrary: own) (auto simp: try_bind_Inr_iff split: if_splits)

lemma own_jobs_Inr:
  assumes "own_jobs i result = Inr found" and "job \<in> set (existing_jobs found)"
  shows "field_of ''request_id'' job = Inr (JStr i)"
proof -
  obtain d js own where "jobs_where (\<lambda>v. v = JStr i) ''request_id'' js = Inr own" and "found = JObj (set_key ''jobs'' (JArr own) d)"
    using assms(1) by (cases result) (auto simp: own_jobs_def try_bind_Inr_iff)
  with assms(2) jobs_where_own show ?thesis by (auto simp: existing_jobs_def jget_def json_simps)
qed

lemma jobs_own:
  assumes "jobs E H (Some i) w = (Inr result, w')" and "i \<noteq> []" and "job \<in> set (existing_jobs result)"
  shows "field_of ''request_id'' job = Inr (JStr i)"
  using assms by (auto simp: jobs_def web_inv intro: own_jobs_Inr)


end
