(* ===== verification/Operations_Examples.thy ===== *)
theory Operations_Examples
  imports Operations_Safety Session_Examples
begin

text \<open>A backup of four bytes, its receipt, and an Updater that has no jobs yet and accepts every order.\<close>

definition host_env :: env where
  "host_env = demo_env\<lparr>cfg := (cfg demo_env)\<lparr>updater_control_token := ''control''\<rparr>\<rparr>"

definition saved_backup :: string where "saved_backup = ''PK12''"

definition idle_updater :: host_service where
  "idle_updater r = (if hr_method r = ''GET'' then Answered 200 ''{}'' else Answered 202 ''[]'')"

definition issued_receipt :: string where
  "issued_receipt = (case receipt host_env saved_backup ''b.zip'' ''r1'' ''2.1.0'' initial_world of (Inr token, _) \<Rightarrow> token | _ \<Rightarrow> [])"

lemma receipt_issued: "\<exists>w'. receipt host_env saved_backup ''b.zip'' ''r1'' ''2.1.0'' initial_world = (Inr issued_receipt, w')"
  by (simp add: issued_receipt_def receipt_def seqM_def letM_def raise_if_def ret_def now_utc_def draw_def host_env_def Let_def
      del: render.simps)

lemma receipt_in_time:
  assumes "n < 900"
  shows "clock host_env n < (clock host_env (draws initial_world) div SECOND + 900) * SECOND"
    "clock host_env (draws initial_world) \<le> clock host_env m"
  using assms by (simp_all add: host_env_def demo_env_def SECOND_def initial_world_def)

theorem receipt_accepted_with_its_backup_witness:
  "verify_receipt host_env issued_receipt saved_backup ''r1'' ''2.1.0'' (clock host_env 5) (clock host_env 6)
     = Inr (receipt_fields host_env saved_backup ''b.zip'' ''r1'' ''2.1.0'' (clock host_env (draws initial_world)))"
proof -
  have "(5::nat) < 900" by simp
  with receipt_issued receipt_accepted_with_its_backup [OF _ receipt_in_time] show ?thesis by blast
qed

lemma saved_receipt:
  assumes "n < 900"
  shows "verify_receipt host_env issued_receipt saved_backup ''r1'' ''2.1.0'' (clock host_env n) (clock host_env m)
     = Inr (receipt_fields host_env saved_backup ''b.zip'' ''r1'' ''2.1.0'' (clock host_env (draws initial_world)))"
  using receipt_issued receipt_verifies [OF _ receipt_in_time [OF assms]] by blast

lemma idle_updater_replies:
  "call_helper host_env idle_updater ''GET'' path None = Inr (JObj [])"
  "call_helper host_env idle_updater ''POST'' path payload = Inr (JArr [])"
proof -
  have "read_reply (4 * 1024 * 1024) 200 ''{}'' = Inr (JObj [])" "read_reply (4 * 1024 * 1024) 202 ''[]'' = Inr (JArr [])"
    by (simp_all add: read_reply_def loads_def loads_by_def skip_def json_space_def)
  then show "call_helper host_env idle_updater ''GET'' path None = Inr (JObj [])"
    "call_helper host_env idle_updater ''POST'' path payload = Inr (JArr [])"
    by (simp_all add: call_helper_def ask_updater_def idle_updater_def updater_request_def)
qed

lemma update_ordered: "\<exists>w'. install host_env idle_updater ''r1'' ''2.1.0'' issued_receipt ''true'' [saved_backup] initial_world = (Inr (JArr []), w')"
proof -
  have "archive_body (cfg host_env) [saved_backup] = Inr saved_backup"
    by (simp add: archive_body_def host_env_def demo_env_def default_settings_def saved_backup_def starts_with_def)
  moreover have "require_id ''r1'' = Inr ''r1''" by (simp add: require_id_def id_char_def is_digit_def)
  moreover have "require_synced_kernel initial_world = (Inr (), initial_world)"
    by (simp add: require_synced_kernel_def letM_def db_scalar_def SETTINGS_def initial_world_def empty_db_def raise_if_def ret_def)
  moreover have "draws initial_world < 900" by (simp add: initial_world_def)
  ultimately show ?thesis
    by (simp add: install_def seqM_def letM_def liftM_def ret_def raise_if_def now_utc_def draw_def saved_receipt jobs_def
        idle_updater_replies own_jobs_def iterate_def get_key_def existing_jobs_def jget_def order_update_def receipt_fields_def)
qed


end
