(* ===== verification/Ddl.thy ===== *)
theory Ddl
  imports Prelude
begin

text \<open>
  The catalog of a relational database and the operations of a migration on it: what \<open>op.create_table\<close>,
  \<open>op.create_index\<close>, \<open>op.add_column\<close> and their inverses do, and when the database refuses them. The names of tables are
  unique, a foreign key refers to a table that exists, and a table that is referred to cannot be dropped. The name of an
  index starts with the name of its table in every migration, so names are compared within a table.
\<close>

section \<open>The catalog\<close>

datatype col_type = String_Of nat | Long_Text | Json_Value | Date_Time | Whole_Number | Truth_Value

record column =
  col_name :: string
  col_type_of :: col_type
  col_nullable :: bool
  col_server_default :: "string option"

definition column_of :: "string \<Rightarrow> col_type \<Rightarrow> bool \<Rightarrow> column" where
  "column_of n t nullable = \<lparr>col_name = n, col_type_of = t, col_nullable = nullable, col_server_default = None\<rparr>"

datatype constraint =
    Primary_Key "string list"
  | Foreign_Key string string string
  | Unique_Columns "string list" string

record index =
  ix_name :: string
  ix_columns :: "string list"
  ix_unique :: bool

record table_def =
  tab_columns :: "column list"
  tab_constraints :: "constraint list"
  tab_indexes :: "index list"

type_synonym catalog = "(string \<times> table_def) list"

datatype ddl =
    Create_Table string "column list" "constraint list"
  | Create_Index string string "string list" bool
  | Drop_Index string string
  | Drop_Table string
  | Add_Column string column
  | Drop_Column string string
  | Drop_Foreign_Keys string string
  | Add_Foreign_Key string string string string
  | Alter_Type string string col_type
  | Set_Not_Null string string

definition tables_of :: "catalog \<Rightarrow> string list" where
  "tables_of C = map fst C"

definition column_names :: "table_def \<Rightarrow> string list" where
  "column_names t = map col_name (tab_columns t)"

definition index_names :: "table_def \<Rightarrow> string list" where
  "index_names t = map ix_name (tab_indexes t)"

fun refers_to :: "string \<Rightarrow> constraint \<Rightarrow> bool" where
  "refers_to t (Foreign_Key c r k) = (r = t)"
| "refers_to t _ = False"

fun constrained :: "constraint \<Rightarrow> string list" where
  "constrained (Primary_Key cs) = cs"
| "constrained (Foreign_Key c r k) = [c]"
| "constrained (Unique_Columns cs n) = cs"

definition is_reference :: "string \<Rightarrow> constraint \<Rightarrow> bool" where
  "is_reference column k = (case k of Foreign_Key c _ _ \<Rightarrow> c = column | _ \<Rightarrow> False)"

section \<open>Operations\<close>

text \<open>Change the table of a name, where the change may be refused.\<close>

fun alter_table :: "string \<Rightarrow> (table_def \<Rightarrow> table_def option) \<Rightarrow> catalog \<Rightarrow> catalog option" where
  "alter_table n f [] = None"
| "alter_table n f ((m, t) # C) =
     (if m = n then map_option (\<lambda>t'. (m, t') # C) (f t) else map_option (\<lambda>C'. (m, t) # C') (alter_table n f C))"

definition map_column :: "string \<Rightarrow> (column \<Rightarrow> column) \<Rightarrow> table_def \<Rightarrow> table_def option" where
  "map_column column f t =
     (if column \<in> set (column_names t)
      then Some (t\<lparr>tab_columns := map (\<lambda>c. if col_name c = column then f c else c) (tab_columns t)\<rparr>) else None)"

fun run_ddl :: "ddl \<Rightarrow> catalog \<Rightarrow> catalog option" where
  "run_ddl (Create_Table n columns constraints) C =
     (if n \<in> set (tables_of C)
         \<or> (\<exists>k \<in> set constraints. case k of Foreign_Key c r _ \<Rightarrow> r \<noteq> n \<and> r \<notin> set (tables_of C) | _ \<Rightarrow> False)
         \<or> (\<exists>k \<in> set constraints. \<exists>c \<in> set (constrained k). c \<notin> set (map col_name columns))
      then None
      else Some (C @ [(n, \<lparr>tab_columns = columns, tab_constraints = constraints, tab_indexes = []\<rparr>)]))"
| "run_ddl (Create_Index ix n columns u) C =
     alter_table n (\<lambda>t. if ix \<in> set (index_names t) \<or> \<not> set columns \<subseteq> set (column_names t) then None
       else Some (t\<lparr>tab_indexes := tab_indexes t @ [\<lparr>ix_name = ix, ix_columns = columns, ix_unique = u\<rparr>]\<rparr>)) C"
| "run_ddl (Drop_Index ix n) C =
     alter_table n (\<lambda>t. if ix \<in> set (index_names t)
       then Some (t\<lparr>tab_indexes := filter (\<lambda>i. ix_name i \<noteq> ix) (tab_indexes t)\<rparr>) else None) C"
| "run_ddl (Drop_Table n) C =
     (if n \<notin> set (tables_of C)
         \<or> (\<exists>p \<in> set C. fst p \<noteq> n \<and> (\<exists>k \<in> set (tab_constraints (snd p)). refers_to n k))
      then None else Some (filter (\<lambda>p. fst p \<noteq> n) C))"
| "run_ddl (Add_Column n column) C =
     alter_table n (\<lambda>t. if col_name column \<in> set (column_names t) then None
       else Some (t\<lparr>tab_columns := tab_columns t @ [column]\<rparr>)) C"
| "run_ddl (Drop_Column n column) C =
     alter_table n (\<lambda>t. if column \<notin> set (column_names t)
           \<or> (\<exists>k \<in> set (tab_constraints t). column \<in> set (constrained k))
           \<or> (\<exists>i \<in> set (tab_indexes t). column \<in> set (ix_columns i))
       then None else Some (t\<lparr>tab_columns := filter (\<lambda>c. col_name c \<noteq> column) (tab_columns t)\<rparr>)) C"
| "run_ddl (Drop_Foreign_Keys n column) C =
     alter_table n (\<lambda>t. Some (t\<lparr>tab_constraints := filter (\<lambda>k. \<not> is_reference column k) (tab_constraints t)\<rparr>)) C"
| "run_ddl (Add_Foreign_Key n column r key) C =
     (if r \<notin> set (tables_of C) then None
      else alter_table n (\<lambda>t. if column \<in> set (column_names t)
             then Some (t\<lparr>tab_constraints := tab_constraints t @ [Foreign_Key column r key]\<rparr>) else None) C)"
| "run_ddl (Alter_Type n column ty) C = alter_table n (map_column column (\<lambda>c. c\<lparr>col_type_of := ty\<rparr>)) C"
| "run_ddl (Set_Not_Null n column) C = alter_table n (map_column column (\<lambda>c. c\<lparr>col_nullable := False\<rparr>)) C"

fun run_all :: "ddl list \<Rightarrow> catalog \<Rightarrow> catalog option" where
  "run_all [] C = Some C"
| "run_all (d # ds) C = (case run_ddl d C of None \<Rightarrow> None | Some C' \<Rightarrow> run_all ds C')"

lemma run_all_append: "run_all (ds @ es) C = (case run_all ds C of None \<Rightarrow> None | Some C' \<Rightarrow> run_all es C')"
  by (induction ds arbitrary: C) (auto split: option.splits)

section \<open>Scripts\<close>

text \<open>The script of a table creates it and then its indexes; its inverse drops the indexes from the last one on and then the table.\<close>

record table_script =
  ts_name :: string
  ts_columns :: "column list"
  ts_constraints :: "constraint list"
  ts_indexes :: "index list"

definition index_of :: "string \<Rightarrow> string list \<Rightarrow> bool \<Rightarrow> index" where
  "index_of n columns u = \<lparr>ix_name = n, ix_columns = columns, ix_unique = u\<rparr>"

definition script :: "table_script \<Rightarrow> ddl list" where
  "script g = Create_Table (ts_name g) (ts_columns g) (ts_constraints g)
     # map (\<lambda>i. Create_Index (ix_name i) (ts_name g) (ix_columns i) (ix_unique i)) (ts_indexes g)"

definition unscript :: "table_script \<Rightarrow> ddl list" where
  "unscript g = map (\<lambda>i. Drop_Index (ix_name i) (ts_name g)) (rev (ts_indexes g)) @ [Drop_Table (ts_name g)]"

definition built :: "table_script \<Rightarrow> table_def" where
  "built g = \<lparr>tab_columns = ts_columns g, tab_constraints = ts_constraints g, tab_indexes = ts_indexes g\<rparr>"

definition references :: "table_script \<Rightarrow> string list" where
  "references g = concat (map (\<lambda>k. case k of Foreign_Key c r _ \<Rightarrow> [r] | _ \<Rightarrow> []) (ts_constraints g))"

text \<open>A script runs when its constraints and indexes are on its columns, the names of its indexes differ, and the tables it
  refers to are there.\<close>

definition sound_script :: "table_script \<Rightarrow> bool" where
  "sound_script g \<longleftrightarrow> list_all (\<lambda>k. list_all (\<lambda>c. c \<in> set (map col_name (ts_columns g))) (constrained k)) (ts_constraints g)
     \<and> list_all (\<lambda>i. list_all (\<lambda>c. c \<in> set (map col_name (ts_columns g))) (ix_columns i)) (ts_indexes g)
     \<and> distinct (map ix_name (ts_indexes g))"

fun ordered_scripts :: "string list \<Rightarrow> table_script list \<Rightarrow> bool" where
  "ordered_scripts seen [] = True"
| "ordered_scripts seen (g # gs) =
     (ts_name g \<notin> set seen \<and> list_all (\<lambda>r. r \<in> set seen) (references g) \<and> ordered_scripts (seen @ [ts_name g]) gs)"

lemma alter_table_last: "n \<notin> set (tables_of C) \<Longrightarrow> alter_table n f (C @ [(n, t)]) = map_option (\<lambda>t'. C @ [(n, t')]) (f t)"
  by (induction C) (auto simp: tables_of_def option.map_comp comp_def)

lemma run_indexes:
  assumes "n \<notin> set (tables_of C)"
    and "\<forall>i \<in> set is. set (ix_columns i) \<subseteq> set (column_names t)" and "distinct (index_names t @ map ix_name is)"
  shows "run_all (map (\<lambda>i. Create_Index (ix_name i) n (ix_columns i) (ix_unique i)) is) (C @ [(n, t)])
    = Some (C @ [(n, t\<lparr>tab_indexes := tab_indexes t @ is\<rparr>)])"
  using assms(2,3)
proof (induction "is" arbitrary: t)
  case (Cons i "is")
  have "run_ddl (Create_Index (ix_name i) n (ix_columns i) (ix_unique i)) (C @ [(n, t)])
      = Some (C @ [(n, t\<lparr>tab_indexes := tab_indexes t @ [i]\<rparr>)])"
    using Cons.prems alter_table_last [OF assms(1)] by (auto simp: index_names_def)
  with Cons.IH [of "t\<lparr>tab_indexes := tab_indexes t @ [i]\<rparr>"] Cons.prems show ?case
    by (auto simp: index_names_def column_names_def)
qed simp

lemma run_script:
  assumes "sound_script g" and "ts_name g \<notin> set (tables_of C)" and "set (references g) \<subseteq> set (tables_of C)"
  shows "run_all (script g) C = Some (C @ [(ts_name g, built g)])"
proof -
  have "run_ddl (Create_Table (ts_name g) (ts_columns g) (ts_constraints g)) C
      = Some (C @ [(ts_name g, (built g)\<lparr>tab_indexes := []\<rparr>)])"
    using assms by (auto simp: sound_script_def list_all_iff references_def built_def split: constraint.splits)
  moreover have "run_all (map (\<lambda>i. Create_Index (ix_name i) (ts_name g) (ix_columns i) (ix_unique i)) (ts_indexes g))
      (C @ [(ts_name g, (built g)\<lparr>tab_indexes := []\<rparr>)]) = Some (C @ [(ts_name g, built g)])"
    by (subst run_indexes) (use assms in \<open>auto simp: sound_script_def list_all_iff built_def column_names_def index_names_def\<close>)
  ultimately show ?thesis by (simp add: script_def)
qed

theorem run_scripts:
  assumes "list_all sound_script gs" and "ordered_scripts (tables_of C) gs"
  shows "run_all (concat (map script gs)) C = Some (C @ map (\<lambda>g. (ts_name g, built g)) gs)"
  using assms
proof (induction gs arbitrary: C)
  case (Cons g gs)
  have "run_all (script g) C = Some (C @ [(ts_name g, built g)])"
    using Cons.prems by (intro run_script) (auto simp: list_all_iff)
  with Cons show ?case by (simp add: run_all_append tables_of_def)
qed simp

lemma run_drop_indexes:
  assumes "n \<notin> set (tables_of C)" and "distinct (map ix_name is)" and "tab_indexes t = is"
  shows "run_all (map (\<lambda>i. Drop_Index (ix_name i) n) (rev is)) (C @ [(n, t)]) = Some (C @ [(n, t\<lparr>tab_indexes := []\<rparr>)])"
  using assms(2,3)
proof (induction "is" arbitrary: t rule: rev_induct)
  case (snoc i "is")
  have "filter (\<lambda>j. ix_name j \<noteq> ix_name i) is = is"
    using snoc.prems(1) by (simp add: filter_id_conv image_iff) metis
  then have "run_ddl (Drop_Index (ix_name i) n) (C @ [(n, t)]) = Some (C @ [(n, t\<lparr>tab_indexes := is\<rparr>)])"
    using snoc.prems alter_table_last [OF assms(1)] by (simp add: index_names_def)
  with snoc.IH [of "t\<lparr>tab_indexes := is\<rparr>"] snoc.prems show ?case by simp
qed simp

lemma run_unscript:
  assumes "sound_script g" and "ts_name g \<notin> set (tables_of C)"
    and "\<forall>p \<in> set C. \<forall>k \<in> set (tab_constraints (snd p)). \<not> refers_to (ts_name g) k"
  shows "run_all (unscript g) (C @ [(ts_name g, built g)]) = Some C"
proof -
  have "filter (\<lambda>p. fst p \<noteq> ts_name g) C = C" using assms(2) by (force simp: filter_id_conv tables_of_def)
  moreover have "run_all (map (\<lambda>i. Drop_Index (ix_name i) (ts_name g)) (rev (ts_indexes g))) (C @ [(ts_name g, built g)])
      = Some (C @ [(ts_name g, (built g)\<lparr>tab_indexes := []\<rparr>)])"
    by (rule run_drop_indexes) (use assms in \<open>auto simp: sound_script_def built_def\<close>)
  ultimately show ?thesis using assms(3) by (auto simp: unscript_def run_all_append tables_of_def)
qed

lemma ordered_append: "ordered_scripts seen (gs @ [g]) \<longleftrightarrow> ordered_scripts seen gs
    \<and> ts_name g \<notin> set seen \<union> ts_name ` set gs \<and> set (references g) \<subseteq> set seen \<union> ts_name ` set gs"
  by (induction gs arbitrary: seen) (auto simp: list_all_iff)

lemma ordered_no_reference:
  assumes "ordered_scripts seen gs" and "h \<in> set gs"
  shows "set (references h) \<subseteq> set seen \<union> ts_name ` set gs"
  using assms by (induction gs arbitrary: seen) (fastforce simp: list_all_iff)+

lemma refers_references: "k \<in> set (ts_constraints h) \<Longrightarrow> refers_to n k \<Longrightarrow> n \<in> set (references h)"
  by (cases k) (auto simp: references_def intro!: bexI [of _ k])

theorem run_unscripts:
  assumes "list_all sound_script gs" and "ordered_scripts [] gs"
  shows "run_all (concat (map unscript (rev gs))) (map (\<lambda>g. (ts_name g, built g)) gs) = Some []"
  using assms
proof (induction gs rule: rev_induct)
  case (snoc g gs)
  let ?C = "map (\<lambda>g. (ts_name g, built g)) gs"
  have o: "ordered_scripts [] gs" "ts_name g \<notin> ts_name ` set gs" using snoc.prems(2) by (auto simp: ordered_append)
  have "\<not> refers_to (ts_name g) k" if "h \<in> set gs" "k \<in> set (ts_constraints h)" for h k
    using refers_references [OF that(2)] ordered_no_reference [OF o(1) that(1)] o(2) by auto
  then have "run_all (unscript g) (?C @ [(ts_name g, built g)]) = Some ?C"
    using snoc.prems o by (intro run_unscript) (auto simp: tables_of_def built_def)
  with snoc o show ?case by (simp add: run_all_append)
qed simp

section \<open>Agreement\<close>

text \<open>Two catalogs agree when they have the same tables with the same columns, constraints and indexes, in any order;
  defaults of the server are not compared.\<close>

definition bare :: "column \<Rightarrow> column" where
  "bare c = c\<lparr>col_server_default := None\<rparr>"

definition same_table :: "table_def \<Rightarrow> table_def \<Rightarrow> bool" where
  "same_table s t \<longleftrightarrow> set (map bare (tab_columns s)) = set (map bare (tab_columns t)) \<and> length (tab_columns s) = length (tab_columns t)
     \<and> set (tab_constraints s) = set (tab_constraints t) \<and> length (tab_constraints s) = length (tab_constraints t)
     \<and> set (tab_indexes s) = set (tab_indexes t) \<and> length (tab_indexes s) = length (tab_indexes t)"

definition same_catalog :: "catalog \<Rightarrow> catalog \<Rightarrow> bool" where
  "same_catalog C D \<longleftrightarrow> length C = length D
     \<and> list_all (\<lambda>p. case map_of D (fst p) of None \<Rightarrow> False | Some t \<Rightarrow> same_table (snd p) t) C"

end
