(* ===== verification/Baseline_Schema.thy ===== *)
theory Baseline_Schema
  imports Ddl
begin

text \<open>
  The first migration, \<open>migrations/versions/0001_initial_schema.py\<close>: one definition per table of \<open>upgrade\<close>, in its order, and
  \<open>downgrade\<close>. The names of tables, columns and indexes are those of the file.
\<close>

section \<open>Upgrade\<close>

definition create_access_policies :: table_script where
  "create_access_policies = \<lparr>ts_name = ''access_policies'',
     ts_columns =
       [column_of ''id'' (String_Of 32) False,
        column_of ''scope_type'' (String_Of 64) False,
        column_of ''scope_id'' (String_Of 32) False,
        column_of ''rules'' Json_Value False,
        column_of ''status'' (String_Of 32) False,
        column_of ''created_at'' Date_Time False,
        column_of ''updated_at'' Date_Time False],
     ts_constraints = [Primary_Key [''id'']],
     ts_indexes =
       [index_of ''ix_access_policies_scope_id'' [''scope_id''] False,
        index_of ''ix_access_policies_scope_type'' [''scope_type''] False,
        index_of ''ix_access_policies_status'' [''status''] False]\<rparr>"

definition create_agents :: table_script where
  "create_agents = \<lparr>ts_name = ''agents'',
     ts_columns =
       [column_of ''id'' (String_Of 64) False,
        column_of ''name'' (String_Of 255) False,
        column_of ''agent_type'' (String_Of 32) False,
        column_of ''host_id'' (String_Of 128) False,
        column_of ''status'' (String_Of 32) False,
        column_of ''identity_fingerprint'' (String_Of 255) False,
        column_of ''api_base_url'' (String_Of 1024) False,
        column_of ''last_heartbeat_at'' Date_Time True,
        column_of ''display_name'' (String_Of 255) True,
        column_of ''domain'' (String_Of 255) True,
        column_of ''port'' Whole_Number True,
        column_of ''resolved_ip'' (String_Of 128) True,
        column_of ''enrollment_state'' (String_Of 32) False,
        column_of ''identity_certificate'' Long_Text False,
        column_of ''certificate_serial'' (String_Of 255) True,
        column_of ''certificate_valid_not_before'' Date_Time True,
        column_of ''certificate_valid_not_after'' Date_Time True,
        column_of ''agent_version'' (String_Of 64) True,
        column_of ''sindri_version'' (String_Of 64) True,
        column_of ''sindri_protocol_version'' (String_Of 32) True,
        column_of ''hostname'' (String_Of 255) True,
        column_of ''boot_id'' (String_Of 255) True,
        column_of ''queue_length'' Whole_Number False,
        column_of ''current_job_id'' (String_Of 128) True,
        column_of ''tags'' Json_Value False,
        column_of ''environment'' (String_Of 64) False,
        column_of ''notes'' Long_Text False,
        column_of ''metadata_json'' Json_Value False,
        column_of ''library_position'' Whole_Number False,
        column_of ''created_at'' Date_Time False,
        column_of ''updated_at'' Date_Time False],
     ts_constraints = [Primary_Key [''id'']],
     ts_indexes =
       [index_of ''ix_agents_agent_type'' [''agent_type''] False,
        index_of ''ix_agents_certificate_serial'' [''certificate_serial''] False,
        index_of ''ix_agents_domain'' [''domain''] False,
        index_of ''ix_agents_enrollment_state'' [''enrollment_state''] False,
        index_of ''ix_agents_host_id'' [''host_id''] False,
        index_of ''ix_agents_identity_fingerprint'' [''identity_fingerprint''] False,
        index_of ''ix_agents_library_position'' [''library_position''] False,
        index_of ''ix_agents_status'' [''status''] False]\<rparr>"

definition create_audit_events :: table_script where
  "create_audit_events = \<lparr>ts_name = ''audit_events'',
     ts_columns =
       [column_of ''id'' (String_Of 32) False,
        column_of ''actor_type'' (String_Of 64) False,
        column_of ''actor_id'' (String_Of 128) False,
        column_of ''action'' (String_Of 128) False,
        column_of ''target_type'' (String_Of 64) False,
        column_of ''target_id'' (String_Of 128) False,
        column_of ''payload'' Json_Value False,
        column_of ''result'' Json_Value False,
        column_of ''created_at'' Date_Time False],
     ts_constraints = [Primary_Key [''id'']],
     ts_indexes =
       [index_of ''ix_audit_events_action'' [''action''] False,
        index_of ''ix_audit_events_actor_id'' [''actor_id''] False,
        index_of ''ix_audit_events_actor_type'' [''actor_type''] False,
        index_of ''ix_audit_events_created_at'' [''created_at''] False,
        index_of ''ix_audit_events_target_id'' [''target_id''] False,
        index_of ''ix_audit_events_target_type'' [''target_type''] False]\<rparr>"

definition create_backup_manifests :: table_script where
  "create_backup_manifests = \<lparr>ts_name = ''backup_manifests'',
     ts_columns =
       [column_of ''id'' (String_Of 32) False,
        column_of ''backup_id'' (String_Of 128) False,
        column_of ''entity_type'' (String_Of 64) False,
        column_of ''entity_id'' (String_Of 128) False,
        column_of ''payload'' Json_Value False,
        column_of ''created_at'' Date_Time False,
        column_of ''updated_at'' Date_Time False],
     ts_constraints = [Primary_Key [''id'']],
     ts_indexes =
       [index_of ''ix_backup_manifests_backup_id'' [''backup_id''] False,
        index_of ''ix_backup_manifests_entity_id'' [''entity_id''] False,
        index_of ''ix_backup_manifests_entity_type'' [''entity_type''] False]\<rparr>"

definition create_certificate_denylist :: table_script where
  "create_certificate_denylist = \<lparr>ts_name = ''certificate_denylist'',
     ts_columns =
       [column_of ''id'' (String_Of 32) False,
        column_of ''agent_id'' (String_Of 64) True,
        column_of ''fingerprint_sha256'' (String_Of 255) False,
        column_of ''serial_number'' (String_Of 255) False,
        column_of ''reason'' (String_Of 255) False,
        column_of ''created_at'' Date_Time False,
        column_of ''updated_at'' Date_Time False],
     ts_constraints = [Primary_Key [''id'']],
     ts_indexes =
       [index_of ''ix_certificate_denylist_agent_id'' [''agent_id''] False,
        index_of ''ix_certificate_denylist_fingerprint_sha256'' [''fingerprint_sha256''] True]\<rparr>"

definition create_controller_identity :: table_script where
  "create_controller_identity = \<lparr>ts_name = ''controller_identity'',
     ts_columns =
       [column_of ''id'' (String_Of 32) False,
        column_of ''controller_id'' (String_Of 128) False,
        column_of ''certificate_pem'' Long_Text False,
        column_of ''encrypted_private_key'' Long_Text False,
        column_of ''encryption_metadata'' Json_Value False,
        column_of ''status'' (String_Of 32) False,
        column_of ''created_at'' Date_Time False,
        column_of ''updated_at'' Date_Time False],
     ts_constraints = [Primary_Key [''id'']],
     ts_indexes =
       [index_of ''ix_controller_identity_controller_id'' [''controller_id''] True,
        index_of ''ix_controller_identity_status'' [''status''] False]\<rparr>"

definition create_objects :: table_script where
  "create_objects = \<lparr>ts_name = ''objects'',
     ts_columns =
       [column_of ''id'' (String_Of 64) False,
        column_of ''entity_id'' (String_Of 16) False,
        column_of ''name'' (String_Of 255) False,
        column_of ''kind'' (String_Of 32) False,
        column_of ''description'' Long_Text False,
        column_of ''tags'' Json_Value False,
        column_of ''image_data'' Long_Text False,
        column_of ''image_media_type'' (String_Of 64) False,
        column_of ''created_at'' Date_Time False,
        column_of ''updated_at'' Date_Time False],
     ts_constraints = [Primary_Key [''id'']],
     ts_indexes =
       [index_of ''ix_objects_entity_id'' [''entity_id''] True,
        index_of ''ix_objects_kind'' [''kind''] False]\<rparr>"

definition create_pod_denylist :: table_script where
  "create_pod_denylist = \<lparr>ts_name = ''pod_denylist'',
     ts_columns =
       [column_of ''id'' (String_Of 32) False,
        column_of ''pod_id'' (String_Of 64) True,
        column_of ''subject_id'' (String_Of 64) True,
        column_of ''identifier_type'' (String_Of 64) False,
        column_of ''identifier_value'' (String_Of 512) False,
        column_of ''reason'' (String_Of 255) False,
        column_of ''created_at'' Date_Time False,
        column_of ''updated_at'' Date_Time False],
     ts_constraints = [Primary_Key [''id''], Unique_Columns [''identifier_type'', ''identifier_value''] ''uq_pod_denylist_identifier''],
     ts_indexes =
       [index_of ''ix_pod_denylist_identifier_type'' [''identifier_type''] False,
        index_of ''ix_pod_denylist_identifier_value'' [''identifier_value''] False,
        index_of ''ix_pod_denylist_pod_id'' [''pod_id''] False,
        index_of ''ix_pod_denylist_subject_id'' [''subject_id''] False]\<rparr>"

definition create_system_settings :: table_script where
  "create_system_settings = \<lparr>ts_name = ''system_settings'',
     ts_columns =
       [column_of ''id'' (String_Of 32) False,
        column_of ''scope'' (String_Of 64) False,
        column_of ''key'' (String_Of 128) False,
        column_of ''value'' Json_Value False,
        column_of ''created_at'' Date_Time False,
        column_of ''updated_at'' Date_Time False],
     ts_constraints = [Primary_Key [''id'']],
     ts_indexes =
       [index_of ''ix_system_settings_key'' [''key''] True,
        index_of ''ix_system_settings_scope'' [''scope''] False]\<rparr>"

definition create_agent_assignments :: table_script where
  "create_agent_assignments = \<lparr>ts_name = ''agent_assignments'',
     ts_columns =
       [column_of ''id'' (String_Of 32) False,
        column_of ''agent_id'' (String_Of 64) False,
        column_of ''block_id'' (String_Of 128) False,
        column_of ''block_type'' (String_Of 32) False,
        column_of ''position'' Whole_Number False,
        column_of ''created_by'' (String_Of 128) False,
        column_of ''created_at'' Date_Time False,
        column_of ''updated_at'' Date_Time False],
     ts_constraints = [Foreign_Key ''agent_id'' ''agents'' ''id'', Primary_Key [''id''], Unique_Columns [''agent_id'', ''block_id'', ''block_type''] ''uq_agent_block_assignment''],
     ts_indexes =
       [index_of ''ix_agent_assignments_agent_id'' [''agent_id''] False,
        index_of ''ix_agent_assignments_block_id'' [''block_id''] False,
        index_of ''ix_agent_assignments_block_type'' [''block_type''] False]\<rparr>"

definition create_agent_capabilities :: table_script where
  "create_agent_capabilities = \<lparr>ts_name = ''agent_capabilities'',
     ts_columns =
       [column_of ''id'' (String_Of 32) False,
        column_of ''agent_id'' (String_Of 64) False,
        column_of ''action'' (String_Of 128) False,
        column_of ''title'' (String_Of 255) False,
        column_of ''description'' Long_Text False,
        column_of ''group'' (String_Of 64) False,
        column_of ''risk'' (String_Of 32) False,
        column_of ''inputs'' Json_Value False,
        column_of ''available'' Truth_Value False,
        column_of ''created_at'' Date_Time False,
        column_of ''updated_at'' Date_Time False],
     ts_constraints = [Foreign_Key ''agent_id'' ''agents'' ''id'', Primary_Key [''id''], Unique_Columns [''agent_id'', ''action''] ''uq_agent_capability_action''],
     ts_indexes =
       [index_of ''ix_agent_capabilities_action'' [''action''] False,
        index_of ''ix_agent_capabilities_agent_id'' [''agent_id''] False,
        index_of ''ix_agent_capabilities_group'' [''group''] False,
        index_of ''ix_agent_capabilities_risk'' [''risk''] False]\<rparr>"

definition create_agent_certificates :: table_script where
  "create_agent_certificates = \<lparr>ts_name = ''agent_certificates'',
     ts_columns =
       [column_of ''id'' (String_Of 32) False,
        column_of ''agent_id'' (String_Of 64) False,
        column_of ''fingerprint_sha256'' (String_Of 255) False,
        column_of ''serial_number'' (String_Of 255) False,
        column_of ''certificate_pem'' Long_Text False,
        column_of ''valid_not_before'' Date_Time True,
        column_of ''valid_not_after'' Date_Time True,
        column_of ''status'' (String_Of 32) False,
        column_of ''created_at'' Date_Time False,
        column_of ''updated_at'' Date_Time False],
     ts_constraints = [Foreign_Key ''agent_id'' ''agents'' ''id'', Primary_Key [''id'']],
     ts_indexes =
       [index_of ''ix_agent_certificates_agent_id'' [''agent_id''] False,
        index_of ''ix_agent_certificates_fingerprint_sha256'' [''fingerprint_sha256''] False,
        index_of ''ix_agent_certificates_serial_number'' [''serial_number''] False,
        index_of ''ix_agent_certificates_status'' [''status''] False]\<rparr>"

definition create_agent_commands :: table_script where
  "create_agent_commands = \<lparr>ts_name = ''agent_commands'',
     ts_columns =
       [column_of ''id'' (String_Of 32) False,
        column_of ''agent_id'' (String_Of 64) False,
        column_of ''command'' (String_Of 64) False,
        column_of ''target'' Json_Value False,
        column_of ''params'' Json_Value False,
        column_of ''status'' (String_Of 32) False,
        column_of ''result'' Json_Value False,
        column_of ''started_at'' Date_Time True,
        column_of ''finished_at'' Date_Time True,
        column_of ''created_at'' Date_Time False,
        column_of ''updated_at'' Date_Time False],
     ts_constraints = [Foreign_Key ''agent_id'' ''agents'' ''id'', Primary_Key [''id'']],
     ts_indexes =
       [index_of ''ix_agent_commands_agent_id'' [''agent_id''] False,
        index_of ''ix_agent_commands_status'' [''status''] False]\<rparr>"

definition create_agent_endpoints :: table_script where
  "create_agent_endpoints = \<lparr>ts_name = ''agent_endpoints'',
     ts_columns =
       [column_of ''id'' (String_Of 32) False,
        column_of ''agent_id'' (String_Of 64) False,
        column_of ''domain'' (String_Of 255) False,
        column_of ''port'' Whole_Number False,
        column_of ''base_url'' (String_Of 1024) False,
        column_of ''status'' (String_Of 32) False,
        column_of ''created_at'' Date_Time False,
        column_of ''updated_at'' Date_Time False],
     ts_constraints = [Foreign_Key ''agent_id'' ''agents'' ''id'', Primary_Key [''id'']],
     ts_indexes =
       [index_of ''ix_agent_endpoints_agent_id'' [''agent_id''] False,
        index_of ''ix_agent_endpoints_domain'' [''domain''] False,
        index_of ''ix_agent_endpoints_status'' [''status''] False]\<rparr>"

definition create_agent_heartbeats :: table_script where
  "create_agent_heartbeats = \<lparr>ts_name = ''agent_heartbeats'',
     ts_columns =
       [column_of ''id'' (String_Of 32) False,
        column_of ''agent_id'' (String_Of 64) False,
        column_of ''payload'' Json_Value False,
        column_of ''observed_at'' Date_Time False],
     ts_constraints = [Foreign_Key ''agent_id'' ''agents'' ''id'', Primary_Key [''id'']],
     ts_indexes =
       [index_of ''ix_agent_heartbeats_agent_id'' [''agent_id''] False,
        index_of ''ix_agent_heartbeats_observed_at'' [''observed_at''] False]\<rparr>"

definition create_agent_state_events :: table_script where
  "create_agent_state_events = \<lparr>ts_name = ''agent_state_events'',
     ts_columns =
       [column_of ''id'' (String_Of 32) False,
        column_of ''sequence'' Whole_Number False,
        column_of ''agent_id'' (String_Of 64) False,
        column_of ''event_type'' (String_Of 128) False,
        column_of ''status'' (String_Of 32) False,
        column_of ''message'' Long_Text False,
        column_of ''payload'' Json_Value False,
        column_of ''created_at'' Date_Time False],
     ts_constraints = [Foreign_Key ''agent_id'' ''agents'' ''id'', Primary_Key [''id'']],
     ts_indexes =
       [index_of ''ix_agent_state_events_agent_id'' [''agent_id''] False,
        index_of ''ix_agent_state_events_created_at'' [''created_at''] False,
        index_of ''ix_agent_state_events_event_type'' [''event_type''] False,
        index_of ''ix_agent_state_events_sequence'' [''sequence''] False]\<rparr>"

definition create_approval_decisions :: table_script where
  "create_approval_decisions = \<lparr>ts_name = ''approval_decisions'',
     ts_columns =
       [column_of ''id'' (String_Of 32) False,
        column_of ''agent_id'' (String_Of 64) False,
        column_of ''job_id'' (String_Of 128) False,
        column_of ''approval_id'' (String_Of 128) False,
        column_of ''plan_hash'' (String_Of 255) False,
        column_of ''decision'' (String_Of 32) False,
        column_of ''decided_by'' (String_Of 128) False,
        column_of ''created_at'' Date_Time False,
        column_of ''updated_at'' Date_Time False],
     ts_constraints = [Foreign_Key ''agent_id'' ''agents'' ''id'', Primary_Key [''id'']],
     ts_indexes =
       [index_of ''ix_approval_decisions_agent_id'' [''agent_id''] False,
        index_of ''ix_approval_decisions_approval_id'' [''approval_id''] False,
        index_of ''ix_approval_decisions_decision'' [''decision''] False,
        index_of ''ix_approval_decisions_job_id'' [''job_id''] False,
        index_of ''ix_approval_decisions_plan_hash'' [''plan_hash''] False]\<rparr>"

definition create_approval_requests :: table_script where
  "create_approval_requests = \<lparr>ts_name = ''approval_requests'',
     ts_columns =
       [column_of ''id'' (String_Of 32) False,
        column_of ''agent_id'' (String_Of 64) False,
        column_of ''job_id'' (String_Of 128) False,
        column_of ''approval_id'' (String_Of 128) False,
        column_of ''plan_hash'' (String_Of 255) False,
        column_of ''risk'' (String_Of 32) False,
        column_of ''warning'' Long_Text False,
        column_of ''plan'' Json_Value False,
        column_of ''expires_at'' Date_Time True,
        column_of ''status'' (String_Of 32) False,
        column_of ''created_at'' Date_Time False,
        column_of ''updated_at'' Date_Time False],
     ts_constraints = [Foreign_Key ''agent_id'' ''agents'' ''id'', Primary_Key [''id'']],
     ts_indexes =
       [index_of ''ix_approval_requests_agent_id'' [''agent_id''] False,
        index_of ''ix_approval_requests_approval_id'' [''approval_id''] False,
        index_of ''ix_approval_requests_job_id'' [''job_id''] False,
        index_of ''ix_approval_requests_plan_hash'' [''plan_hash''] False,
        index_of ''ix_approval_requests_status'' [''status''] False]\<rparr>"

definition create_job_events :: table_script where
  "create_job_events = \<lparr>ts_name = ''job_events'',
     ts_columns =
       [column_of ''id'' (String_Of 32) False,
        column_of ''sequence'' Whole_Number False,
        column_of ''agent_id'' (String_Of 64) False,
        column_of ''job_id'' (String_Of 128) False,
        column_of ''event_type'' (String_Of 128) False,
        column_of ''status'' (String_Of 32) False,
        column_of ''message'' Long_Text False,
        column_of ''payload'' Json_Value False,
        column_of ''created_at'' Date_Time False],
     ts_constraints = [Foreign_Key ''agent_id'' ''agents'' ''id'', Primary_Key [''id'']],
     ts_indexes =
       [index_of ''ix_job_events_agent_id'' [''agent_id''] False,
        index_of ''ix_job_events_created_at'' [''created_at''] False,
        index_of ''ix_job_events_event_type'' [''event_type''] False,
        index_of ''ix_job_events_job_id'' [''job_id''] False,
        index_of ''ix_job_events_sequence'' [''sequence''] False]\<rparr>"

definition create_job_results :: table_script where
  "create_job_results = \<lparr>ts_name = ''job_results'',
     ts_columns =
       [column_of ''id'' (String_Of 32) False,
        column_of ''agent_id'' (String_Of 64) False,
        column_of ''job_id'' (String_Of 128) False,
        column_of ''status'' (String_Of 32) False,
        column_of ''payload'' Json_Value False,
        column_of ''created_at'' Date_Time False,
        column_of ''updated_at'' Date_Time False],
     ts_constraints = [Foreign_Key ''agent_id'' ''agents'' ''id'', Primary_Key [''id'']],
     ts_indexes =
       [index_of ''ix_job_results_agent_id'' [''agent_id''] False,
        index_of ''ix_job_results_job_id'' [''job_id''] False,
        index_of ''ix_job_results_status'' [''status''] False]\<rparr>"

definition create_jobs :: table_script where
  "create_jobs = \<lparr>ts_name = ''jobs'',
     ts_columns =
       [column_of ''id'' (String_Of 32) False,
        column_of ''job_id'' (String_Of 128) False,
        column_of ''request_id'' (String_Of 128) False,
        column_of ''agent_id'' (String_Of 64) False,
        column_of ''action'' (String_Of 128) False,
        column_of ''inputs'' Json_Value False,
        column_of ''created_by'' (String_Of 128) False,
        column_of ''approver'' (String_Of 128) True,
        column_of ''canceller'' (String_Of 128) True,
        column_of ''expires_at'' Date_Time True,
        column_of ''status'' (String_Of 32) False,
        column_of ''plan'' Json_Value False,
        column_of ''plan_hash'' (String_Of 255) True,
        column_of ''result'' Json_Value False,
        column_of ''error'' Json_Value False,
        column_of ''log_reference'' (String_Of 255) True,
        column_of ''agent_version'' (String_Of 64) True,
        column_of ''sindri_version'' (String_Of 64) True,
        column_of ''created_at'' Date_Time False,
        column_of ''updated_at'' Date_Time False],
     ts_constraints = [Foreign_Key ''agent_id'' ''agents'' ''id'', Primary_Key [''id''], Unique_Columns [''agent_id'', ''job_id''] ''uq_agent_job_id''],
     ts_indexes =
       [index_of ''ix_jobs_action'' [''action''] False,
        index_of ''ix_jobs_agent_id'' [''agent_id''] False,
        index_of ''ix_jobs_job_id'' [''job_id''] False,
        index_of ''ix_jobs_plan_hash'' [''plan_hash''] False,
        index_of ''ix_jobs_request_id'' [''request_id''] False,
        index_of ''ix_jobs_status'' [''status''] False]\<rparr>"

definition create_revocation_records :: table_script where
  "create_revocation_records = \<lparr>ts_name = ''revocation_records'',
     ts_columns =
       [column_of ''id'' (String_Of 32) False,
        column_of ''agent_id'' (String_Of 64) False,
        column_of ''certificate_serial'' (String_Of 255) False,
        column_of ''certificate_fingerprint_sha256'' (String_Of 255) False,
        column_of ''reason'' (String_Of 255) False,
        column_of ''status'' (String_Of 32) False,
        column_of ''payload'' Json_Value False,
        column_of ''created_at'' Date_Time False,
        column_of ''updated_at'' Date_Time False],
     ts_constraints = [Foreign_Key ''agent_id'' ''agents'' ''id'', Primary_Key [''id'']],
     ts_indexes =
       [index_of ''ix_revocation_records_agent_id'' [''agent_id''] False,
        index_of ''ix_revocation_records_certificate_fingerprint_sha256'' [''certificate_fingerprint_sha256''] False,
        index_of ''ix_revocation_records_status'' [''status''] False]\<rparr>"

definition create_subjects :: table_script where
  "create_subjects = \<lparr>ts_name = ''subjects'',
     ts_columns =
       [column_of ''id'' (String_Of 64) False,
        column_of ''entity_id'' (String_Of 16) False,
        column_of ''object_id'' (String_Of 64) True,
        column_of ''name'' (String_Of 255) False,
        column_of ''kind'' (String_Of 32) False,
        column_of ''description'' Long_Text False,
        column_of ''tags'' Json_Value False,
        column_of ''image_data'' Long_Text False,
        column_of ''image_media_type'' (String_Of 64) False,
        column_of ''runtime_type'' (String_Of 32) False,
        column_of ''pod_id'' (String_Of 32) True,
        column_of ''access_policy_id'' (String_Of 32) True,
        column_of ''primary_route'' (String_Of 255) True,
        column_of ''vless_uri_encrypted'' Long_Text False,
        column_of ''network_profile_version'' Whole_Number False,
        column_of ''system_tabs'' Json_Value False,
        column_of ''system_tabs_profile_version'' Whole_Number False,
        column_of ''update_channel'' (String_Of 32) False,
        column_of ''ui_policy'' Json_Value False,
        column_of ''security_policy'' Json_Value False,
        column_of ''created_at'' Date_Time False,
        column_of ''updated_at'' Date_Time False],
     ts_constraints = [Foreign_Key ''access_policy_id'' ''access_policies'' ''id'', Foreign_Key ''object_id'' ''objects'' ''id'', Primary_Key [''id'']],
     ts_indexes =
       [index_of ''ix_subjects_entity_id'' [''entity_id''] True,
        index_of ''ix_subjects_kind'' [''kind''] False,
        index_of ''ix_subjects_object_id'' [''object_id''] False,
        index_of ''ix_subjects_pod_id'' [''pod_id''] False,
        index_of ''ix_subjects_runtime_type'' [''runtime_type''] False]\<rparr>"

definition create_pod_provisioning_records :: table_script where
  "create_pod_provisioning_records = \<lparr>ts_name = ''pod_provisioning_records'',
     ts_columns =
       [column_of ''id'' (String_Of 32) False,
        column_of ''subject_id'' (String_Of 64) False,
        column_of ''name'' (String_Of 255) False,
        column_of ''login'' (String_Of 255) False,
        column_of ''password_hash'' Long_Text False,
        column_of ''status'' (String_Of 32) False,
        column_of ''enrollment_token_hash'' (String_Of 255) False,
        column_of ''enrollment_token_encrypted'' Long_Text False,
        column_of ''bundle_version'' (String_Of 64) False,
        column_of ''download_count'' Whole_Number False,
        column_of ''downloaded_at'' Date_Time True,
        column_of ''expires_at'' Date_Time True,
        column_of ''activated_at'' Date_Time True,
        column_of ''revoked_at'' Date_Time True,
        column_of ''metadata_json'' Json_Value False,
        column_of ''created_at'' Date_Time False,
        column_of ''updated_at'' Date_Time False],
     ts_constraints = [Foreign_Key ''subject_id'' ''subjects'' ''id'', Primary_Key [''id'']],
     ts_indexes =
       [index_of ''ix_pod_provisioning_records_enrollment_token_hash'' [''enrollment_token_hash''] True,
        index_of ''ix_pod_provisioning_records_expires_at'' [''expires_at''] False,
        index_of ''ix_pod_provisioning_records_login'' [''login''] False,
        index_of ''ix_pod_provisioning_records_status'' [''status''] False,
        index_of ''ix_pod_provisioning_records_subject_id'' [''subject_id''] False]\<rparr>"

definition create_pods :: table_script where
  "create_pods = \<lparr>ts_name = ''pods'',
     ts_columns =
       [column_of ''id'' (String_Of 32) False,
        column_of ''subject_id'' (String_Of 64) False,
        column_of ''provisioning_id'' (String_Of 32) True,
        column_of ''name'' (String_Of 255) False,
        column_of ''login'' (String_Of 255) False,
        column_of ''password_hash'' Long_Text False,
        column_of ''status'' (String_Of 32) False,
        column_of ''host_id'' (String_Of 128) False,
        column_of ''path'' (String_Of 1024) False,
        column_of ''launcher_path'' (String_Of 1024) False,
        column_of ''runtime_state'' Json_Value False,
        column_of ''is_portable'' Truth_Value False,
        column_of ''last_materialized_at'' Date_Time True,
        column_of ''public_key_pem'' Long_Text False,
        column_of ''identity_certificate'' Long_Text False,
        column_of ''certificate_fingerprint'' (String_Of 255) False,
        column_of ''device_binding_fingerprint'' (String_Of 255) False,
        column_of ''device_binding_status'' (String_Of 32) False,
        column_of ''pod_version'' (String_Of 64) False,
        column_of ''xray_version'' (String_Of 64) False,
        column_of ''network_profile_version'' Whole_Number False,
        column_of ''system_tabs_profile_version'' Whole_Number False,
        column_of ''heartbeat_sequence'' Whole_Number False,
        column_of ''last_seen_at'' Date_Time True,
        column_of ''last_heartbeat_at'' Date_Time True,
        column_of ''activated_at'' Date_Time True,
        column_of ''revoked_at'' Date_Time True,
        column_of ''revoke_reason'' Long_Text False,
        column_of ''created_at'' Date_Time False,
        column_of ''updated_at'' Date_Time False],
     ts_constraints = [Foreign_Key ''provisioning_id'' ''pod_provisioning_records'' ''id'', Foreign_Key ''subject_id'' ''subjects'' ''id'', Primary_Key [''id'']],
     ts_indexes =
       [index_of ''ix_pods_certificate_fingerprint'' [''certificate_fingerprint''] False,
        index_of ''ix_pods_device_binding_fingerprint'' [''device_binding_fingerprint''] False,
        index_of ''ix_pods_host_id'' [''host_id''] False,
        index_of ''ix_pods_last_seen_at'' [''last_seen_at''] False,
        index_of ''ix_pods_login'' [''login''] False,
        index_of ''ix_pods_provisioning_id'' [''provisioning_id''] False,
        index_of ''ix_pods_status'' [''status''] False,
        index_of ''ix_pods_subject_id'' [''subject_id''] False]\<rparr>"

definition create_launch_authorizations :: table_script where
  "create_launch_authorizations = \<lparr>ts_name = ''launch_authorizations'',
     ts_columns =
       [column_of ''id'' (String_Of 32) False,
        column_of ''subject_id'' (String_Of 64) False,
        column_of ''pod_id'' (String_Of 32) False,
        column_of ''decision'' (String_Of 32) False,
        column_of ''reason'' Long_Text False,
        column_of ''issued_at'' Date_Time True,
        column_of ''expires_at'' Date_Time True,
        column_of ''revoked_at'' Date_Time True,
        column_of ''created_at'' Date_Time False,
        column_of ''updated_at'' Date_Time False],
     ts_constraints = [Foreign_Key ''pod_id'' ''pods'' ''id'', Foreign_Key ''subject_id'' ''subjects'' ''id'', Primary_Key [''id'']],
     ts_indexes =
       [index_of ''ix_launch_authorizations_decision'' [''decision''] False,
        index_of ''ix_launch_authorizations_pod_id'' [''pod_id''] False,
        index_of ''ix_launch_authorizations_subject_id'' [''subject_id''] False]\<rparr>"

definition create_session_leases :: table_script where
  "create_session_leases = \<lparr>ts_name = ''session_leases'',
     ts_columns =
       [column_of ''id'' (String_Of 32) False,
        column_of ''subject_id'' (String_Of 64) True,
        column_of ''pod_id'' (String_Of 32) True,
        column_of ''agent_id'' (String_Of 64) True,
        column_of ''status'' (String_Of 32) False,
        column_of ''session_key_hash'' (String_Of 255) False,
        column_of ''access_scope'' (String_Of 64) False,
        column_of ''transport'' (String_Of 32) True,
        column_of ''started_at'' Date_Time False,
        column_of ''expires_at'' Date_Time True,
        column_of ''ended_at'' Date_Time True,
        column_of ''created_at'' Date_Time False,
        column_of ''updated_at'' Date_Time False],
     ts_constraints = [Foreign_Key ''agent_id'' ''agents'' ''id'', Foreign_Key ''pod_id'' ''pods'' ''id'', Foreign_Key ''subject_id'' ''subjects'' ''id'', Primary_Key [''id'']],
     ts_indexes =
       [index_of ''ix_session_leases_access_scope'' [''access_scope''] False,
        index_of ''ix_session_leases_agent_id'' [''agent_id''] False,
        index_of ''ix_session_leases_pod_id'' [''pod_id''] False,
        index_of ''ix_session_leases_status'' [''status''] False,
        index_of ''ix_session_leases_subject_id'' [''subject_id''] False]\<rparr>"

definition tables_0001 :: "table_script list" where
  "tables_0001 =
    [create_access_policies, create_agents, create_audit_events, create_backup_manifests,
     create_certificate_denylist, create_controller_identity, create_objects, create_pod_denylist,
     create_system_settings, create_agent_assignments, create_agent_capabilities, create_agent_certificates,
     create_agent_commands, create_agent_endpoints, create_agent_heartbeats, create_agent_state_events,
     create_approval_decisions, create_approval_requests, create_job_events, create_job_results,
     create_jobs, create_revocation_records, create_subjects, create_pod_provisioning_records,
     create_pods, create_launch_authorizations, create_session_leases]"

definition upgrade_0001 :: "ddl list" where
  "upgrade_0001 = concat (map script tables_0001)"

definition downgrade_0001 :: "ddl list" where
  "downgrade_0001 =
    [Drop_Index ''ix_session_leases_subject_id'' ''session_leases'',
     Drop_Index ''ix_session_leases_status'' ''session_leases'',
     Drop_Index ''ix_session_leases_pod_id'' ''session_leases'',
     Drop_Index ''ix_session_leases_agent_id'' ''session_leases'',
     Drop_Index ''ix_session_leases_access_scope'' ''session_leases'',
     Drop_Table ''session_leases'',
     Drop_Index ''ix_launch_authorizations_subject_id'' ''launch_authorizations'',
     Drop_Index ''ix_launch_authorizations_pod_id'' ''launch_authorizations'',
     Drop_Index ''ix_launch_authorizations_decision'' ''launch_authorizations'',
     Drop_Table ''launch_authorizations'',
     Drop_Index ''ix_pods_subject_id'' ''pods'',
     Drop_Index ''ix_pods_status'' ''pods'',
     Drop_Index ''ix_pods_provisioning_id'' ''pods'',
     Drop_Index ''ix_pods_login'' ''pods'',
     Drop_Index ''ix_pods_last_seen_at'' ''pods'',
     Drop_Index ''ix_pods_host_id'' ''pods'',
     Drop_Index ''ix_pods_device_binding_fingerprint'' ''pods'',
     Drop_Index ''ix_pods_certificate_fingerprint'' ''pods'',
     Drop_Table ''pods'',
     Drop_Index ''ix_pod_provisioning_records_subject_id'' ''pod_provisioning_records'',
     Drop_Index ''ix_pod_provisioning_records_status'' ''pod_provisioning_records'',
     Drop_Index ''ix_pod_provisioning_records_login'' ''pod_provisioning_records'',
     Drop_Index ''ix_pod_provisioning_records_expires_at'' ''pod_provisioning_records'',
     Drop_Index ''ix_pod_provisioning_records_enrollment_token_hash'' ''pod_provisioning_records'',
     Drop_Table ''pod_provisioning_records'',
     Drop_Index ''ix_subjects_runtime_type'' ''subjects'',
     Drop_Index ''ix_subjects_pod_id'' ''subjects'',
     Drop_Index ''ix_subjects_object_id'' ''subjects'',
     Drop_Index ''ix_subjects_kind'' ''subjects'',
     Drop_Index ''ix_subjects_entity_id'' ''subjects'',
     Drop_Table ''subjects'',
     Drop_Index ''ix_revocation_records_status'' ''revocation_records'',
     Drop_Index ''ix_revocation_records_certificate_fingerprint_sha256'' ''revocation_records'',
     Drop_Index ''ix_revocation_records_agent_id'' ''revocation_records'',
     Drop_Table ''revocation_records'',
     Drop_Index ''ix_jobs_status'' ''jobs'',
     Drop_Index ''ix_jobs_request_id'' ''jobs'',
     Drop_Index ''ix_jobs_plan_hash'' ''jobs'',
     Drop_Index ''ix_jobs_job_id'' ''jobs'',
     Drop_Index ''ix_jobs_agent_id'' ''jobs'',
     Drop_Index ''ix_jobs_action'' ''jobs'',
     Drop_Table ''jobs'',
     Drop_Index ''ix_job_results_status'' ''job_results'',
     Drop_Index ''ix_job_results_job_id'' ''job_results'',
     Drop_Index ''ix_job_results_agent_id'' ''job_results'',
     Drop_Table ''job_results'',
     Drop_Index ''ix_job_events_sequence'' ''job_events'',
     Drop_Index ''ix_job_events_job_id'' ''job_events'',
     Drop_Index ''ix_job_events_event_type'' ''job_events'',
     Drop_Index ''ix_job_events_created_at'' ''job_events'',
     Drop_Index ''ix_job_events_agent_id'' ''job_events'',
     Drop_Table ''job_events'',
     Drop_Index ''ix_approval_requests_status'' ''approval_requests'',
     Drop_Index ''ix_approval_requests_plan_hash'' ''approval_requests'',
     Drop_Index ''ix_approval_requests_job_id'' ''approval_requests'',
     Drop_Index ''ix_approval_requests_approval_id'' ''approval_requests'',
     Drop_Index ''ix_approval_requests_agent_id'' ''approval_requests'',
     Drop_Table ''approval_requests'',
     Drop_Index ''ix_approval_decisions_plan_hash'' ''approval_decisions'',
     Drop_Index ''ix_approval_decisions_job_id'' ''approval_decisions'',
     Drop_Index ''ix_approval_decisions_decision'' ''approval_decisions'',
     Drop_Index ''ix_approval_decisions_approval_id'' ''approval_decisions'',
     Drop_Index ''ix_approval_decisions_agent_id'' ''approval_decisions'',
     Drop_Table ''approval_decisions'',
     Drop_Index ''ix_agent_state_events_sequence'' ''agent_state_events'',
     Drop_Index ''ix_agent_state_events_event_type'' ''agent_state_events'',
     Drop_Index ''ix_agent_state_events_created_at'' ''agent_state_events'',
     Drop_Index ''ix_agent_state_events_agent_id'' ''agent_state_events'',
     Drop_Table ''agent_state_events'',
     Drop_Index ''ix_agent_heartbeats_observed_at'' ''agent_heartbeats'',
     Drop_Index ''ix_agent_heartbeats_agent_id'' ''agent_heartbeats'',
     Drop_Table ''agent_heartbeats'',
     Drop_Index ''ix_agent_endpoints_status'' ''agent_endpoints'',
     Drop_Index ''ix_agent_endpoints_domain'' ''agent_endpoints'',
     Drop_Index ''ix_agent_endpoints_agent_id'' ''agent_endpoints'',
     Drop_Table ''agent_endpoints'',
     Drop_Index ''ix_agent_commands_status'' ''agent_commands'',
     Drop_Index ''ix_agent_commands_agent_id'' ''agent_commands'',
     Drop_Table ''agent_commands'',
     Drop_Index ''ix_agent_certificates_status'' ''agent_certificates'',
     Drop_Index ''ix_agent_certificates_serial_number'' ''agent_certificates'',
     Drop_Index ''ix_agent_certificates_fingerprint_sha256'' ''agent_certificates'',
     Drop_Index ''ix_agent_certificates_agent_id'' ''agent_certificates'',
     Drop_Table ''agent_certificates'',
     Drop_Index ''ix_agent_capabilities_risk'' ''agent_capabilities'',
     Drop_Index ''ix_agent_capabilities_group'' ''agent_capabilities'',
     Drop_Index ''ix_agent_capabilities_agent_id'' ''agent_capabilities'',
     Drop_Index ''ix_agent_capabilities_action'' ''agent_capabilities'',
     Drop_Table ''agent_capabilities'',
     Drop_Index ''ix_agent_assignments_block_type'' ''agent_assignments'',
     Drop_Index ''ix_agent_assignments_block_id'' ''agent_assignments'',
     Drop_Index ''ix_agent_assignments_agent_id'' ''agent_assignments'',
     Drop_Table ''agent_assignments'',
     Drop_Index ''ix_system_settings_scope'' ''system_settings'',
     Drop_Index ''ix_system_settings_key'' ''system_settings'',
     Drop_Table ''system_settings'',
     Drop_Index ''ix_pod_denylist_subject_id'' ''pod_denylist'',
     Drop_Index ''ix_pod_denylist_pod_id'' ''pod_denylist'',
     Drop_Index ''ix_pod_denylist_identifier_value'' ''pod_denylist'',
     Drop_Index ''ix_pod_denylist_identifier_type'' ''pod_denylist'',
     Drop_Table ''pod_denylist'',
     Drop_Index ''ix_objects_kind'' ''objects'',
     Drop_Index ''ix_objects_entity_id'' ''objects'',
     Drop_Table ''objects'',
     Drop_Index ''ix_controller_identity_status'' ''controller_identity'',
     Drop_Index ''ix_controller_identity_controller_id'' ''controller_identity'',
     Drop_Table ''controller_identity'',
     Drop_Index ''ix_certificate_denylist_fingerprint_sha256'' ''certificate_denylist'',
     Drop_Index ''ix_certificate_denylist_agent_id'' ''certificate_denylist'',
     Drop_Table ''certificate_denylist'',
     Drop_Index ''ix_backup_manifests_entity_type'' ''backup_manifests'',
     Drop_Index ''ix_backup_manifests_entity_id'' ''backup_manifests'',
     Drop_Index ''ix_backup_manifests_backup_id'' ''backup_manifests'',
     Drop_Table ''backup_manifests'',
     Drop_Index ''ix_audit_events_target_type'' ''audit_events'',
     Drop_Index ''ix_audit_events_target_id'' ''audit_events'',
     Drop_Index ''ix_audit_events_created_at'' ''audit_events'',
     Drop_Index ''ix_audit_events_actor_type'' ''audit_events'',
     Drop_Index ''ix_audit_events_actor_id'' ''audit_events'',
     Drop_Index ''ix_audit_events_action'' ''audit_events'',
     Drop_Table ''audit_events'',
     Drop_Index ''ix_agents_status'' ''agents'',
     Drop_Index ''ix_agents_library_position'' ''agents'',
     Drop_Index ''ix_agents_identity_fingerprint'' ''agents'',
     Drop_Index ''ix_agents_host_id'' ''agents'',
     Drop_Index ''ix_agents_enrollment_state'' ''agents'',
     Drop_Index ''ix_agents_domain'' ''agents'',
     Drop_Index ''ix_agents_certificate_serial'' ''agents'',
     Drop_Index ''ix_agents_agent_type'' ''agents'',
     Drop_Table ''agents'',
     Drop_Index ''ix_access_policies_status'' ''access_policies'',
     Drop_Index ''ix_access_policies_scope_type'' ''access_policies'',
     Drop_Index ''ix_access_policies_scope_id'' ''access_policies'',
     Drop_Table ''access_policies'']"


section \<open>The scripts run\<close>

lemmas create_defs = create_access_policies_def create_agents_def create_audit_events_def create_backup_manifests_def
  create_certificate_denylist_def create_controller_identity_def create_objects_def create_pod_denylist_def
  create_system_settings_def create_agent_assignments_def create_agent_capabilities_def create_agent_certificates_def
  create_agent_commands_def create_agent_endpoints_def create_agent_heartbeats_def create_agent_state_events_def
  create_approval_decisions_def create_approval_requests_def create_job_events_def create_job_results_def
  create_jobs_def create_revocation_records_def create_subjects_def create_pod_provisioning_records_def
  create_pods_def create_launch_authorizations_def create_session_leases_def

named_theorems sound_creates \<open>each script is sound\<close>


lemma sound_create_access_policies [sound_creates]: "sound_script create_access_policies"
  by code_simp

lemma sound_create_agents [sound_creates]: "sound_script create_agents"
  by code_simp

lemma sound_create_audit_events [sound_creates]: "sound_script create_audit_events"
  by code_simp

lemma sound_create_backup_manifests [sound_creates]: "sound_script create_backup_manifests"
  by code_simp

lemma sound_create_certificate_denylist [sound_creates]: "sound_script create_certificate_denylist"
  by code_simp

lemma sound_create_controller_identity [sound_creates]: "sound_script create_controller_identity"
  by code_simp

lemma sound_create_objects [sound_creates]: "sound_script create_objects"
  by code_simp

lemma sound_create_pod_denylist [sound_creates]: "sound_script create_pod_denylist"
  by code_simp

lemma sound_create_system_settings [sound_creates]: "sound_script create_system_settings"
  by code_simp

lemma sound_create_agent_assignments [sound_creates]: "sound_script create_agent_assignments"
  by code_simp

lemma sound_create_agent_capabilities [sound_creates]: "sound_script create_agent_capabilities"
  by code_simp

lemma sound_create_agent_certificates [sound_creates]: "sound_script create_agent_certificates"
  by code_simp

lemma sound_create_agent_commands [sound_creates]: "sound_script create_agent_commands"
  by code_simp

lemma sound_create_agent_endpoints [sound_creates]: "sound_script create_agent_endpoints"
  by code_simp

lemma sound_create_agent_heartbeats [sound_creates]: "sound_script create_agent_heartbeats"
  by code_simp

lemma sound_create_agent_state_events [sound_creates]: "sound_script create_agent_state_events"
  by code_simp

lemma sound_create_approval_decisions [sound_creates]: "sound_script create_approval_decisions"
  by code_simp

lemma sound_create_approval_requests [sound_creates]: "sound_script create_approval_requests"
  by code_simp

lemma sound_create_job_events [sound_creates]: "sound_script create_job_events"
  by code_simp

lemma sound_create_job_results [sound_creates]: "sound_script create_job_results"
  by code_simp

lemma sound_create_jobs [sound_creates]: "sound_script create_jobs"
  by code_simp

lemma sound_create_revocation_records [sound_creates]: "sound_script create_revocation_records"
  by code_simp

lemma sound_create_subjects [sound_creates]: "sound_script create_subjects"
  by code_simp

lemma sound_create_pod_provisioning_records [sound_creates]: "sound_script create_pod_provisioning_records"
  by code_simp

lemma sound_create_pods [sound_creates]: "sound_script create_pods"
  by code_simp

lemma sound_create_launch_authorizations [sound_creates]: "sound_script create_launch_authorizations"
  by code_simp

lemma sound_create_session_leases [sound_creates]: "sound_script create_session_leases"
  by code_simp

lemma create_names:
  "ts_name create_access_policies = ''access_policies''"
  "ts_name create_agents = ''agents''"
  "ts_name create_audit_events = ''audit_events''"
  "ts_name create_backup_manifests = ''backup_manifests''"
  "ts_name create_certificate_denylist = ''certificate_denylist''"
  "ts_name create_controller_identity = ''controller_identity''"
  "ts_name create_objects = ''objects''"
  "ts_name create_pod_denylist = ''pod_denylist''"
  "ts_name create_system_settings = ''system_settings''"
  "ts_name create_agent_assignments = ''agent_assignments''"
  "ts_name create_agent_capabilities = ''agent_capabilities''"
  "ts_name create_agent_certificates = ''agent_certificates''"
  "ts_name create_agent_commands = ''agent_commands''"
  "ts_name create_agent_endpoints = ''agent_endpoints''"
  "ts_name create_agent_heartbeats = ''agent_heartbeats''"
  "ts_name create_agent_state_events = ''agent_state_events''"
  "ts_name create_approval_decisions = ''approval_decisions''"
  "ts_name create_approval_requests = ''approval_requests''"
  "ts_name create_job_events = ''job_events''"
  "ts_name create_job_results = ''job_results''"
  "ts_name create_jobs = ''jobs''"
  "ts_name create_revocation_records = ''revocation_records''"
  "ts_name create_subjects = ''subjects''"
  "ts_name create_pod_provisioning_records = ''pod_provisioning_records''"
  "ts_name create_pods = ''pods''"
  "ts_name create_launch_authorizations = ''launch_authorizations''"
  "ts_name create_session_leases = ''session_leases''"
  by (simp_all add: create_defs)

lemma create_references:
  "references create_access_policies = []"
  "references create_agents = []"
  "references create_audit_events = []"
  "references create_backup_manifests = []"
  "references create_certificate_denylist = []"
  "references create_controller_identity = []"
  "references create_objects = []"
  "references create_pod_denylist = []"
  "references create_system_settings = []"
  "references create_agent_assignments = [''agents'']"
  "references create_agent_capabilities = [''agents'']"
  "references create_agent_certificates = [''agents'']"
  "references create_agent_commands = [''agents'']"
  "references create_agent_endpoints = [''agents'']"
  "references create_agent_heartbeats = [''agents'']"
  "references create_agent_state_events = [''agents'']"
  "references create_approval_decisions = [''agents'']"
  "references create_approval_requests = [''agents'']"
  "references create_job_events = [''agents'']"
  "references create_job_results = [''agents'']"
  "references create_jobs = [''agents'']"
  "references create_revocation_records = [''agents'']"
  "references create_subjects = [''access_policies'', ''objects'']"
  "references create_pod_provisioning_records = [''subjects'']"
  "references create_pods = [''pod_provisioning_records'', ''subjects'']"
  "references create_launch_authorizations = [''pods'', ''subjects'']"
  "references create_session_leases = [''agents'', ''pods'', ''subjects'']"
  by (simp_all add: create_defs references_def)

lemma sound_0001: "list_all sound_script tables_0001"
  by (simp add: tables_0001_def sound_creates)

lemma ordered_0001: "ordered_scripts [] tables_0001"
  by (simp add: tables_0001_def create_names create_references)

definition catalog_0001 :: catalog where
  "catalog_0001 = map (\<lambda>g. (ts_name g, built g)) tables_0001"

lemma run_0001: "run_all upgrade_0001 [] = Some catalog_0001"
  using run_scripts [OF sound_0001, of "[]"] ordered_0001 by (simp add: upgrade_0001_def catalog_0001_def tables_of_def)

lemma downgrade_is_unscript: "downgrade_0001 = concat (map unscript (rev tables_0001))"
  by (simp add: tables_0001_def downgrade_0001_def create_defs unscript_def index_of_def)

end
