(* ===== verification/Migrations.thy ===== *)
theory Migrations
  imports Baseline_Schema Security Py_Str
begin

text \<open>
  The migrations \<open>0001\<close> to \<open>0007\<close> of \<open>migrations/versions\<close> and \<open>app/database_migrations.py\<close>, which brings a database of any
  version to the last one. The database is its catalog, the version that alembic has recorded, and the rows the
  migrations read or change: the value under \<open>perimetr.preferences\<close>, the sessions, and the public identifiers of objects and
  subjects. An exception is the name of its class; what it leaves behind is not described.
\<close>

section \<open>The database\<close>

record session_row =
  sr_agent_id :: "string option"
  sr_status :: string
  sr_transport :: "string option"

record database =
  postgresql :: bool
  db_catalog :: catalog
  db_version :: "string option"
  preference_value :: "json option"
  session_rows :: "session_row list"
  object_ids :: "(string \<times> string) list"
  subject_ids :: "(string \<times> string) list"

text \<open>The random salt, and \<open>md5(id || clock_timestamp()::text)\<close> in hexadecimal.\<close>

record chance =
  new_salt :: string
  md5_text :: "string \<Rightarrow> string"

definition run_on :: "ddl list \<Rightarrow> database \<Rightarrow> string + database" where
  "run_on ds D = (case run_all ds (db_catalog D) of None \<Rightarrow> Inl ''DatabaseError'' | Some C \<Rightarrow> Inr (D\<lparr>db_catalog := C\<rparr>))"

text \<open>\<open>dict(value or {})\<close>.\<close>

definition as_dict :: "json \<Rightarrow> string + dict" where
  "as_dict v = (if \<not> truthy v then Inr [] else (case v of JObj d \<Rightarrow> Inr d | _ \<Rightarrow> Inl ''TypeError''))"

section \<open>0002: the password of the operator\<close>

definition encode_0002 :: "string \<Rightarrow> string" where
  "encode_0002 value = rstrip_by (\<lambda>c. c = CHR ''='') (urlsafe_b64encode value)"

definition hash_password_0002 :: "crypto \<Rightarrow> string \<Rightarrow> string \<Rightarrow> string" where
  "hash_password_0002 c salt password =
     ''scrypt$'' @ encode_0002 salt @ ''$'' @ encode_0002 (scrypt_fn c (utf8 password) salt 16384 8 1 64)"

definition value_0002 :: "crypto \<Rightarrow> string \<Rightarrow> json \<Rightarrow> string + json" where
  "value_0002 c salt value =
     try_bind (case value of JStr t \<Rightarrow> of_option ''ValueError'' (loads t) | _ \<Rightarrow> Inr value) (\<lambda>v.
     try_bind (as_dict v) (\<lambda>preferences.
     try_bind (as_dict (get_or_null ''auth'' preferences)) (\<lambda>auth.
     (let plaintext = str_or [] (get_key ''password'' auth);
          auth1 = del_key ''password'' auth;
          auth2 = (if plaintext \<noteq> [] \<and> \<not> starts_with ''scrypt$'' (str_or [] (get_key ''password_hash'' auth1))
            then set_key ''password_hash'' (JStr (hash_password_0002 c salt plaintext)) auth1 else auth1)
      in Inr (JObj (set_key ''auth'' (JObj auth2) preferences))))))"

definition upgrade_0002 :: "crypto \<Rightarrow> chance \<Rightarrow> database \<Rightarrow> string + database" where
  "upgrade_0002 c r D =
     (case preference_value D of
        None \<Rightarrow> Inr D
      | Some v \<Rightarrow> try_bind (value_0002 c (new_salt r) v) (\<lambda>v'. Inr (D\<lparr>preference_value := Some v'\<rparr>)))"

section \<open>0003: alignment of the legacy schema\<close>

definition AGENT_ID_TABLES :: "string list" where
  "AGENT_ID_TABLES = [''agent_assignments'', ''agent_capabilities'', ''agent_certificates'', ''agent_commands'',
     ''agent_endpoints'', ''agent_heartbeats'', ''agent_state_events'', ''approval_decisions'', ''approval_requests'',
     ''job_events'', ''job_results'', ''jobs'', ''revocation_records'', ''session_leases'']"

definition SUBJECT_ID_TABLES :: "string list" where
  "SUBJECT_ID_TABLES = [''launch_authorizations'', ''pod_provisioning_records'', ''pods'', ''session_leases'']"

definition widen_0003 :: "ddl list" where
  "widen_0003 = [Alter_Type ''agents'' ''id'' (String_Of 64)]
     @ map (\<lambda>t. Alter_Type t ''agent_id'' (String_Of 64)) AGENT_ID_TABLES
     @ [Alter_Type ''objects'' ''id'' (String_Of 64), Alter_Type ''subjects'' ''id'' (String_Of 64),
        Alter_Type ''subjects'' ''object_id'' (String_Of 64)]
     @ map (\<lambda>t. Alter_Type t ''subject_id'' (String_Of 64)) SUBJECT_ID_TABLES"

text \<open>\<open>upper(substr(translate(md5, '0', '2'), 1, 16))\<close>, for the rows without an identifier (null is the empty text here).\<close>

definition fill_id :: "chance \<Rightarrow> string \<times> string \<Rightarrow> string \<times> string" where
  "fill_id r row = (if snd row = []
     then (fst row, upper (take 16 (map (\<lambda>c. if c = CHR ''0'' then CHR ''2'' else c) (md5_text r (fst row))))) else row)"

definition require_0003 :: "ddl list" where
  "require_0003 = [Set_Not_Null ''objects'' ''entity_id'', Set_Not_Null ''subjects'' ''entity_id'']"

definition indexes_0003 :: "(string \<times> string \<times> string) list" where
  "indexes_0003 =
    [(''ix_agents_certificate_serial'', ''agents'', ''certificate_serial''),
     (''ix_agents_domain'', ''agents'', ''domain''),
     (''ix_agents_enrollment_state'', ''agents'', ''enrollment_state''),
     (''ix_agents_library_position'', ''agents'', ''library_position''),
     (''ix_certificate_denylist_agent_id'', ''certificate_denylist'', ''agent_id''),
     (''ix_pod_provisioning_records_login'', ''pod_provisioning_records'', ''login''),
     (''ix_pods_certificate_fingerprint'', ''pods'', ''certificate_fingerprint''),
     (''ix_pods_device_binding_fingerprint'', ''pods'', ''device_binding_fingerprint''),
     (''ix_pods_last_seen_at'', ''pods'', ''last_seen_at''),
     (''ix_pods_login'', ''pods'', ''login''),
     (''ix_pods_provisioning_id'', ''pods'', ''provisioning_id''),
     (''ix_pods_status'', ''pods'', ''status''),
     (''ix_subjects_kind'', ''subjects'', ''kind'')]"

text \<open>\<open>CREATE INDEX IF NOT EXISTS\<close>, and the foreign key, whose name PostgreSQL derives from its table and column.\<close>

definition has_index :: "catalog \<Rightarrow> string \<Rightarrow> string \<Rightarrow> bool" where
  "has_index C n ix = (case map_of C n of None \<Rightarrow> False | Some t \<Rightarrow> ix \<in> set (index_names t))"

fun create_missing :: "(string \<times> string \<times> string) list \<Rightarrow> catalog \<Rightarrow> catalog option" where
  "create_missing [] C = Some C"
| "create_missing ((ix, n, column) # is) C =
     (if has_index C n ix then create_missing is C
      else (case run_ddl (Create_Index ix n [column] False) C of None \<Rightarrow> None | Some C' \<Rightarrow> create_missing is C'))"

definition has_reference :: "catalog \<Rightarrow> string \<Rightarrow> string \<Rightarrow> bool" where
  "has_reference C n column =
     (case map_of C n of None \<Rightarrow> False | Some t \<Rightarrow> (\<exists>k \<in> set (tab_constraints t). is_reference column k))"

definition link_0003 :: "catalog \<Rightarrow> catalog option" where
  "link_0003 C = (if has_reference C ''pods'' ''provisioning_id'' then Some C
     else run_ddl (Add_Foreign_Key ''pods'' ''provisioning_id'' ''pod_provisioning_records'' ''id'') C)"

definition upgrade_0003 :: "chance \<Rightarrow> database \<Rightarrow> string + database" where
  "upgrade_0003 r D =
     (if \<not> postgresql D then Inr D
      else try_bind (run_on widen_0003 D) (\<lambda>D1.
           try_bind (run_on require_0003
             (D1\<lparr>object_ids := map (fill_id r) (object_ids D1), subject_ids := map (fill_id r) (subject_ids D1)\<rparr>)) (\<lambda>D2.
           (case Option.bind (create_missing indexes_0003 (db_catalog D2)) link_0003 of
              None \<Rightarrow> Inl ''DatabaseError''
            | Some C \<Rightarrow> Inr (D2\<lparr>db_catalog := C\<rparr>)))))"

section \<open>0004 and 0005: columns for Pods\<close>

definition add_if_missing :: "string \<Rightarrow> column \<Rightarrow> catalog \<Rightarrow> catalog option" where
  "add_if_missing n column C =
     (case map_of C n of
        None \<Rightarrow> None
      | Some t \<Rightarrow> if col_name column \<in> set (column_names t) then Some C else run_ddl (Add_Column n column) C)"

definition artifact_column :: column where
  "artifact_column = (column_of ''artifact_sha256'' (String_Of 64) False)\<lparr>col_server_default := Some []\<rparr>"

definition catalog_0004 :: "catalog \<Rightarrow> catalog option" where
  "catalog_0004 C = Option.bind (add_if_missing ''pod_provisioning_records'' artifact_column C)
     (create_missing [(''ix_pod_provisioning_records_artifact_sha256'', ''pod_provisioning_records'', ''artifact_sha256'')])"

definition decoy_column :: column where
  "decoy_column = (column_of ''decoy_password_hash'' Long_Text False)\<lparr>col_server_default := Some []\<rparr>"

definition catalog_0005 :: "catalog \<Rightarrow> catalog option" where
  "catalog_0005 C = Option.bind (add_if_missing ''pod_provisioning_records'' decoy_column C) (add_if_missing ''pods'' decoy_column)"

definition change_catalog :: "(catalog \<Rightarrow> catalog option) \<Rightarrow> database \<Rightarrow> string + database" where
  "change_catalog f D = (case f (db_catalog D) of None \<Rightarrow> Inl ''DatabaseError'' | Some C \<Rightarrow> Inr (D\<lparr>db_catalog := C\<rparr>))"

definition downgrade_0004 :: "ddl list" where
  "downgrade_0004 = [Drop_Index ''ix_pod_provisioning_records_artifact_sha256'' ''pod_provisioning_records'',
     Drop_Column ''pod_provisioning_records'' ''artifact_sha256'']"

definition downgrade_0005 :: "ddl list" where
  "downgrade_0005 = [Drop_Column ''pods'' ''decoy_password_hash'', Drop_Column ''pod_provisioning_records'' ''decoy_password_hash'']"

section \<open>0006: the Access Key\<close>

definition or_value :: "json \<Rightarrow> json \<Rightarrow> json" where
  "or_value a b = (if truthy a then a else b)"

definition value_0006 :: "json \<Rightarrow> string + json" where
  "value_0006 value =
     (if \<not> truthy value then Inr value
      else try_bind (as_dict value) (\<lambda>d.
           try_bind (as_dict (get_or_null ''auth'' d)) (\<lambda>auth.
           (let verifier = or_value (get_or_null ''access_key_hash'' auth) (get_or_null ''password_hash'' auth)
            in if \<not> truthy verifier then Inr value
               else Inr (JObj (set_key ''backup'' (JObj [(''include_audit'', JBool True), (''include_sessions'', JBool False)])
                      (set_key ''auth'' (JObj [(''access_key_hash'', verifier)]) d)))))))"

definition revoke_direct :: "session_row \<Rightarrow> session_row" where
  "revoke_direct s = (if sr_transport s = Some ''direct'' then s\<lparr>sr_status := ''revoked''\<rparr> else s)"

definition upgrade_0006 :: "database \<Rightarrow> string + database" where
  "upgrade_0006 D =
     (let D' = D\<lparr>session_rows := map revoke_direct (session_rows D)\<rparr>
      in (case preference_value D of
            None \<Rightarrow> Inr D'
          | Some v \<Rightarrow> try_bind (value_0006 v) (\<lambda>v'. Inr (D'\<lparr>preference_value := Some v'\<rparr>))))"

section \<open>0007: no server agents\<close>

definition REMOVED_TABLES :: "string list" where
  "REMOVED_TABLES = [''agent_assignments'', ''agent_endpoints'', ''agent_certificates'', ''agent_capabilities'',
     ''agent_heartbeats'', ''agent_state_events'', ''agent_commands'', ''job_events'', ''job_results'', ''approval_requests'',
     ''approval_decisions'', ''revocation_records'', ''certificate_denylist'', ''controller_identity'', ''jobs'', ''agents'']"

definition remove_agents :: "ddl list" where
  "remove_agents = [Drop_Foreign_Keys ''session_leases'' ''agent_id'', Drop_Index ''ix_session_leases_agent_id'' ''session_leases'',
     Drop_Column ''session_leases'' ''agent_id''] @ map Drop_Table REMOVED_TABLES"

text \<open>The navigation is a list in every version; \<open>revision\<close> is an integer.\<close>

definition value_0007 :: "json \<Rightarrow> string + json" where
  "value_0007 value =
     (if \<not> truthy value then Inr value
      else (case value of
        JObj d \<Rightarrow>
          (case get_key ''layout'' d of
             None \<Rightarrow> Inr value
           | Some (JObj layout) \<Rightarrow>
               (case get_key ''navigation'' layout of
                  None \<Rightarrow> Inr value
                | Some (JArr items) \<Rightarrow>
                    if JStr ''agents'' \<notin> set items then Inr value
                    else (case (case get_key ''revision'' d of None \<Rightarrow> JInt 1 | Some n \<Rightarrow> n) of
                        JInt n \<Rightarrow> Inr (JObj (set_key ''revision'' (JInt (n + 1))
                          (set_key ''layout'' (JObj (set_key ''navigation'' (JArr (filter (\<lambda>i. i \<noteq> JStr ''agents'') items)) layout)) d)))
                      | _ \<Rightarrow> Inl ''TypeError'')
                | Some _ \<Rightarrow> Inl ''TypeError'')
           | Some _ \<Rightarrow> Inl ''AttributeError'')
      | _ \<Rightarrow> Inl ''AttributeError''))"

definition upgrade_0007 :: "database \<Rightarrow> string + database" where
  "upgrade_0007 D =
     try_bind (run_on remove_agents (D\<lparr>session_rows := filter (\<lambda>s. sr_agent_id s = None) (session_rows D)\<rparr>)) (\<lambda>D1.
     (case preference_value D1 of
        None \<Rightarrow> Inr D1
      | Some v \<Rightarrow> try_bind (value_0007 v) (\<lambda>v'. Inr (D1\<lparr>preference_value := Some v'\<rparr>))))"

section \<open>The upgrade\<close>

type_synonym migration = "string \<times> (database \<Rightarrow> string + database)"

definition migrations :: "crypto \<Rightarrow> chance \<Rightarrow> migration list" where
  "migrations c r =
    [(''0001'', run_on upgrade_0001), (''0002'', upgrade_0002 c r), (''0003'', upgrade_0003 r),
     (''0004'', change_catalog catalog_0004), (''0005'', change_catalog catalog_0005), (''0006'', upgrade_0006),
     (''0007'', upgrade_0007)]"

fun run_migrations :: "migration list \<Rightarrow> database \<Rightarrow> string + database" where
  "run_migrations [] D = Inr D"
| "run_migrations ((v, f) # ms) D = try_bind (f D) (\<lambda>D'. run_migrations ms (D'\<lparr>db_version := Some v\<rparr>))"

text \<open>\<open>command.upgrade(config, "head")\<close>: the migrations after the recorded one.\<close>

definition alembic_upgrade :: "migration list \<Rightarrow> database \<Rightarrow> string + database" where
  "alembic_upgrade ms D =
     (case db_version D of
        None \<Rightarrow> run_migrations ms D
      | Some v \<Rightarrow> if v \<notin> fst ` set ms then Inl ''CommandError''
          else run_migrations (tl (dropWhile (\<lambda>m. fst m \<noteq> v) ms)) D)"

definition LEGACY_BASELINE_TABLES :: "string list" where
  "LEGACY_BASELINE_TABLES = [''objects'', ''subjects'', ''access_policies'', ''system_settings'', ''pods'',
     ''pod_provisioning_records'', ''pod_denylist'', ''agents'', ''agent_assignments'', ''agent_endpoints'',
     ''agent_certificates'', ''agent_capabilities'', ''agent_heartbeats'', ''agent_state_events'', ''jobs'', ''job_events'',
     ''job_results'', ''approval_requests'', ''approval_decisions'', ''revocation_records'', ''certificate_denylist'',
     ''controller_identity'', ''launch_authorizations'', ''agent_commands'', ''audit_events'', ''session_leases'',
     ''backup_manifests'']"

definition missing_tables :: "database \<Rightarrow> string list" where
  "missing_tables D = sort (filter (\<lambda>t. t \<notin> set (tables_of (db_catalog D))) LEGACY_BASELINE_TABLES)"

definition upgrade_database :: "crypto \<Rightarrow> chance \<Rightarrow> database \<Rightarrow> string + database" where
  "upgrade_database c r D =
     (if db_catalog D \<noteq> [] \<and> db_version D = None then
        (if missing_tables D \<noteq> []
         then Inl (''Existing unversioned Perimetr database predates the 0001 baseline and is missing tables: ''
                @ join '', '' (missing_tables D)
                @ ''. Upgrade it with the legacy bridge release before installing this version.'')
         else alembic_upgrade (migrations c r) (D\<lparr>db_version := Some ''0001''\<rparr>))
      else alembic_upgrade (migrations c r) D)"

end
