(* ===== verification/Model_Metadata.thy ===== *)
theory Model_Metadata
  imports Ddl
begin

text \<open>
  The declarative models of \<open>app/models.py\<close> as SQLAlchemy reads them into the metadata of the application: the columns
  of each class with its flags, and the table they stand for. The theory \<open>Schema\<close> has the rows of these tables.
\<close>

section \<open>Declarations\<close>

text \<open>\<open>mapped_column\<close>: the type or the column it refers to, whose type it takes, and the arguments that are true.\<close>

datatype flag = Nullable | Primary | Is_Unique | Indexed

record mapped =
  at_name :: string
  at_type :: "col_type option"
  at_reference :: "(string \<times> string) option"
  at_flags :: "flag list"

record model =
  md_table :: string
  md_attributes :: "mapped list"
  md_unique :: "(string list \<times> string) list"

definition attribute :: "string \<Rightarrow> col_type option \<Rightarrow> (string \<times> string) option \<Rightarrow> flag list \<Rightarrow> mapped" where
  "attribute n t r fs = \<lparr>at_name = n, at_type = t, at_reference = r, at_flags = fs\<rparr>"

section \<open>The models\<close>

definition timestamp_mixin :: "mapped list" where
  "timestamp_mixin =
    [attribute ''created_at'' (Some Date_Time) None [],
     attribute ''updated_at'' (Some Date_Time) None []]"

definition model_objects :: model where
  "model_objects = \<lparr>md_table = ''objects'',
     md_attributes =
       [attribute ''id'' (Some (String_Of 64)) None [Primary],
        attribute ''entity_id'' (Some (String_Of 16)) None [Is_Unique, Indexed],
        attribute ''name'' (Some (String_Of 255)) None [],
        attribute ''kind'' (Some (String_Of 32)) None [Indexed],
        attribute ''description'' (Some Long_Text) None [],
        attribute ''tags'' (Some Json_Value) None [],
        attribute ''image_data'' (Some Long_Text) None [],
        attribute ''image_media_type'' (Some (String_Of 64)) None []] @ timestamp_mixin,
     md_unique = []\<rparr>"

definition model_access_policies :: model where
  "model_access_policies = \<lparr>md_table = ''access_policies'',
     md_attributes =
       [attribute ''id'' (Some (String_Of 32)) None [Primary],
        attribute ''scope_type'' (Some (String_Of 64)) None [Indexed],
        attribute ''scope_id'' (Some (String_Of 32)) None [Indexed],
        attribute ''rules'' (Some Json_Value) None [],
        attribute ''status'' (Some (String_Of 32)) None [Indexed]] @ timestamp_mixin,
     md_unique = []\<rparr>"

definition model_system_settings :: model where
  "model_system_settings = \<lparr>md_table = ''system_settings'',
     md_attributes =
       [attribute ''id'' (Some (String_Of 32)) None [Primary],
        attribute ''scope'' (Some (String_Of 64)) None [Indexed],
        attribute ''key'' (Some (String_Of 128)) None [Is_Unique, Indexed],
        attribute ''value'' (Some Json_Value) None []] @ timestamp_mixin,
     md_unique = []\<rparr>"

definition model_subjects :: model where
  "model_subjects = \<lparr>md_table = ''subjects'',
     md_attributes =
       [attribute ''id'' (Some (String_Of 64)) None [Primary],
        attribute ''entity_id'' (Some (String_Of 16)) None [Is_Unique, Indexed],
        attribute ''object_id'' None (Some (''objects'', ''id'')) [Nullable, Indexed],
        attribute ''name'' (Some (String_Of 255)) None [],
        attribute ''kind'' (Some (String_Of 32)) None [Indexed],
        attribute ''description'' (Some Long_Text) None [],
        attribute ''tags'' (Some Json_Value) None [],
        attribute ''image_data'' (Some Long_Text) None [],
        attribute ''image_media_type'' (Some (String_Of 64)) None [],
        attribute ''runtime_type'' (Some (String_Of 32)) None [Indexed],
        attribute ''pod_id'' (Some (String_Of 32)) None [Nullable, Indexed],
        attribute ''access_policy_id'' None (Some (''access_policies'', ''id'')) [Nullable],
        attribute ''primary_route'' (Some (String_Of 255)) None [Nullable],
        attribute ''vless_uri_encrypted'' (Some Long_Text) None [],
        attribute ''network_profile_version'' (Some Whole_Number) None [],
        attribute ''system_tabs'' (Some Json_Value) None [],
        attribute ''system_tabs_profile_version'' (Some Whole_Number) None [],
        attribute ''update_channel'' (Some (String_Of 32)) None [],
        attribute ''ui_policy'' (Some Json_Value) None [],
        attribute ''security_policy'' (Some Json_Value) None []] @ timestamp_mixin,
     md_unique = []\<rparr>"

definition model_pods :: model where
  "model_pods = \<lparr>md_table = ''pods'',
     md_attributes =
       [attribute ''id'' (Some (String_Of 32)) None [Primary],
        attribute ''subject_id'' None (Some (''subjects'', ''id'')) [Indexed],
        attribute ''provisioning_id'' None (Some (''pod_provisioning_records'', ''id'')) [Nullable, Indexed],
        attribute ''name'' (Some (String_Of 255)) None [],
        attribute ''login'' (Some (String_Of 255)) None [Indexed],
        attribute ''password_hash'' (Some Long_Text) None [],
        attribute ''decoy_password_hash'' (Some Long_Text) None [],
        attribute ''status'' (Some (String_Of 32)) None [Indexed],
        attribute ''host_id'' (Some (String_Of 128)) None [Indexed],
        attribute ''path'' (Some (String_Of 1024)) None [],
        attribute ''launcher_path'' (Some (String_Of 1024)) None [],
        attribute ''runtime_state'' (Some Json_Value) None [],
        attribute ''is_portable'' (Some Truth_Value) None [],
        attribute ''last_materialized_at'' (Some Date_Time) None [Nullable],
        attribute ''public_key_pem'' (Some Long_Text) None [],
        attribute ''identity_certificate'' (Some Long_Text) None [],
        attribute ''certificate_fingerprint'' (Some (String_Of 255)) None [Indexed],
        attribute ''device_binding_fingerprint'' (Some (String_Of 255)) None [Indexed],
        attribute ''device_binding_status'' (Some (String_Of 32)) None [],
        attribute ''pod_version'' (Some (String_Of 64)) None [],
        attribute ''xray_version'' (Some (String_Of 64)) None [],
        attribute ''network_profile_version'' (Some Whole_Number) None [],
        attribute ''system_tabs_profile_version'' (Some Whole_Number) None [],
        attribute ''heartbeat_sequence'' (Some Whole_Number) None [],
        attribute ''last_seen_at'' (Some Date_Time) None [Nullable, Indexed],
        attribute ''last_heartbeat_at'' (Some Date_Time) None [Nullable],
        attribute ''activated_at'' (Some Date_Time) None [Nullable],
        attribute ''revoked_at'' (Some Date_Time) None [Nullable],
        attribute ''revoke_reason'' (Some Long_Text) None []] @ timestamp_mixin,
     md_unique = []\<rparr>"

definition model_pod_provisioning_records :: model where
  "model_pod_provisioning_records = \<lparr>md_table = ''pod_provisioning_records'',
     md_attributes =
       [attribute ''id'' (Some (String_Of 32)) None [Primary],
        attribute ''subject_id'' None (Some (''subjects'', ''id'')) [Indexed],
        attribute ''name'' (Some (String_Of 255)) None [],
        attribute ''login'' (Some (String_Of 255)) None [Indexed],
        attribute ''password_hash'' (Some Long_Text) None [],
        attribute ''decoy_password_hash'' (Some Long_Text) None [],
        attribute ''status'' (Some (String_Of 32)) None [Indexed],
        attribute ''enrollment_token_hash'' (Some (String_Of 255)) None [Is_Unique, Indexed],
        attribute ''enrollment_token_encrypted'' (Some Long_Text) None [],
        attribute ''bundle_version'' (Some (String_Of 64)) None [],
        attribute ''artifact_sha256'' (Some (String_Of 64)) None [Indexed],
        attribute ''download_count'' (Some Whole_Number) None [],
        attribute ''downloaded_at'' (Some Date_Time) None [Nullable],
        attribute ''expires_at'' (Some Date_Time) None [Nullable, Indexed],
        attribute ''activated_at'' (Some Date_Time) None [Nullable],
        attribute ''revoked_at'' (Some Date_Time) None [Nullable],
        attribute ''metadata_json'' (Some Json_Value) None []] @ timestamp_mixin,
     md_unique = []\<rparr>"

definition model_pod_denylist :: model where
  "model_pod_denylist = \<lparr>md_table = ''pod_denylist'',
     md_attributes =
       [attribute ''id'' (Some (String_Of 32)) None [Primary],
        attribute ''pod_id'' (Some (String_Of 64)) None [Nullable, Indexed],
        attribute ''subject_id'' (Some (String_Of 64)) None [Nullable, Indexed],
        attribute ''identifier_type'' (Some (String_Of 64)) None [Indexed],
        attribute ''identifier_value'' (Some (String_Of 512)) None [Indexed],
        attribute ''reason'' (Some (String_Of 255)) None []] @ timestamp_mixin,
     md_unique = [([''identifier_type'', ''identifier_value''], ''uq_pod_denylist_identifier'')]\<rparr>"

definition model_backup_manifests :: model where
  "model_backup_manifests = \<lparr>md_table = ''backup_manifests'',
     md_attributes =
       [attribute ''id'' (Some (String_Of 32)) None [Primary],
        attribute ''backup_id'' (Some (String_Of 128)) None [Indexed],
        attribute ''entity_type'' (Some (String_Of 64)) None [Indexed],
        attribute ''entity_id'' (Some (String_Of 128)) None [Indexed],
        attribute ''payload'' (Some Json_Value) None []] @ timestamp_mixin,
     md_unique = []\<rparr>"

definition model_launch_authorizations :: model where
  "model_launch_authorizations = \<lparr>md_table = ''launch_authorizations'',
     md_attributes =
       [attribute ''id'' (Some (String_Of 32)) None [Primary],
        attribute ''subject_id'' None (Some (''subjects'', ''id'')) [Indexed],
        attribute ''pod_id'' None (Some (''pods'', ''id'')) [Indexed],
        attribute ''decision'' (Some (String_Of 32)) None [Indexed],
        attribute ''reason'' (Some Long_Text) None [],
        attribute ''issued_at'' (Some Date_Time) None [Nullable],
        attribute ''expires_at'' (Some Date_Time) None [Nullable],
        attribute ''revoked_at'' (Some Date_Time) None [Nullable]] @ timestamp_mixin,
     md_unique = []\<rparr>"

definition model_session_leases :: model where
  "model_session_leases = \<lparr>md_table = ''session_leases'',
     md_attributes =
       [attribute ''id'' (Some (String_Of 32)) None [Primary],
        attribute ''subject_id'' None (Some (''subjects'', ''id'')) [Nullable, Indexed],
        attribute ''pod_id'' None (Some (''pods'', ''id'')) [Nullable, Indexed],
        attribute ''status'' (Some (String_Of 32)) None [Indexed],
        attribute ''session_key_hash'' (Some (String_Of 255)) None [],
        attribute ''access_scope'' (Some (String_Of 64)) None [Indexed],
        attribute ''transport'' (Some (String_Of 32)) None [Nullable],
        attribute ''started_at'' (Some Date_Time) None [],
        attribute ''expires_at'' (Some Date_Time) None [Nullable],
        attribute ''ended_at'' (Some Date_Time) None [Nullable]] @ timestamp_mixin,
     md_unique = []\<rparr>"

definition model_audit_events :: model where
  "model_audit_events = \<lparr>md_table = ''audit_events'',
     md_attributes =
       [attribute ''id'' (Some (String_Of 32)) None [Primary],
        attribute ''actor_type'' (Some (String_Of 64)) None [Indexed],
        attribute ''actor_id'' (Some (String_Of 128)) None [Indexed],
        attribute ''action'' (Some (String_Of 128)) None [Indexed],
        attribute ''target_type'' (Some (String_Of 64)) None [Indexed],
        attribute ''target_id'' (Some (String_Of 128)) None [Indexed],
        attribute ''payload'' (Some Json_Value) None [],
        attribute ''result'' (Some Json_Value) None [],
        attribute ''created_at'' (Some Date_Time) None [Indexed]],
     md_unique = []\<rparr>"

definition models :: "model list" where
  "models =
    [model_objects, model_access_policies, model_system_settings, model_subjects,
     model_pods, model_pod_provisioning_records, model_pod_denylist, model_backup_manifests,
     model_launch_authorizations, model_session_leases, model_audit_events]"


section \<open>The metadata\<close>

text \<open>A referring column has the type of the column it refers to; the chain of references in the models has one step.\<close>

definition referred_type :: "model list \<Rightarrow> string \<times> string \<Rightarrow> col_type option" where
  "referred_type ms r =
     (case find (\<lambda>m. md_table m = fst r) ms of None \<Rightarrow> None
      | Some m \<Rightarrow> (case find (\<lambda>a. at_name a = snd r) (md_attributes m) of None \<Rightarrow> None | Some a \<Rightarrow> at_type a))"

definition column_of_attribute :: "model list \<Rightarrow> mapped \<Rightarrow> column" where
  "column_of_attribute ms a =
     column_of (at_name a)
       (case at_type a of
          Some t \<Rightarrow> t
        | None \<Rightarrow> (case Option.bind (at_reference a) (referred_type ms) of Some t \<Rightarrow> t | None \<Rightarrow> Long_Text))
       (Nullable \<in> set (at_flags a))"

definition table_of_model :: "model list \<Rightarrow> model \<Rightarrow> table_def" where
  "table_of_model ms m = \<lparr>
     tab_columns = map (column_of_attribute ms) (md_attributes m),
     tab_constraints =
       [Primary_Key (map at_name (filter (\<lambda>a. Primary \<in> set (at_flags a)) (md_attributes m)))]
       @ concat (map (\<lambda>a. case at_reference a of None \<Rightarrow> [] | Some r \<Rightarrow> [Foreign_Key (at_name a) (fst r) (snd r)]) (md_attributes m))
       @ map (\<lambda>u. Unique_Columns (fst u) (snd u)) (md_unique m),
     tab_indexes = map (\<lambda>a. index_of (''ix_'' @ md_table m @ ''_'' @ at_name a) [at_name a] (Is_Unique \<in> set (at_flags a)))
       (filter (\<lambda>a. Indexed \<in> set (at_flags a)) (md_attributes m))\<rparr>"

definition model_catalog :: catalog where
  "model_catalog = map (\<lambda>m. (md_table m, table_of_model models m)) models"

end
