(* ===== verification/Migration_Safety.thy ===== *)
theory Migration_Safety
  imports Migrations Model_Metadata
begin

text \<open>
  What the migrations promise: they run on an empty database of either kind, the schema they build is the one of the models,
  the reversible ones are undone by their downgrades, an upgraded database is left alone, and the password of the old
  operator becomes the Access Key while the old sessions end.
\<close>

section \<open>Catalogs\<close>

definition put :: "string \<Rightarrow> table_def \<Rightarrow> catalog \<Rightarrow> catalog" where
  "put n t C = map (\<lambda>p. if fst p = n then (n, t) else p) C"

lemma tables_put [simp]: "tables_of (put n t C) = tables_of C"
  by (induction C) (auto simp: put_def tables_of_def)

lemma put_Cons: "put n t (p # C) = (if fst p = n then (n, t) else p) # put n t C"
  by (simp add: put_def)

lemma put_absent: "n \<notin> set (tables_of C) \<Longrightarrow> put n t C = C"
  by (induction C) (auto simp: put_def tables_of_def)

lemma in_tables: "n \<in> set (tables_of C) \<longleftrightarrow> map_of C n \<noteq> None"
  by (simp add: tables_of_def map_of_eq_None_iff)

lemma map_of_put: "map_of (put n t C) m = (if m = n \<and> n \<in> set (tables_of C) then Some t else map_of C m)"
proof (induction C)
  case (Cons p C)
  then show ?case by (cases p) (auto simp: put_Cons in_tables)
qed (simp add: put_def tables_of_def)

lemma put_same: "map_of C n = Some t \<Longrightarrow> distinct (tables_of C) \<Longrightarrow> put n t C = C"
proof (induction C)
  case (Cons p C)
  then show ?case by (cases p; cases "fst p = n") (auto simp: put_Cons put_absent tables_of_def)
qed simp

lemma put_put: "put n t (put n s C) = put n t C"
  by (auto simp: put_def)

lemma alter_table_put:
  "map_of C n = Some t \<Longrightarrow> distinct (tables_of C) \<Longrightarrow> alter_table n f C = map_option (\<lambda>t'. put n t' C) (f t)"
proof (induction C)
  case (Cons p C)
  show ?case
  proof (cases "fst p = n")
    case True
    with Cons.prems have "put n t' C = C" for t' by (intro put_absent) (auto simp: tables_of_def)
    with True Cons.prems show ?thesis by (cases p) (simp add: put_def)
  next
    case False
    with Cons have "alter_table n f C = map_option (\<lambda>t'. put n t' C) (f t)" by (auto simp: tables_of_def)
    with False show ?thesis by (cases p; cases "f t") (auto simp: put_def)
  qed
qed simp

lemma run_all_id: "list_all (\<lambda>d. run_ddl d C = Some C) ds \<Longrightarrow> run_all ds C = Some C"
  by (induction ds) auto

text \<open>The order in which tables are dropped is right when nothing that is left refers to the next one.\<close>

definition reference_graph :: "catalog \<Rightarrow> (string \<times> string list) list" where
  "reference_graph C = map (\<lambda>p. (fst p, concat (map (\<lambda>k. case k of Foreign_Key c r _ \<Rightarrow> [r] | _ \<Rightarrow> []) (tab_constraints (snd p))))) C"

fun droppable :: "string list \<Rightarrow> (string \<times> string list) list \<Rightarrow> bool" where
  "droppable [] G = True"
| "droppable (n # ns) G = (list_ex (\<lambda>p. fst p = n) G \<and> list_all (\<lambda>p. fst p \<noteq> n \<longrightarrow> n \<notin> set (snd p)) G
     \<and> droppable ns (filter (\<lambda>p. fst p \<noteq> n) G))"

lemma graph_filter: "reference_graph (filter (\<lambda>p. fst p \<noteq> n) C) = filter (\<lambda>p. fst p \<noteq> n) (reference_graph C)"
  by (induction C) (auto simp: reference_graph_def)

lemma refers_in_graph: "k \<in> set (tab_constraints t) \<Longrightarrow> refers_to n k \<Longrightarrow>
    n \<in> set (concat (map (\<lambda>k. case k of Foreign_Key c r _ \<Rightarrow> [r] | _ \<Rightarrow> []) (tab_constraints t)))"
  by (cases k) (auto intro!: bexI [of _ k])

lemma run_drops:
  "droppable ns (reference_graph C) \<Longrightarrow> run_all (map Drop_Table ns) C = Some (filter (\<lambda>p. fst p \<notin> set ns) C)"
proof (induction ns arbitrary: C)
  case (Cons n ns)
  then have "n \<in> set (tables_of C)" by (auto simp: reference_graph_def tables_of_def list_ex_iff)
  moreover have "\<not> refers_to n k" if "p \<in> set C" "fst p \<noteq> n" "k \<in> set (tab_constraints (snd p))" for p k
    using Cons.prems refers_in_graph [OF that(3), of n] that by (fastforce simp: reference_graph_def list_all_iff)
  ultimately have "run_ddl (Drop_Table n) C = Some (filter (\<lambda>p. fst p \<noteq> n) C)" by auto
  moreover have "run_all (map Drop_Table ns) (filter (\<lambda>p. fst p \<noteq> n) C)
      = Some (filter (\<lambda>p. fst p \<notin> set ns) (filter (\<lambda>p. fst p \<noteq> n) C))"
    using Cons by (intro Cons.IH) (simp add: graph_filter)
  moreover have "filter (\<lambda>p. fst p \<notin> set ns) (filter (\<lambda>p. fst p \<noteq> n) C) = filter (\<lambda>p. fst p \<notin> set (n # ns)) C"
    by (induction C) auto
  ultimately show ?case by simp
qed simp

section \<open>The first migration\<close>

lemma tables_0001_names: "tables_of catalog_0001 = map ts_name tables_0001"
  by (simp add: catalog_0001_def tables_of_def)

lemma distinct_0001: "distinct (tables_of catalog_0001)"
  by (simp add: tables_0001_names tables_0001_def create_names)

lemma lookup_0001:
  "map_of catalog_0001 ''access_policies'' = Some (built create_access_policies)"
  "map_of catalog_0001 ''agents'' = Some (built create_agents)"
  "map_of catalog_0001 ''audit_events'' = Some (built create_audit_events)"
  "map_of catalog_0001 ''backup_manifests'' = Some (built create_backup_manifests)"
  "map_of catalog_0001 ''certificate_denylist'' = Some (built create_certificate_denylist)"
  "map_of catalog_0001 ''controller_identity'' = Some (built create_controller_identity)"
  "map_of catalog_0001 ''objects'' = Some (built create_objects)"
  "map_of catalog_0001 ''pod_denylist'' = Some (built create_pod_denylist)"
  "map_of catalog_0001 ''system_settings'' = Some (built create_system_settings)"
  "map_of catalog_0001 ''agent_assignments'' = Some (built create_agent_assignments)"
  "map_of catalog_0001 ''agent_capabilities'' = Some (built create_agent_capabilities)"
  "map_of catalog_0001 ''agent_certificates'' = Some (built create_agent_certificates)"
  "map_of catalog_0001 ''agent_commands'' = Some (built create_agent_commands)"
  "map_of catalog_0001 ''agent_endpoints'' = Some (built create_agent_endpoints)"
  "map_of catalog_0001 ''agent_heartbeats'' = Some (built create_agent_heartbeats)"
  "map_of catalog_0001 ''agent_state_events'' = Some (built create_agent_state_events)"
  "map_of catalog_0001 ''approval_decisions'' = Some (built create_approval_decisions)"
  "map_of catalog_0001 ''approval_requests'' = Some (built create_approval_requests)"
  "map_of catalog_0001 ''job_events'' = Some (built create_job_events)"
  "map_of catalog_0001 ''job_results'' = Some (built create_job_results)"
  "map_of catalog_0001 ''jobs'' = Some (built create_jobs)"
  "map_of catalog_0001 ''revocation_records'' = Some (built create_revocation_records)"
  "map_of catalog_0001 ''subjects'' = Some (built create_subjects)"
  "map_of catalog_0001 ''pod_provisioning_records'' = Some (built create_pod_provisioning_records)"
  "map_of catalog_0001 ''pods'' = Some (built create_pods)"
  "map_of catalog_0001 ''launch_authorizations'' = Some (built create_launch_authorizations)"
  "map_of catalog_0001 ''session_leases'' = Some (built create_session_leases)"
  by (simp_all add: catalog_0001_def tables_0001_def create_names)

lemma graph_0001: "reference_graph catalog_0001 = map (\<lambda>g. (ts_name g, references g)) tables_0001"
  by (simp add: reference_graph_def catalog_0001_def references_def built_def)

text \<open>On a fresh database the alignment of the legacy schema changes nothing.\<close>

lemma run_alter_type:
  assumes "map_of C n = Some t" and "distinct (tables_of C)" and "column \<in> set (column_names t)"
    and "list_all (\<lambda>c. col_name c = column \<longrightarrow> col_type_of c = ty) (tab_columns t)"
  shows "run_ddl (Alter_Type n column ty) C = Some C"
proof -
  have "map (\<lambda>c. if col_name c = column then c\<lparr>col_type_of := ty\<rparr> else c) (tab_columns t) = tab_columns t"
    using assms(4) by (auto simp: list_all_iff intro!: map_idI)
  then have "map_column column (\<lambda>c. c\<lparr>col_type_of := ty\<rparr>) t = Some t" using assms(3) by (simp add: map_column_def)
  with assms(1,2) show ?thesis by (simp add: alter_table_put put_same)
qed

lemma run_not_null:
  assumes "map_of C n = Some t" and "distinct (tables_of C)" and "column \<in> set (column_names t)"
    and "list_all (\<lambda>c. col_name c = column \<longrightarrow> \<not> col_nullable c) (tab_columns t)"
  shows "run_ddl (Set_Not_Null n column) C = Some C"
proof -
  have "map (\<lambda>c. if col_name c = column then c\<lparr>col_nullable := False\<rparr> else c) (tab_columns t) = tab_columns t"
    using assms(4) by (auto simp: list_all_iff intro!: map_idI)
  then have "map_column column (\<lambda>c. c\<lparr>col_nullable := False\<rparr>) t = Some t" using assms(3) by (simp add: map_column_def)
  with assms(1,2) show ?thesis by (simp add: alter_table_put put_same)
qed

lemmas table_eval = built_def create_defs column_names_def column_of_def index_names_def index_of_def

lemma widen_fresh: "run_all widen_0003 catalog_0001 = Some catalog_0001"
  by (rule run_all_id)
    (simp add: widen_0003_def AGENT_ID_TABLES_def SUBJECT_ID_TABLES_def run_alter_type [OF lookup_0001(1) distinct_0001]
      run_alter_type [OF _ distinct_0001] lookup_0001 table_eval del: run_ddl.simps)

lemma require_fresh: "run_all require_0003 catalog_0001 = Some catalog_0001"
  by (rule run_all_id) (simp add: require_0003_def run_not_null [OF _ distinct_0001] lookup_0001 table_eval del: run_ddl.simps)

lemma indexes_fresh: "create_missing indexes_0003 catalog_0001 = Some catalog_0001"
  by (simp add: indexes_0003_def has_index_def lookup_0001 table_eval)

lemma link_fresh: "link_0003 catalog_0001 = Some catalog_0001"
  by (simp add: link_0003_def has_reference_def lookup_0001 table_eval is_reference_def)

section \<open>The Pod columns and the removal of the agents\<close>

definition provisioning_0005 :: table_def where
  "provisioning_0005 = (built create_pod_provisioning_records)\<lparr>
     tab_columns := ts_columns create_pod_provisioning_records @ [artifact_column, decoy_column],
     tab_indexes := ts_indexes create_pod_provisioning_records
       @ [index_of ''ix_pod_provisioning_records_artifact_sha256'' [''artifact_sha256''] False]\<rparr>"

definition provisioning_0004 :: table_def where
  "provisioning_0004 = provisioning_0005\<lparr>tab_columns := ts_columns create_pod_provisioning_records @ [artifact_column]\<rparr>"

definition pods_0005 :: table_def where
  "pods_0005 = (built create_pods)\<lparr>tab_columns := ts_columns create_pods @ [decoy_column]\<rparr>"

definition catalog_after_0005 :: catalog where
  "catalog_after_0005 = put ''pods'' pods_0005 (put ''pod_provisioning_records'' provisioning_0005 catalog_0001)"

lemmas pod_columns = artifact_column_def decoy_column_def provisioning_0005_def provisioning_0004_def pods_0005_def

lemma in_0001: "''pods'' \<in> set (tables_of catalog_0001)" "''pod_provisioning_records'' \<in> set (tables_of catalog_0001)"
  "''session_leases'' \<in> set (tables_of catalog_0001)"
  by (simp_all add: in_tables lookup_0001)

lemma run_0004: "catalog_0004 catalog_0001 = Some (put ''pod_provisioning_records'' provisioning_0004 catalog_0001)"
proof -
  let ?t = "(built create_pod_provisioning_records)\<lparr>tab_columns := ts_columns create_pod_provisioning_records @ [artifact_column]\<rparr>"
  have "add_if_missing ''pod_provisioning_records'' artifact_column catalog_0001 = Some (put ''pod_provisioning_records'' ?t catalog_0001)"
    by (simp add: add_if_missing_def lookup_0001 alter_table_put distinct_0001 pod_columns table_eval)
  moreover have "create_missing [(''ix_pod_provisioning_records_artifact_sha256'', ''pod_provisioning_records'', ''artifact_sha256'')]
      (put ''pod_provisioning_records'' ?t catalog_0001) = Some (put ''pod_provisioning_records'' provisioning_0004 catalog_0001)"
    by (simp add: has_index_def map_of_put in_0001 alter_table_put distinct_0001 put_put pod_columns table_eval)
  ultimately show ?thesis by (simp add: catalog_0004_def)
qed

lemma run_0005: "catalog_0005 (put ''pod_provisioning_records'' provisioning_0004 catalog_0001) = Some catalog_after_0005"
proof -
  have "add_if_missing ''pod_provisioning_records'' decoy_column (put ''pod_provisioning_records'' provisioning_0004 catalog_0001)
      = Some (put ''pod_provisioning_records'' provisioning_0005 catalog_0001)"
    by (simp add: add_if_missing_def map_of_put in_0001 alter_table_put distinct_0001 put_put pod_columns table_eval)
  moreover have "add_if_missing ''pods'' decoy_column (put ''pod_provisioning_records'' provisioning_0005 catalog_0001) = Some catalog_after_0005"
    by (simp add: add_if_missing_def map_of_put in_0001 lookup_0001 alter_table_put distinct_0001 catalog_after_0005_def pod_columns table_eval)
  ultimately show ?thesis by (simp add: catalog_0005_def)
qed

definition sessions_0007 :: table_def where
  "sessions_0007 = \<lparr>tab_columns = filter (\<lambda>c. col_name c \<noteq> ''agent_id'') (ts_columns create_session_leases),
     tab_constraints = filter (\<lambda>k. \<not> is_reference ''agent_id'' k) (ts_constraints create_session_leases),
     tab_indexes = filter (\<lambda>i. ix_name i \<noteq> ''ix_session_leases_agent_id'') (ts_indexes create_session_leases)\<rparr>"

definition catalog_0007 :: catalog where
  "catalog_0007 = filter (\<lambda>p. fst p \<notin> set REMOVED_TABLES) (put ''session_leases'' sessions_0007 catalog_after_0005)"

lemma session_column_gone:
  "run_all [Drop_Foreign_Keys ''session_leases'' ''agent_id'', Drop_Index ''ix_session_leases_agent_id'' ''session_leases'',
     Drop_Column ''session_leases'' ''agent_id''] catalog_after_0005 = Some (put ''session_leases'' sessions_0007 catalog_after_0005)"
  by (simp add: catalog_after_0005_def map_of_put in_0001 lookup_0001 alter_table_put distinct_0001 put_put sessions_0007_def table_eval
      is_reference_def)

definition table_references :: "table_def \<Rightarrow> string list" where
  "table_references t = concat (map (\<lambda>k. case k of Foreign_Key c r _ \<Rightarrow> [r] | _ \<Rightarrow> []) (tab_constraints t))"

lemma graph_put: "reference_graph (put n t C) = map (\<lambda>p. if fst p = n then (n, table_references t) else p) (reference_graph C)"
  by (simp add: reference_graph_def put_def table_references_def)

lemma changed_references: "table_references sessions_0007 = [''pods'', ''subjects'']" "table_references pods_0005 = [''pod_provisioning_records'', ''subjects'']"
  "table_references provisioning_0005 = [''subjects'']"
  by (simp_all add: table_references_def sessions_0007_def pod_columns table_eval is_reference_def)

lemma agents_droppable: "droppable REMOVED_TABLES (reference_graph (put ''session_leases'' sessions_0007 catalog_after_0005))"
  by (simp add: graph_put changed_references catalog_after_0005_def graph_0001 tables_0001_def create_names create_references REMOVED_TABLES_def)

lemma run_0007: "run_all remove_agents catalog_after_0005 = Some catalog_0007"
  by (simp only: remove_agents_def run_all_append session_column_gone run_drops [OF agents_droppable] option.case catalog_0007_def)

section \<open>The schema of the models\<close>

lemma model_names: "map md_table models = [''objects'', ''access_policies'', ''system_settings'', ''subjects'', ''pods'',
    ''pod_provisioning_records'', ''pod_denylist'', ''backup_manifests'', ''launch_authorizations'', ''session_leases'', ''audit_events'']"
  by code_simp

lemma model_tables:
  "same_table (built create_objects) (table_of_model models model_objects)"
  "same_table (built create_access_policies) (table_of_model models model_access_policies)"
  "same_table (built create_system_settings) (table_of_model models model_system_settings)"
  "same_table (built create_subjects) (table_of_model models model_subjects)"
  "same_table pods_0005 (table_of_model models model_pods)"
  "same_table provisioning_0005 (table_of_model models model_pod_provisioning_records)"
  "same_table (built create_pod_denylist) (table_of_model models model_pod_denylist)"
  "same_table (built create_backup_manifests) (table_of_model models model_backup_manifests)"
  "same_table (built create_launch_authorizations) (table_of_model models model_launch_authorizations)"
  "same_table sessions_0007 (table_of_model models model_session_leases)"
  "same_table (built create_audit_events) (table_of_model models model_audit_events)"
  by code_simp+

lemma model_lookup:
  "md_table model_objects = ''objects''" "md_table model_access_policies = ''access_policies''"
  "md_table model_system_settings = ''system_settings''" "md_table model_subjects = ''subjects''" "md_table model_pods = ''pods''"
  "md_table model_pod_provisioning_records = ''pod_provisioning_records''" "md_table model_pod_denylist = ''pod_denylist''"
  "md_table model_backup_manifests = ''backup_manifests''" "md_table model_launch_authorizations = ''launch_authorizations''"
  "md_table model_session_leases = ''session_leases''" "md_table model_audit_events = ''audit_events''"
  by code_simp+

lemma catalog_0007_matches: "same_catalog catalog_0007 model_catalog"
proof -
  have m: "model_catalog = map (\<lambda>m. (md_table m, table_of_model models m))
      [model_objects, model_access_policies, model_system_settings, model_subjects, model_pods, model_pod_provisioning_records,
       model_pod_denylist, model_backup_manifests, model_launch_authorizations, model_session_leases, model_audit_events]"
    by (simp only: model_catalog_def models_def)
  have c: "catalog_0007 =
      [(''access_policies'', built create_access_policies), (''audit_events'', built create_audit_events),
       (''backup_manifests'', built create_backup_manifests), (''objects'', built create_objects),
       (''pod_denylist'', built create_pod_denylist), (''system_settings'', built create_system_settings),
       (''subjects'', built create_subjects), (''pod_provisioning_records'', provisioning_0005), (''pods'', pods_0005),
       (''launch_authorizations'', built create_launch_authorizations), (''session_leases'', sessions_0007)]"
    by (simp add: catalog_0007_def catalog_after_0005_def catalog_0001_def tables_0001_def create_names put_def REMOVED_TABLES_def)
  show ?thesis
    unfolding same_catalog_def c m by (simp add: model_lookup model_tables)
qed

text \<open>An empty database of either kind.\<close>

definition fresh_database :: "bool \<Rightarrow> database" where
  "fresh_database pg = \<lparr>postgresql = pg, db_catalog = [], db_version = None, preference_value = None, session_rows = [],
     object_ids = [], subject_ids = []\<rparr>"

lemma run_0003_fresh:
  assumes "db_catalog D = catalog_0001" and "object_ids D = []" and "subject_ids D = []"
  shows "upgrade_0003 r D = Inr D"
proof -
  have "D\<lparr>db_catalog := catalog_0001, object_ids := [], subject_ids := []\<rparr> = D" using assms by simp
  then show ?thesis
    using assms by (simp add: upgrade_0003_def run_on_def widen_fresh require_fresh indexes_fresh link_fresh)
qed

lemma fresh_upgrades:
  "upgrade_database c r (fresh_database pg) = Inr ((fresh_database pg)\<lparr>db_catalog := catalog_0007, db_version := Some ''0007''\<rparr>)"
  by (simp add: upgrade_database_def alembic_upgrade_def migrations_def fresh_database_def run_on_def run_0001 upgrade_0002_def
      run_0003_fresh change_catalog_def run_0004 run_0005 upgrade_0006_def upgrade_0007_def run_0007)

text \<open>C25. On an empty database, PostgreSQL or SQLite, every migration runs, and the schema that results has exactly the
  tables, columns, types, constraints and indexes of the models, so the application finds the schema it was written for.\<close>

theorem migrated_schema_is_the_models:
  "\<exists>D. upgrade_database c r (fresh_database pg) = Inr D \<and> db_version D = Some ''0007''
     \<and> same_catalog (db_catalog D) model_catalog"
  using fresh_upgrades [of c r pg] catalog_0007_matches by simp

section \<open>Downgrades\<close>

lemma drop_pod_columns:
  "map_of C ''pods'' = Some pods_0005 \<Longrightarrow> distinct (tables_of C) \<Longrightarrow>
     run_ddl (Drop_Column ''pods'' ''decoy_password_hash'') C = Some (put ''pods'' (built create_pods) C)"
  "map_of C ''pod_provisioning_records'' = Some provisioning_0005 \<Longrightarrow> distinct (tables_of C) \<Longrightarrow>
     run_ddl (Drop_Column ''pod_provisioning_records'' ''decoy_password_hash'') C = Some (put ''pod_provisioning_records'' provisioning_0004 C)"
  by (simp_all add: alter_table_put table_eval pod_columns)

lemma drop_artifact_column:
  "map_of C ''pod_provisioning_records'' = Some provisioning_0004 \<Longrightarrow> distinct (tables_of C) \<Longrightarrow>
     run_all downgrade_0004 C = Some (put ''pod_provisioning_records'' (built create_pod_provisioning_records) C)"
  by (simp add: downgrade_0004_def alter_table_put map_of_put in_tables put_put table_eval pod_columns)

lemma undo_0005: "run_all downgrade_0005 catalog_after_0005 = Some (put ''pod_provisioning_records'' provisioning_0004 catalog_0001)"
proof -
  let ?C = "put ''pod_provisioning_records'' provisioning_0005 catalog_0001"
  have "put ''pods'' (built create_pods) ?C = ?C"
    by (rule put_same) (simp_all add: map_of_put lookup_0001 distinct_0001)
  then have "run_ddl (Drop_Column ''pods'' ''decoy_password_hash'') catalog_after_0005 = Some ?C"
    by (subst drop_pod_columns) (simp_all add: catalog_after_0005_def map_of_put in_0001 distinct_0001 put_put)
  moreover have "run_ddl (Drop_Column ''pod_provisioning_records'' ''decoy_password_hash'') ?C
      = Some (put ''pod_provisioning_records'' provisioning_0004 catalog_0001)"
    by (subst drop_pod_columns) (simp_all add: map_of_put in_0001 distinct_0001 put_put)
  ultimately show ?thesis by (simp add: downgrade_0005_def del: run_ddl.simps)
qed

lemma undo_0004: "run_all downgrade_0004 (put ''pod_provisioning_records'' provisioning_0004 catalog_0001) = Some catalog_0001"
  by (subst drop_artifact_column)
    (simp_all add: map_of_put in_0001 distinct_0001 put_put put_same lookup_0001)


section \<open>An upgraded database\<close>

lemma run_migrations_version:
  "run_migrations ms D = Inr D' \<Longrightarrow> db_version D' = (if ms = [] then db_version D else Some (fst (last ms)))"
proof (induction ms arbitrary: D)
  case (Cons m ms)
  obtain v f where m: "m = (v, f)" by (cases m)
  with Cons.prems obtain D1 where "run_migrations ms (D1\<lparr>db_version := Some v\<rparr>) = Inr D'" by (auto simp: try_bind_Inr_iff)
  from Cons.IH [OF this] m show ?case by simp
qed simp

lemma alembic_head:
  assumes "alembic_upgrade (migrations c r) D = Inr D'"
  shows "db_version D' = Some ''0007''"
proof (cases "db_version D")
  case None
  with assms run_migrations_version [of "migrations c r" D D'] show ?thesis by (simp add: alembic_upgrade_def migrations_def)
next
  case (Some v)
  then have v: "v \<in> {''0001'', ''0002'', ''0003'', ''0004'', ''0005'', ''0006'', ''0007''}"
    and r: "run_migrations (tl (dropWhile (\<lambda>m. fst m \<noteq> v) (migrations c r))) D = Inr D'"
    using assms by (auto simp: alembic_upgrade_def migrations_def split: if_splits)
  from v run_migrations_version [OF r] Some show ?thesis by (elim insertE emptyE) (simp_all add: migrations_def)
qed

text \<open>After an upgrade that succeeded the database is at the last version, and upgrading it again, at the next start of the
  server, changes nothing.\<close>

theorem upgrade_is_idempotent:
  assumes "upgrade_database c r D = Inr D'"
  shows "db_version D' = Some ''0007'' \<and> upgrade_database c r' D' = Inr D'"
proof -
  have v: "db_version D' = Some ''0007''"
    using assms alembic_head by (auto simp: upgrade_database_def split: if_splits)
  then show ?thesis by (simp add: upgrade_database_def alembic_upgrade_def migrations_def)
qed

section \<open>The Access Key and the sessions\<close>

lemma kept_0003:
  assumes "upgrade_0003 r D = Inr D'"
  shows "preference_value D' = preference_value D" "session_rows D' = session_rows D"
  using assms by (auto simp: upgrade_0003_def run_on_def try_inv split: if_splits option.splits)

lemma kept_catalog:
  assumes "change_catalog f D = Inr D'"
  shows "preference_value D' = preference_value D" "session_rows D' = session_rows D"
  using assms by (auto simp: change_catalog_def split: option.splits)

lemma kept_run_on:
  assumes "run_on ds D = Inr D'"
  shows "preference_value D' = preference_value D" "session_rows D' = session_rows D"
  using assms by (auto simp: run_on_def split: option.splits)

definition ended_session :: "session_row \<Rightarrow> bool" where
  "ended_session s \<longleftrightarrow> sr_agent_id s = None \<and> (sr_transport s = Some ''direct'' \<longrightarrow> sr_status s = ''revoked'')"

lemma sessions_after:
  assumes "upgrade_0006 D = Inr D1" and "upgrade_0007 (D1\<lparr>db_version := v\<rparr>) = Inr D2"
  shows "list_all ended_session (session_rows D2)"
proof -
  have "session_rows D1 = map revoke_direct (session_rows D)"
    using assms(1) by (auto simp: upgrade_0006_def Let_def try_inv split: option.splits)
  moreover have "session_rows D2 = filter (\<lambda>s. sr_agent_id s = None) (session_rows D1)"
    using assms(2) by (auto simp: upgrade_0007_def try_inv dest!: kept_run_on(2) split: option.splits)
  ultimately show ?thesis by (auto simp: list_all_iff ended_session_def revoke_direct_def)
qed

lemma hash_password_0002_same: "hash_password_0002 c salt pw = hash_password c salt pw"
  by (simp add: hash_password_0002_def hash_password_def encode_0002_def url_encode_def rstrip_pad_def pad_def PASSWORD_PREFIX_def
      SCRYPT_N_def SCRYPT_R_def SCRYPT_P_def SCRYPT_DKLEN_def)

lemma value_0002_password:
  assumes "get_key ''auth'' p = Some (JObj auth)" and "get_key ''password'' auth = Some (JStr pw)" and "pw \<noteq> []"
    and "\<not> starts_with ''scrypt$'' (str_or [] (get_key ''password_hash'' auth))" and "get_key ''access_key_hash'' auth = None"
  shows "\<exists>a. value_0002 c salt (JObj p) = Inr (JObj (set_key ''auth'' (JObj a) p)) \<and> a \<noteq> []
    \<and> get_key ''password_hash'' a = Some (JStr (hash_password c salt pw)) \<and> get_key ''access_key_hash'' a = None"
proof -
  let ?a = "set_key ''password_hash'' (JStr (hash_password c salt pw)) (del_key ''password'' auth)"
  have "p \<noteq> []" "auth \<noteq> []" using assms(1,2) by (auto simp: get_key_def)
  moreover have "get_key ''password_hash'' ?a \<noteq> None" by (simp add: get_set_key)
  then have "?a \<noteq> []" by (auto simp: get_key_def)
  ultimately have "value_0002 c salt (JObj p) = Inr (JObj (set_key ''auth'' (JObj ?a) p))"
    using assms by (simp add: value_0002_def as_dict_def get_or_null_def get_del_key hash_password_0002_same)
  moreover have "get_key ''password_hash'' ?a = Some (JStr (hash_password c salt pw))" "get_key ''access_key_hash'' ?a = None"
    using assms(5) by (simp_all add: get_set_key get_del_key)
  ultimately show ?thesis using \<open>?a \<noteq> []\<close> by blast
qed

lemma hash_password_nonempty: "hash_password c salt pw \<noteq> []"
  by (simp add: hash_password_def Let_def PASSWORD_PREFIX_def)

lemma value_0006_key:
  assumes "get_key ''auth'' p = Some (JObj a)" and "get_key ''password_hash'' a = Some (JStr h)" and "h \<noteq> []"
    and "get_key ''access_key_hash'' a = None"
  shows "\<exists>q. value_0006 (JObj p) = Inr (JObj q) \<and> get_key ''auth'' q = Some (JObj [(''access_key_hash'', JStr h)])"
proof -
  have "p \<noteq> []" "a \<noteq> []" using assms(1,2) by (auto simp: get_key_def)
  then show ?thesis using assms by (simp add: value_0006_def as_dict_def get_or_null_def or_value_def get_set_key)
qed

lemma value_0007_auth:
  assumes "value_0007 (JObj p) = Inr v"
  shows "\<exists>q. v = JObj q \<and> get_key ''auth'' q = get_key ''auth'' p"
  using assms by (auto simp: value_0007_def get_set_key split: if_splits option.splits json.splits)

lemma upgrade_0007_value:
  assumes "upgrade_0007 D = Inr D'" and "preference_value D = Some v"
  shows "\<exists>v'. value_0007 v = Inr v' \<and> preference_value D' = Some v'"
proof -
  obtain D1 where run: "run_on remove_agents (D\<lparr>session_rows := filter (\<lambda>s. sr_agent_id s = None) (session_rows D)\<rparr>) = Inr D1"
    using assms(1) by (auto simp: upgrade_0007_def try_bind_Inr_iff)
  then have "preference_value D1 = Some v" using kept_run_on(1) [OF run] assms(2) by simp
  with run assms(1) show ?thesis by (auto simp: upgrade_0007_def try_bind_Inr_iff)
qed

text \<open>C26. The operator of an installation with a stored password keeps access: after the upgrade the stored credentials are
  one verifier, which accepts that password as the Access Key, the password itself is gone, every session of a retired agent
  is deleted and every direct session is revoked.\<close>

theorem old_password_becomes_access_key:
  assumes up: "upgrade_database c r D = Inr D'" and old: "db_version D = Some ''0001''"
    and p: "preference_value D = Some (JObj p)" "get_key ''auth'' p = Some (JObj auth)"
    and pw: "get_key ''password'' auth = Some (JStr pw)" "pw \<noteq> []"
      "\<not> starts_with ''scrypt$'' (str_or [] (get_key ''password_hash'' auth))" "get_key ''access_key_hash'' auth = None"
    and prim: "length (new_salt r) = 16"
      "\<And>x s. length (scrypt_fn c x s SCRYPT_N SCRYPT_R SCRYPT_P SCRYPT_DKLEN) = SCRYPT_DKLEN"
  shows "\<exists>q h. preference_value D' = Some (JObj q) \<and> get_key ''auth'' q = Some (JObj [(''access_key_hash'', JStr h)])
    \<and> is_password_hash h \<and> verify_password c pw h \<and> list_all ended_session (session_rows D')"
proof -
  let ?h = "hash_password c (new_salt r) pw"
  obtain a where a: "value_0002 c (new_salt r) (JObj p) = Inr (JObj (set_key ''auth'' (JObj a) p))"
    "get_key ''password_hash'' a = Some (JStr ?h)" "get_key ''access_key_hash'' a = None"
    using value_0002_password [OF p(2) pw] by blast
  let ?D = "\<lambda>D v. D\<lparr>db_version := Some v\<rparr>"
  obtain D2 D3 D4 D5 D6 D7 where steps: "upgrade_0002 c r D = Inr D2" "upgrade_0003 r (?D D2 ''0002'') = Inr D3"
    "change_catalog catalog_0004 (?D D3 ''0003'') = Inr D4" "change_catalog catalog_0005 (?D D4 ''0004'') = Inr D5"
    "upgrade_0006 (?D D5 ''0005'') = Inr D6" "upgrade_0007 (?D D6 ''0006'') = Inr D7" "D' = ?D D7 ''0007''"
    using up old by (auto simp: upgrade_database_def alembic_upgrade_def migrations_def try_bind_Inr_iff)
  have "preference_value D2 = Some (JObj (set_key ''auth'' (JObj a) p))"
    using steps(1) p(1) a(1) by (auto simp: upgrade_0002_def)
  then have v5: "preference_value D5 = Some (JObj (set_key ''auth'' (JObj a) p))"
    using kept_0003(1) [OF steps(2)] kept_catalog(1) [OF steps(3)] kept_catalog(1) [OF steps(4)] by simp
  obtain q where q: "value_0006 (JObj (set_key ''auth'' (JObj a) p)) = Inr (JObj q)"
    "get_key ''auth'' q = Some (JObj [(''access_key_hash'', JStr ?h)])"
    using value_0006_key [of "set_key ''auth'' (JObj a) p" a ?h] a hash_password_nonempty by (auto simp: get_set_key)
  have v6: "preference_value D6 = Some (JObj q)" using steps(5) v5 q(1) by (auto simp: upgrade_0006_def)
  obtain v7 where "value_0007 (JObj q) = Inr v7" "preference_value D7 = Some v7"
    using upgrade_0007_value [OF steps(6)] v6 by auto
  then obtain q' where "preference_value D' = Some (JObj q')" "get_key ''auth'' q' = get_key ''auth'' q"
    using value_0007_auth steps(7) by fastforce
  moreover have "list_all ended_session (session_rows D')" using sessions_after [OF steps(5,6)] steps(7) by simp
  moreover have "verify_password c pw ?h" using verify_password_hash_password [OF prim] by simp
  moreover have "is_password_hash ?h" using hash_password_fields [of c "new_salt r" pw] prim
    by (auto simp: is_password_hash_iff_fields url_decode_encode)
  ultimately show ?thesis using q(2) by auto
qed

section \<open>Witnesses\<close>

definition demo_chance :: chance where
  "demo_chance = \<lparr>new_salt = replicate 16 CHR ''s'', md5_text = (\<lambda>t. t)\<rparr>"

theorem upgrade_is_idempotent_witness:
  "upgrade_database toy_crypto demo_chance ((fresh_database True)\<lparr>db_catalog := catalog_0007, db_version := Some ''0007''\<rparr>)
     = Inr ((fresh_database True)\<lparr>db_catalog := catalog_0007, db_version := Some ''0007''\<rparr>)"
  using upgrade_is_idempotent [OF fresh_upgrades] by blast

text \<open>An installation of the first version with a password, a direct session and the session of an agent.\<close>

definition old_auth :: dict where
  "old_auth = [(''username'', JStr ''admin''), (''password'', JStr ''key'')]"

definition old_database :: database where
  "old_database = \<lparr>postgresql = True, db_catalog = catalog_0001, db_version = Some ''0001'',
     preference_value = Some (JObj [(''auth'', JObj old_auth)]),
     session_rows = [\<lparr>sr_agent_id = None, sr_status = ''active'', sr_transport = Some ''direct''\<rparr>,
       \<lparr>sr_agent_id = Some ''a1'', sr_status = ''active'', sr_transport = None\<rparr>],
     object_ids = [], subject_ids = []\<rparr>"

lemma old_upgrades: "\<exists>D'. upgrade_database toy_crypto demo_chance old_database = Inr D'"
proof -
  obtain a where a: "value_0002 toy_crypto (new_salt demo_chance) (JObj [(''auth'', JObj old_auth)])
      = Inr (JObj (set_key ''auth'' (JObj a) [(''auth'', JObj old_auth)]))" "a \<noteq> []"
    "get_key ''password_hash'' a = Some (JStr (hash_password toy_crypto (new_salt demo_chance) ''key''))" "get_key ''access_key_hash'' a = None"
    using value_0002_password [of "[(''auth'', JObj old_auth)]" old_auth "''key''"] by (auto simp: get_key_def old_auth_def starts_with_def)
  obtain q where q: "value_0006 (JObj (set_key ''auth'' (JObj a) [(''auth'', JObj old_auth)])) = Inr (JObj q)"
    and "\<exists>v. value_0007 (JObj q) = Inr v"
    using a(2-4) hash_password_nonempty
    by (simp add: value_0006_def as_dict_def get_or_null_def or_value_def get_key_def value_0007_def)
  then show ?thesis
    using a(1) q
    by (auto simp: upgrade_database_def alembic_upgrade_def migrations_def old_database_def upgrade_0002_def run_0003_fresh
        change_catalog_def run_0004 run_0005 upgrade_0006_def upgrade_0007_def run_on_def run_0007)
qed

theorem old_password_becomes_access_key_witness:
  "\<exists>D' q h. upgrade_database toy_crypto demo_chance old_database = Inr D' \<and> preference_value D' = Some (JObj q)
     \<and> get_key ''auth'' q = Some (JObj [(''access_key_hash'', JStr h)]) \<and> verify_password toy_crypto ''key'' h"
proof -
  obtain D' where up: "upgrade_database toy_crypto demo_chance old_database = Inr D'" using old_upgrades by blast
  have "db_version old_database = Some ''0001''" "preference_value old_database = Some (JObj [(''auth'', JObj old_auth)])"
    "get_key ''auth'' [(''auth'', JObj old_auth)] = Some (JObj old_auth)" "get_key ''password'' old_auth = Some (JStr ''key'')"
    "''key'' \<noteq> []" "\<not> starts_with ''scrypt$'' (str_or [] (get_key ''password_hash'' old_auth))"
    "get_key ''access_key_hash'' old_auth = None" "length (new_salt demo_chance) = 16"
    "\<And>x s. length (scrypt_fn toy_crypto x s SCRYPT_N SCRYPT_R SCRYPT_P SCRYPT_DKLEN) = SCRYPT_DKLEN"
    by (simp_all add: old_database_def old_auth_def get_key_def starts_with_def demo_chance_def toy_crypto_def SCRYPT_DKLEN_def)
  from old_password_becomes_access_key [OF up this] up show ?thesis by blast
qed

end
