(* ===== verification/Spec2Isabelle.thy ===== *)
theory Spec2Isabelle
  imports Settings Application_Examples Connection_Examples Logs_Examples Operations_Examples Migration_Safety
begin

text \<open>
  Perimetr is the control plane of a fleet of Pods: portable workspaces that run on foreign machines. An
  operator signs in with one Access Key, keeps objects and subjects on a correlation map, gives a subject a Pod by
  provisioning a bundle, and revokes Pods again. A Pod enrolls with the token of its bundle, is opened with a login and a
  password (or a second one that opens a decoy), and sends signed heartbeats. The program is a FastAPI application over a
  SQLAlchemy database (\<open>app/api_service/app.py\<close>) with modules for its policies.

  \<^bold>\<open>How it is modelled.\<close> \<open>Schema\<close> has one record per model of \<open>app/models.py\<close>, the database as lists of rows and the
  constraints that PostgreSQL enforces. \<open>Web\<close> is the transaction model: a handler is a function on the \<open>world\<close>, which
  holds the committed database, what the session has flushed, the objects of the session, the audit events waiting for the
  commit, the audit file, the login limiter and a counter of the values drawn from the environment. The sessions of the program do not
  flush by themselves, so a query filters on what was flushed and returns the objects of the session; \<open>commit\<close> checks the
  constraints, and a handler that raises before it leaves no trace. \<open>serve\<close> runs one request. Errors are values: \<open>Http\<close> for an
  HTTPException and \<open>Crash\<close> for any other exception, which the server answers with 500. \<open>Application\<close> is the state
  machine whose steps are the requests to all endpoints.

  \<^bold>\<open>Where the code is.\<close>
  \<^item> \<open>Text\<close>, \<open>Base64\<close>, \<open>Json\<close>, \<open>Ip\<close>, \<open>Url\<close>, \<open>Clock\<close>, \<open>Py_Str\<close>: what the code uses of the Python library (str and bytes, base64,
    json with canonical dumps, ipaddress, urlparse, datetime, html.escape and sorting). \<open>Json_Round_Trip\<close> shows that a
    canonical dump is parsed back.
  \<^item> \<open>Security\<close> and \<open>Rate_Limiter\<close> are \<open>app/security.py\<close>; \<open>Settings\<close> is \<open>app/settings.py\<close>, the production checks and
    \<open>app/database.py\<close>'s URL; \<open>Request_Policy\<close> is \<open>app/request_policy.py\<close>; \<open>Redaction\<close> is \<open>app/redaction.py\<close>.
  \<^item> \<open>Audit_Log\<close> is the audit trail of \<open>app/services.py\<close> with its retention in \<open>app/logs_service/service.py\<close>;
    \<open>Preferences\<close> is \<open>app/operator_settings.py\<close>. \<open>Logs_Api\<close> is \<open>app/logs_api.py\<close> with the log files of
    \<open>app/logs_service/service.py\<close>; \<open>Iso_Time\<close> reads the times in its cursors.
  \<^item> \<open>Sessions\<close>: sign-in, the access check, logout and rotation of the Access Key. \<open>Entities\<close>, \<open>Correlation\<close>, \<open>Subjects\<close>:
    the endpoints on objects, the map and its overview, subjects with their authorizations and policies.
  \<^item> \<open>Versions\<close>, \<open>Json_Raw\<close> and \<open>Pod_Artifacts\<close> are \<open>app/pod_artifacts.py\<close>: versions, canonical manifests and the cache of runtime
    executables, a record of its files, with the replies of the network as an argument.
  \<^item> \<open>Kernel_Register\<close> and \<open>Kernel_Connection\<close> are \<open>app/kernel_register.py\<close>, \<open>app/kernel_connection.py\<close> and \<open>get_settings\<close>: the
    settings an installation receives from the Kernel, their cache, and the endpoints that change the Kernel. What outlives a
    request besides the database is the record \<open>process\<close>.
  \<^item> \<open>Operations_Api\<close> is \<open>app/operations_api.py\<close> with the clients \<open>app/updater_client.py\<close> and \<open>app/neptune_client.py\<close>: backups
    that the operator keeps, receipts, and the protocol with the Updater, whose replies are an argument.
  \<^item> \<open>Ddl\<close> is what the code uses of the database catalog; \<open>Baseline_Schema\<close>, \<open>Migrations\<close> and \<open>Model_Metadata\<close> are
    \<open>migrations/versions\<close>, \<open>app/database_migrations.py\<close> and the tables that \<open>app/models.py\<close> declares.
  \<^item> \<open>Pod_Access\<close> and \<open>Pod_Bundle\<close> are \<open>app/pod_service.py\<close>: encrypted secrets, password hashes, signed access grants and
    certificates, the configuration with its decoy variant, the bundle. \<open>Pods\<close> has every endpoint on Pods.

  \<^bold>\<open>What is shown.\<close>
  \<^item> \<open>Session_Safety\<close>: the access check admits exactly the requests with the key of a live session, a login opens one
    session, a logout ends one, a rotation ends all others.
  \<^item> \<open>Row_History\<close> and \<open>Application\<close>: the locale \<open>history\<close> states what a property of rows must satisfy to hold for ever; every
    handler keeps it, so it holds along all sequences of requests. Its interpretation gives that a revoked Pod stays out,
    an ended session stays ended and a denied identifier stays denied. The constraints of the database always hold.
  \<^item> \<open>Pod_Access_Safety\<close>, \<open>Pod_Safety\<close>, \<open>Enrollment_Safety\<close>: grants and secrets make the round trip and cannot be made without
    the secret, the decoy hides the subject, an accepted heartbeat is genuine and not replayed, an enrollment uses its record
    up, a revoked identity never enrolls again, listings show who is alive, and every refusal of a login has its cause.
  \<^item> \<open>Entity_Safety\<close>: identifiers are found, images make the round trip, pages are escaped, percentages are bounded, moving an object
    to a subject loses nothing, and what one revocation of a subject does.
  \<^item> \<open>Rate_Limiter\<close>, \<open>Request_Policy\<close>, \<open>Redaction\<close>, \<open>Audit_Log\<close>, \<open>Preferences\<close>, \<open>Settings\<close> hold the properties of their parts: the
    limiter decides from the history of failures in bounded memory, the client identity is not spoofed, unsafe requests carry
    the CSRF token, bodies and the audit trail are bounded, redacted values have no secrets, updates of the preferences are
    not lost.
  \<^item> \<open>Artifact_Safety\<close>: a runtime is handed out only with its digest, a new one only under the trusted signature and never as a
    downgrade, a downloaded one is not lost, and with one on disk there always is one. Versions compare as SemVer says.
  \<^item> \<open>Register_Safety\<close> and \<open>Connection_Safety\<close>: settings come from verified snapshots and stay within their bounds, a snapshot
    and the settings survive an outage, and the Kernel and its token change only when it has answered to them.
  \<^item> \<open>Logs_Safety\<close>: the pages of the audit trail are the whole trail, a trimmed log file is the longest end that fits, and what makes
    the export fail.
  \<^item> \<open>Operations_Safety\<close>: a receipt is accepted with its backup, and an update is ordered only with a backup that the operator has
    returned under an unexpired receipt.
  \<^item> \<open>Migration_Safety\<close>: the migrated schema is the schema of the models, upgrades can be repeated and undone, and an old
    password becomes the Access Key.
  \<^item> The theories whose names end in \<open>Examples\<close> apply the theorems to a small concrete site.

  \<^bold>\<open>Conventions and bounds.\<close> Text and bytes are lists of 8-bit characters, so text is limited to Latin-1. Times are integers in
  microseconds, the times of the limiter are rationals; a JSON float is kept as its literal. The clock, identifiers, tokens, salts and
  nonces are streams of the environment, indexed by the number of draws. scrypt, PBKDF2, HMAC, SHA-256, ECDSA and Fernet are
  arguments. The search for a public identifier has one more step of fuel than there are objects and subjects, which is enough when
  the generator does not repeat itself. The parsing of a heartbeat, the files of a bundle and, for the endpoints on Pods, the result of the artifact cache are arguments.
  Writing a file succeeds, and the texts of library exceptions are replaced by the names of their classes.

  \<^bold>\<open>Not modelled.\<close> Threads and locks (a request is one step), the engine and its connection, the column \<open>updated_at\<close> and
  image links, the lengths of columns, the pause before a login is answered, the fixed HTML of pages, the archive of a snapshot
  (it is an argument of the operations), the release check that only its test calls, the environment of alembic and what a failing migration leaves
  behind, and the release scripts. Rows that were created in the same
  microsecond are ordered by insertion.
\<close>

end
